(* ===== verification/Errors.thy ===== *)
theory Errors
  imports Main
begin

text \<open>
  The Cryptoki return codes (src/src/pkcs11.rs, the generated binding of pkcs11t.h) as the numbers
  the code returns, and the provider's error type with its translation to a return code
  (src/src/error.rs).  A code is a natural number; the input abbreviations carry the names of the
  source, so that terms read as the code and two different codes are told apart by arithmetic.
\<close>

type_synonym ck_rv = nat

section \<open>Cryptoki constants\<close>

abbreviation (input) CKR_OK :: ck_rv where "CKR_OK \<equiv> 0"
abbreviation (input) CKR_CANCEL :: ck_rv where "CKR_CANCEL \<equiv> 1"
abbreviation (input) CKR_HOST_MEMORY :: ck_rv where "CKR_HOST_MEMORY \<equiv> 2"
abbreviation (input) CKR_SLOT_ID_INVALID :: ck_rv where "CKR_SLOT_ID_INVALID \<equiv> 3"
abbreviation (input) CKR_GENERAL_ERROR :: ck_rv where "CKR_GENERAL_ERROR \<equiv> 5"
abbreviation (input) CKR_FUNCTION_FAILED :: ck_rv where "CKR_FUNCTION_FAILED \<equiv> 6"
abbreviation (input) CKR_ARGUMENTS_BAD :: ck_rv where "CKR_ARGUMENTS_BAD \<equiv> 7"
abbreviation (input) CKR_NO_EVENT :: ck_rv where "CKR_NO_EVENT \<equiv> 8"
abbreviation (input) CKR_NEED_TO_CREATE_THREADS :: ck_rv where "CKR_NEED_TO_CREATE_THREADS \<equiv> 9"
abbreviation (input) CKR_CANT_LOCK :: ck_rv where "CKR_CANT_LOCK \<equiv> 10"
abbreviation (input) CKR_ATTRIBUTE_READ_ONLY :: ck_rv where "CKR_ATTRIBUTE_READ_ONLY \<equiv> 16"
abbreviation (input) CKR_ATTRIBUTE_SENSITIVE :: ck_rv where "CKR_ATTRIBUTE_SENSITIVE \<equiv> 17"
abbreviation (input) CKR_ATTRIBUTE_TYPE_INVALID :: ck_rv where "CKR_ATTRIBUTE_TYPE_INVALID \<equiv> 18"
abbreviation (input) CKR_ATTRIBUTE_VALUE_INVALID :: ck_rv where "CKR_ATTRIBUTE_VALUE_INVALID \<equiv> 19"
abbreviation (input) CKR_ACTION_PROHIBITED :: ck_rv where "CKR_ACTION_PROHIBITED \<equiv> 27"
abbreviation (input) CKR_DATA_INVALID :: ck_rv where "CKR_DATA_INVALID \<equiv> 32"
abbreviation (input) CKR_DATA_LEN_RANGE :: ck_rv where "CKR_DATA_LEN_RANGE \<equiv> 33"
abbreviation (input) CKR_DEVICE_ERROR :: ck_rv where "CKR_DEVICE_ERROR \<equiv> 48"
abbreviation (input) CKR_DEVICE_MEMORY :: ck_rv where "CKR_DEVICE_MEMORY \<equiv> 49"
abbreviation (input) CKR_DEVICE_REMOVED :: ck_rv where "CKR_DEVICE_REMOVED \<equiv> 50"
abbreviation (input) CKR_ENCRYPTED_DATA_INVALID :: ck_rv where "CKR_ENCRYPTED_DATA_INVALID \<equiv> 64"
abbreviation (input) CKR_ENCRYPTED_DATA_LEN_RANGE :: ck_rv where "CKR_ENCRYPTED_DATA_LEN_RANGE \<equiv> 65"
abbreviation (input) CKR_AEAD_DECRYPT_FAILED :: ck_rv where "CKR_AEAD_DECRYPT_FAILED \<equiv> 66"
abbreviation (input) CKR_FUNCTION_CANCELED :: ck_rv where "CKR_FUNCTION_CANCELED \<equiv> 80"
abbreviation (input) CKR_FUNCTION_NOT_PARALLEL :: ck_rv where "CKR_FUNCTION_NOT_PARALLEL \<equiv> 81"
abbreviation (input) CKR_FUNCTION_NOT_SUPPORTED :: ck_rv where "CKR_FUNCTION_NOT_SUPPORTED \<equiv> 84"
abbreviation (input) CKR_KEY_HANDLE_INVALID :: ck_rv where "CKR_KEY_HANDLE_INVALID \<equiv> 96"
abbreviation (input) CKR_KEY_SIZE_RANGE :: ck_rv where "CKR_KEY_SIZE_RANGE \<equiv> 98"
abbreviation (input) CKR_KEY_TYPE_INCONSISTENT :: ck_rv where "CKR_KEY_TYPE_INCONSISTENT \<equiv> 99"
abbreviation (input) CKR_KEY_NOT_NEEDED :: ck_rv where "CKR_KEY_NOT_NEEDED \<equiv> 100"
abbreviation (input) CKR_KEY_CHANGED :: ck_rv where "CKR_KEY_CHANGED \<equiv> 101"
abbreviation (input) CKR_KEY_NEEDED :: ck_rv where "CKR_KEY_NEEDED \<equiv> 102"
abbreviation (input) CKR_KEY_INDIGESTIBLE :: ck_rv where "CKR_KEY_INDIGESTIBLE \<equiv> 103"
abbreviation (input) CKR_KEY_FUNCTION_NOT_PERMITTED :: ck_rv where "CKR_KEY_FUNCTION_NOT_PERMITTED \<equiv> 104"
abbreviation (input) CKR_KEY_NOT_WRAPPABLE :: ck_rv where "CKR_KEY_NOT_WRAPPABLE \<equiv> 105"
abbreviation (input) CKR_KEY_UNEXTRACTABLE :: ck_rv where "CKR_KEY_UNEXTRACTABLE \<equiv> 106"
abbreviation (input) CKR_MECHANISM_INVALID :: ck_rv where "CKR_MECHANISM_INVALID \<equiv> 112"
abbreviation (input) CKR_MECHANISM_PARAM_INVALID :: ck_rv where "CKR_MECHANISM_PARAM_INVALID \<equiv> 113"
abbreviation (input) CKR_OBJECT_HANDLE_INVALID :: ck_rv where "CKR_OBJECT_HANDLE_INVALID \<equiv> 130"
abbreviation (input) CKR_OPERATION_ACTIVE :: ck_rv where "CKR_OPERATION_ACTIVE \<equiv> 144"
abbreviation (input) CKR_OPERATION_NOT_INITIALIZED :: ck_rv where "CKR_OPERATION_NOT_INITIALIZED \<equiv> 145"
abbreviation (input) CKR_PIN_INCORRECT :: ck_rv where "CKR_PIN_INCORRECT \<equiv> 160"
abbreviation (input) CKR_PIN_INVALID :: ck_rv where "CKR_PIN_INVALID \<equiv> 161"
abbreviation (input) CKR_PIN_LEN_RANGE :: ck_rv where "CKR_PIN_LEN_RANGE \<equiv> 162"
abbreviation (input) CKR_PIN_EXPIRED :: ck_rv where "CKR_PIN_EXPIRED \<equiv> 163"
abbreviation (input) CKR_PIN_LOCKED :: ck_rv where "CKR_PIN_LOCKED \<equiv> 164"
abbreviation (input) CKR_SESSION_CLOSED :: ck_rv where "CKR_SESSION_CLOSED \<equiv> 176"
abbreviation (input) CKR_SESSION_COUNT :: ck_rv where "CKR_SESSION_COUNT \<equiv> 177"
abbreviation (input) CKR_SESSION_HANDLE_INVALID :: ck_rv where "CKR_SESSION_HANDLE_INVALID \<equiv> 179"
abbreviation (input) CKR_SESSION_PARALLEL_NOT_SUPPORTED :: ck_rv where "CKR_SESSION_PARALLEL_NOT_SUPPORTED \<equiv> 180"
abbreviation (input) CKR_SESSION_READ_ONLY :: ck_rv where "CKR_SESSION_READ_ONLY \<equiv> 181"
abbreviation (input) CKR_SESSION_EXISTS :: ck_rv where "CKR_SESSION_EXISTS \<equiv> 182"
abbreviation (input) CKR_SESSION_READ_ONLY_EXISTS :: ck_rv where "CKR_SESSION_READ_ONLY_EXISTS \<equiv> 183"
abbreviation (input) CKR_SESSION_READ_WRITE_SO_EXISTS :: ck_rv where "CKR_SESSION_READ_WRITE_SO_EXISTS \<equiv> 184"
abbreviation (input) CKR_SIGNATURE_INVALID :: ck_rv where "CKR_SIGNATURE_INVALID \<equiv> 192"
abbreviation (input) CKR_SIGNATURE_LEN_RANGE :: ck_rv where "CKR_SIGNATURE_LEN_RANGE \<equiv> 193"
abbreviation (input) CKR_TEMPLATE_INCOMPLETE :: ck_rv where "CKR_TEMPLATE_INCOMPLETE \<equiv> 208"
abbreviation (input) CKR_TEMPLATE_INCONSISTENT :: ck_rv where "CKR_TEMPLATE_INCONSISTENT \<equiv> 209"
abbreviation (input) CKR_TOKEN_NOT_PRESENT :: ck_rv where "CKR_TOKEN_NOT_PRESENT \<equiv> 224"
abbreviation (input) CKR_TOKEN_NOT_RECOGNIZED :: ck_rv where "CKR_TOKEN_NOT_RECOGNIZED \<equiv> 225"
abbreviation (input) CKR_TOKEN_WRITE_PROTECTED :: ck_rv where "CKR_TOKEN_WRITE_PROTECTED \<equiv> 226"
abbreviation (input) CKR_UNWRAPPING_KEY_HANDLE_INVALID :: ck_rv where "CKR_UNWRAPPING_KEY_HANDLE_INVALID \<equiv> 240"
abbreviation (input) CKR_UNWRAPPING_KEY_SIZE_RANGE :: ck_rv where "CKR_UNWRAPPING_KEY_SIZE_RANGE \<equiv> 241"
abbreviation (input) CKR_UNWRAPPING_KEY_TYPE_INCONSISTENT :: ck_rv where "CKR_UNWRAPPING_KEY_TYPE_INCONSISTENT \<equiv> 242"
abbreviation (input) CKR_USER_ALREADY_LOGGED_IN :: ck_rv where "CKR_USER_ALREADY_LOGGED_IN \<equiv> 256"
abbreviation (input) CKR_USER_NOT_LOGGED_IN :: ck_rv where "CKR_USER_NOT_LOGGED_IN \<equiv> 257"
abbreviation (input) CKR_USER_PIN_NOT_INITIALIZED :: ck_rv where "CKR_USER_PIN_NOT_INITIALIZED \<equiv> 258"
abbreviation (input) CKR_USER_TYPE_INVALID :: ck_rv where "CKR_USER_TYPE_INVALID \<equiv> 259"
abbreviation (input) CKR_USER_ANOTHER_ALREADY_LOGGED_IN :: ck_rv where "CKR_USER_ANOTHER_ALREADY_LOGGED_IN \<equiv> 260"
abbreviation (input) CKR_USER_TOO_MANY_TYPES :: ck_rv where "CKR_USER_TOO_MANY_TYPES \<equiv> 261"
abbreviation (input) CKR_WRAPPED_KEY_INVALID :: ck_rv where "CKR_WRAPPED_KEY_INVALID \<equiv> 272"
abbreviation (input) CKR_WRAPPED_KEY_LEN_RANGE :: ck_rv where "CKR_WRAPPED_KEY_LEN_RANGE \<equiv> 274"
abbreviation (input) CKR_WRAPPING_KEY_HANDLE_INVALID :: ck_rv where "CKR_WRAPPING_KEY_HANDLE_INVALID \<equiv> 275"
abbreviation (input) CKR_WRAPPING_KEY_SIZE_RANGE :: ck_rv where "CKR_WRAPPING_KEY_SIZE_RANGE \<equiv> 276"
abbreviation (input) CKR_WRAPPING_KEY_TYPE_INCONSISTENT :: ck_rv where "CKR_WRAPPING_KEY_TYPE_INCONSISTENT \<equiv> 277"
abbreviation (input) CKR_RANDOM_SEED_NOT_SUPPORTED :: ck_rv where "CKR_RANDOM_SEED_NOT_SUPPORTED \<equiv> 288"
abbreviation (input) CKR_RANDOM_NO_RNG :: ck_rv where "CKR_RANDOM_NO_RNG \<equiv> 289"
abbreviation (input) CKR_DOMAIN_PARAMS_INVALID :: ck_rv where "CKR_DOMAIN_PARAMS_INVALID \<equiv> 304"
abbreviation (input) CKR_CURVE_NOT_SUPPORTED :: ck_rv where "CKR_CURVE_NOT_SUPPORTED \<equiv> 320"
abbreviation (input) CKR_BUFFER_TOO_SMALL :: ck_rv where "CKR_BUFFER_TOO_SMALL \<equiv> 336"
abbreviation (input) CKR_SAVED_STATE_INVALID :: ck_rv where "CKR_SAVED_STATE_INVALID \<equiv> 352"
abbreviation (input) CKR_INFORMATION_SENSITIVE :: ck_rv where "CKR_INFORMATION_SENSITIVE \<equiv> 368"
abbreviation (input) CKR_STATE_UNSAVEABLE :: ck_rv where "CKR_STATE_UNSAVEABLE \<equiv> 384"
abbreviation (input) CKR_CRYPTOKI_NOT_INITIALIZED :: ck_rv where "CKR_CRYPTOKI_NOT_INITIALIZED \<equiv> 400"
abbreviation (input) CKR_CRYPTOKI_ALREADY_INITIALIZED :: ck_rv where "CKR_CRYPTOKI_ALREADY_INITIALIZED \<equiv> 401"
abbreviation (input) CKR_MUTEX_BAD :: ck_rv where "CKR_MUTEX_BAD \<equiv> 416"
abbreviation (input) CKR_MUTEX_NOT_LOCKED :: ck_rv where "CKR_MUTEX_NOT_LOCKED \<equiv> 417"
abbreviation (input) CKR_NEW_PIN_MODE :: ck_rv where "CKR_NEW_PIN_MODE \<equiv> 432"
abbreviation (input) CKR_NEXT_OTP :: ck_rv where "CKR_NEXT_OTP \<equiv> 433"
abbreviation (input) CKR_EXCEEDED_MAX_ITERATIONS :: ck_rv where "CKR_EXCEEDED_MAX_ITERATIONS \<equiv> 437"
abbreviation (input) CKR_FIPS_SELF_TEST_FAILED :: ck_rv where "CKR_FIPS_SELF_TEST_FAILED \<equiv> 438"
abbreviation (input) CKR_LIBRARY_LOAD_FAILED :: ck_rv where "CKR_LIBRARY_LOAD_FAILED \<equiv> 439"
abbreviation (input) CKR_PIN_TOO_WEAK :: ck_rv where "CKR_PIN_TOO_WEAK \<equiv> 440"
abbreviation (input) CKR_PUBLIC_KEY_INVALID :: ck_rv where "CKR_PUBLIC_KEY_INVALID \<equiv> 441"
abbreviation (input) CKR_FUNCTION_REJECTED :: ck_rv where "CKR_FUNCTION_REJECTED \<equiv> 512"
abbreviation (input) CKR_TOKEN_RESOURCE_EXCEEDED :: ck_rv where "CKR_TOKEN_RESOURCE_EXCEEDED \<equiv> 513"
abbreviation (input) CKR_OPERATION_CANCEL_FAILED :: ck_rv where "CKR_OPERATION_CANCEL_FAILED \<equiv> 514"
abbreviation (input) CKR_KEY_EXHAUSTED :: ck_rv where "CKR_KEY_EXHAUSTED \<equiv> 515"
abbreviation (input) CKR_PENDING :: ck_rv where "CKR_PENDING \<equiv> 516"
abbreviation (input) CKR_SESSION_ASYNC_NOT_SUPPORTED :: ck_rv where "CKR_SESSION_ASYNC_NOT_SUPPORTED \<equiv> 517"
abbreviation (input) CKR_SEED_RANDOM_REQUIRED :: ck_rv where "CKR_SEED_RANDOM_REQUIRED \<equiv> 518"
abbreviation (input) CKR_OPERATION_NOT_VALIDATED :: ck_rv where "CKR_OPERATION_NOT_VALIDATED \<equiv> 519"
abbreviation (input) CKR_TOKEN_NOT_INITIALIZED :: ck_rv where "CKR_TOKEN_NOT_INITIALIZED \<equiv> 520"
abbreviation (input) CKR_PARAMETER_SET_NOT_SUPPORTED :: ck_rv where "CKR_PARAMETER_SET_NOT_SUPPORTED \<equiv> 521"
abbreviation (input) CKR_VENDOR_DEFINED :: ck_rv where "CKR_VENDOR_DEFINED \<equiv> 2147483648"

section \<open>The error type\<close>

text \<open>
  The transport errors of the USB crate (crates/pkcs11rs-local-hardware/src/yubihsm_usb.rs).  The
  payloads that belong to third-party crates are opaque there and are dropped.
\<close>

datatype local_hardware_error =
    Usb
  | Transfer
  | DeviceFailure
  | DeviceRemoved
  | InvalidMessageLength nat "nat option"
  | SendBufferTooLarge nat nat "nat \<times> nat"
  | ReceiveBufferTooLarge
  | ReceiveMessageTooLarge nat nat
  | IncompleteWrite nat nat
  | MissingBulkOutEndpoint

datatype error =
    Generic ck_rv
  | Hid
  | LocalHardware local_hardware_error
  | Pcsc
  | Http
  | Io

type_synonym 'a result = "error + 'a"

fun ck_rv_of_error :: "error \<Rightarrow> ck_rv" where
  "ck_rv_of_error (Generic rv) = rv"
| "ck_rv_of_error Hid = CKR_DEVICE_ERROR"
| "ck_rv_of_error (LocalHardware DeviceRemoved) = CKR_DEVICE_REMOVED"
| "ck_rv_of_error (LocalHardware (SendBufferTooLarge _ _ _)) = CKR_DATA_LEN_RANGE"
| "ck_rv_of_error (LocalHardware (InvalidMessageLength _ _)) = CKR_DATA_LEN_RANGE"
| "ck_rv_of_error (LocalHardware ReceiveBufferTooLarge) = CKR_DEVICE_MEMORY"
| "ck_rv_of_error (LocalHardware _) = CKR_DEVICE_ERROR"
| "ck_rv_of_error Pcsc = CKR_DEVICE_ERROR"
| "ck_rv_of_error Http = CKR_DEVICE_REMOVED"
| "ck_rv_of_error Io = CKR_FUNCTION_FAILED"

text \<open>The return code of a whole entry point (\<open>error::map\<close>).\<close>

fun map_result :: "'a result \<Rightarrow> ck_rv" where
  "map_result (Inr _) = CKR_OK"
| "map_result (Inl e) = ck_rv_of_error e"

section \<open>Login failures\<close>

datatype login_stage = CredentialLookup | CardCertificate | SecureChannel | Authentication

definition internal_key_failures :: "ck_rv list" where
  "internal_key_failures =
     [CKR_KEY_HANDLE_INVALID, CKR_OBJECT_HANDLE_INVALID, CKR_KEY_TYPE_INCONSISTENT,
      CKR_KEY_FUNCTION_NOT_PERMITTED, CKR_PUBLIC_KEY_INVALID, CKR_TEMPLATE_INCOMPLETE,
      CKR_TEMPLATE_INCONSISTENT, CKR_MECHANISM_INVALID, CKR_MECHANISM_PARAM_INVALID]"

definition prerequisite_failures :: "ck_rv list" where
  "prerequisite_failures =
     [CKR_ARGUMENTS_BAD, CKR_PIN_INCORRECT, CKR_PIN_LOCKED, CKR_USER_PIN_NOT_INITIALIZED,
      CKR_USER_NOT_LOGGED_IN, CKR_FUNCTION_NOT_SUPPORTED]"

definition login_failure :: "error \<Rightarrow> login_stage \<Rightarrow> error" where
  "login_failure e stage =
     (let original = ck_rv_of_error e;
          internal_key_failure = original \<in> set internal_key_failures;
          prerequisite_failure =
            stage \<noteq> Authentication \<and> original \<in> set prerequisite_failures
      in Generic
           (if original = CKR_SIGNATURE_INVALID \<or> original = CKR_SIGNATURE_LEN_RANGE
            then CKR_DEVICE_ERROR
            else if internal_key_failure \<or> prerequisite_failure then CKR_FUNCTION_FAILED
            else original))"

end
