(* ===== verification/Prelude.thy ===== *)
theory Prelude
  imports Main Errors "HOL-Library.Word" "HOL-Library.AList"
begin

text \<open>
  What the components share: machine-integer synonyms, the result bind, the state-and-error
  computations that model methods taking \<open>&mut self\<close> and returning \<open>Result\<close> (the state
  reached so far is kept when a step fails, as a Rust early return keeps it), their rules for
  reasoning, slices (\<open>chunks\<close>), big-endian byte strings, and hash maps as association lists.
\<close>

unbundle bit_operations_syntax

type_synonym byte = "8 word"
type_synonym bytes = "8 word list"
type_synonym u16 = "16 word"
type_synonym u32 = "32 word"
type_synonym u64 = "64 word"
type_synonym u128 = "128 word"

named_theorems swp_simps \<open>weakest preconditions of the state-and-error computations\<close>
named_theorems keeps_intros \<open>invariant preservation, one rule per combinator and operation\<close>

section \<open>Results\<close>

fun and_then :: "'fault + 'v \<Rightarrow> ('v \<Rightarrow> 'fault + 'w) \<Rightarrow> 'fault + 'w" where
  "and_then (Inl failure) continue = Inl failure"
| "and_then (Inr v) continue = continue v"

definition ensure :: "bool \<Rightarrow> error \<Rightarrow> unit result" where
  "ensure b e = (if b then Inr () else Inl e)"

definition is_ok :: "'a result \<Rightarrow> bool" where
  "is_ok r = (case r of Inr _ \<Rightarrow> True | Inl _ \<Rightarrow> False)"

lemma is_ok_simps [simp]: "is_ok (Inr a)" "\<not> is_ok (Inl e)"
  by (simp_all add: is_ok_def)

lemma is_ok_E [elim]: "is_ok r \<Longrightarrow> (\<And>a. r = Inr a \<Longrightarrow> P) \<Longrightarrow> P"
  by (cases r) auto

lemma ensure_simps [simp]: "ensure True e = Inr ()" "ensure False e = Inl e"
  by (simp_all add: ensure_def)

lemma ensure_ok [simp]: "ensure b e = Inr u \<longleftrightarrow> b"
  by (simp add: ensure_def)

lemma and_then_ok [simp]:
  "and_then r f = Inr b \<longleftrightarrow> (\<exists>a. r = Inr a \<and> f a = Inr b)"
  by (cases r) auto

lemma and_then_err:
  "and_then r f = Inl e \<longleftrightarrow> r = Inl e \<or> (\<exists>a. r = Inr a \<and> f a = Inl e)"
  by (cases r) auto

lemma and_then_assoc: "and_then (and_then r f) g = and_then r (\<lambda>a. and_then (f a) g)"
  by (cases r) auto

text \<open>\<open>Option::is_some_and\<close>.\<close>

definition is_some_and :: "'a option \<Rightarrow> ('a \<Rightarrow> bool) \<Rightarrow> bool" where
  "is_some_and v P = (case v of None \<Rightarrow> False | Some a \<Rightarrow> P a)"

lemma is_some_and_simps [simp]: "is_some_and None P = False" "is_some_and (Some a) P = P a"
  by (simp_all add: is_some_and_def)

lemma is_some_and_iff: "is_some_and v P \<longleftrightarrow> (\<exists>a. v = Some a \<and> P a)"
  by (cases v) auto

section \<open>Computations over a state\<close>

type_synonym ('s, 'a) comp = "'s \<Rightarrow> 'a result \<times> 's"

definition sok :: "'a \<Rightarrow> ('s, 'a) comp" where "sok a = (\<lambda>s. (Inr a, s))"
definition sfail :: "error \<Rightarrow> ('s, 'a) comp" where "sfail e = (\<lambda>s. (Inl e, s))"
definition slift :: "'a result \<Rightarrow> ('s, 'a) comp" where "slift r = (\<lambda>s. (r, s))"
definition sget :: "('s \<Rightarrow> 'a) \<Rightarrow> ('s, 'a) comp" where "sget f = (\<lambda>s. (Inr (f s), s))"
definition smod :: "('s \<Rightarrow> 's) \<Rightarrow> ('s, unit) comp" where "smod f = (\<lambda>s. (Inr (), f s))"

definition sbind :: "('s, 'a) comp \<Rightarrow> ('a \<Rightarrow> ('s, 'b) comp) \<Rightarrow> ('s, 'b) comp" where
  "sbind m f = (\<lambda>s. case m s of (Inl e, s') \<Rightarrow> (Inl e, s') | (Inr a, s') \<Rightarrow> f a s')"

definition sthen :: "('s, 'a) comp \<Rightarrow> ('s, 'b) comp \<Rightarrow> ('s, 'b) comp" where
  "sthen m n = sbind m (\<lambda>_. n)"

definition sensure :: "bool \<Rightarrow> error \<Rightarrow> ('s, unit) comp" where
  "sensure b e = (if b then sok () else sfail e)"

text \<open>Run a computation on one component of a pair, for a method that owns one object and
  calls into another.\<close>

definition on_fst :: "('s, 'a) comp \<Rightarrow> ('s \<times> 't, 'a) comp" where
  "on_fst m = (\<lambda>(s, t). case m s of (r, s') \<Rightarrow> (r, (s', t)))"

definition on_snd :: "('t, 'a) comp \<Rightarrow> ('s \<times> 't, 'a) comp" where
  "on_snd m = (\<lambda>(s, t). case m t of (r, t') \<Rightarrow> (r, (s, t')))"

text \<open>Run for the effect and keep the outcome as a value (\<open>match call() { Ok .. Err .. }\<close>);
  run and ignore the outcome (\<open>let _ = call()\<close>); run on every element.\<close>

definition sattempt :: "('s, 'a) comp \<Rightarrow> ('s, 'a result) comp" where
  "sattempt m = (\<lambda>s. case m s of (r, s') \<Rightarrow> (Inr r, s'))"

definition signore :: "('s, 'a) comp \<Rightarrow> ('s, unit) comp" where
  "signore m = (\<lambda>s. (Inr (), snd (m s)))"

fun seach :: "('a \<Rightarrow> ('s, unit) comp) \<Rightarrow> 'a list \<Rightarrow> ('s, unit) comp" where
  "seach f [] = sok ()"
| "seach f (x # xs) = sthen (f x) (seach f xs)"

text \<open>The weakest precondition: \<open>Q\<close> of the result and state when the computation returns,
  \<open>E\<close> of the error and the state it leaves when it fails.\<close>

definition swp ::
  "('s, 'a) comp \<Rightarrow> ('a \<Rightarrow> 's \<Rightarrow> bool) \<Rightarrow> (error \<Rightarrow> 's \<Rightarrow> bool) \<Rightarrow> 's \<Rightarrow> bool" where
  "swp m Q E s = (case m s of (Inl e, s') \<Rightarrow> E e s' | (Inr a, s') \<Rightarrow> Q a s')"

lemma swp_sok [swp_simps]: "swp (sok a) Q E s = Q a s"
  by (simp add: swp_def sok_def)

lemma swp_sfail [swp_simps]: "swp (sfail e) Q E s = E e s"
  by (simp add: swp_def sfail_def)

lemma swp_slift [swp_simps]:
  "swp (slift r) Q E s = (case r of Inl e \<Rightarrow> E e s | Inr a \<Rightarrow> Q a s)"
  by (simp add: swp_def slift_def split: sum.splits)

lemma swp_sget [swp_simps]: "swp (sget f) Q E s = Q (f s) s"
  by (simp add: swp_def sget_def)

lemma swp_smod [swp_simps]: "swp (smod f) Q E s = Q () (f s)"
  by (simp add: swp_def smod_def)

lemma swp_sensure [swp_simps]: "swp (sensure b e) Q E s = (if b then Q () s else E e s)"
  by (simp add: sensure_def swp_simps)

lemma swp_sbind [swp_simps]: "swp (sbind m f) Q E s = swp m (\<lambda>a. swp (f a) Q E) E s"
  by (simp add: swp_def sbind_def split: prod.splits sum.splits)

lemma swp_sthen [swp_simps]: "swp (sthen m n) Q E s = swp m (\<lambda>_. swp n Q E) E s"
  by (simp add: sthen_def swp_simps)

lemma swp_sattempt [swp_simps]:
  "swp (sattempt m) Q E s = swp m (\<lambda>a. Q (Inr a)) (\<lambda>e. Q (Inl e)) s"
  by (simp add: swp_def sattempt_def split: prod.splits sum.splits)

lemma swp_signore [swp_simps]:
  "swp (signore m) Q E s = swp m (\<lambda>_. Q ()) (\<lambda>_. Q ()) s"
  by (cases "m s") (simp add: swp_def signore_def split: sum.splits)

lemma swp_if [swp_simps]:
  "swp (if b then m else n) Q E s = (if b then swp m Q E s else swp n Q E s)"
  by simp

lemma swp_mono:
  "swp m Q E s \<Longrightarrow> (\<And>a s'. Q a s' \<Longrightarrow> Q' a s') \<Longrightarrow> (\<And>e s'. E e s' \<Longrightarrow> E' e s') \<Longrightarrow> swp m Q' E' s"
  by (auto simp: swp_def split: prod.splits sum.splits)

lemma swpI:
  "(\<And>a s'. m s = (Inr a, s') \<Longrightarrow> Q a s') \<Longrightarrow> (\<And>e s'. m s = (Inl e, s') \<Longrightarrow> E e s') \<Longrightarrow> swp m Q E s"
  by (auto simp: swp_def split: prod.splits sum.splits)

lemma swp_ok: "swp m Q E s \<Longrightarrow> m s = (Inr a, s') \<Longrightarrow> Q a s'"
  by (simp add: swp_def)

lemma swp_err: "swp m Q E s \<Longrightarrow> m s = (Inl e, s') \<Longrightarrow> E e s'"
  by (simp add: swp_def)

lemma sbind_pure [simp]:
  "sbind (sok a) f = f a" "sbind (slift (Inr a)) f = f a" "sbind (slift (Inl e)) f = sfail e"
  "sbind (sfail e) f = sfail e"
  by (simp_all add: sbind_def sok_def slift_def sfail_def)

lemma sbind_ok:
  "sbind m f s = (Inr b, s'') \<longleftrightarrow> (\<exists>a s'. m s = (Inr a, s') \<and> f a s' = (Inr b, s''))"
  by (auto simp: sbind_def split: prod.splits sum.splits)

lemma pure_ok [simp]:
  "sok a s = (Inr b, s') \<longleftrightarrow> a = b \<and> s = s'"
  "slift r s = (Inr b, s') \<longleftrightarrow> r = Inr b \<and> s = s'"
  "\<not> sfail e s = (Inr b, s')"
  "sget f s = (Inr b, s') \<longleftrightarrow> f s = b \<and> s = s'"
  "sensure c e s = (Inr u, s') \<longleftrightarrow> c \<and> s = s'"
  by (auto simp: sok_def slift_def sfail_def sget_def sensure_def)

subsection \<open>Invariants\<close>

definition keeps :: "('s \<Rightarrow> bool) \<Rightarrow> ('s, 'a) comp \<Rightarrow> bool" where
  "keeps P m = (\<forall>s. P s \<longrightarrow> P (snd (m s)))"

lemma keeps_swp: "keeps P m \<longleftrightarrow> (\<forall>s. P s \<longrightarrow> swp m (\<lambda>_. P) (\<lambda>_. P) s)"
proof -
  have "swp m (\<lambda>_. P) (\<lambda>_. P) s \<longleftrightarrow> P (snd (m s))" for s
    by (simp add: swp_def split: prod.splits sum.splits)
  then show ?thesis by (simp add: keeps_def)
qed

lemma keepsD: "keeps P m \<Longrightarrow> P s \<Longrightarrow> P (snd (m s))"
  by (simp add: keeps_def)

lemma keepsI: "(\<And>s. P s \<Longrightarrow> swp m (\<lambda>_. P) (\<lambda>_. P) s) \<Longrightarrow> keeps P m"
  by (simp add: keeps_swp)

lemma keeps_pure [keeps_intros]:
  "keeps P (sok a)" "keeps P (sfail e)" "keeps P (slift r)" "keeps P (sget f)" "keeps P (sensure b e)"
  by (simp_all add: keeps_def sok_def sfail_def slift_def sget_def sensure_def)

lemma keeps_sbind [keeps_intros]:
  "keeps P m \<Longrightarrow> (\<And>a. keeps P (f a)) \<Longrightarrow> keeps P (sbind m f)"
  by (force simp: keeps_def sbind_def split: prod.splits sum.splits)

lemma keeps_sthen [keeps_intros]: "keeps P m \<Longrightarrow> keeps P n \<Longrightarrow> keeps P (sthen m n)"
  by (simp add: sthen_def keeps_sbind)

lemma keeps_if [keeps_intros]: "(b \<Longrightarrow> keeps P m) \<Longrightarrow> (\<not> b \<Longrightarrow> keeps P n) \<Longrightarrow> keeps P (if b then m else n)"
  by simp

lemma keeps_sattempt [keeps_intros]: "keeps P m \<Longrightarrow> keeps P (sattempt m)"
  by (simp add: keeps_def sattempt_def prod.case_eq_if)

lemma keeps_signore [keeps_intros]: "keeps P m \<Longrightarrow> keeps P (signore m)"
  by (simp add: keeps_def signore_def)

lemma keeps_seach [keeps_intros]: "(\<And>x. x \<in> set xs \<Longrightarrow> keeps P (f x)) \<Longrightarrow> keeps P (seach f xs)"
  by (induction xs) (simp_all add: keeps_pure keeps_sthen)

lemma keeps_case_sum [keeps_intros]:
  "(\<And>e. r = Inl e \<Longrightarrow> keeps P (f e)) \<Longrightarrow> (\<And>a. r = Inr a \<Longrightarrow> keeps P (g a)) \<Longrightarrow>
   keeps P (case r of Inl e \<Rightarrow> f e | Inr a \<Rightarrow> g a)"
  by (cases r) simp_all

lemma keeps_case_option [keeps_intros]:
  "(v = None \<Longrightarrow> keeps P m) \<Longrightarrow> (\<And>a. v = Some a \<Longrightarrow> keeps P (f a)) \<Longrightarrow>
   keeps P (case v of None \<Rightarrow> m | Some a \<Rightarrow> f a)"
  by (cases v) simp_all

lemma keeps_case_list [keeps_intros]:
  "(xs = [] \<Longrightarrow> keeps P m) \<Longrightarrow> (\<And>y ys. xs = y # ys \<Longrightarrow> keeps P (f y ys)) \<Longrightarrow>
   keeps P (case xs of [] \<Rightarrow> m | y # ys \<Rightarrow> f y ys)"
  by (cases xs) simp_all

lemma keeps_case_prod [keeps_intros]:
  "(\<And>a b. p = (a, b) \<Longrightarrow> keeps P (f a b)) \<Longrightarrow> keeps P (case p of (a, b) \<Rightarrow> f a b)"
  by (cases p) simp

lemma keeps_smod: "(\<And>s. P s \<Longrightarrow> P (f s)) \<Longrightarrow> keeps P (smod f)"
  by (simp add: keeps_def smod_def)

section \<open>Transition systems\<close>

text \<open>
  A component whose operations are interleaved freely: an invariant that holds initially and that
  every step keeps holds in every reachable state.
\<close>

locale transition_system =
  fixes initial :: "'s \<Rightarrow> bool"
    and step :: "'s \<Rightarrow> 's \<Rightarrow> bool"
    and inv :: "'s \<Rightarrow> bool"
  assumes inv_initial: "initial s \<Longrightarrow> inv s"
    and inv_step: "inv s \<Longrightarrow> step s s' \<Longrightarrow> inv s'"
begin

lemma inv_steps: "step\<^sup>*\<^sup>* s s' \<Longrightarrow> inv s \<Longrightarrow> inv s'"
  by (induction rule: rtranclp_induct) (auto intro: inv_step)

lemma inv_reachable: "initial s \<Longrightarrow> step\<^sup>*\<^sup>* s s' \<Longrightarrow> inv s'"
  by (blast intro: inv_steps inv_initial)

text \<open>A relation between the states before and after that is reflexive, transitive and kept by
  each step from a good state relates any two states of a run.\<close>

lemma rel_steps:
  assumes "step\<^sup>*\<^sup>* s s'" "inv s"
    and "\<And>s. R s s" "\<And>s t u. R s t \<Longrightarrow> R t u \<Longrightarrow> R s u"
    and "\<And>s t. inv s \<Longrightarrow> step s t \<Longrightarrow> R s t"
  shows "R s s'"
  using assms(1)
proof (induction rule: rtranclp_induct)
  case base
  show ?case by (rule assms(3))
next
  case (step t u)
  then have "inv t" using inv_steps assms(2) by blast
  with step assms(4,5) show ?case by blast
qed

end

section \<open>Codecs\<close>

text \<open>
  A wire format with a fallible encoder and a fallible decoder.  The normal form is what the
  decoder yields for an encoded value: some formats forget how a value was written.
\<close>

locale codec =
  fixes enc :: "'a \<Rightarrow> bytes result"
    and dec :: "bytes \<Rightarrow> 'a result"
    and norm :: "'a \<Rightarrow> 'a"
  assumes dec_enc: "enc a = Inr bs \<Longrightarrow> dec bs = Inr (norm a)"
    and enc_norm: "enc a = Inr bs \<Longrightarrow> enc (norm a) = Inr bs"
begin

lemma norm_norm: "enc a = Inr bs \<Longrightarrow> norm (norm a) = norm a"
  by (metis dec_enc enc_norm Inr_inject)

lemma enc_inj: "enc a = Inr bs \<Longrightarrow> enc b = Inr bs \<Longrightarrow> norm a = norm b"
  by (metis dec_enc Inr_inject)

lemma enc_eq_iff: "enc a = Inr bs \<Longrightarrow> enc b = Inr bs' \<Longrightarrow> bs = bs' \<longleftrightarrow> norm a = norm b"
  by (metis enc_inj enc_norm Inr_inject)

lemma reencode: "enc a = Inr bs \<Longrightarrow> and_then (dec bs) enc = Inr bs"
  by (simp add: dec_enc enc_norm)

end

section \<open>Slices\<close>

text \<open>\<open>slice::chunks\<close>: consecutive pieces of the given length, the last one possibly shorter.
  (Rust panics on a zero chunk length; every call in the source passes a positive constant.)\<close>

function chunks :: "nat \<Rightarrow> 'a list \<Rightarrow> 'a list list" where
  "chunks n xs = (if xs = [] \<or> n = 0 then [] else take n xs # chunks n (drop n xs))"
  by pat_completeness auto
termination by (relation "measure (length \<circ> snd)") auto

declare chunks.simps [simp del]

lemma chunks_Nil [simp]: "chunks n [] = []"
  by (simp add: chunks.simps)

lemma chunks_eq_Nil_iff: "0 < n \<Longrightarrow> chunks n xs = [] \<longleftrightarrow> xs = []"
  by (simp add: chunks.simps)

lemma concat_chunks [simp]: "0 < n \<Longrightarrow> concat (chunks n xs) = xs"
proof (induction n xs rule: chunks.induct)
  case (1 n xs)
  then show ?case by (cases "xs = []") (auto simp: chunks.simps [of n xs])
qed

lemma chunks_bounds: "c \<in> set (chunks n xs) \<Longrightarrow> c \<noteq> [] \<and> length c \<le> n"
proof (induction n xs rule: chunks.induct)
  case (1 n xs)
  show ?case
  proof (cases "xs = [] \<or> n = 0")
    case True
    with 1 show ?thesis by (auto simp: chunks.simps [of n xs])
  next
    case False
    with 1 show ?thesis by (auto simp: chunks.simps [of n xs])
  qed
qed

lemma chunks_butlast_length: "c \<in> set (butlast (chunks n xs)) \<Longrightarrow> length c = n"
proof (induction n xs rule: chunks.induct)
  case (1 n xs)
  show ?case
  proof (cases "xs = [] \<or> n = 0")
    case True
    with 1 show ?thesis by (auto simp: chunks.simps [of n xs])
  next
    case False
    then have "chunks n xs = take n xs # chunks n (drop n xs)"
      by (simp add: chunks.simps [of n xs])
    with 1 False show ?thesis
      by (auto simp: chunks_eq_Nil_iff split: if_splits)
  qed
qed

lemma chunks_short: "xs \<noteq> [] \<Longrightarrow> length xs \<le> n \<Longrightarrow> chunks n xs = [xs]"
  by (cases xs; subst chunks.simps) (auto simp: chunks.simps)

lemma chunks_append:
  "length c = n \<Longrightarrow> 0 < n \<Longrightarrow> chunks n (c @ xs) = c # chunks n xs"
  by (subst chunks.simps) auto

lemma length_chunks: "0 < n \<Longrightarrow> length (chunks n xs) = (length xs + n - 1) div n"
proof (induction n xs rule: chunks.induct)
  case (1 n xs)
  show ?case
  proof (cases "xs = []")
    case True
    with 1 show ?thesis by simp
  next
    case False
    with 1 have IH: "length (chunks n (drop n xs)) = (length xs - n + n - 1) div n" by simp
    have eq: "chunks n xs = take n xs # chunks n (drop n xs)"
      using False 1 by (simp add: chunks.simps [of n xs])
    show ?thesis
    proof (cases "length xs \<le> n")
      case True
      moreover have "(length xs + n - 1) div n = 1"
        using True False 1(2) by (cases xs) (auto intro!: div_nat_eqI)
      ultimately show ?thesis using eq by simp
    next
      case False
      then have "(length xs + n - 1) div n = (length xs - n + n - 1) div n + 1"
        using 1(2) by (simp add: div_nat_eqI le_div_geq)
      with eq IH show ?thesis by simp
    qed
  qed
qed

section \<open>Big-endian integers\<close>

definition nat_of_be :: "bytes \<Rightarrow> nat" where
  "nat_of_be bs = foldl (\<lambda>a b. a * 256 + unat b) 0 bs"

primrec be_of_nat :: "nat \<Rightarrow> nat \<Rightarrow> bytes" where
  "be_of_nat 0 n = []"
| "be_of_nat (Suc k) n = be_of_nat k (n div 256) @ [of_nat n]"

lemma nat_of_be_Nil [simp]: "nat_of_be [] = 0"
  by (simp add: nat_of_be_def)

lemma nat_of_be_snoc [simp]: "nat_of_be (bs @ [b]) = nat_of_be bs * 256 + unat b"
  by (simp add: nat_of_be_def)

lemma nat_of_be_two: "nat_of_be [a, b] = unat a * 256 + unat b"
  by (simp add: nat_of_be_def)

lemma length_be_of_nat [simp]: "length (be_of_nat k n) = k"
  by (induction k arbitrary: n) auto

lemma unat_byte_of_nat [simp]: "unat (of_nat n :: byte) = n mod 256"
  by (simp add: unat_of_nat)

lemma unat_u16_mod [simp]: "unat (w :: u16) mod 65536 = unat w"
  using unsigned_less [of w, where 'a = nat] by simp

lemma unat_byte_bound: "unat (b :: byte) < 256"
  using unsigned_less [of b] by simp

lemma nat_of_be_bound: "nat_of_be bs < 256 ^ length bs"
proof (induction bs rule: rev_induct)
  case (snoc b bs)
  have "unat b < 256" by (rule unat_byte_bound)
  moreover have "(nat_of_be bs + 1) * 256 \<le> 256 ^ length bs * 256"
    using snoc by (intro mult_le_mono1) simp
  ultimately have "nat_of_be bs * 256 + unat b < 256 ^ length bs * 256"
    unfolding distrib_right by linarith
  then show ?case by simp
qed simp

lemma nat_of_be_of_nat: "nat_of_be (be_of_nat k n) = n mod 256 ^ k"
proof (induction k arbitrary: n)
  case (Suc k)
  have "nat_of_be (be_of_nat (Suc k) n) = (n div 256) mod 256 ^ k * 256 + n mod 256"
    by (simp add: Suc)
  also have "\<dots> = n mod (256 * 256 ^ k)"
    by (simp add: mod_mult2_eq)
  finally show ?case by simp
qed simp

lemma be_of_nat_of_be [simp]: "be_of_nat (length bs) (nat_of_be bs) = bs"
proof (induction bs rule: rev_induct)
  case (snoc b bs)
  have "(nat_of_be bs * 256 + unat b) div 256 = nat_of_be bs"
    by (simp add: unat_byte_bound)
  moreover have "unat (of_nat (nat_of_be bs * 256 + unat b) :: byte) = unat b"
    unfolding unat_byte_of_nat by (simp add: unat_byte_bound)
  then have "(of_nat (nat_of_be bs * 256 + unat b) :: byte) = b"
    by (simp only: word_unat_eq_iff)
  ultimately show ?case using snoc by simp
qed simp

lemma nat_of_be_inj: "length bs = length cs \<Longrightarrow> nat_of_be bs = nat_of_be cs \<Longrightarrow> bs = cs"
  by (metis be_of_nat_of_be)

lemma be_of_nat_inj:
  "m < 256 ^ k \<Longrightarrow> n < 256 ^ k \<Longrightarrow> be_of_nat k m = be_of_nat k n \<longleftrightarrow> m = n"
  by (metis mod_less nat_of_be_of_nat)

lemma be_of_nat_two: "be_of_nat 2 n = [of_nat (n div 256), of_nat n]"
  by (simp add: numeral_2_eq_2)

lemma be_of_nat_Suc_hd:
  "be_of_nat (Suc k) n = of_nat (n div 256 ^ k) # be_of_nat k n"
proof (induction k arbitrary: n)
  case (Suc k)
  have "be_of_nat (Suc (Suc k)) n = be_of_nat (Suc k) (n div 256) @ [of_nat n]"
    by (rule be_of_nat.simps)
  also have "\<dots> = of_nat (n div 256 div 256 ^ k) # be_of_nat k (n div 256) @ [of_nat n]"
    by (simp only: Suc append_Cons)
  finally show ?case by (simp add: div_mult2_eq)
qed simp

text \<open>\<open>u16::to_be_bytes\<close> and \<open>u16::from_be_bytes\<close>.\<close>

definition u16_to_be :: "u16 \<Rightarrow> bytes" where
  "u16_to_be w = be_of_nat 2 (unat w)"

definition u16_from_be :: "byte \<Rightarrow> byte \<Rightarrow> u16" where
  "u16_from_be a b = of_nat (nat_of_be [a, b])"

lemma length_u16_to_be [simp]: "length (u16_to_be w) = 2"
  by (simp add: u16_to_be_def)

lemma unat_u16_from_be: "unat (u16_from_be a b) = nat_of_be [a, b]"
  using nat_of_be_bound [of "[a, b]"] by (simp add: u16_from_be_def unat_of_nat)

lemma u16_to_be_from_be [simp]: "u16_to_be (u16_from_be a b) = [a, b]"
  using be_of_nat_of_be [of "[a, b]"] by (simp add: u16_to_be_def unat_u16_from_be numeral_2_eq_2)

lemma u16_from_be_to_be [simp]: "u16_to_be w = [a, b] \<Longrightarrow> u16_from_be a b = w"
  using nat_of_be_of_nat [of 2 "unat w"]
  by (simp add: u16_to_be_def word_unat_eq_iff unat_u16_from_be)

lemma u16_to_be_cases: obtains a b where "u16_to_be w = [a, b]"
  by (simp add: u16_to_be_def be_of_nat_two)

lemma take_drop_last_two:
  "2 \<le> length xs \<Longrightarrow>
   take (length xs - 2) xs @ [xs ! (length xs - 2), xs ! (length xs - 2 + 1)] = xs"
proof (cases xs rule: rev_cases)
  case (snoc ys b)
  then show "2 \<le> length xs \<Longrightarrow> ?thesis"
    by (cases ys rule: rev_cases) (auto simp: nth_append)
qed simp

section \<open>Hash maps\<close>

text \<open>
  A \<open>HashMap\<close> is an association list with distinct keys: \<open>insert\<close> is \<^const>\<open>AList.update\<close>,
  \<open>remove\<close> is \<^const>\<open>AList.delete\<close>, \<open>get\<close> is \<^const>\<open>map_of\<close> and \<open>retain\<close> is
  \<^const>\<open>filter\<close>.  The order of the list stands for the unspecified iteration order.
\<close>

type_synonym ('k, 'v) hash_map = "('k \<times> 'v) list"

abbreviation map_keys :: "('k, 'v) hash_map \<Rightarrow> 'k list" where
  "map_keys m \<equiv> map fst m"

definition retain :: "('k \<Rightarrow> 'v \<Rightarrow> bool) \<Rightarrow> ('k, 'v) hash_map \<Rightarrow> ('k, 'v) hash_map" where
  "retain P m = filter (\<lambda>(k, v). P k v) m"

lemma distinct_keys_retain [simp]: "distinct (map_keys m) \<Longrightarrow> distinct (map_keys (retain P m))"
  by (simp add: retain_def distinct_map_filter)

lemma set_retain [simp]: "set (retain P m) = {(k, v) \<in> set m. P k v}"
  by (auto simp: retain_def)

lemma map_of_retain:
  "distinct (map_keys m) \<Longrightarrow>
   map_of (retain P m) k = (case map_of m k of Some v \<Rightarrow> if P k v then Some v else None | None \<Rightarrow> None)"
  by (induction m) (auto simp: retain_def map_of_eq_None_iff split: option.splits dest: map_of_SomeD)

lemma map_of_iff_in_set: "distinct (map_keys m) \<Longrightarrow> map_of m k = Some v \<longleftrightarrow> (k, v) \<in> set m"
  by (rule map_of_eq_Some_iff)

lemma distinct_keys_update [simp]:
  "distinct (map_keys m) \<Longrightarrow> distinct (map_keys (AList.update k v m))"
  by (rule distinct_update)

lemma distinct_keys_delete [simp]:
  "distinct (map_keys m) \<Longrightarrow> distinct (map_keys (AList.delete k m))"
  by (rule distinct_delete)

lemma keys_update_fresh: "k \<notin> set (map_keys m) \<Longrightarrow> AList.update k v m = m @ [(k, v)]"
  by (induction m) auto

lemma set_keys_update: "set (map_keys (AList.update k v m)) = insert k (set (map_keys m))"
  by (simp add: dom_update)

lemma set_keys_delete: "set (map_keys (AList.delete k m)) = set (map_keys m) - {k}"
  by (auto simp: AList.delete_eq)

lemma set_delete: "set (AList.delete k m) = {(k', v) \<in> set m. k' \<noteq> k}"
  by (auto simp: AList.delete_eq)

lemma set_update:
  "distinct (map_keys m) \<Longrightarrow> set (AList.update k v m) = insert (k, v) {(k', v') \<in> set m. k' \<noteq> k}"
  by (induction m) (auto simp: rev_image_eqI)

lemma distinct_fst_inj: "distinct (map_keys m) \<Longrightarrow> (k, v) \<in> set m \<Longrightarrow> (k, w) \<in> set m \<Longrightarrow> v = w"
  by (metis map_of_is_SomeI option.inject)
end
