(* ===== verification/Apdu.thy ===== *)
theory Apdu
  imports Prelude
begin

text \<open>
  Command and response APDUs and their wire format (src/src/scp03.rs, \<open>CommandApdu\<close> and
  \<open>ResponseApdu\<close>).  An expected length is a natural number, the casts to \<open>u16\<close> and \<open>u8\<close> of the
  encoder are the truncations of \<^const>\<open>be_of_nat\<close> and \<^const>\<open>of_nat\<close>.
\<close>

abbreviation (input) MAX_SHORT_DATA_LENGTH :: nat where "MAX_SHORT_DATA_LENGTH \<equiv> 255"
abbreviation (input) MAX_EXTENDED_DATA_LENGTH :: nat where "MAX_EXTENDED_DATA_LENGTH \<equiv> 65535"
abbreviation (input) MAX_SHORT_EXPECTED_LENGTH :: nat where "MAX_SHORT_EXPECTED_LENGTH \<equiv> 256"
abbreviation (input) MAX_EXTENDED_EXPECTED_LENGTH :: nat where
  "MAX_EXTENDED_EXPECTED_LENGTH \<equiv> 65536"
abbreviation (input) RESPONSE_OK :: u16 where "RESPONSE_OK \<equiv> 0x9000"

section \<open>Commands\<close>

record command_apdu =
  apdu_cla :: byte
  apdu_ins :: byte
  apdu_p1 :: byte
  apdu_p2 :: byte
  apdu_data :: bytes
  apdu_le :: "nat option"
  apdu_extended :: bool

definition uses_extended_length :: "command_apdu \<Rightarrow> nat \<Rightarrow> bool result" where
  "uses_extended_length c data_len =
     (if MAX_EXTENDED_DATA_LENGTH < data_len
         \<or> is_some_and (apdu_le c) (\<lambda>le. le = 0 \<or> MAX_EXTENDED_EXPECTED_LENGTH < le)
      then Inl (Generic CKR_DATA_LEN_RANGE)
      else Inr (apdu_extended c
                \<or> MAX_SHORT_DATA_LENGTH < data_len
                \<or> is_some_and (apdu_le c) (\<lambda>le. MAX_SHORT_EXPECTED_LENGTH < le)))"

definition encode_header_and_data :: "command_apdu \<Rightarrow> nat \<Rightarrow> bytes result" where
  "encode_header_and_data c encoded_data_len =
     (if encoded_data_len < length (apdu_data c) \<or> MAX_EXTENDED_DATA_LENGTH < encoded_data_len
      then Inl (Generic CKR_DATA_LEN_RANGE)
      else and_then (uses_extended_length c encoded_data_len) (\<lambda>extended.
        Inr ([apdu_cla c, apdu_ins c, apdu_p1 c, apdu_p2 c]
             @ (if encoded_data_len \<noteq> 0
                then (if extended then 0 # be_of_nat 2 encoded_data_len
                      else [of_nat encoded_data_len]) @ apdu_data c
                else []))))"

definition command_encode :: "command_apdu \<Rightarrow> bytes result" where
  "command_encode c =
     and_then (uses_extended_length c (length (apdu_data c))) (\<lambda>extended.
     and_then (encode_header_and_data c (length (apdu_data c))) (\<lambda>encoded.
       Inr (case apdu_le c of
              None \<Rightarrow> encoded
            | Some le \<Rightarrow>
                if extended
                then encoded @ (if apdu_data c = [] then [0] else [])
                       @ be_of_nat 2 (if le = MAX_EXTENDED_EXPECTED_LENGTH then 0 else le)
                else encoded @ [if le = MAX_SHORT_EXPECTED_LENGTH then 0 else of_nat le])))"

definition command_decode :: "bytes \<Rightarrow> command_apdu result" where
  "command_decode encoded =
     (if length encoded < 4 then Inl (Generic CKR_ARGUMENTS_BAD)
      else
        let apdu = (\<lambda>data le extended.
              Inr \<lparr>apdu_cla = encoded ! 0, apdu_ins = encoded ! 1, apdu_p1 = encoded ! 2,
                   apdu_p2 = encoded ! 3, apdu_data = data, apdu_le = le,
                   apdu_extended = extended\<rparr>);
            body = drop 4 encoded;
            short_le = (\<lambda>b. Some (if b = 0 then 256 else unat b));
            long_le = (\<lambda>n. Some (if n = 0 then 65536 else n))
        in if body = [] then apdu [] None False
           else if length body = 1 then apdu [] (short_le (body ! 0)) False
           else if body ! 0 \<noteq> 0 then
             (let data_len = unat (body ! 0) in
              if length body = data_len + 1 then apdu (drop 1 body) None False
              else if length body = data_len + 2
              then apdu (take data_len (drop 1 body)) (short_le (body ! (1 + data_len))) False
              else Inl (Generic CKR_ARGUMENTS_BAD))
           else if length body = 3
           then apdu [] (long_le (nat_of_be [body ! 1, body ! 2])) True
           else if length body < 3 then Inl (Generic CKR_ARGUMENTS_BAD)
           else
             (let data_len = nat_of_be [body ! 1, body ! 2] in
              if length body = data_len + 3 then apdu (drop 3 body) None True
              else if length body = data_len + 5
              then let le_offset = 3 + data_len in
                   apdu (take data_len (drop 3 body))
                     (long_le (nat_of_be [body ! le_offset, body ! (le_offset + 1)])) True
              else Inl (Generic CKR_ARGUMENTS_BAD)))"

section \<open>Responses\<close>

record response_apdu =
  resp_data :: bytes
  resp_status :: u16

definition response_encode :: "response_apdu \<Rightarrow> bytes" where
  "response_encode r = resp_data r @ u16_to_be (resp_status r)"

definition response_parse :: "bytes \<Rightarrow> response_apdu result" where
  "response_parse encoded =
     (if length encoded < 2 then Inl (Generic CKR_DEVICE_ERROR)
      else let data_len = length encoded - 2 in
        Inr \<lparr>resp_data = take data_len encoded,
             resp_status = u16_from_be (encoded ! data_len) (encoded ! (data_len + 1))\<rparr>)"

definition require_success :: "response_apdu \<Rightarrow> response_apdu result" where
  "require_success r = (if resp_status r \<noteq> RESPONSE_OK then Inl (Generic CKR_DEVICE_ERROR) else Inr r)"

section \<open>Connectors\<close>

text \<open>
  A connector (src/src/connector.rs, the trait \<open>Connector\<close>) is a black box with a state of its
  own: it answers an encoded command with bytes or an error.  The exchange of one command with no
  interpretation of its status is \<open>scp03::transmit\<close>.
\<close>

type_synonym 'c send = "bytes \<Rightarrow> ('c, bytes) comp"

definition transmit_apdu :: "'c send \<Rightarrow> command_apdu \<Rightarrow> ('c, response_apdu) comp" where
  "transmit_apdu send c =
     sbind (slift (command_encode c)) (\<lambda>encoded.
     sbind (send encoded) (\<lambda>answer.
     slift (response_parse answer)))"

definition select_application :: "'c send \<Rightarrow> bytes \<Rightarrow> ('c, unit) comp" where
  "select_application send aid =
     (if \<not> (5 \<le> length aid \<and> length aid \<le> 16) then sfail (Generic CKR_ARGUMENTS_BAD)
      else sbind (transmit_apdu send
                   \<lparr>apdu_cla = 0x00, apdu_ins = 0xa4, apdu_p1 = 0x04, apdu_p2 = 0x00,
                    apdu_data = aid, apdu_le = Some 256, apdu_extended = False\<rparr>) (\<lambda>response.
           sbind (slift (require_success response)) (\<lambda>_. sok ())))"

section \<open>Round trips\<close>

text \<open>An APDU is written in the extended form when its flag or one of its lengths asks for it and
  there is a length to write at all; the decoder recovers exactly this.\<close>

definition apdu_normal :: "command_apdu \<Rightarrow> command_apdu" where
  "apdu_normal c = c\<lparr>apdu_extended :=
     uses_extended_length c (length (apdu_data c)) = Inr True
     \<and> (apdu_data c \<noteq> [] \<or> apdu_le c \<noteq> None)\<rparr>"

lemma short_le_decode:
  "0 < n \<Longrightarrow> n \<le> 256 \<Longrightarrow>
   (let b = (if n = 256 then 0 else of_nat n) :: byte in if b = 0 then 256 else unat b) = n"
  by (auto simp: Let_def word_unat_eq_iff)

lemma long_le_decode:
  "0 < n \<Longrightarrow> n \<le> 65536 \<Longrightarrow>
   (let m = nat_of_be (be_of_nat 2 (if n = 65536 then 0 else n)) in if m = 0 then 65536 else m) = n"
  by (auto simp: Let_def nat_of_be_of_nat)

lemma uses_extended_length_ok:
  "uses_extended_length c n = Inr x \<Longrightarrow>
     n \<le> 65535 \<and> (\<forall>le. apdu_le c = Some le \<longrightarrow> 0 < le \<and> le \<le> 65536) \<and>
     (x \<longleftrightarrow> apdu_extended c \<or> 255 < n \<or> is_some_and (apdu_le c) (\<lambda>le. 256 < le))"
  by (cases "apdu_le c") (auto simp: uses_extended_length_def split: if_splits)

text \<open>The bytes of an APDU in the short (\<open>x\<close> false) or extended (\<open>x\<close> true) form.\<close>

definition apdu_wire :: "bool \<Rightarrow> command_apdu \<Rightarrow> bytes" where
  "apdu_wire x c =
     [apdu_cla c, apdu_ins c, apdu_p1 c, apdu_p2 c]
     @ (if apdu_data c = [] then []
        else (if x then 0 # be_of_nat 2 (length (apdu_data c))
              else [of_nat (length (apdu_data c))]) @ apdu_data c)
     @ (case apdu_le c of
          None \<Rightarrow> []
        | Some le \<Rightarrow>
            if x then (if apdu_data c = [] then [0] else [])
                      @ be_of_nat 2 (if le = 65536 then 0 else le)
            else [if le = 256 then 0 else of_nat le])"

lemma command_encode_wire:
  "command_encode c =
     and_then (uses_extended_length c (length (apdu_data c))) (\<lambda>x. Inr (apdu_wire x c))"
proof (cases "uses_extended_length c (length (apdu_data c))")
  case (Inr x)
  then have "length (apdu_data c) \<le> 65535" by (simp add: uses_extended_length_ok)
  with Inr show ?thesis
    by (simp add: command_encode_def encode_header_and_data_def apdu_wire_def split: option.split)
qed (simp add: command_encode_def)

lemma byte_of_nat_eq_0: "(of_nat n :: byte) = 0 \<longleftrightarrow> n mod 256 = 0"
  by (simp only: word_unat_eq_iff unat_byte_of_nat unat_0)

lemma long_le_decode_two:
  "0 < n \<Longrightarrow> n \<le> 65536 \<Longrightarrow>
   (let m = nat_of_be [of_nat ((if n = 65536 then 0 else n) div 256),
                       of_nat (if n = 65536 then 0 else n)]
    in if m = 0 then 65536 else m) = n"
  using long_le_decode [of n] by (simp add: be_of_nat_two)

text \<open>The decoder on each of the seven shapes an encoder writes.\<close>

lemma decode_header_only:
  "command_decode [cla, ins, p1, p2] = Inr \<lparr>apdu_cla = cla, apdu_ins = ins, apdu_p1 = p1,
     apdu_p2 = p2, apdu_data = [], apdu_le = None, apdu_extended = False\<rparr>"
  by (simp add: command_decode_def)

lemma decode_short_le:
  "command_decode [cla, ins, p1, p2, b] = Inr \<lparr>apdu_cla = cla, apdu_ins = ins, apdu_p1 = p1,
     apdu_p2 = p2, apdu_data = [], apdu_le = Some (if b = 0 then 256 else unat b),
     apdu_extended = False\<rparr>"
  by (simp add: command_decode_def)

lemma decode_short_data:
  "d \<noteq> [] \<Longrightarrow> length d \<le> 255 \<Longrightarrow>
   command_decode ([cla, ins, p1, p2] @ of_nat (length d) # d) = Inr \<lparr>apdu_cla = cla,
     apdu_ins = ins, apdu_p1 = p1, apdu_p2 = p2, apdu_data = d, apdu_le = None,
     apdu_extended = False\<rparr>"
  by (simp add: command_decode_def byte_of_nat_eq_0)

lemma decode_short_data_le:
  "d \<noteq> [] \<Longrightarrow> length d \<le> 255 \<Longrightarrow>
   command_decode ([cla, ins, p1, p2] @ of_nat (length d) # d @ [b]) = Inr \<lparr>apdu_cla = cla,
     apdu_ins = ins, apdu_p1 = p1, apdu_p2 = p2, apdu_data = d,
     apdu_le = Some (if b = 0 then 256 else unat b), apdu_extended = False\<rparr>"
  by (simp add: command_decode_def byte_of_nat_eq_0)

lemma decode_extended_le:
  "command_decode [cla, ins, p1, p2, 0, x, y] = Inr \<lparr>apdu_cla = cla, apdu_ins = ins, apdu_p1 = p1,
     apdu_p2 = p2, apdu_data = [],
     apdu_le = Some (let n = nat_of_be [x, y] in if n = 0 then 65536 else n), apdu_extended = True\<rparr>"
  by (simp add: command_decode_def Let_def)

lemma decode_extended_data:
  "d \<noteq> [] \<Longrightarrow> length d \<le> 65535 \<Longrightarrow>
   command_decode ([cla, ins, p1, p2] @ 0 # be_of_nat 2 (length d) @ d) = Inr \<lparr>apdu_cla = cla,
     apdu_ins = ins, apdu_p1 = p1, apdu_p2 = p2, apdu_data = d, apdu_le = None,
     apdu_extended = True\<rparr>"
  by (simp add: command_decode_def be_of_nat_two nat_of_be_two)

lemma decode_extended_data_le:
  "d \<noteq> [] \<Longrightarrow> length d \<le> 65535 \<Longrightarrow>
   command_decode ([cla, ins, p1, p2] @ 0 # be_of_nat 2 (length d) @ d @ [x, y]) = Inr \<lparr>apdu_cla = cla,
     apdu_ins = ins, apdu_p1 = p1, apdu_p2 = p2, apdu_data = d,
     apdu_le = Some (let n = nat_of_be [x, y] in if n = 0 then 65536 else n), apdu_extended = True\<rparr>"
  by (simp add: command_decode_def be_of_nat_two nat_of_be_two nth_append Let_def)

lemmas decode_shapes =
  decode_header_only decode_short_le decode_short_data decode_short_data_le decode_extended_le
  decode_extended_data decode_extended_data_le

lemma command_decode_encode:
  assumes "command_encode c = Inr bs"
  shows "command_decode bs = Inr (apdu_normal c)"
proof -
  obtain x where x: "uses_extended_length c (length (apdu_data c)) = Inr x"
    and bs: "bs = apdu_wire x c"
    using assms by (auto simp: command_encode_wire)
  note f = uses_extended_length_ok [OF x]
  show ?thesis
  proof (cases "apdu_le c")
    case None
    then show ?thesis unfolding bs using f x
      by (cases "apdu_data c = []"; cases x) (auto simp: apdu_wire_def apdu_normal_def decode_shapes [simplified])
  next
    case (Some le)
    with f have le: "0 < le" "le \<le> 65536" by auto
    show ?thesis
    proof (cases x)
      case True
      then show ?thesis unfolding bs using f x Some long_le_decode_two [OF le]
        by (cases "apdu_data c = []")
          (simp_all add: apdu_wire_def apdu_normal_def be_of_nat_two [of "if _ then _ else _"] decode_shapes [simplified])
    next
      case False
      with f Some have "le \<le> 256" by auto
      with False show ?thesis unfolding bs using f x Some short_le_decode [OF le(1)]
        by (cases "apdu_data c = []") (simp_all add: apdu_wire_def apdu_normal_def decode_shapes [simplified] Let_def)
    qed
  qed
qed

lemma command_encode_normal:
  assumes "command_encode c = Inr bs"
  shows "command_encode (apdu_normal c) = Inr bs"
proof -
  obtain x where x: "uses_extended_length c (length (apdu_data c)) = Inr x"
    and bs: "bs = apdu_wire x c"
    using assms by (auto simp: command_encode_wire)
  note f = uses_extended_length_ok [OF x]
  have "uses_extended_length (apdu_normal c) (length (apdu_data c))
        = Inr (x \<and> (apdu_data c \<noteq> [] \<or> apdu_le c \<noteq> None))"
    using f x unfolding uses_extended_length_def apdu_normal_def by (cases "apdu_le c") auto
  moreover have "apdu_wire (x \<and> (apdu_data c \<noteq> [] \<or> apdu_le c \<noteq> None)) (apdu_normal c)
        = apdu_wire x c"
    by (simp add: apdu_wire_def apdu_normal_def split: option.splits)
  ultimately show ?thesis by (simp add: command_encode_wire bs) (simp add: apdu_normal_def)
qed

interpretation command_codec: codec command_encode command_decode apdu_normal
  by unfold_locales (rule command_decode_encode command_encode_normal; assumption)+

lemma response_parse_encode: "response_parse (response_encode r) = Inr r"
proof -
  obtain a b where "u16_to_be (resp_status r) = [a, b]" by (rule u16_to_be_cases)
  then show ?thesis
    by (cases r) (simp add: response_parse_def response_encode_def nth_append)
qed

interpretation response_codec: codec "\<lambda>r. Inr (response_encode r)" response_parse "\<lambda>r. r"
  by unfold_locales (auto simp: response_parse_encode)

lemma response_encode_parse: "response_parse bs = Inr r \<Longrightarrow> response_encode r = bs"
  using take_drop_last_two [of bs]
  by (auto simp: response_parse_def response_encode_def Let_def split: if_splits)

text \<open>What the decoder accepts is what the encoder writes, but for one spelling: an extended
  body with a zero data length followed by an expected length.\<close>

lemma length_ge_4E:
  assumes "\<not> length bs < 4"
  obtains a b c d body where "bs = a # b # c # d # body"
  using assms by (cases bs; cases "tl bs"; cases "tl (tl bs)"; cases "tl (tl (tl bs))") auto

lemma byte_of_nat_unat: "(of_nat (unat b) :: byte) = b"
  by simp

lemma encode_short_le:
  "command_encode \<lparr>apdu_cla = a, apdu_ins = b, apdu_p1 = c, apdu_p2 = d, apdu_data = [],
     apdu_le = Some (if l = 0 then 256 else unat l), apdu_extended = False\<rparr> = Inr [a, b, c, d, l]"
  using unat_byte_bound [of l]
  by (auto simp: command_encode_wire uses_extended_length_def apdu_wire_def unat_eq_0 unat_gt_0)

lemma encode_short_data:
  "l \<noteq> 0 \<Longrightarrow> length xs = unat l \<Longrightarrow>
   command_encode \<lparr>apdu_cla = a, apdu_ins = b, apdu_p1 = c, apdu_p2 = d, apdu_data = xs,
     apdu_le = None, apdu_extended = False\<rparr> = Inr (a # b # c # d # l # xs)"
  using unat_byte_bound [of l]
  by (auto simp: command_encode_wire uses_extended_length_def apdu_wire_def unat_eq_0 unat_gt_0)

lemma encode_short_data_le:
  "l \<noteq> 0 \<Longrightarrow> length xs = unat l \<Longrightarrow>
   command_encode \<lparr>apdu_cla = a, apdu_ins = b, apdu_p1 = c, apdu_p2 = d, apdu_data = xs,
     apdu_le = Some (if e = 0 then 256 else unat e), apdu_extended = False\<rparr>
   = Inr (a # b # c # d # l # xs @ [e])"
  using unat_byte_bound [of l] unat_byte_bound [of e]
  by (auto simp: command_encode_wire uses_extended_length_def apdu_wire_def unat_eq_0 unat_gt_0)

lemma be_of_nat_two_of_be: "be_of_nat 2 (nat_of_be [x, y]) = [x, y]"
  using be_of_nat_of_be [of "[x, y]"] by (simp add: numeral_2_eq_2)

lemma nat_of_be_two_bound: "nat_of_be [x, y] < 65536"
  using nat_of_be_bound [of "[x, y]"] by simp

lemma encode_extended_le:
  "command_encode \<lparr>apdu_cla = a, apdu_ins = b, apdu_p1 = c, apdu_p2 = d, apdu_data = [],
     apdu_le = Some (let n = nat_of_be [x, y] in if n = 0 then 65536 else n), apdu_extended = True\<rparr>
   = Inr [a, b, c, d, 0, x, y]"
proof (cases "nat_of_be [x, y] = 0")
  case True
  then show ?thesis using be_of_nat_two_of_be [of x y]
    by (simp add: command_encode_wire uses_extended_length_def apdu_wire_def)
next
  case False
  then show ?thesis using be_of_nat_two_of_be [of x y] nat_of_be_two_bound [of x y]
    by (simp add: command_encode_wire uses_extended_length_def apdu_wire_def)
qed

lemma encode_extended_data:
  "xs \<noteq> [] \<Longrightarrow> length xs = nat_of_be [x, y] \<Longrightarrow>
   command_encode \<lparr>apdu_cla = a, apdu_ins = b, apdu_p1 = c, apdu_p2 = d, apdu_data = xs,
     apdu_le = None, apdu_extended = True\<rparr> = Inr (a # b # c # d # 0 # x # y # xs)"
  using nat_of_be_two_bound [of x y] be_of_nat_two_of_be [of x y]
  by (simp add: command_encode_wire uses_extended_length_def apdu_wire_def)

lemma encode_extended_data_le:
  assumes "xs \<noteq> []" "length xs = nat_of_be [x, y]"
  shows "command_encode \<lparr>apdu_cla = a, apdu_ins = b, apdu_p1 = c, apdu_p2 = d, apdu_data = xs,
     apdu_le = Some (let n = nat_of_be [u, v] in if n = 0 then 65536 else n), apdu_extended = True\<rparr>
   = Inr (a # b # c # d # 0 # x # y # xs @ [u, v])"
proof (cases "nat_of_be [u, v] = 0")
  case True
  then show ?thesis
    using assms nat_of_be_two_bound [of x y] be_of_nat_two_of_be [of x y] be_of_nat_two_of_be [of u v]
    by (simp add: command_encode_wire uses_extended_length_def apdu_wire_def)
next
  case False
  then show ?thesis
    using assms nat_of_be_two_bound [of x y] be_of_nat_two_of_be [of x y]
      nat_of_be_two_bound [of u v] be_of_nat_two_of_be [of u v]
    by (simp add: command_encode_wire uses_extended_length_def apdu_wire_def)
qed

lemma command_encode_decode_short:
  assumes dec: "command_decode (p # q # r # s # l # t) = Inr c" and l: "l \<noteq> 0" "t \<noteq> []"
  shows "command_encode c = Inr (p # q # r # s # l # t)"
proof -
  consider "length t = unat l"
      "c = \<lparr>apdu_cla = p, apdu_ins = q, apdu_p1 = r, apdu_p2 = s, apdu_data = t, apdu_le = None,
            apdu_extended = False\<rparr>"
    | "length t = unat l + 1"
      "c = \<lparr>apdu_cla = p, apdu_ins = q, apdu_p1 = r, apdu_p2 = s, apdu_data = take (unat l) t,
            apdu_le = Some (if t ! unat l = 0 then 256 else unat (t ! unat l)), apdu_extended = False\<rparr>"
    using dec l by (auto simp: command_decode_def Let_def split: if_splits)
  then show ?thesis
  proof cases
    case 1
    then show ?thesis using l by (simp add: encode_short_data)
  next
    case 2
    then have "take (unat l) t @ [t ! unat l] = t"
      by (metis less_add_one take_Suc_conv_app_nth Suc_eq_plus1 take_all_iff order_refl)
    with 2 show ?thesis
      using l encode_short_data_le [of l "take (unat l) t" p q r s "t ! unat l"] by simp
  qed
qed

lemma command_encode_decode_extended:
  assumes dec: "command_decode (p # q # r # s # 0 # x # y # t) = Inr c" and t: "t \<noteq> []"
  shows "command_encode c = Inr (p # q # r # s # 0 # x # y # t) \<or>
    (\<exists>u v. x = 0 \<and> y = 0 \<and> t = [u, v] \<and> command_encode c = Inr [p, q, r, s, 0, u, v])"
proof -
  let ?n = "nat_of_be [x, y]"
  consider "length t = ?n"
      "c = \<lparr>apdu_cla = p, apdu_ins = q, apdu_p1 = r, apdu_p2 = s, apdu_data = t, apdu_le = None,
            apdu_extended = True\<rparr>"
    | "length t = ?n + 2"
      "c = \<lparr>apdu_cla = p, apdu_ins = q, apdu_p1 = r, apdu_p2 = s, apdu_data = take ?n t,
            apdu_le = Some (let n = nat_of_be [t ! ?n, t ! (?n + 1)] in if n = 0 then 65536 else n),
            apdu_extended = True\<rparr>"
    using dec t by (auto simp: command_decode_def Let_def split: if_splits)
  then show ?thesis
  proof cases
    case 1
    then show ?thesis using t by (simp add: encode_extended_data)
  next
    case 2
    then have split: "take ?n t @ [t ! ?n, t ! (?n + 1)] = t"
      using take_drop_last_two [of t] by simp
    show ?thesis
    proof (cases "?n = 0")
      case True
      then have "x = 0" "y = 0" by (simp_all add: nat_of_be_two unat_eq_0)
      moreover obtain u v where "t = [u, v]" using split True by simp metis
      ultimately show ?thesis
        using 2 True encode_extended_le [of p q r s u v] by auto
    next
      case False
      then show ?thesis
        using 2 split encode_extended_data_le [of "take ?n t" x y p q r s "t ! ?n" "t ! (?n + 1)"]
        by auto
    qed
  qed
qed

lemma command_encode_decode:
  assumes dec: "command_decode bs = Inr c"
  shows "command_encode c = Inr bs \<or>
    (\<exists>h u v. length h = 4 \<and> bs = h @ [0, 0, 0, u, v] \<and> command_encode c = Inr (h @ [0, u, v]))"
proof -
  have "\<not> length bs < 4" using dec by (auto simp: command_decode_def)
  then obtain p q r s body where bs: "bs = p # q # r # s # body" by (rule length_ge_4E)
  consider (none) "body = []" | (le) l where "body = [l]"
    | (short) l t where "body = l # t" "t \<noteq> []" "l \<noteq> 0"
    | (le2) x y where "body = [0, x, y]"
    | (long) x y t where "body = 0 # x # y # t" "t \<noteq> []"
    | (bad) x where "body = [0, x]"
    by (cases body; cases "tl body"; cases "tl (tl body)"; cases "hd body = 0") auto
  then show ?thesis
  proof cases
    case none
    then show ?thesis using dec
      by (auto simp: bs decode_header_only command_encode_wire uses_extended_length_def apdu_wire_def)
  next
    case le
    then show ?thesis using dec by (auto simp: bs decode_short_le encode_short_le)
  next
    case short
    then show ?thesis using dec command_encode_decode_short by (simp add: bs)
  next
    case le2
    then show ?thesis using dec by (auto simp: bs decode_extended_le encode_extended_le)
  next
    case long
    then have "command_encode c = Inr bs \<or>
        (\<exists>u v. bs = [p, q, r, s] @ [0, 0, 0, u, v] \<and> command_encode c = Inr ([p, q, r, s] @ [0, u, v]))"
      using dec command_encode_decode_extended [of p q r s x y t c] by (auto simp: bs)
    moreover have "length [p, q, r, s] = 4" by simp
    ultimately show ?thesis by blast
  next
    case bad
    then show ?thesis using dec by (simp add: bs command_decode_def)
  qed
qed

section \<open>Properties\<close>

text \<open>
  C1. Encoding a command APDU and decoding the bytes gives the command back (its extended flag in
  the form the lengths call for), and encoding the decoded command gives the same bytes.
\<close>

theorem command_apdu_round_trip:
  assumes "command_encode c = Inr bs"
  shows "command_decode bs = Inr (apdu_normal c) \<and> and_then (command_decode bs) command_encode = Inr bs"
  using command_codec.dec_enc [OF assms] command_codec.reencode [OF assms] by blast

theorem command_apdu_round_trip_witness:
  "command_encode \<lparr>apdu_cla = 0, apdu_ins = 0xa4, apdu_p1 = 4, apdu_p2 = 0, apdu_data = [1, 2],
     apdu_le = Some 256, apdu_extended = False\<rparr> = Inr [0, 0xa4, 4, 0, 2, 1, 2, 0] \<and>
   command_decode [0, 0xa4, 4, 0, 2, 1, 2, 0] =
     Inr \<lparr>apdu_cla = 0, apdu_ins = 0xa4, apdu_p1 = 4, apdu_p2 = 0, apdu_data = [1, 2],
     apdu_le = Some 256, apdu_extended = False\<rparr>"
  using command_apdu_round_trip [of "\<lparr>apdu_cla = 0, apdu_ins = 0xa4, apdu_p1 = 4, apdu_p2 = 0,
      apdu_data = [1, 2], apdu_le = Some 256, apdu_extended = False\<rparr>" "[0, 0xa4, 4, 0, 2, 1, 2, 0]"]
  by (simp add: command_encode_def encode_header_and_data_def uses_extended_length_def
      apdu_normal_def)

text \<open>
  C2. Every byte string the decoder accepts is exactly what the encoder writes for the decoded
  command, except for an extended body whose data length is zero, which the encoder writes
  without the two zero bytes.
\<close>

theorem command_apdu_decode_canonical:
  assumes "command_decode bs = Inr c"
  shows "command_encode c = Inr bs \<or>
    (\<exists>h u v. length h = 4 \<and> bs = h @ [0, 0, 0, u, v] \<and> command_encode c = Inr (h @ [0, u, v]))"
  using assms by (rule command_encode_decode)

theorem command_apdu_decode_canonical_witness:
  "command_decode [0, 0xb0, 0, 0, 0, 1, 0] =
     Inr \<lparr>apdu_cla = 0, apdu_ins = 0xb0, apdu_p1 = 0, apdu_p2 = 0, apdu_data = [],
          apdu_le = Some 256, apdu_extended = True\<rparr> \<and>
   command_encode \<lparr>apdu_cla = 0, apdu_ins = 0xb0, apdu_p1 = 0, apdu_p2 = 0, apdu_data = [],
          apdu_le = Some 256, apdu_extended = True\<rparr> = Inr [0, 0xb0, 0, 0, 0, 1, 0]"
  using command_apdu_decode_canonical [of "[0, 0xb0, 0, 0, 0, 1, 0]"
      "\<lparr>apdu_cla = 0, apdu_ins = 0xb0, apdu_p1 = 0, apdu_p2 = 0, apdu_data = [],
        apdu_le = Some 256, apdu_extended = True\<rparr>"]
  by (auto simp: command_decode_def nat_of_be_def append_eq_Cons_conv)
end
