(* ===== verification/Iso7816.thy ===== *)
theory Iso7816
  imports Apdu
begin

text \<open>
  ISO 7816-4 transport (src/src/iso7816.rs): short, extended and chained commands, the retry on
  \<open>6Cxx\<close>, the collection of a chained response, and the capabilities read from the ATR.  A
  connector is a parameter; what the card does with chained commands is a hypothesis where a
  property needs it.
\<close>

section \<open>Sending commands\<close>

record apdu_capabilities =
  caps_command_chaining :: bool
  caps_extended :: bool

definition SHORT_ONLY :: apdu_capabilities where
  "SHORT_ONLY = \<lparr>caps_command_chaining = True, caps_extended = False\<rparr>"

definition EXTENDED :: apdu_capabilities where
  "EXTENDED = \<lparr>caps_command_chaining = True, caps_extended = True\<rparr>"

abbreviation (input) COMMAND_CHAINING_CLA :: byte where "COMMAND_CHAINING_CLA \<equiv> 0x10"
abbreviation (input) GET_RESPONSE :: byte where "GET_RESPONSE \<equiv> 0xc0"
abbreviation (input) MAX_SHORT_RESPONSE_LENGTH :: nat where "MAX_SHORT_RESPONSE_LENGTH \<equiv> 256"
abbreviation (input) MAX_RESPONSE_LENGTH :: nat where "MAX_RESPONSE_LENGTH \<equiv> 65536"
abbreviation (input) MAX_RESPONSE_SEGMENTS :: nat where "MAX_RESPONSE_SEGMENTS \<equiv> 256"

definition chain_segment :: "command_apdu \<Rightarrow> bytes \<Rightarrow> bool \<Rightarrow> command_apdu" where
  "chain_segment c data is_last =
     \<lparr>apdu_cla = (if is_last then apdu_cla c else apdu_cla c OR COMMAND_CHAINING_CLA),
      apdu_ins = apdu_ins c, apdu_p1 = apdu_p1 c, apdu_p2 = apdu_p2 c,
      apdu_data = data,
      apdu_le = (if is_last then apdu_le c else None),
      apdu_extended = False\<rparr>"

fun transmit_segments :: "'c send \<Rightarrow> command_apdu \<Rightarrow> bytes list \<Rightarrow> ('c, response_apdu) comp" where
  "transmit_segments send c [] = sfail (Generic CKR_DEVICE_ERROR)"
| "transmit_segments send c (data # rest) =
     sbind (transmit_apdu send (chain_segment c data (rest = []))) (\<lambda>response.
       if rest = [] then sok response
       else if resp_status response \<noteq> 0x9000 \<or> resp_data response \<noteq> []
       then sfail (Generic CKR_DEVICE_ERROR)
       else transmit_segments send c rest)"

definition transmit_command ::
  "'c send \<Rightarrow> command_apdu \<Rightarrow> apdu_capabilities \<Rightarrow> ('c, response_apdu) comp" where
  "transmit_command send c capabilities =
     (let long_le = is_some_and (apdu_le c) (\<lambda>le. MAX_SHORT_RESPONSE_LENGTH < le);
          needs_extended = MAX_SHORT_DATA_LENGTH < length (apdu_data c) \<or> long_le
      in if \<not> needs_extended \<or> caps_extended capabilities
         then transmit_apdu send
                (c\<lparr>apdu_extended := needs_extended \<and> caps_extended capabilities\<rparr>)
         else if long_le then sfail (Generic CKR_DATA_LEN_RANGE)
         else if \<not> caps_command_chaining capabilities
                 \<or> apdu_data c = []
                 \<or> apdu_cla c AND COMMAND_CHAINING_CLA \<noteq> 0
         then sfail (Generic CKR_ARGUMENTS_BAD)
         else transmit_segments send c (chunks MAX_SHORT_DATA_LENGTH (apdu_data c)))"

section \<open>Collecting responses\<close>

definition append_response_data :: "bytes \<Rightarrow> bytes \<Rightarrow> bytes result" where
  "append_response_data output data =
     (if length output + length data \<le> MAX_RESPONSE_LENGTH then Inr (output @ data)
      else Inl (Generic CKR_DEVICE_ERROR))"

definition get_response :: "byte \<Rightarrow> nat \<Rightarrow> command_apdu" where
  "get_response instruction available =
     \<lparr>apdu_cla = 0, apdu_ins = instruction, apdu_p1 = 0, apdu_p2 = 0, apdu_data = [],
      apdu_le = Some (if available = 0 then MAX_SHORT_RESPONSE_LENGTH else available),
      apdu_extended = False\<rparr>"

text \<open>The loop: \<open>segments\<close> counts the \<open>61xx\<close> responses seen and bounds the iterations.\<close>

function collect_loop ::
  "'c send \<Rightarrow> byte \<Rightarrow> bytes \<Rightarrow> nat \<Rightarrow> response_apdu \<Rightarrow> ('c, response_apdu) comp" where
  "collect_loop send instruction data segments response =
     (if resp_status response AND 0xff00 = 0x6100 then
        if MAX_RESPONSE_SEGMENTS < segments + 1 \<or> (1 < segments + 1 \<and> resp_data response = [])
        then sfail (Generic CKR_DEVICE_ERROR)
        else sbind (slift (append_response_data data (resp_data response))) (\<lambda>data'.
             sbind (transmit_apdu send
                      (get_response instruction (unat (resp_status response AND 0xff)))) (\<lambda>response'.
             collect_loop send instruction data' (segments + 1) response'))
      else sbind (slift (append_response_data data (resp_data response))) (\<lambda>data'.
           sok \<lparr>resp_data = data', resp_status = resp_status response\<rparr>))"
  by pat_completeness auto
termination by (relation "measure (\<lambda>(_, _, _, segments, _). 257 - segments)") auto

declare collect_loop.simps [simp del]

definition collect_response_chain_with_instruction ::
  "'c send \<Rightarrow> response_apdu \<Rightarrow> byte \<Rightarrow> ('c, response_apdu) comp" where
  "collect_response_chain_with_instruction send response instruction =
     collect_loop send instruction [] 0 response"

definition collect_response_chain :: "'c send \<Rightarrow> response_apdu \<Rightarrow> ('c, response_apdu) comp" where
  "collect_response_chain send response =
     collect_response_chain_with_instruction send response GET_RESPONSE"

section \<open>Entry points\<close>

definition transmit_with_capabilities ::
  "'c send \<Rightarrow> command_apdu \<Rightarrow> apdu_capabilities \<Rightarrow> ('c, response_apdu) comp" where
  "transmit_with_capabilities send c capabilities =
     sbind (transmit_command send c capabilities) (\<lambda>response.
     sbind (if resp_status response AND 0xff00 = 0x6c00
            then transmit_command send
                   (c\<lparr>apdu_le := Some (let length = unat (resp_status response) mod 256
                                        in if length = 0 then MAX_SHORT_RESPONSE_LENGTH else length)\<rparr>)
                   capabilities
            else sok response) (\<lambda>response.
     collect_response_chain send response))"

definition iso_transmit ::
  "'c send \<Rightarrow> apdu_capabilities \<Rightarrow> command_apdu \<Rightarrow> ('c, response_apdu) comp" where
  "iso_transmit send capabilities c = transmit_with_capabilities send c capabilities"

definition transmit_short :: "'c send \<Rightarrow> command_apdu \<Rightarrow> ('c, response_apdu) comp" where
  "transmit_short send c = transmit_with_capabilities send c SHORT_ONLY"

definition transmit_oath :: "'c send \<Rightarrow> command_apdu \<Rightarrow> ('c, response_apdu) comp" where
  "transmit_oath send c =
     sbind (transmit_apdu send c) (\<lambda>response.
     collect_response_chain_with_instruction send response 0xa5)"

section \<open>Capabilities in the ATR\<close>

text \<open>The interface characters are skipped in groups announced by the high nibble of \<open>T0\<close> and of
  each \<open>TDi\<close>; a byte that is missing ends the search.\<close>

definition interface_bytes :: "byte \<Rightarrow> nat" where
  "interface_bytes flags =
     (if flags AND 0x01 \<noteq> 0 then 1 else 0) + (if flags AND 0x02 \<noteq> 0 then 1 else 0)
     + (if flags AND 0x04 \<noteq> 0 then 1 else 0)"

function atr_skip :: "bytes \<Rightarrow> byte \<Rightarrow> nat \<Rightarrow> nat option" where
  "atr_skip atr flags offset =
     (let offset' = offset + interface_bytes flags in
      if flags AND 0x08 = 0 then Some offset'
      else if offset' < length atr then atr_skip atr (drop_bit 4 (atr ! offset')) (offset' + 1)
      else None)"
  by pat_completeness auto
termination by (relation "measure (\<lambda>(atr, _, offset). length atr - offset)") auto

declare atr_skip.simps [simp del]

definition atr_historical_bytes :: "bytes \<Rightarrow> bytes option" where
  "atr_historical_bytes atr =
     (if length atr \<le> 1 then None
      else let t0 = atr ! 1 in
        case atr_skip atr (drop_bit 4 t0) 2 of
          None \<Rightarrow> None
        | Some offset \<Rightarrow>
            let end = offset + unat (t0 AND 0x0f) in
            if end \<le> length atr then Some (take (end - offset) (drop offset atr)) else None)"

function capabilities_object :: "bytes \<Rightarrow> nat \<Rightarrow> apdu_capabilities option" where
  "capabilities_object historical offset =
     (if offset < length historical then
        let descriptor = historical ! offset;
            tag = drop_bit 4 descriptor;
            len = unat (descriptor AND 0x0f);
            end = offset + (1 + len)
        in if length historical < end then None
           else if tag = 7 \<and> len = 3
           then let flags = historical ! (offset + 3) in
                Some \<lparr>caps_command_chaining = (flags AND 0x80 \<noteq> 0),
                      caps_extended = (flags AND 0x40 \<noteq> 0)\<rparr>
           else capabilities_object historical end
      else None)"
  by pat_completeness auto
termination by (relation "measure (\<lambda>(historical, offset). length historical - offset)") auto

declare capabilities_object.simps [simp del]

definition atr_apdu_capabilities :: "bytes \<Rightarrow> apdu_capabilities option" where
  "atr_apdu_capabilities atr =
     (case atr_historical_bytes atr of
        None \<Rightarrow> None
      | Some historical \<Rightarrow> capabilities_object historical 1)"

section \<open>Command chaining\<close>

text \<open>
  What ISO 7816-4 asks of a card that accepts chained commands: a command with the chaining bit is
  stored and acknowledged; one without it is served together with the data stored so far.
\<close>

definition reassembles ::
  "'c send \<Rightarrow> ('c \<Rightarrow> bytes) \<Rightarrow> (command_apdu \<Rightarrow> response_apdu) \<Rightarrow> bool" where
  "reassembles send pending serve =
     (\<forall>s bs c. command_decode bs = Inr c \<longrightarrow>
        (if apdu_cla c AND COMMAND_CHAINING_CLA \<noteq> 0
         then fst (send bs s) = Inr (response_encode \<lparr>resp_data = [], resp_status = 0x9000\<rparr>)
              \<and> pending (snd (send bs s)) = pending s @ apdu_data c
         else fst (send bs s) = Inr (response_encode (serve
                (c\<lparr>apdu_data := pending s @ apdu_data c, apdu_extended := False\<rparr>)))
              \<and> pending (snd (send bs s)) = []))"

lemma transmit_apdu_ok:
  assumes "command_encode c = Inr bs" "fst (send bs s) = Inr (response_encode r)"
  shows "transmit_apdu send c s = (Inr r, snd (send bs s))"
  using assms
  by (cases "send bs s") (simp add: transmit_apdu_def sbind_def slift_def response_parse_encode)

lemma encode_short_form:
  assumes "length (apdu_data c) \<le> 255" "is_some_and (apdu_le c) (\<lambda>le. le = 0 \<or> 256 < le) = False"
    and "apdu_extended c = False"
  obtains bs where "command_encode c = Inr bs" "command_decode bs = Inr c"
proof -
  have u: "uses_extended_length c (length (apdu_data c)) = Inr False"
    using assms by (cases "apdu_le c") (auto simp: uses_extended_length_def)
  then have "apdu_normal c = c" using assms(3) by (simp add: apdu_normal_def)
  with u show ?thesis
    using command_decode_encode [of c] by (intro that) (auto simp: command_encode_wire)
qed

lemma chain_bit_set: "(x OR 0x10) AND 0x10 = (0x10 :: byte)"
  by (rule bit_word_eqI) (auto simp: bit_simps)

lemma chain_segment_last:
  "chain_segment c d True = c\<lparr>apdu_data := d, apdu_extended := False\<rparr>"
  by (cases c) (simp add: chain_segment_def)

lemma transmit_segments_reassembled:
  assumes card: "reassembles send pending serve"
    and cla: "apdu_cla c AND COMMAND_CHAINING_CLA = 0"
    and le: "is_some_and (apdu_le c) (\<lambda>le. le = 0 \<or> 256 < le) = False"
  shows "cs \<noteq> [] \<Longrightarrow> \<forall>d \<in> set cs. length d \<le> 255 \<Longrightarrow>
    \<exists>s'. transmit_segments send c cs s =
           (Inr (serve (c\<lparr>apdu_data := pending s @ concat cs, apdu_extended := False\<rparr>)), s')
         \<and> pending s' = []"
proof (induction cs arbitrary: s)
  case (Cons d cs)
  let ?seg = "chain_segment c d (cs = [])"
  obtain bs where bs: "command_encode ?seg = Inr bs" "command_decode bs = Inr ?seg"
    by (rule encode_short_form [of ?seg]) (use Cons le in \<open>auto simp: chain_segment_def\<close>)
  note ans = card [unfolded reassembles_def, rule_format, OF bs(2), of s]
  show ?case
  proof (cases "cs = []")
    case True
    then show ?thesis
      using ans cla transmit_apdu_ok [OF bs(1), of send s]
      by (simp add: chain_segment_last sbind_def sok_def)
  next
    case False
    then have ack: "fst (send bs s) = Inr (response_encode \<lparr>resp_data = [], resp_status = 0x9000\<rparr>)"
      and p: "pending (snd (send bs s)) = pending s @ d"
      using ans by (auto simp: chain_segment_def chain_bit_set)
    show ?thesis
      using transmit_apdu_ok [of ?seg bs send s, OF bs(1) ack] Cons.IH [of "snd (send bs s)"] Cons.prems False p by (simp add: sbind_def)
  qed
qed simp

lemma transmit_command_served:
  assumes card: "reassembles send pending serve" and start: "pending s = []"
    and cla: "apdu_cla c AND COMMAND_CHAINING_CLA = 0"
    and le: "is_some_and (apdu_le c) (\<lambda>le. le = 0 \<or> 256 < le) = False"
    and caps: "caps_command_chaining caps"
    and len: "caps_extended caps \<Longrightarrow> length (apdu_data c) \<le> 65535"
  shows "\<exists>s'. transmit_command send c caps s = (Inr (serve (c\<lparr>apdu_extended := False\<rparr>)), s')
           \<and> pending s' = []"
proof -
  have long_le: "is_some_and (apdu_le c) (\<lambda>le. 256 < le) = False"
    using le by (cases "apdu_le c") auto
  show ?thesis
  proof (cases "length (apdu_data c) \<le> 255 \<or> caps_extended caps")
    case True
    let ?c = "c\<lparr>apdu_extended := 255 < length (apdu_data c)\<rparr>"
    have u: "uses_extended_length ?c (length (apdu_data c)) = Inr (255 < length (apdu_data c))"
      using True len le long_le by (cases "apdu_le c") (auto simp: uses_extended_length_def)
    then have n: "apdu_normal ?c = ?c" by (cases "apdu_data c = []") (auto simp: apdu_normal_def)
    obtain bs where bs: "command_encode ?c = Inr bs" "command_decode bs = Inr ?c"
      using u n command_decode_encode [of ?c] by (auto simp: command_encode_wire)
    have "transmit_command send c caps = transmit_apdu send ?c"
      using True long_le by (auto simp: transmit_command_def)
    then show ?thesis
      using card [unfolded reassembles_def, rule_format, OF bs(2), of s] cla start
        transmit_apdu_ok [OF bs(1), of send s] by simp
  next
    case False
    then have "transmit_command send c caps = transmit_segments send c (chunks 255 (apdu_data c))"
      using long_le caps cla by (auto simp: transmit_command_def)
    moreover have "chunks 255 (apdu_data c) \<noteq> []"
      using False by (subst chunks_eq_Nil_iff) auto
    ultimately show ?thesis
      using transmit_segments_reassembled [OF card cla le, of "chunks 255 (apdu_data c)" s]
        chunks_bounds [of _ 255 "apdu_data c"] start by simp
  qed
qed

section \<open>Response chaining\<close>

text \<open>A connector that also counts the exchanges it performs.\<close>

definition counted :: "'c send \<Rightarrow> ('c \<times> nat) send" where
  "counted send bs = (\<lambda>(s, n). case send bs s of (r, s') \<Rightarrow> (r, (s', n + 1)))"

lemma swp_transmit_counted:
  assumes "\<And>r s'. Q r (s', n + 1)" "\<And>e s'. E e (s', n)" "\<And>e s'. E e (s', n + 1)"
  shows "swp (transmit_apdu (counted send) c) Q E (s, n)"
  using assms
  by (cases "command_encode c")
    (auto simp: transmit_apdu_def sfail_def swp_def sbind_def slift_def counted_def
      split: sum.splits prod.splits)

lemma append_response_data_ok:
  "append_response_data output data = Inr d \<longleftrightarrow> length (output @ data) \<le> 65536 \<and> d = output @ data"
  by (auto simp: append_response_data_def)

lemma collect_loop_bounds:
  assumes "segments \<le> 256" "length data \<le> 65536"
  shows "swp (collect_loop (counted send) instruction data segments response)
     (\<lambda>r (s', n'). n' \<le> n + (256 - segments) \<and> length (resp_data r) \<le> 65536
        \<and> resp_status r AND 0xff00 \<noteq> 0x6100)
     (\<lambda>e (s', n'). n' \<le> n + (256 - segments)) (s, n)"
  using assms
proof (induction "256 - segments" arbitrary: segments data response s n rule: less_induct)
  case less
  show ?case
  proof (cases "resp_status response AND 0xff00 = 0x6100 \<and>
      \<not> (256 < segments + 1 \<or> (1 < segments + 1 \<and> resp_data response = []))
      \<and> length (data @ resp_data response) \<le> 65536")
    case True
    let ?data = "data @ resp_data response"
    have IH: "swp (collect_loop (counted send) instruction ?data (segments + 1) r)
       (\<lambda>r (s', n'). n' \<le> n + (256 - segments) \<and> length (resp_data r) \<le> 65536
          \<and> resp_status r AND 0xff00 \<noteq> 0x6100)
       (\<lambda>e (s', n'). n' \<le> n + (256 - segments)) (s', n + 1)" for r s'
      by (rule swp_mono [OF less.hyps [of "segments + 1" ?data r "n + 1" s']]) (use True in auto)
    have step: "collect_loop (counted send) instruction data segments response =
        sbind (transmit_apdu (counted send)
                 (get_response instruction (unat (resp_status response AND 0xff))))
          (collect_loop (counted send) instruction ?data (segments + 1))"
      using True by (subst collect_loop.simps) (auto simp: append_response_data_def)
    show ?thesis unfolding step swp_sbind
      by (rule swp_transmit_counted, rule IH) (use True in auto)
  next
    case False
    then show ?thesis
      by (subst collect_loop.simps) (auto simp: swp_simps append_response_data_def)
  qed
qed

text \<open>
  The successive answers of a card: after the response \<open>prev\<close> it returns the next one to
  \<open>GET RESPONSE\<close> with the length that \<open>prev\<close> announced.
\<close>

fun answers :: "'c send \<Rightarrow> byte \<Rightarrow> response_apdu \<Rightarrow> 'c \<Rightarrow> response_apdu list \<Rightarrow> 'c \<Rightarrow> bool" where
  "answers send ins prev s [] s' = (s' = s)"
| "answers send ins prev s (r # rs) s' =
     (case send [0, ins, 0, 0, ucast (resp_status prev)] s of
        (Inr bs, t) \<Rightarrow> bs = response_encode r \<and> answers send ins r t rs s'
      | (Inl _, _) \<Rightarrow> False)"

definition more_data :: "response_apdu \<Rightarrow> bool" where
  "more_data r \<longleftrightarrow> resp_status r AND 0xff00 = 0x6100"

lemma unat_low_byte: "unat (w AND 0xff :: u16) = unat (ucast w :: byte)"
proof -
  have "(0xff :: u16) = mask 8" by (simp add: mask_eq_exp_minus_1)
  then have "w AND 0xff = take_bit 8 w" by (simp only: take_bit_eq_mask)
  then have "unat (w AND 0xff) = take_bit 8 (unat w)" by (simp add: unsigned_take_bit_eq)
  also have "\<dots> = unat (ucast w :: byte)" by (simp add: unsigned_ucast_eq)
  finally show ?thesis .
qed

lemma encode_get_response:
  "command_encode (get_response ins (unat (w AND 0xff :: u16))) = Inr [0, ins, 0, 0, ucast w]"
  using encode_short_le [of 0 ins 0 0 "ucast w"]
  by (simp add: get_response_def unat_low_byte unat_eq_0)

lemma collect_loop_answers:
  assumes "answers send ins prev s rs s'"
    and "\<forall>r \<in> set (butlast (prev # rs)). more_data r" "\<not> more_data (last (prev # rs))"
    and "\<forall>r \<in> set (butlast rs). resp_data r \<noteq> []" "segments = 0 \<or> rs = [] \<or> resp_data prev \<noteq> []"
    and "segments + length rs \<le> 256"
    and "length data + (\<Sum>r \<leftarrow> prev # rs. length (resp_data r)) \<le> 65536"
  shows "collect_loop send ins data segments prev s =
    (Inr \<lparr>resp_data = data @ concat (map resp_data (prev # rs)),
          resp_status = resp_status (last (prev # rs))\<rparr>, s')"
  using assms
proof (induction rs arbitrary: prev s data segments)
  case Nil
  then show ?case
    by (subst collect_loop.simps) (simp add: more_data_def append_response_data_def sok_def)
next
  case (Cons r rs)
  obtain t where t: "send [0, ins, 0, 0, ucast (resp_status prev)] s = (Inr (response_encode r), t)"
    and rest: "answers send ins r t rs s'"
    using Cons.prems(1)
    by (cases "send [0, ins, 0, 0, ucast (resp_status prev)] s" rule: prod.exhaust;
        cases "fst (send [0, ins, 0, 0, ucast (resp_status prev)] s)" rule: sum.exhaust) simp_all
  have tr: "transmit_apdu send (get_response ins (unat (resp_status prev AND 0xff))) s = (Inr r, t)"
    using transmit_apdu_ok [OF encode_get_response [of ins "resp_status prev"], of send s r]
    by (simp only: t fst_conv snd_conv)
  have "collect_loop send ins (data @ resp_data prev) (segments + 1) r t =
    (Inr \<lparr>resp_data = (data @ resp_data prev) @ concat (map resp_data (r # rs)),
          resp_status = resp_status (last (r # rs))\<rparr>, s')"
  proof (rule Cons.IH [OF rest])
    show "\<forall>r \<in> set (butlast (r # rs)). more_data r" "\<not> more_data (last (r # rs))"
      using Cons.prems(2,3) by auto
    show "\<forall>r \<in> set (butlast rs). resp_data r \<noteq> []" "segments + 1 = 0 \<or> rs = [] \<or> resp_data r \<noteq> []"
      using Cons.prems(4) by (auto split: if_splits)
  qed (use Cons.prems(6,7) in simp_all)
  moreover have "collect_loop send ins data segments prev =
      sbind (transmit_apdu send (get_response ins (unat (resp_status prev AND 0xff))))
        (collect_loop send ins (data @ resp_data prev) (segments + 1))"
    using Cons.prems(2,5,6,7)
    by (subst collect_loop.simps) (auto simp: append_response_data_def more_data_def)
  ultimately show ?case using tr by (simp add: sbind_def)
qed

section \<open>Compact-TLV objects of the historical bytes\<close>

definition tlv_descriptor :: "nat \<Rightarrow> nat \<Rightarrow> byte" where
  "tlv_descriptor tag len = of_nat (tag * 16 + len)"

definition compact_tlv :: "nat \<times> bytes \<Rightarrow> bytes" where
  "compact_tlv = (\<lambda>(tag, v). tlv_descriptor tag (length v) # v)"

definition card_capabilities :: "nat \<times> bytes \<Rightarrow> bool" where
  "card_capabilities = (\<lambda>(tag, v). tag = 7 \<and> length v = 3)"

lemma descriptor_parts:
  assumes "tag < 16" "len < 16"
  shows "unat (tlv_descriptor tag len AND 0x0f) = len"
    and "drop_bit 4 (tlv_descriptor tag len) = of_nat tag"
proof -
  have v: "unat (tlv_descriptor tag len) = tag * 16 + len"
    using assms unfolding tlv_descriptor_def unat_byte_of_nat by simp
  have "(0x0f :: byte) = mask 4" by (simp add: mask_eq_exp_minus_1)
  then have "tlv_descriptor tag len AND 0x0f = take_bit 4 (tlv_descriptor tag len)"
    by (simp only: take_bit_eq_mask)
  then have "unat (tlv_descriptor tag len AND 0x0f) = take_bit 4 (tag * 16 + len)"
    by (simp only: unsigned_take_bit_eq v)
  then show "unat (tlv_descriptor tag len AND 0x0f) = len"
    using assms by (simp add: take_bit_eq_mod)
  have "unat (drop_bit 4 (tlv_descriptor tag len)) = (tag * 16 + len) div 16"
    using assms
    by (simp only: unsigned_drop_bit_eq v) (simp add: drop_bit_eq_div take_bit_eq_mod)
  then show "drop_bit 4 (tlv_descriptor tag len) = of_nat tag"
    using assms by (simp add: word_unat_eq_iff)
qed

lemma capabilities_object_tlv:
  assumes "\<forall>(tag, v) \<in> set objects. tag < 16 \<and> length v < 16"
  shows "capabilities_object (front @ concat (map compact_tlv objects)) (length front) =
    (case find card_capabilities objects of
       None \<Rightarrow> None
     | Some (_, v) \<Rightarrow> Some \<lparr>caps_command_chaining = (v ! 2 AND 0x80 \<noteq> 0),
                             caps_extended = (v ! 2 AND 0x40 \<noteq> 0)\<rparr>)"
  using assms
proof (induction objects arbitrary: front)
  case Nil
  then show ?case by (subst capabilities_object.simps) simp
next
  case (Cons obj objects)
  obtain tag v where obj: "obj = (tag, v)" by (cases obj)
  have r: "tag < 16" "length v < 16" using Cons.prems obj by auto
  have tag7: "(of_nat tag :: byte) = 7 \<longleftrightarrow> tag = 7"
    using r by (simp add: word_unat_eq_iff)
  let ?d = "tlv_descriptor tag (length v)"
  let ?h = "front @ (?d # v) @ concat (map compact_tlv objects)"
  have d: "?h ! length front = ?d" by (simp add: nth_append)
  show ?case
  proof (cases "card_capabilities obj")
    case True
    then have "v \<noteq> []" "?h ! (length front + 3) = v ! 2"
      by (auto simp: card_capabilities_def obj nth_append numeral_3_eq_3 numeral_2_eq_2)
    with True show ?thesis
      by (subst capabilities_object.simps)
        (simp add: compact_tlv_def obj card_capabilities_def d [simplified]
          descriptor_parts [of 7 3] Let_def nth_append)
  next
    case False
    have "capabilities_object ?h (length front) = capabilities_object ?h (length front + (1 + length v))"
      using False
      by (subst capabilities_object.simps)
        (auto simp: d descriptor_parts [OF r] tag7 card_capabilities_def obj Let_def)
    also have "\<dots> = capabilities_object ((front @ ?d # v) @ concat (map compact_tlv objects))
        (length (front @ ?d # v))" by simp
    also have "\<dots> = (case find card_capabilities objects of
       None \<Rightarrow> None
     | Some (_, v) \<Rightarrow> Some \<lparr>caps_command_chaining = (v ! 2 AND 0x80 \<noteq> 0),
                             caps_extended = (v ! 2 AND 0x40 \<noteq> 0)\<rparr>)"
      by (rule Cons.IH) (use Cons.prems in auto)
    finally show ?thesis using False by (simp add: obj compact_tlv_def)
  qed
qed

section \<open>Properties\<close>

text \<open>
  C3. Splitting a command into chained segments is invisible to the caller: against a card that
  reassembles chains, a command of any length sent in 255-byte segments (or in extended form) is
  served once, on its whole data, its response is returned, and no partial chain is left behind.
\<close>

theorem command_chaining_transparent:
  assumes "reassembles send pending serve" "pending s = []"
    and "apdu_cla c AND COMMAND_CHAINING_CLA = 0"
    and "is_some_and (apdu_le c) (\<lambda>le. le = 0 \<or> 256 < le) = False"
    and "caps_command_chaining caps"
    and "caps_extended caps \<Longrightarrow> length (apdu_data c) \<le> 65535"
  shows "\<exists>s'. transmit_command send c caps s = (Inr (serve (c\<lparr>apdu_extended := False\<rparr>)), s')
           \<and> pending s' = []"
  using assms by (rule transmit_command_served)

definition chaining_card :: "(command_apdu \<Rightarrow> response_apdu) \<Rightarrow> bytes send" where
  "chaining_card serve bs = (\<lambda>stored.
     case command_decode bs of
       Inl e \<Rightarrow> (Inl e, stored)
     | Inr c \<Rightarrow>
         if apdu_cla c AND COMMAND_CHAINING_CLA \<noteq> 0
         then (Inr (response_encode \<lparr>resp_data = [], resp_status = 0x9000\<rparr>), stored @ apdu_data c)
         else (Inr (response_encode (serve
                 (c\<lparr>apdu_data := stored @ apdu_data c, apdu_extended := False\<rparr>))), []))"

lemma chaining_card_reassembles: "reassembles (chaining_card serve) (\<lambda>stored. stored) serve"
  by (simp add: reassembles_def chaining_card_def)

theorem command_chaining_transparent_witness:
  "\<exists>s'. transmit_command
          (chaining_card (\<lambda>c. \<lparr>resp_data = take 2 (apdu_data c), resp_status = 0x9000\<rparr>))
          \<lparr>apdu_cla = 0, apdu_ins = 0xdb, apdu_p1 = 0x3f, apdu_p2 = 0xff,
           apdu_data = replicate 600 7, apdu_le = None, apdu_extended = False\<rparr> SHORT_ONLY []
        = (Inr \<lparr>resp_data = [7, 7], resp_status = 0x9000\<rparr>, s') \<and> s' = []"
  using command_chaining_transparent [OF chaining_card_reassembles
      [of "\<lambda>c. \<lparr>resp_data = take 2 (apdu_data c), resp_status = 0x9000\<rparr>"], of "[]"
      "\<lparr>apdu_cla = 0, apdu_ins = 0xdb, apdu_p1 = 0x3f, apdu_p2 = 0xff,
        apdu_data = replicate 600 7, apdu_le = None, apdu_extended = False\<rparr>" SHORT_ONLY]
  by (simp add: SHORT_ONLY_def numeral_2_eq_2)

text \<open>
  C4. A response that a card returns in pieces is returned whole: the data of all pieces in order
  and the status of the last one, when the pieces are within the limits of the loop.
\<close>

theorem response_chain_reassembled:
  assumes "answers send GET_RESPONSE first s rs s'"
    and "\<forall>r \<in> set (butlast (first # rs)). more_data r" "\<not> more_data (last (first # rs))"
    and "\<forall>r \<in> set (butlast rs). resp_data r \<noteq> []" "length rs \<le> 256"
    and "(\<Sum>r \<leftarrow> first # rs. length (resp_data r)) \<le> 65536"
  shows "collect_response_chain send first s =
    (Inr \<lparr>resp_data = concat (map resp_data (first # rs)),
          resp_status = resp_status (last (first # rs))\<rparr>, s')"
  using collect_loop_answers [OF assms(1-4), of 0 "[]"] assms(5,6)
  by (simp add: collect_response_chain_def collect_response_chain_with_instruction_def)

definition scripted :: "response_apdu list send" where
  "scripted bs = (\<lambda>rs. case rs of [] \<Rightarrow> (Inl (Generic CKR_DEVICE_ERROR), [])
                              | r # rs' \<Rightarrow> (Inr (response_encode r), rs'))"

theorem response_chain_reassembled_witness:
  "collect_response_chain scripted \<lparr>resp_data = [1, 2], resp_status = 0x6103\<rparr>
     [\<lparr>resp_data = [3, 4, 5], resp_status = 0x6101\<rparr>, \<lparr>resp_data = [6], resp_status = 0x9000\<rparr>]
   = (Inr \<lparr>resp_data = [1, 2, 3, 4, 5, 6], resp_status = 0x9000\<rparr>, [])"
  using response_chain_reassembled [of scripted "\<lparr>resp_data = [1, 2], resp_status = 0x6103\<rparr>"
      "[\<lparr>resp_data = [3, 4, 5], resp_status = 0x6101\<rparr>, \<lparr>resp_data = [6], resp_status = 0x9000\<rparr>]"
      "[\<lparr>resp_data = [3, 4, 5], resp_status = 0x6101\<rparr>, \<lparr>resp_data = [6], resp_status = 0x9000\<rparr>]" "[]"]
  by (simp add: scripted_def more_data_def)

text \<open>
  C5. Whatever the connector answers, collecting a response ends after at most 256 further
  exchanges, and a collected response has at most 65536 bytes and does not announce more data.
\<close>

theorem response_chain_bounded:
  "case collect_response_chain (counted send) response (s, n) of
     (outcome, (s', n')) \<Rightarrow>
       n' \<le> n + 256 \<and>
       (case outcome of Inl _ \<Rightarrow> True
        | Inr r \<Rightarrow> length (resp_data r) \<le> 65536 \<and> \<not> more_data r)"
  using collect_loop_bounds [of 0 "[]" send GET_RESPONSE response n s]
  by (simp add: collect_response_chain_def collect_response_chain_with_instruction_def swp_def
      more_data_def split: prod.splits sum.splits)

text \<open>
  C6. On well-formed historical bytes (a category byte followed by compact-TLV objects) the
  capabilities reported are the bits of the third byte of the first three-byte object with tag 7,
  and nothing is reported when there is no such object.
\<close>

theorem atr_capabilities_first_object:
  assumes "atr_historical_bytes atr = Some (category # concat (map compact_tlv objects))"
    and "\<forall>(tag, v) \<in> set objects. tag < 16 \<and> length v < 16"
  shows "atr_apdu_capabilities atr =
    (case find card_capabilities objects of
       None \<Rightarrow> None
     | Some (_, v) \<Rightarrow> Some \<lparr>caps_command_chaining = (v ! 2 AND 0x80 \<noteq> 0),
                             caps_extended = (v ! 2 AND 0x40 \<noteq> 0)\<rparr>)"
  using assms(1) capabilities_object_tlv [OF assms(2), of "[category]"]
  by (simp add: atr_apdu_capabilities_def)

theorem atr_capabilities_first_object_witness:
  "atr_apdu_capabilities [0x3b, 0x87, 0x01, 0x80, 0x31, 0x81, 0x73, 0xc0, 0x01, 0xc0] =
   Some \<lparr>caps_command_chaining = True, caps_extended = True\<rparr>"
  using atr_capabilities_first_object
    [of "[0x3b, 0x87, 0x01, 0x80, 0x31, 0x81, 0x73, 0xc0, 0x01, 0xc0]" "0x80"
      "[(3, [0x81]), (7, [0xc0, 0x01, 0xc0])]"]
  by (simp add: atr_historical_bytes_def atr_skip.simps interface_bytes_def compact_tlv_def
      tlv_descriptor_def card_capabilities_def)
end
