(* ===== verification/Secure_Channel_Crypto.thy ===== *)
theory Secure_Channel_Crypto
  imports Prelude
begin

text \<open>
  The cryptographic primitives of the secure channels (src/src/secure_channel_crypto.rs).  The
  primitives themselves come from the crate \<open>software_key_core\<close> and are the fields of a record
  that every definition takes as an argument; the functions here are the provider's wrappers,
  which translate the crate's errors.  What the channels rely on is collected in
  \<open>symmetric_laws\<close>.
\<close>

datatype symmetric_error = InvalidKeyLength | InvalidIvLength | InvalidDataLength | AuthenticationFailed

datatype secure_channel_error =
    ChannelInvalidDataLength
  | KeyDerivationFailed
  | InvalidPadding
  | OutputTooLong
  | Symmetric symmetric_error

record primitives =
  prim_cmac :: "bytes \<Rightarrow> bytes \<Rightarrow> symmetric_error + bytes"
  prim_block :: "bytes \<Rightarrow> bytes \<Rightarrow> symmetric_error + bytes"
  prim_cbc_encrypt :: "bytes \<Rightarrow> bytes \<Rightarrow> bytes \<Rightarrow> symmetric_error + bytes"
  prim_cbc_decrypt :: "bytes \<Rightarrow> bytes \<Rightarrow> bytes \<Rightarrow> symmetric_error + bytes"
  prim_ecb_encrypt :: "bytes \<Rightarrow> bytes \<Rightarrow> symmetric_error + bytes"
  prim_ecb_decrypt :: "bytes \<Rightarrow> bytes \<Rightarrow> symmetric_error + bytes"
  prim_pad :: "bytes \<Rightarrow> bytes"
  prim_unpad :: "bytes \<Rightarrow> secure_channel_error + bytes"
  prim_kdf :: "bytes \<Rightarrow> byte \<Rightarrow> bytes \<Rightarrow> nat \<Rightarrow> secure_channel_error + bytes"

datatype direction = Encrypt | Decrypt

fun map_err :: "('e \<Rightarrow> error) \<Rightarrow> 'e + 'a \<Rightarrow> 'a result" where
  "map_err f (Inl e) = Inl (f e)"
| "map_err f (Inr a) = Inr a"

lemma map_err_ok [simp]: "map_err f r = Inr a \<longleftrightarrow> r = Inr a"
  by (cases r) auto

fun map_symmetric_error :: "symmetric_error \<Rightarrow> error" where
  "map_symmetric_error InvalidKeyLength = Generic CKR_ARGUMENTS_BAD"
| "map_symmetric_error InvalidIvLength = Generic CKR_ARGUMENTS_BAD"
| "map_symmetric_error InvalidDataLength = Generic CKR_DATA_LEN_RANGE"
| "map_symmetric_error AuthenticationFailed = Generic CKR_ENCRYPTED_DATA_INVALID"

fun map_secure_channel_error :: "secure_channel_error \<Rightarrow> error" where
  "map_secure_channel_error ChannelInvalidDataLength = Generic CKR_ARGUMENTS_BAD"
| "map_secure_channel_error KeyDerivationFailed = Generic CKR_ARGUMENTS_BAD"
| "map_secure_channel_error InvalidPadding = Generic CKR_ENCRYPTED_DATA_INVALID"
| "map_secure_channel_error OutputTooLong = Generic CKR_DATA_LEN_RANGE"
| "map_secure_channel_error (Symmetric e) = map_symmetric_error e"

definition aes_cmac :: "primitives \<Rightarrow> bytes \<Rightarrow> bytes \<Rightarrow> bytes result" where
  "aes_cmac P key data = map_err map_symmetric_error (prim_cmac P key data)"

definition aes_encrypt_block :: "primitives \<Rightarrow> bytes \<Rightarrow> bytes \<Rightarrow> bytes result" where
  "aes_encrypt_block P key block = map_err map_symmetric_error (prim_block P key block)"

definition aes_ecb :: "primitives \<Rightarrow> bytes \<Rightarrow> bytes \<Rightarrow> direction \<Rightarrow> bytes result" where
  "aes_ecb P key data direction = map_err map_symmetric_error
     (case direction of
        Encrypt \<Rightarrow> prim_ecb_encrypt P key data
      | Decrypt \<Rightarrow> prim_ecb_decrypt P key data)"

definition aes_cbc :: "primitives \<Rightarrow> bytes \<Rightarrow> bytes \<Rightarrow> bytes \<Rightarrow> direction \<Rightarrow> bytes result" where
  "aes_cbc P key iv data direction = map_err map_symmetric_error
     (case direction of
        Encrypt \<Rightarrow> prim_cbc_encrypt P key iv data
      | Decrypt \<Rightarrow> prim_cbc_decrypt P key iv data)"

definition pad_iso7816 :: "primitives \<Rightarrow> bytes \<Rightarrow> bytes" where
  "pad_iso7816 P data = prim_pad P data"

definition unpad_iso7816 :: "primitives \<Rightarrow> bytes \<Rightarrow> bytes result" where
  "unpad_iso7816 P data = map_err map_secure_channel_error (prim_unpad P data)"

definition scp03_kdf :: "primitives \<Rightarrow> bytes \<Rightarrow> byte \<Rightarrow> bytes \<Rightarrow> nat \<Rightarrow> bytes result" where
  "scp03_kdf P key constant context output_bits =
     map_err map_secure_channel_error (prim_kdf P key constant context output_bits)"

section \<open>What the channels rely on\<close>

definition valid_aes_key :: "bytes \<Rightarrow> bool" where
  "valid_aes_key key = (length key = 16 \<or> length key = 24 \<or> length key = 32)"

text \<open>
  The documented behaviour of AES in the modes used: a tag of one block for every message,
  a block permutation, a CBC decryption that inverts the encryption on whole blocks and keeps the
  length, and ISO 7816-4 padding that fills at least one byte and at most a block and is undone by
  its removal.
\<close>

definition symmetric_laws :: "primitives \<Rightarrow> bool" where
  "symmetric_laws P \<longleftrightarrow>
     (\<forall>key. valid_aes_key key \<longrightarrow>
        (\<forall>data. \<exists>mac. prim_cmac P key data = Inr mac \<and> length mac = 16) \<and>
        (\<forall>block. length block = 16 \<longrightarrow> (\<exists>out. prim_block P key block = Inr out \<and> length out = 16)) \<and>
        (\<forall>iv data. length iv = 16 \<longrightarrow> length data mod 16 = 0 \<longrightarrow>
           (\<exists>out. prim_cbc_encrypt P key iv data = Inr out \<and> length out = length data \<and>
                  prim_cbc_decrypt P key iv out = Inr data))) \<and>
     (\<forall>data. length (prim_pad P data) mod 16 = 0 \<and> length data < length (prim_pad P data) \<and>
        length (prim_pad P data) \<le> length data + 16 \<and> prim_unpad P (prim_pad P data) = Inr data)"

text \<open>The block cipher is a permutation: no two blocks encrypt to the same one.\<close>

definition block_injective :: "primitives \<Rightarrow> bool" where
  "block_injective P \<longleftrightarrow>
     (\<forall>key x y out. length x = 16 \<longrightarrow> length y = 16 \<longrightarrow>
        prim_block P key x = Inr out \<longrightarrow> prim_block P key y = Inr out \<longrightarrow> x = y)"

lemma symmetric_cmac:
  assumes "symmetric_laws P" "valid_aes_key key"
  obtains mac where "aes_cmac P key data = Inr mac" "length mac = 16"
  using assms unfolding symmetric_laws_def aes_cmac_def map_err_ok by blast

lemma symmetric_block:
  assumes "symmetric_laws P" "valid_aes_key key" "length block = 16"
  obtains out where "aes_encrypt_block P key block = Inr out" "length out = 16"
  using assms unfolding symmetric_laws_def aes_encrypt_block_def map_err_ok by blast

lemma symmetric_cbc:
  assumes "symmetric_laws P" "valid_aes_key key" "length iv = 16" "length data mod 16 = 0"
  obtains out where "aes_cbc P key iv data Encrypt = Inr out" "length out = length data"
    "aes_cbc P key iv out Decrypt = Inr data"
  using assms unfolding symmetric_laws_def aes_cbc_def map_err_ok direction.case by metis

lemma symmetric_pad:
  assumes "symmetric_laws P"
  shows "length (pad_iso7816 P data) mod 16 = 0" "length data < length (pad_iso7816 P data)"
    "length (pad_iso7816 P data) \<le> length data + 16" "unpad_iso7816 P (pad_iso7816 P data) = Inr data"
  using assms by (auto simp: symmetric_laws_def pad_iso7816_def unpad_iso7816_def)

section \<open>An instance of the laws\<close>

text \<open>
  A concrete set of primitives that satisfies the laws, on which the properties of the channels
  are evaluated: the padding is the real one, the cipher is the identity and the tag folds the
  message into one block.
\<close>

definition iso_pad :: "bytes \<Rightarrow> bytes" where
  "iso_pad data = data @ 0x80 # replicate (15 - length data mod 16) 0"

definition iso_unpad :: "bytes \<Rightarrow> secure_channel_error + bytes" where
  "iso_unpad data =
     (case dropWhile (\<lambda>b. b = 0) (rev data) of
        [] \<Rightarrow> Inl InvalidPadding
      | b # rest \<Rightarrow> if b = 0x80 then Inr (rev rest) else Inl InvalidPadding)"

definition fold_mac :: "bytes \<Rightarrow> bytes" where
  "fold_mac data = be_of_nat 16 (nat_of_be data + length data)"

definition sample_primitives :: primitives where
  "sample_primitives =
     \<lparr>prim_cmac = (\<lambda>key data. Inr (fold_mac data)),
      prim_block = (\<lambda>key block. Inr block),
      prim_cbc_encrypt = (\<lambda>key iv data. Inr data),
      prim_cbc_decrypt = (\<lambda>key iv data. Inr data),
      prim_ecb_encrypt = (\<lambda>key data. Inr data),
      prim_ecb_decrypt = (\<lambda>key data. Inr data),
      prim_pad = iso_pad,
      prim_unpad = iso_unpad,
      prim_kdf = (\<lambda>key constant context bits. Inr (be_of_nat (bits div 8) (unat constant)))\<rparr>"

lemma iso_unpad_pad: "iso_unpad (iso_pad data) = Inr data"
proof -
  have "dropWhile (\<lambda>b. b = 0) (replicate n 0 @ 0x80 # rev data) = 0x80 # rev data" for n
    by (simp add: dropWhile_append3 dropWhile_append)
  then show ?thesis by (simp add: iso_unpad_def iso_pad_def)
qed

lemma length_iso_pad: "length (iso_pad data) = length data + (16 - length data mod 16)"
proof -
  have "length data mod 16 < 16" by simp
  then show ?thesis unfolding iso_pad_def by simp
qed

lemma iso_pad_whole: "length (iso_pad data) mod 16 = 0"
  unfolding length_iso_pad by presburger

lemma iso_pad_bounds: "length data < length (iso_pad data)" "length (iso_pad data) \<le> length data + 16"
proof -
  have "length data mod 16 < 16" by simp
  then show "length data < length (iso_pad data)" "length (iso_pad data) \<le> length data + 16"
    unfolding length_iso_pad by linarith+
qed

lemma sample_primitives_laws: "symmetric_laws sample_primitives" "block_injective sample_primitives"
  using iso_pad_whole iso_unpad_pad iso_pad_bounds
  by (simp_all add: symmetric_laws_def block_injective_def sample_primitives_def fold_mac_def)

end
