(* ===== verification/Scp03.thy ===== *)
theory Scp03
  imports Iso7816 Secure_Channel_Crypto
begin

text \<open>
  The SCP03 secure channel (src/src/scp03.rs): key sets, the INITIALIZE UPDATE response, mutual
  authentication, and the protection of commands and responses.  The primitives are an argument.
  The static keys live in a private key scope (src/src/scp_key_provider.rs): what the channel
  calls of them is the record \<open>scp03_keys\<close>, and the handle of a protected data-encryption key is a
  type parameter.  The 128-bit encryption counter is a natural number with its
  overflow check written out.
\<close>

abbreviation (input) AES_BLOCK_SIZE :: nat where "AES_BLOCK_SIZE \<equiv> 16"
abbreviation (input) MAC_LENGTH :: nat where "MAC_LENGTH \<equiv> 8"
abbreviation (input) YUBICO_BMK_LENGTH :: nat where "YUBICO_BMK_LENGTH \<equiv> 32"
abbreviation (input) MORE_COMMANDS :: byte where "MORE_COMMANDS \<equiv> 0x80"
abbreviation (input) DERIVATION_CARD_CRYPTOGRAM :: byte where "DERIVATION_CARD_CRYPTOGRAM \<equiv> 0x00"
abbreviation (input) DERIVATION_HOST_CRYPTOGRAM :: byte where "DERIVATION_HOST_CRYPTOGRAM \<equiv> 0x01"
abbreviation (input) DERIVATION_CARD_CHALLENGE :: byte where "DERIVATION_CARD_CHALLENGE \<equiv> 0x02"
abbreviation (input) DERIVATION_S_ENC :: byte where "DERIVATION_S_ENC \<equiv> 0x04"
abbreviation (input) DERIVATION_S_MAC :: byte where "DERIVATION_S_MAC \<equiv> 0x06"
abbreviation (input) DERIVATION_S_RMAC :: byte where "DERIVATION_S_RMAC \<equiv> 0x07"
abbreviation (input) SECURITY_C_MAC :: byte where "SECURITY_C_MAC \<equiv> 0x01"
abbreviation (input) SECURITY_C_ENCRYPTION :: byte where "SECURITY_C_ENCRYPTION \<equiv> 0x02"
abbreviation (input) SECURITY_R_MAC :: byte where "SECURITY_R_MAC \<equiv> 0x10"
abbreviation (input) SECURITY_R_ENCRYPTION :: byte where "SECURITY_R_ENCRYPTION \<equiv> 0x20"
abbreviation (input) IMPLEMENTATION_S16 :: byte where "IMPLEMENTATION_S16 \<equiv> 0x01"
abbreviation (input) IMPLEMENTATION_PSEUDO_RANDOM_CHALLENGE :: byte where
  "IMPLEMENTATION_PSEUDO_RANDOM_CHALLENGE \<equiv> 0x10"
abbreviation (input) IMPLEMENTATION_R_MAC :: byte where "IMPLEMENTATION_R_MAC \<equiv> 0x20"
abbreviation (input) IMPLEMENTATION_R_ENCRYPTION :: byte where "IMPLEMENTATION_R_ENCRYPTION \<equiv> 0x40"

section \<open>Key sets\<close>

record scp03_key_set =
  ks_key_version :: byte
  ks_key_id :: byte
  ks_enc :: bytes
  ks_mac :: bytes
  ks_dek :: "bytes option"
  ks_diversification_bmk :: "bytes option"

definition YUBIKEY_FACTORY_KEY :: bytes where
  "YUBIKEY_FACTORY_KEY =
     [0x40, 0x41, 0x42, 0x43, 0x44, 0x45, 0x46, 0x47, 0x48, 0x49, 0x4a, 0x4b, 0x4c, 0x4d, 0x4e, 0x4f]"

definition yubikey_factory :: scp03_key_set where
  "yubikey_factory =
     \<lparr>ks_key_version = 0xff, ks_key_id = 0, ks_enc = YUBIKEY_FACTORY_KEY,
      ks_mac = YUBIKEY_FACTORY_KEY, ks_dek = Some YUBIKEY_FACTORY_KEY,
      ks_diversification_bmk = None\<rparr>"

definition key_set_validate :: "scp03_key_set \<Rightarrow> unit result" where
  "key_set_validate ks =
     (case ks_diversification_bmk ks of
        Some bmk \<Rightarrow>
          if length bmk = YUBICO_BMK_LENGTH \<and> ks_enc ks = [] \<and> ks_mac ks = [] \<and> ks_dek ks = None
          then Inr () else Inl (Generic CKR_ARGUMENTS_BAD)
      | None \<Rightarrow>
          if \<not> valid_aes_key (ks_enc ks) \<or> \<not> valid_aes_key (ks_mac ks)
             \<or> is_some_and (ks_dek ks) (\<lambda>key. \<not> valid_aes_key key)
             \<or> length (ks_enc ks) \<noteq> length (ks_mac ks)
             \<or> is_some_and (ks_dek ks) (\<lambda>key. length key \<noteq> length (ks_enc ks))
          then Inl (Generic CKR_ARGUMENTS_BAD) else Inr ())"

datatype key_material_configuration =
    Factory
  | Direct bytes bytes "bytes option"
  | YubicoBatchMasterKey bytes

definition key_set_from_configuration ::
  "byte \<Rightarrow> byte \<Rightarrow> key_material_configuration \<Rightarrow> scp03_key_set result" where
  "key_set_from_configuration key_version key_id key_material =
     (let keys = (case key_material of
            Factory \<Rightarrow> yubikey_factory\<lparr>ks_diversification_bmk := None\<rparr>
          | Direct enc mac dek \<Rightarrow>
              \<lparr>ks_key_version = 0, ks_key_id = 0, ks_enc = enc, ks_mac = mac, ks_dek = dek,
               ks_diversification_bmk = None\<rparr>
          | YubicoBatchMasterKey bmk \<Rightarrow>
              \<lparr>ks_key_version = 0, ks_key_id = 0, ks_enc = [], ks_mac = [], ks_dek = None,
               ks_diversification_bmk = Some bmk\<rparr>);
          keys = keys\<lparr>ks_key_version := key_version, ks_key_id := key_id\<rparr>
      in and_then (key_set_validate keys) (\<lambda>_. Inr keys))"

section \<open>Checks\<close>

definition validate_security_level :: "byte \<Rightarrow> unit result" where
  "validate_security_level level =
     (if level \<in> {0x00, 0x01, 0x03, 0x11, 0x13, 0x33} then Inr ()
      else Inl (Generic CKR_ARGUMENTS_BAD))"

definition validate_implementation :: "byte \<Rightarrow> unit result" where
  "validate_implementation i =
     (let response_security = i AND (IMPLEMENTATION_R_MAC OR IMPLEMENTATION_R_ENCRYPTION) in
      if i AND IMPLEMENTATION_S16 \<noteq> 0 \<or> i AND 0x8e \<noteq> 0
         \<or> response_security = IMPLEMENTATION_R_ENCRYPTION
      then Inl (Generic CKR_DEVICE_ERROR) else Inr ())"

definition validate_card_capabilities :: "byte \<Rightarrow> byte \<Rightarrow> unit result" where
  "validate_card_capabilities i level =
     (if level AND SECURITY_R_MAC \<noteq> 0 \<and> i AND IMPLEMENTATION_R_MAC = 0
      then Inl (Generic CKR_DEVICE_ERROR)
      else if level AND SECURITY_R_ENCRYPTION \<noteq> 0
              \<and> i AND (IMPLEMENTATION_R_MAC OR IMPLEMENTATION_R_ENCRYPTION)
                  \<noteq> IMPLEMENTATION_R_MAC OR IMPLEMENTATION_R_ENCRYPTION
      then Inl (Generic CKR_DEVICE_ERROR)
      else Inr ())"

definition normalize_scp03_cla :: "byte \<Rightarrow> byte result" where
  "normalize_scp03_cla cla =
     (if cla AND 0x40 \<noteq> 0 \<or> cla AND 0x03 \<noteq> 0 then Inl (Generic CKR_ARGUMENTS_BAD)
      else Inr ((cla AND NOT 0x0c) OR 0x04))"

record initialize_update =
  iu_issuer_context :: bytes
  iu_key_version :: byte
  iu_scp_id :: byte
  iu_implementation :: byte
  iu_card_challenge :: bytes
  iu_sequence_counter :: "bytes option"

definition initialize_update_parse :: "bytes \<Rightarrow> initialize_update result" where
  "initialize_update_parse data =
     (if length data < 13 then Inl (Generic CKR_DEVICE_ERROR)
      else and_then (validate_implementation (data ! 12)) (\<lambda>_.
        let pseudo_random = data ! 12 AND IMPLEMENTATION_PSEUDO_RANDOM_CHALLENGE \<noteq> 0 in
        if length data \<noteq> (if pseudo_random then 32 else 29) then Inl (Generic CKR_DEVICE_ERROR)
        else Inr \<lparr>iu_issuer_context = take 10 data, iu_key_version = data ! 10,
                  iu_scp_id = data ! 11, iu_implementation = data ! 12,
                  iu_card_challenge = take 8 (drop 13 data),
                  iu_sequence_counter =
                    (if pseudo_random then Some (take 3 (drop 29 data)) else None)\<rparr>))"

section \<open>Sessions\<close>

datatype 'k card_dek = Protected 'k | Session bytes

record 'k scp03_session =
  s_enc :: bytes
  s_mac :: bytes
  s_rmac :: bytes
  session_dek :: "'k card_dek option"
  oce_authenticated :: bool
  mac_chaining_value :: bytes
  encryption_counter :: nat
  security_level :: byte

definition from_session_keys ::
  "bytes \<Rightarrow> bytes \<Rightarrow> bytes \<Rightarrow> bytes option \<Rightarrow> bool \<Rightarrow> bytes \<Rightarrow> byte \<Rightarrow> 'k scp03_session result" where
  "from_session_keys enc mac rmac dek oce chaining level =
     and_then (validate_security_level level) (\<lambda>_.
     if \<not> valid_aes_key enc \<or> length enc \<noteq> length mac \<or> length enc \<noteq> length rmac
        \<or> is_some_and dek (\<lambda>key. \<not> valid_aes_key key)
     then Inl (Generic CKR_ARGUMENTS_BAD)
     else Inr \<lparr>s_enc = enc, s_mac = mac, s_rmac = rmac,
               session_dek = map_option Session dek, oce_authenticated = oce,
               mac_chaining_value = chaining, encryption_counter = 0, security_level = level\<rparr>)"

definition session_static_dek :: "'k scp03_session \<Rightarrow> 'k card_dek result" where
  "session_static_dek s =
     (case session_dek s of Some dek \<Rightarrow> Inr dek | None \<Rightarrow> Inl (Generic CKR_KEY_FUNCTION_NOT_PERMITTED))"

definition require_oce_authentication :: "'k scp03_session \<Rightarrow> unit result" where
  "require_oce_authentication s =
     (if oce_authenticated s then Inr () else Inl (Generic CKR_USER_NOT_LOGGED_IN))"

definition command_iv :: "primitives \<Rightarrow> bool \<Rightarrow> 'k scp03_session \<Rightarrow> bytes result" where
  "command_iv P response s =
     (let counter = be_of_nat 16 (encryption_counter s);
          counter = (if response then counter[0 := counter ! 0 OR 0x80] else counter)
      in aes_encrypt_block P (s_enc s) counter)"

section \<open>Protecting commands and responses\<close>

text \<open>The counter and the chaining value reached are kept when a later step fails, as the method
  returns early with \<open>self\<close> already updated.\<close>

definition advance_counter :: "('k scp03_session, unit) comp" where
  "advance_counter =
     sbind (sget encryption_counter) (\<lambda>n.
       if n + 1 < 2 ^ 128 then smod (\<lambda>s. s\<lparr>encryption_counter := n + 1\<rparr>)
       else sfail (Generic CKR_DEVICE_ERROR))"

definition encrypt_command_data :: "primitives \<Rightarrow> bytes \<Rightarrow> ('k scp03_session, bytes) comp" where
  "encrypt_command_data P data = (\<lambda>s.
     if security_level s AND SECURITY_C_ENCRYPTION \<noteq> 0 \<and> data \<noteq> []
     then (and_then (command_iv P False s) (\<lambda>iv.
             aes_cbc P (s_enc s) iv (pad_iso7816 P data) Encrypt), s)
     else (Inr data, s))"

definition mac_command :: "primitives \<Rightarrow> command_apdu \<Rightarrow> ('k scp03_session, command_apdu) comp" where
  "mac_command P protected =
     sbind (sget security_level) (\<lambda>level.
       if level AND SECURITY_C_MAC \<noteq> 0 then
         let protected_len = length (apdu_data protected) + MAC_LENGTH in
         if MAX_EXTENDED_DATA_LENGTH < protected_len then sfail (Generic CKR_DATA_LEN_RANGE)
         else
           sbind (slift (encode_header_and_data protected protected_len)) (\<lambda>encoded.
           sbind (sget (\<lambda>s. aes_cmac P (s_mac s) (mac_chaining_value s @ encoded))) (\<lambda>outcome.
           sbind (slift outcome) (\<lambda>mac.
           sbind (smod (\<lambda>s. s\<lparr>mac_chaining_value := mac\<rparr>)) (\<lambda>_.
           sok (protected\<lparr>apdu_data := apdu_data protected @ take MAC_LENGTH mac\<rparr>)))))
       else sok protected)"

definition protect_command :: "primitives \<Rightarrow> command_apdu \<Rightarrow> ('k scp03_session, command_apdu) comp" where
  "protect_command P command =
     sbind (sget security_level) (\<lambda>level.
     sbind (slift (if level = 0 then Inr (apdu_cla command)
                   else normalize_scp03_cla (apdu_cla command))) (\<lambda>cla.
     sbind advance_counter (\<lambda>_.
       if level = 0 then sok command
       else
         sbind (slift (uses_extended_length command (length (apdu_data command)))) (\<lambda>_.
         sbind (encrypt_command_data P (apdu_data command)) (\<lambda>data.
         mac_command P (command\<lparr>apdu_cla := cla, apdu_data := data\<rparr>))))))"

definition protected_status :: "u16 \<Rightarrow> bool" where
  "protected_status status \<longleftrightarrow>
     status = RESPONSE_OK \<or> status = 0x9100
     \<or> status AND 0xff00 = 0x6200 \<or> status AND 0xff00 = 0x6300"

definition verify_response_mac :: "primitives \<Rightarrow> 'k scp03_session \<Rightarrow> response_apdu \<Rightarrow> bytes result" where
  "verify_response_mac P s response =
     (if security_level s AND SECURITY_R_MAC \<noteq> 0 then
        if length (resp_data response) < MAC_LENGTH then Inl (Generic CKR_ENCRYPTED_DATA_INVALID)
        else
          let mac_offset = length (resp_data response) - MAC_LENGTH;
              data = take mac_offset (resp_data response);
              received_mac = drop mac_offset (resp_data response)
          in and_then (aes_cmac P (s_rmac s)
                         (mac_chaining_value s @ data @ u16_to_be (resp_status response)))
               (\<lambda>expected_mac.
                 if take MAC_LENGTH expected_mac \<noteq> received_mac
                 then Inl (Generic CKR_ENCRYPTED_DATA_INVALID) else Inr data)
      else Inr (resp_data response))"

definition decrypt_response_data :: "primitives \<Rightarrow> 'k scp03_session \<Rightarrow> bytes \<Rightarrow> bytes result" where
  "decrypt_response_data P s data =
     (if security_level s AND SECURITY_R_ENCRYPTION \<noteq> 0 \<and> data \<noteq> [] then
        if length data mod AES_BLOCK_SIZE \<noteq> 0 then Inl (Generic CKR_ENCRYPTED_DATA_INVALID)
        else and_then (command_iv P True s) (\<lambda>iv.
             and_then (aes_cbc P (s_enc s) iv data Decrypt) (\<lambda>plain.
             unpad_iso7816 P plain))
      else Inr data)"

definition unprotect_response :: "primitives \<Rightarrow> 'k scp03_session \<Rightarrow> response_apdu \<Rightarrow> response_apdu result" where
  "unprotect_response P s response =
     (if \<not> protected_status (resp_status response) then
        if resp_data response \<noteq> [] then Inl (Generic CKR_ENCRYPTED_DATA_INVALID) else Inr response
      else
        and_then (verify_response_mac P s response) (\<lambda>data.
        and_then (decrypt_response_data P s data) (\<lambda>plain.
        Inr \<lparr>resp_data = plain, resp_status = resp_status response\<rparr>)))"

section \<open>Mutual authentication\<close>

text \<open>The fields of a counter-mode derivation: bytes, the counter and the output length with their width
  in bits, all in big-endian order.\<close>

datatype counter_kdf_field = KdfBytes bytes | KdfCounter nat | KdfLength nat

text \<open>The static keys: the lengths of the encryption and the MAC key, the counter-mode derivation of the
  key scope with either of them (the encryption key first) to a number of bytes, and the retained
  data-encryption key.\<close>

record 'k scp03_keys =
  keys_enc_length :: "nat result"
  keys_mac_length :: "nat result"
  keys_counter_kdf :: "bool \<Rightarrow> counter_kdf_field list \<Rightarrow> nat \<Rightarrow> bytes result"
  keys_dek :: "'k result option"

definition keys_derive :: "'k scp03_keys \<Rightarrow> bool \<Rightarrow> byte \<Rightarrow> bytes \<Rightarrow> nat \<Rightarrow> bytes result" where
  "keys_derive keys enc constant context n =
     keys_counter_kdf keys enc
       [KdfBytes (replicate 11 0 @ [constant]), KdfBytes [0], KdfLength 16, KdfCounter 8, KdfBytes context] n"

definition take_dek :: "'k scp03_keys \<Rightarrow> 'k card_dek option result" where
  "take_dek keys =
     (case keys_dek keys of
        None \<Rightarrow> Inr None
      | Some retained \<Rightarrow> and_then retained (\<lambda>key. Inr (Some (Protected key))))"

definition from_initialize_update ::
  "primitives \<Rightarrow> 'k scp03_keys \<Rightarrow> byte \<Rightarrow> bytes \<Rightarrow> initialize_update \<Rightarrow> bytes
   \<Rightarrow> ('k scp03_session \<times> bytes) result" where
  "from_initialize_update P static_keys level host_challenge update card_cryptogram =
     and_then (validate_security_level level) (\<lambda>_.
     let context = host_challenge @ iu_card_challenge update in
     and_then (keys_enc_length static_keys) (\<lambda>enc_length.
     and_then (keys_mac_length static_keys) (\<lambda>mac_length.
     and_then (keys_derive static_keys True DERIVATION_S_ENC context enc_length) (\<lambda>enc.
     and_then (keys_derive static_keys False DERIVATION_S_MAC context mac_length) (\<lambda>mac.
     and_then (keys_derive static_keys False DERIVATION_S_RMAC context mac_length) (\<lambda>rmac.
     and_then (scp03_kdf P mac DERIVATION_CARD_CRYPTOGRAM context 64) (\<lambda>expected_card_cryptogram.
     if expected_card_cryptogram \<noteq> card_cryptogram then Inl (Generic CKR_PIN_INCORRECT)
     else
       and_then (scp03_kdf P mac DERIVATION_HOST_CRYPTOGRAM context 64) (\<lambda>host_cryptogram.
       Inr (\<lparr>s_enc = enc, s_mac = mac, s_rmac = rmac, session_dek = None,
             oce_authenticated = True, mac_chaining_value = replicate AES_BLOCK_SIZE 0,
             encryption_counter = 0, security_level = level\<rparr>, host_cryptogram)))))))))"

definition external_authenticate :: "primitives \<Rightarrow> bytes \<Rightarrow> ('k scp03_session, command_apdu) comp" where
  "external_authenticate P host_cryptogram = (\<lambda>s.
     if length host_cryptogram \<noteq> MAC_LENGTH then (Inl (Generic CKR_DATA_LEN_RANGE), s)
     else
       case aes_cmac P (s_mac s)
              (mac_chaining_value s @ [0x84, 0x82, security_level s, 0x00, 0x10] @ host_cryptogram) of
         Inl e \<Rightarrow> (Inl e, s)
       | Inr mac \<Rightarrow>
           (Inr \<lparr>apdu_cla = 0x84, apdu_ins = 0x82, apdu_p1 = security_level s, apdu_p2 = 0,
                 apdu_data = host_cryptogram @ take MAC_LENGTH mac, apdu_le = None,
                 apdu_extended = False\<rparr>,
            s\<lparr>mac_chaining_value := mac\<rparr>))"

definition check_card_challenge ::
  "'k scp03_keys \<Rightarrow> bytes \<Rightarrow> initialize_update \<Rightarrow> unit result" where
  "check_card_challenge static_keys selected_aid update =
     (case iu_sequence_counter update of
        None \<Rightarrow> Inr ()
      | Some sequence_counter \<Rightarrow>
          and_then (keys_derive static_keys True DERIVATION_CARD_CHALLENGE
                      (sequence_counter @ selected_aid) 8) (\<lambda>expected_challenge.
          if expected_challenge \<noteq> iu_card_challenge update then Inl (Generic CKR_DEVICE_ERROR)
          else Inr ()))"

definition establish_using ::
  "primitives \<Rightarrow> 'c send \<Rightarrow> byte \<Rightarrow> byte \<Rightarrow> byte \<Rightarrow> bytes \<Rightarrow> bytes \<Rightarrow> (bytes \<Rightarrow> 'k scp03_keys result)
   \<Rightarrow> ('c, 'k scp03_session) comp" where
  "establish_using P send key_version key_id level host_challenge selected_aid resolve =
     sbind (slift (validate_security_level level)) (\<lambda>_.
     sbind (transmit_apdu send
              \<lparr>apdu_cla = 0x80, apdu_ins = 0x50, apdu_p1 = key_version, apdu_p2 = key_id,
               apdu_data = host_challenge, apdu_le = Some 256, apdu_extended = False\<rparr>) (\<lambda>answer.
     sbind (slift (require_success answer)) (\<lambda>response.
     sbind (slift (initialize_update_parse (resp_data response))) (\<lambda>update.
     sbind (sensure (\<not> (iu_scp_id update \<noteq> 0x03
                         \<or> (key_version \<noteq> 0 \<and> iu_key_version update \<noteq> key_version)))
              (Generic CKR_DEVICE_ERROR)) (\<lambda>_.
     sbind (slift (validate_card_capabilities (iu_implementation update) level)) (\<lambda>_.
     sbind (slift (resolve (iu_issuer_context update))) (\<lambda>static_keys.
     sbind (slift (check_card_challenge static_keys selected_aid update)) (\<lambda>_.
     sbind (slift (from_initialize_update P static_keys level host_challenge update
                     (take 8 (drop 21 (resp_data response))))) (\<lambda>(session, host_cryptogram).
     sbind (slift (take_dek static_keys)) (\<lambda>dek.
     (case external_authenticate P host_cryptogram
             (session\<lparr>session_dek := dek, oce_authenticated := True\<rparr>) of
        (Inl e, _) \<Rightarrow> sfail e
      | (Inr authenticate, session') \<Rightarrow>
          sbind (transmit_apdu send authenticate) (\<lambda>answer.
          sbind (slift (require_success answer)) (\<lambda>_.
          sok session')))))))))))))"

definition key_set_resolve ::
  "(bytes \<Rightarrow> bytes \<Rightarrow> 'k scp03_keys result) \<Rightarrow> (bytes \<Rightarrow> bytes \<Rightarrow> bytes option \<Rightarrow> 'k scp03_keys result)
   \<Rightarrow> scp03_key_set \<Rightarrow> bytes \<Rightarrow> 'k scp03_keys result" where
  "key_set_resolve diversify import ks issuer_context =
     (case ks_diversification_bmk ks of
        Some bmk \<Rightarrow> diversify bmk issuer_context
      | None \<Rightarrow> import (ks_enc ks) (ks_mac ks) (ks_dek ks))"

section \<open>Transmitting through a session\<close>

text \<open>The state is the pair of the session and the connector.\<close>

definition session_exchange ::
  "primitives \<Rightarrow> (command_apdu \<Rightarrow> ('c, response_apdu) comp) \<Rightarrow> command_apdu
   \<Rightarrow> ('k scp03_session \<times> 'c, response_apdu) comp" where
  "session_exchange P exchange command =
     sbind (on_fst (protect_command P command)) (\<lambda>protected.
     sbind (on_snd (exchange protected)) (\<lambda>response.
     sbind (sget fst) (\<lambda>session.
     slift (unprotect_response P session response))))"

definition session_transmit ::
  "primitives \<Rightarrow> 'c send \<Rightarrow> apdu_capabilities \<Rightarrow> command_apdu
   \<Rightarrow> ('k scp03_session \<times> 'c, response_apdu) comp" where
  "session_transmit P send capabilities = session_exchange P (iso_transmit send capabilities)"

definition session_transmit_oath ::
  "primitives \<Rightarrow> 'c send \<Rightarrow> command_apdu \<Rightarrow> ('k scp03_session \<times> 'c, response_apdu) comp" where
  "session_transmit_oath P send = session_exchange P (transmit_oath send)"

definition session_transmit_short ::
  "primitives \<Rightarrow> 'c send \<Rightarrow> command_apdu \<Rightarrow> ('k scp03_session \<times> 'c, response_apdu) comp" where
  "session_transmit_short P send = session_exchange P (transmit_short send)"

definition p1_segment :: "command_apdu \<Rightarrow> bytes \<Rightarrow> bool \<Rightarrow> command_apdu" where
  "p1_segment protected data is_last =
     \<lparr>apdu_cla = apdu_cla protected, apdu_ins = apdu_ins protected,
      apdu_p1 = (if is_last then apdu_p1 protected else apdu_p1 protected OR MORE_COMMANDS),
      apdu_p2 = apdu_p2 protected, apdu_data = data,
      apdu_le = (if is_last then apdu_le protected else None), apdu_extended = False\<rparr>"

fun transmit_p1_segments ::
  "'c send \<Rightarrow> command_apdu \<Rightarrow> bytes list \<Rightarrow> ('c, response_apdu) comp" where
  "transmit_p1_segments send protected [] = sfail (Generic CKR_DEVICE_ERROR)"
| "transmit_p1_segments send protected (data # rest) =
     sbind (transmit_apdu send (p1_segment protected data (rest = []))) (\<lambda>response.
       if rest = [] then collect_response_chain send response
       else if resp_status response \<noteq> RESPONSE_OK \<or> resp_data response \<noteq> []
       then sfail (Generic CKR_DEVICE_ERROR)
       else transmit_p1_segments send protected rest)"

definition session_transmit_chained ::
  "primitives \<Rightarrow> 'c send \<Rightarrow> command_apdu \<Rightarrow> ('k scp03_session \<times> 'c, response_apdu) comp" where
  "session_transmit_chained P send command =
     (if apdu_p1 command AND MORE_COMMANDS \<noteq> 0
         \<or> is_some_and (apdu_le command) (\<lambda>le. MAX_SHORT_EXPECTED_LENGTH < le)
      then sfail (Generic CKR_ARGUMENTS_BAD)
      else session_exchange P (\<lambda>protected.
             if length (apdu_data protected) \<le> MAX_SHORT_DATA_LENGTH
             then sbind (transmit_apdu send protected) (collect_response_chain send)
             else transmit_p1_segments send protected
                    (chunks MAX_SHORT_DATA_LENGTH (apdu_data protected))) command)"

section \<open>Session invariant\<close>

definition session_wf :: "'k scp03_session \<Rightarrow> bool" where
  "session_wf s \<longleftrightarrow>
     valid_aes_key (s_enc s) \<and> valid_aes_key (s_mac s) \<and> valid_aes_key (s_rmac s) \<and>
     length (mac_chaining_value s) = 16 \<and> encryption_counter s < 2 ^ 128 \<and>
     validate_security_level (security_level s) = Inr ()"

text \<open>What no operation changes: keys, level and authentication status.\<close>

definition same_channel :: "'k scp03_session \<Rightarrow> 'k scp03_session \<Rightarrow> bool" where
  "same_channel s s' \<longleftrightarrow>
     s_enc s' = s_enc s \<and> s_mac s' = s_mac s \<and> s_rmac s' = s_rmac s \<and>
     session_dek s' = session_dek s \<and> oce_authenticated s' = oce_authenticated s \<and>
     security_level s' = security_level s"

lemma advance_counter_swp [swp_simps]:
  "swp advance_counter Q E s =
     (if encryption_counter s + 1 < 2 ^ 128
      then Q () (s\<lparr>encryption_counter := encryption_counter s + 1\<rparr>)
      else E (Generic CKR_DEVICE_ERROR) s)"
  by (simp add: advance_counter_def swp_simps)

lemma encrypt_command_data_swp [swp_simps]:
  "swp (encrypt_command_data P data) Q E s =
     (if security_level s AND SECURITY_C_ENCRYPTION \<noteq> 0 \<and> data \<noteq> []
      then case and_then (command_iv P False s) (\<lambda>iv.
                  aes_cbc P (s_enc s) iv (pad_iso7816 P data) Encrypt) of
             Inl e \<Rightarrow> E e s | Inr d \<Rightarrow> Q d s
      else Q data s)"
  by (simp add: encrypt_command_data_def swp_def split: sum.splits)

lemma mac_command_swp [swp_simps]:
  "swp (mac_command P p) Q E s =
     (if security_level s AND SECURITY_C_MAC \<noteq> 0 then
        if MAX_EXTENDED_DATA_LENGTH < length (apdu_data p) + MAC_LENGTH
        then E (Generic CKR_DATA_LEN_RANGE) s
        else case and_then (encode_header_and_data p (length (apdu_data p) + MAC_LENGTH)) (\<lambda>encoded.
                    aes_cmac P (s_mac s) (mac_chaining_value s @ encoded)) of
               Inl e \<Rightarrow> E e s
             | Inr mac \<Rightarrow> Q (p\<lparr>apdu_data := apdu_data p @ take MAC_LENGTH mac\<rparr>)
                            (s\<lparr>mac_chaining_value := mac\<rparr>)
      else Q p s)"
  by (cases "encode_header_and_data p (length (apdu_data p) + MAC_LENGTH)")
    (simp_all add: mac_command_def swp_simps Let_def split: sum.splits)

lemma protect_command_swp:
  "swp (protect_command P c) Q E s =
     swp (sbind (slift (if security_level s = 0 then Inr (apdu_cla c)
                   else normalize_scp03_cla (apdu_cla c))) (\<lambda>cla.
          sbind advance_counter (\<lambda>_.
            if security_level s = 0 then sok c
            else sbind (slift (uses_extended_length c (length (apdu_data c)))) (\<lambda>_.
                 sbind (encrypt_command_data P (apdu_data c)) (\<lambda>data.
                 mac_command P (c\<lparr>apdu_cla := cla, apdu_data := data\<rparr>)))))) Q E s"
  by (simp add: protect_command_def swp_simps)

lemma protect_command_frame:
  "swp (protect_command P c)
     (\<lambda>_ s'. same_channel s s' \<and> encryption_counter s' = encryption_counter s + 1 \<and>
             encryption_counter s' < 2 ^ 128)
     (\<lambda>_ s'. same_channel s s' \<and> mac_chaining_value s' = mac_chaining_value s \<and>
             (encryption_counter s' = encryption_counter s
              \<or> encryption_counter s' = encryption_counter s + 1 \<and> encryption_counter s' < 2 ^ 128)) s"
  unfolding protect_command_swp
  by (simp add: swp_simps same_channel_def split: sum.splits)

lemma protect_command_wf:
  assumes "symmetric_laws P"
  shows "keeps session_wf (protect_command P c)"
proof (rule keepsI)
  fix s :: "'a scp03_session"
  assume wf: "session_wf s"
  have mac: "length mac = 16" if "aes_cmac P (s_mac s) d = Inr mac" for d mac
    using symmetric_cmac [OF assms, of "s_mac s" d] that wf by (auto simp: session_wf_def)
  show "swp (protect_command P c) (\<lambda>_. session_wf) (\<lambda>_. session_wf) s"
    unfolding protect_command_swp
    using wf by (auto simp: swp_simps session_wf_def mac split: sum.splits)
qed

section \<open>Initialisation vectors\<close>

lemma top_bit_clear: "n < 128 \<Longrightarrow> \<not> bit (of_nat n :: byte) 7"
proof -
  assume "n < 128"
  then have "\<not> bit n 7" by (simp add: bit_iff_odd)
  then show ?thesis by (simp only: bit_of_nat_iff) simp
qed

lemma or_top_bit_set: "x OR 0x80 = set_bit 7 (x :: byte)"
  by (simp add: set_bit_eq_or)

lemma or_top_bit: "bit (x OR 0x80 :: byte) 7"
  by (simp add: or_top_bit_set bit_set_bit_iff)

lemma or_top_bit_inj:
  fixes x y :: byte
  assumes "\<not> bit x 7" "\<not> bit y 7" "x OR 0x80 = y OR 0x80"
  shows "x = y"
proof (rule bit_word_eqI)
  fix i assume "i < LENGTH(8)"
  then have "bit (set_bit 7 x) i = bit (set_bit 7 y) i" using assms(3) by (simp add: or_top_bit_set)
  then show "bit x i = bit y i"
    using assms(1,2) by (cases "i = 7") (simp_all add: bit_set_bit_iff)
qed

text \<open>The block that is encrypted into an initialisation vector.\<close>

definition counter_block :: "bool \<Rightarrow> nat \<Rightarrow> bytes" where
  "counter_block response n =
     (if response then (be_of_nat 16 n)[0 := be_of_nat 16 n ! 0 OR 0x80] else be_of_nat 16 n)"

lemma command_iv_block:
  "command_iv P response s =
     aes_encrypt_block P (s_enc s) (counter_block response (encryption_counter s))"
  by (simp add: command_iv_def counter_block_def Let_def)

lemma length_counter_block [simp]: "length (counter_block response n) = 16"
  by (simp add: counter_block_def)

lemma counter_block_inj:
  assumes m: "m < 2 ^ 127" and n: "n < 2 ^ 127" and eq: "counter_block a m = counter_block b n"
  shows "a = b \<and> m = n"
proof -
  define mh nh where h: "mh = (of_nat (m div 256 ^ 15) :: byte)" "nh = (of_nat (n div 256 ^ 15) :: byte)"
  have top: "be_of_nat 16 m = mh # be_of_nat 15 m" "be_of_nat 16 n = nh # be_of_nat 15 n"
    using be_of_nat_Suc_hd [of 15] by (simp_all add: h)
  have small: "k div 256 ^ 15 < 128" if "k < 2 ^ 127" for k :: nat
    using that by (intro less_mult_imp_div_less) simp
  have clear: "\<not> bit mh 7" "\<not> bit nh 7"
    unfolding h by (rule top_bit_clear [OF small [OF m]], rule top_bit_clear [OF small [OF n]])
  have "be_of_nat 16 m = be_of_nat 16 n \<longleftrightarrow> m = n"
    using m n by (intro be_of_nat_inj) simp_all
  then show ?thesis
    using eq clear or_top_bit [of mh] or_top_bit [of nh] or_top_bit_inj [OF clear]
    by (auto simp: counter_block_def top split: if_splits)
qed

text \<open>The session states in which the commands of a run were protected.\<close>

fun protect_trace :: "primitives \<Rightarrow> command_apdu list \<Rightarrow> 'k scp03_session \<Rightarrow> 'k scp03_session list" where
  "protect_trace P [] s = []"
| "protect_trace P (c # cs) s =
     (case protect_command P c s of
        (Inr _, s') \<Rightarrow> s' # protect_trace P cs s'
      | (Inl _, s') \<Rightarrow> protect_trace P cs s')"

lemma protect_trace_counters:
  "sorted_wrt (<) (map encryption_counter (protect_trace P cs s)) \<and>
   (\<forall>t \<in> set (protect_trace P cs s).
      encryption_counter s < encryption_counter t \<and>
      encryption_counter t \<le> encryption_counter s + length cs \<and> s_enc t = s_enc s)"
proof (induction cs arbitrary: s)
  case (Cons c cs)
  obtain r s' where step: "protect_command P c s = (r, s')" by fastforce
  note frame = protect_command_frame [of P c s]
  show ?case
  proof (cases r)
    case (Inl e)
    then have "encryption_counter s \<le> encryption_counter s'"
      "encryption_counter s' \<le> encryption_counter s + 1" "s_enc s' = s_enc s"
      using swp_err [OF frame] step by (fastforce simp: same_channel_def)+
    then show ?thesis using Cons.IH [of s'] step Inl by (fastforce intro: le_less_trans)
  next
    case (Inr p)
    then have "encryption_counter s' = encryption_counter s + 1" "s_enc s' = s_enc s"
      using swp_ok [OF frame] step by (fastforce simp: same_channel_def)+
    then show ?thesis using Cons.IH [of s'] step Inr by fastforce
  qed
qed simp

lemma block_injective_iv:
  assumes "block_injective P" "encryption_counter s < 2 ^ 127" "encryption_counter t < 2 ^ 127"
    and "s_enc t = s_enc s" "command_iv P a s = Inr iv" "command_iv P b t = Inr iv"
  shows "a = b \<and> encryption_counter s = encryption_counter t"
proof (rule counter_block_inj)
  show "counter_block a (encryption_counter s) = counter_block b (encryption_counter t)"
    using assms(1,4-6) unfolding block_injective_def command_iv_block aes_encrypt_block_def map_err_ok
    by (metis length_counter_block)
qed (use assms in simp_all)

section \<open>The peer\<close>

text \<open>
  The card's side of the channel as GlobalPlatform (Card Specification, Amendment D) describes it:
  it holds the same session state, checks and removes the command MAC, decrypts the data, lets the
  application answer, then encrypts and signs the answer.
\<close>

definition card_check_mac :: "primitives \<Rightarrow> 'k scp03_session \<Rightarrow> command_apdu \<Rightarrow> (bytes \<times> bytes) result" where
  "card_check_mac P s q =
     (if length (apdu_data q) < 8 then Inl (Generic CKR_ENCRYPTED_DATA_INVALID)
      else let n = length (apdu_data q) - 8; body = take n (apdu_data q) in
        and_then (encode_header_and_data (q\<lparr>apdu_data := body\<rparr>) (length (apdu_data q))) (\<lambda>encoded.
        and_then (aes_cmac P (s_mac s) (mac_chaining_value s @ encoded)) (\<lambda>mac.
        if take 8 mac = drop n (apdu_data q) then Inr (body, mac)
        else Inl (Generic CKR_ENCRYPTED_DATA_INVALID))))"

definition card_decrypt :: "primitives \<Rightarrow> 'k scp03_session \<Rightarrow> bytes \<Rightarrow> bytes result" where
  "card_decrypt P s body =
     (if security_level s AND 0x02 \<noteq> 0 \<and> body \<noteq> [] then
        and_then (command_iv P False s) (\<lambda>iv.
        and_then (aes_cbc P (s_enc s) iv body Decrypt) (unpad_iso7816 P))
      else Inr body)"

definition card_receive ::
  "primitives \<Rightarrow> 'k scp03_session \<Rightarrow> command_apdu \<Rightarrow> (command_apdu \<times> 'k scp03_session) result" where
  "card_receive P s q =
     (let s1 = s\<lparr>encryption_counter := encryption_counter s + 1\<rparr> in
      if security_level s = 0 then Inr (q\<lparr>apdu_extended := False\<rparr>, s1)
      else and_then (card_check_mac P s q) (\<lambda>(body, mac).
           and_then (card_decrypt P s1 body) (\<lambda>data.
           Inr (q\<lparr>apdu_data := data, apdu_extended := False\<rparr>, s1\<lparr>mac_chaining_value := mac\<rparr>))))"

definition card_encrypt :: "primitives \<Rightarrow> 'k scp03_session \<Rightarrow> bytes \<Rightarrow> bytes result" where
  "card_encrypt P s data =
     (if security_level s AND 0x20 \<noteq> 0 \<and> data \<noteq> [] then
        and_then (command_iv P True s) (\<lambda>iv. aes_cbc P (s_enc s) iv (pad_iso7816 P data) Encrypt)
      else Inr data)"

definition card_answer :: "primitives \<Rightarrow> 'k scp03_session \<Rightarrow> response_apdu \<Rightarrow> response_apdu result" where
  "card_answer P s r =
     (if \<not> protected_status (resp_status r) then Inr r
      else and_then (card_encrypt P s (resp_data r)) (\<lambda>data.
           if security_level s AND 0x10 \<noteq> 0
           then and_then (aes_cmac P (s_rmac s)
                            (mac_chaining_value s @ data @ u16_to_be (resp_status r))) (\<lambda>mac.
                Inr \<lparr>resp_data = data @ take 8 mac, resp_status = resp_status r\<rparr>)
           else Inr \<lparr>resp_data = data, resp_status = resp_status r\<rparr>))"

text \<open>A connector to such a card, which receives what the decoder makes of the command sent.\<close>

definition scp03_card ::
  "primitives \<Rightarrow> (command_apdu \<Rightarrow> response_apdu) \<Rightarrow> command_apdu \<Rightarrow> ('k scp03_session, response_apdu) comp" where
  "scp03_card P app p = (\<lambda>s.
     case and_then (command_encode p) (\<lambda>bs. and_then (command_decode bs) (card_receive P s)) of
       Inl e \<Rightarrow> (Inl e, s)
     | Inr (c, s') \<Rightarrow> (card_answer P s' (app c), s'))"

lemma uses_extended_length_update [simp]:
  "uses_extended_length (c\<lparr>apdu_data := d\<rparr>) n = uses_extended_length c n"
  "uses_extended_length (c\<lparr>apdu_cla := a\<rparr>) n = uses_extended_length c n"
  by (simp_all add: uses_extended_length_def)

lemma uses_extended_length_settled:
  "uses_extended_length c n = Inr x \<Longrightarrow> uses_extended_length (c\<lparr>apdu_extended := x\<rparr>) n = Inr x"
  by (auto simp: uses_extended_length_def split: if_splits)

lemma encode_header_settled:
  "uses_extended_length c n = Inr x \<Longrightarrow>
   encode_header_and_data (c\<lparr>apdu_extended := x\<rparr>) n = encode_header_and_data c n"
  by (simp add: encode_header_and_data_def uses_extended_length_settled)

lemma encrypt_command_data_decrypts:
  assumes laws: "symmetric_laws P" and key: "valid_aes_key (s_enc s)"
  obtains d where "encrypt_command_data P data s = (Inr d, s)" "length d \<le> length data + 16"
    "card_decrypt P s d = Inr data"
proof (cases "security_level s AND 0x02 \<noteq> 0 \<and> data \<noteq> []")
  case True
  obtain iv where iv: "command_iv P False s = Inr iv" "length iv = 16"
    unfolding command_iv_block by (rule symmetric_block [OF laws key length_counter_block])
  obtain d where d: "aes_cbc P (s_enc s) iv (pad_iso7816 P data) Encrypt = Inr d"
    "length d = length (pad_iso7816 P data)" "aes_cbc P (s_enc s) iv d Decrypt = Inr (pad_iso7816 P data)"
    by (rule symmetric_cbc [OF laws key iv(2) symmetric_pad(1) [OF laws]])
  have "d \<noteq> []" using d(2) symmetric_pad(2) [OF laws, of data] by auto
  then show ?thesis
    using True iv d symmetric_pad(3,4) [OF laws, of data]
    by (intro that [of d]) (simp_all add: encrypt_command_data_def card_decrypt_def)
next
  case False
  then show ?thesis
    by (intro that [of data]) (auto simp: encrypt_command_data_def card_decrypt_def)
qed

lemma mac_command_checks:
  fixes s :: "'k scp03_session" and t :: "'k scp03_session"
  assumes laws: "symmetric_laws P" and wf: "valid_aes_key (s_mac s)"
    and level: "security_level s AND 0x01 \<noteq> 0" and len: "length (apdu_data c) + 8 \<le> 65535"
    and le: "is_some_and (apdu_le c) (\<lambda>le. le = 0 \<or> 65536 < le) = False"
    and t: "s_mac t = s_mac s" "mac_chaining_value t = mac_chaining_value s"
  obtains mac bs q where
    "mac_command P c s = (Inr (c\<lparr>apdu_data := apdu_data c @ take 8 mac\<rparr>), s\<lparr>mac_chaining_value := mac\<rparr>)"
    "length mac = 16"
    "command_encode (c\<lparr>apdu_data := apdu_data c @ take 8 mac\<rparr>) = Inr bs" "command_decode bs = Inr q"
    "card_check_mac P t q = Inr (apdu_data c, mac)"
    "q\<lparr>apdu_data := d, apdu_extended := False\<rparr> = c\<lparr>apdu_data := d, apdu_extended := False\<rparr>"
proof -
  let ?n = "length (apdu_data c) + 8"
  obtain x where x: "uses_extended_length c ?n = Inr x"
    using len le by (auto simp: uses_extended_length_def)
  then obtain enc where enc: "encode_header_and_data c ?n = Inr enc"
    using len by (auto simp: encode_header_and_data_def)
  obtain mac where mac: "aes_cmac P (s_mac s) (mac_chaining_value s @ enc) = Inr mac" "length mac = 16"
    by (rule symmetric_cmac [OF laws wf])
  define p where "p = c\<lparr>apdu_data := apdu_data c @ take 8 mac\<rparr>"
  have n: "length (apdu_data p) = ?n" using mac(2) by (simp add: p_def)
  have xp: "uses_extended_length p (length (apdu_data p)) = Inr x" by (simp only: n) (simp add: p_def x)
  then obtain bs where bs: "command_encode p = Inr bs" by (auto simp: command_encode_wire)
  have norm: "apdu_normal p = p\<lparr>apdu_extended := x\<rparr>"
  proof -
    have "apdu_data p \<noteq> []" using n by auto
    then show ?thesis using xp by (simp add: apdu_normal_def)
  qed
  have dec: "command_decode bs = Inr (p\<lparr>apdu_extended := x\<rparr>)"
    using command_decode_encode [OF bs] norm by simp
  have "(p\<lparr>apdu_extended := x\<rparr>)\<lparr>apdu_data := apdu_data c\<rparr> = c\<lparr>apdu_extended := x\<rparr>"
    by (simp add: p_def)
  then have chk: "card_check_mac P t (p\<lparr>apdu_extended := x\<rparr>) = Inr (apdu_data c, mac)"
    using enc mac n encode_header_settled [OF x] t
    by (simp add: card_check_mac_def Let_def) (auto simp: p_def)
  show ?thesis
  proof (rule that [of mac bs "p\<lparr>apdu_extended := x\<rparr>"])
    show "mac_command P c s = (Inr (c\<lparr>apdu_data := apdu_data c @ take 8 mac\<rparr>),
            s\<lparr>mac_chaining_value := mac\<rparr>)"
      using level len enc mac
      by (simp add: mac_command_def sget_def smod_def sbind_def slift_def sok_def Let_def)
  qed (use mac bs dec chk in \<open>simp_all add: p_def\<close>)
qed

lemma security_level_bits:
  assumes "validate_security_level l = Inr ()" "l \<noteq> 0"
  shows "l AND 0x01 \<noteq> 0"
  using assms by (auto simp: validate_security_level_def split: if_splits)

definition secured_cla :: "'k scp03_session \<Rightarrow> byte \<Rightarrow> byte result" where
  "secured_cla s cla = (if security_level s = 0 then Inr cla else normalize_scp03_cla cla)"

lemma protect_command_received:
  assumes laws: "symmetric_laws P" and wf: "session_wf s" and room: "encryption_counter s + 1 < 2 ^ 128"
    and cla: "secured_cla s (apdu_cla c) = Inr cla"
    and len: "length (apdu_data c) \<le> 65511"
    and le: "is_some_and (apdu_le c) (\<lambda>le. le = 0 \<or> 65536 < le) = False"
  shows "\<exists>p s'. protect_command P c s = (Inr p, s') \<and>
    and_then (command_encode p) (\<lambda>bs. and_then (command_decode bs) (card_receive P s))
      = Inr (c\<lparr>apdu_cla := cla, apdu_extended := False\<rparr>, s')"
proof (cases "security_level s = 0")
  case True
  obtain x where "uses_extended_length c (length (apdu_data c)) = Inr x"
    using len le by (auto simp: uses_extended_length_def)
  then obtain bs where "command_encode c = Inr bs" by (auto simp: command_encode_wire)
  with True cla room show ?thesis
    by (simp add: protect_command_def advance_counter_def sbind_def sget_def smod_def slift_def sok_def
        secured_cla_def command_decode_encode card_receive_def apdu_normal_def)
next
  case False
  let ?s1 = "s\<lparr>encryption_counter := encryption_counter s + 1\<rparr>"
  have keys: "valid_aes_key (s_enc ?s1)" "valid_aes_key (s_mac ?s1)"
    and level: "security_level ?s1 AND 0x01 \<noteq> 0"
    using wf False security_level_bits by (auto simp: session_wf_def)
  obtain d where d: "encrypt_command_data P (apdu_data c) ?s1 = (Inr d, ?s1)"
    "length d \<le> length (apdu_data c) + 16" "card_decrypt P ?s1 d = Inr (apdu_data c)"
    by (rule encrypt_command_data_decrypts [OF laws keys(1)])
  let ?p = "c\<lparr>apdu_cla := cla, apdu_data := d\<rparr>"
  obtain mac bs q where m: "mac_command P ?p ?s1 =
      (Inr (?p\<lparr>apdu_data := apdu_data ?p @ take 8 mac\<rparr>), ?s1\<lparr>mac_chaining_value := mac\<rparr>)"
    "command_encode (?p\<lparr>apdu_data := apdu_data ?p @ take 8 mac\<rparr>) = Inr bs" "command_decode bs = Inr q"
    "card_check_mac P s q = Inr (apdu_data ?p, mac)"
    "q\<lparr>apdu_data := apdu_data c, apdu_extended := False\<rparr>
      = ?p\<lparr>apdu_data := apdu_data c, apdu_extended := False\<rparr>"
    by (rule mac_command_checks [OF laws keys(2) level, of ?p s "apdu_data c"]) (use d len le in auto)
  obtain x where x: "uses_extended_length c (length (apdu_data c)) = Inr x"
    using len le by (auto simp: uses_extended_length_def)
  have "protect_command P c s = mac_command P ?p ?s1"
    using False cla room x d(1)
    by (simp add: protect_command_def advance_counter_def sbind_def sget_def smod_def slift_def secured_cla_def)
  moreover have "card_receive P s q =
      Inr (c\<lparr>apdu_cla := cla, apdu_extended := False\<rparr>, ?s1\<lparr>mac_chaining_value := mac\<rparr>)"
    using False m(4,5) d(3) by (simp add: card_receive_def)
  ultimately show ?thesis using m(1-3) by simp
qed

lemma card_answer_accepted:
  assumes laws: "symmetric_laws P" and wf: "session_wf s"
    and r: "protected_status (resp_status r) \<or> resp_data r = []"
  shows "\<exists>a. card_answer P s r = Inr a \<and> unprotect_response P s a = Inr r"
proof (cases "protected_status (resp_status r)")
  case True
  have keys: "valid_aes_key (s_enc s)" "valid_aes_key (s_rmac s)" using wf by (auto simp: session_wf_def)
  have "\<exists>d. card_encrypt P s (resp_data r) = Inr d \<and> decrypt_response_data P s d = Inr (resp_data r)"
  proof (cases "security_level s AND 0x20 \<noteq> 0 \<and> resp_data r \<noteq> []")
    case True
    obtain iv where iv: "command_iv P True s = Inr iv" "length iv = 16"
      unfolding command_iv_block by (rule symmetric_block [OF laws keys(1) length_counter_block])
    obtain d where d: "aes_cbc P (s_enc s) iv (pad_iso7816 P (resp_data r)) Encrypt = Inr d"
      "length d = length (pad_iso7816 P (resp_data r))"
      "aes_cbc P (s_enc s) iv d Decrypt = Inr (pad_iso7816 P (resp_data r))"
      by (rule symmetric_cbc [OF laws keys(1) iv(2) symmetric_pad(1) [OF laws]])
    then show ?thesis
      using True iv symmetric_pad [OF laws, of "resp_data r"]
      by (intro exI [of _ d]) (auto simp: card_encrypt_def decrypt_response_data_def)
  next
    case False
    then show ?thesis by (auto simp: card_encrypt_def decrypt_response_data_def)
  qed
  then obtain d where d: "card_encrypt P s (resp_data r) = Inr d"
    "decrypt_response_data P s d = Inr (resp_data r)" by blast
  obtain mac where mac: "aes_cmac P (s_rmac s) (mac_chaining_value s @ d @ u16_to_be (resp_status r)) = Inr mac"
    "length mac = 16" by (rule symmetric_cmac [OF laws keys(2)])
  show ?thesis
    using True d mac
    by (cases "security_level s AND 0x10 = 0")
      (simp_all add: card_answer_def unprotect_response_def verify_response_mac_def)
next
  case False
  then show ?thesis using r by (simp add: card_answer_def unprotect_response_def)
qed

section \<open>Properties\<close>

text \<open>
  C7. The channel is transparent and stays synchronised: over a card that implements the peer side
  of SCP03 with the same session state, a command exchanged through the session is received by
  the application exactly as given (with the secure-messaging class byte), its answer is returned
  unchanged, and both sides end in the same well-formed state, one counter step later.
\<close>

theorem scp03_exchange_transparent:
  assumes "symmetric_laws P" "session_wf s" "encryption_counter s + 1 < 2 ^ 128"
    and "secured_cla s (apdu_cla c) = Inr cla" "length (apdu_data c) \<le> 65511"
    and "is_some_and (apdu_le c) (\<lambda>le. le = 0 \<or> 65536 < le) = False"
    and "\<And>c. protected_status (resp_status (app c)) \<or> resp_data (app c) = []"
  shows "\<exists>s'. session_exchange P (scp03_card P app) c (s, s) =
           (Inr (app (c\<lparr>apdu_cla := cla, apdu_extended := False\<rparr>)), (s', s'))
         \<and> session_wf s' \<and> encryption_counter s' = encryption_counter s + 1"
proof -
  obtain p s' where p: "protect_command P c s = (Inr p, s')"
    and recv: "and_then (command_encode p) (\<lambda>bs. and_then (command_decode bs) (card_receive P s))
      = Inr (c\<lparr>apdu_cla := cla, apdu_extended := False\<rparr>, s')"
    using protect_command_received [OF assms(1-6)] by blast
  have wf: "session_wf s'" using keepsD [OF protect_command_wf [OF assms(1)] assms(2), of c] p by simp
  have "encryption_counter s' = encryption_counter s + 1"
    using swp_ok [OF protect_command_frame p] by simp
  moreover obtain a where "card_answer P s' (app (c\<lparr>apdu_cla := cla, apdu_extended := False\<rparr>)) = Inr a"
    "unprotect_response P s' a = Inr (app (c\<lparr>apdu_cla := cla, apdu_extended := False\<rparr>))"
    using card_answer_accepted [OF assms(1) wf assms(7)] by blast
  then have "session_exchange P (scp03_card P app) c (s, s) =
           (Inr (app (c\<lparr>apdu_cla := cla, apdu_extended := False\<rparr>)), (s', s'))"
    using p recv
    by (auto simp: session_exchange_def on_fst_def on_snd_def sbind_def sget_def slift_def scp03_card_def)
  ultimately show ?thesis using wf by blast
qed

definition sample_session :: "unit scp03_session" where
  "sample_session =
     \<lparr>s_enc = replicate 16 1, s_mac = replicate 16 2, s_rmac = replicate 16 3, session_dek = None,
      oce_authenticated = True, mac_chaining_value = replicate 16 0, encryption_counter = 0,
      security_level = 0x33\<rparr>"

lemma sample_session_wf: "session_wf sample_session"
  by (simp add: session_wf_def sample_session_def valid_aes_key_def validate_security_level_def)

theorem scp03_exchange_transparent_witness:
  "\<exists>s'. session_exchange sample_primitives
          (scp03_card sample_primitives (\<lambda>c. \<lparr>resp_data = rev (apdu_data c), resp_status = 0x9000\<rparr>))
          \<lparr>apdu_cla = 0x80, apdu_ins = 0xca, apdu_p1 = 0, apdu_p2 = 0, apdu_data = [1, 2, 3],
           apdu_le = Some 256, apdu_extended = False\<rparr> (sample_session, sample_session)
        = (Inr \<lparr>resp_data = [3, 2, 1], resp_status = 0x9000\<rparr>, (s', s'))
      \<and> session_wf s' \<and> encryption_counter s' = 1"
  using scp03_exchange_transparent [OF sample_primitives_laws(1) sample_session_wf, of
      "\<lparr>apdu_cla = 0x80, apdu_ins = 0xca, apdu_p1 = 0, apdu_p2 = 0, apdu_data = [1, 2, 3],
        apdu_le = Some 256, apdu_extended = False\<rparr>" "0x84"
      "\<lambda>c. \<lparr>resp_data = rev (apdu_data c), resp_status = 0x9000\<rparr>"]
  by (simp add: secured_cla_def normalize_scp03_cla_def sample_session_def protected_status_def)


definition sample_commands :: "command_apdu list" where
  "sample_commands =
     [\<lparr>apdu_cla = 0, apdu_ins = 1, apdu_p1 = 0, apdu_p2 = 0, apdu_data = [1], apdu_le = None,
       apdu_extended = False\<rparr>,
      \<lparr>apdu_cla = 0, apdu_ins = 2, apdu_p1 = 0, apdu_p2 = 0, apdu_data = [], apdu_le = None,
       apdu_extended = False\<rparr>]"


text \<open>
  C9. With response authentication negotiated, a response is passed to the caller either
  unchanged, as a status without data, or after its last eight bytes were found to be the tag of
  the chaining value, the data and the status under the response key.
\<close>

theorem scp03_response_authenticated:
  assumes "security_level s AND SECURITY_R_MAC \<noteq> 0" "unprotect_response P s response = Inr r"
  shows "resp_status r = resp_status response \<and>
    (if protected_status (resp_status response)
     then \<exists>data mac. aes_cmac P (s_rmac s)
                        (mac_chaining_value s @ data @ u16_to_be (resp_status response)) = Inr mac
            \<and> resp_data response = data @ take 8 mac
            \<and> decrypt_response_data P s data = Inr (resp_data r)
     else resp_data response = [] \<and> r = response)"
proof (cases "protected_status (resp_status response)")
  case True
  then obtain data where v: "verify_response_mac P s response = Inr data"
    and d: "decrypt_response_data P s data = Inr (resp_data r)" "resp_status r = resp_status response"
    using assms(2) by (auto simp: unprotect_response_def)
  then obtain mac where "aes_cmac P (s_rmac s)
        (mac_chaining_value s @ data @ u16_to_be (resp_status response)) = Inr mac"
      "resp_data response = data @ take 8 mac"
    using assms(1)
    by (auto simp: verify_response_mac_def Let_def split: if_splits)
  with True d show ?thesis by auto
next
  case False
  then show ?thesis using assms(2) by (auto simp: unprotect_response_def split: if_splits)
qed

theorem scp03_response_authenticated_witness:
  "unprotect_response sample_primitives (sample_session\<lparr>security_level := 0x11\<rparr>)
     \<lparr>resp_data = 7 # take 8 (fold_mac (replicate 16 0 @ [7, 0x90, 0])), resp_status = 0x9000\<rparr>
   = Inr \<lparr>resp_data = [7], resp_status = 0x9000\<rparr> \<and>
   (\<exists>data mac. aes_cmac sample_primitives (replicate 16 3) (replicate 16 0 @ data @ [0x90, 0]) = Inr mac
      \<and> 7 # take 8 (fold_mac (replicate 16 0 @ [7, 0x90, 0])) = data @ take 8 mac)"
proof -
  let ?s = "sample_session\<lparr>security_level := 0x11\<rparr>"
  let ?r = "\<lparr>resp_data = 7 # take 8 (fold_mac (replicate 16 0 @ [7, 0x90, 0])), resp_status = 0x9000\<rparr>"
  have u: "u16_to_be 0x9000 = [0x90, 0]" by (simp add: u16_to_be_def be_of_nat_two)
  have ok: "unprotect_response sample_primitives ?s ?r = Inr \<lparr>resp_data = [7], resp_status = 0x9000\<rparr>"
    by (simp add: unprotect_response_def protected_status_def verify_response_mac_def
        decrypt_response_data_def sample_session_def sample_primitives_def aes_cmac_def u fold_mac_def)
  have "\<exists>data mac. aes_cmac sample_primitives (s_rmac ?s)
           (mac_chaining_value ?s @ data @ u16_to_be (resp_status ?r)) = Inr mac
        \<and> resp_data ?r = data @ take 8 mac"
    using scp03_response_authenticated [OF _ ok] by (auto simp: sample_session_def protected_status_def)
  with ok show ?thesis by (simp add: sample_session_def u)
qed

text \<open>
  C10. A session is established only with a card that proved to hold the static keys, and only after
  the card accepted the host.  The card answered INITIALIZE UPDATE for SCP03 with the requested key
  version and supports the requested response protection; the keys are those resolved for the
  issuer context it sent, and a challenge that the card derives from its sequence counter is the one
  they give.  All three session keys are derived from these static keys and both challenges.  The
  cryptogram in the card's answer is the one the session MAC key gives for both challenges.  The host
  then sent its own cryptogram under the same key with a command MAC, and the card answered that
  command with success.  The session has exactly the level asked for, a fresh counter, the retained
  data-encryption key and the tag sent as its chaining value.
\<close>

theorem scp03_establish_authenticated:
  assumes "establish_using P send key_version key_id level host_challenge aid resolve t = (Inr s, t')"
  shows "\<exists>t1 response update keys enc_length mac_length host_cryptogram mac answer.
     transmit_apdu send \<lparr>apdu_cla = 0x80, apdu_ins = 0x50, apdu_p1 = key_version, apdu_p2 = key_id,
       apdu_data = host_challenge, apdu_le = Some 256, apdu_extended = False\<rparr> t = (Inr response, t1) \<and>
     resp_status response = RESPONSE_OK \<and>
     initialize_update_parse (resp_data response) = Inr update \<and> iu_scp_id update = 0x03 \<and>
     (key_version \<noteq> 0 \<longrightarrow> iu_key_version update = key_version) \<and>
     validate_card_capabilities (iu_implementation update) level = Inr () \<and>
     validate_security_level level = Inr () \<and>
     resolve (iu_issuer_context update) = Inr keys \<and>
     (\<forall>counter. iu_sequence_counter update = Some counter \<longrightarrow>
        keys_derive keys True DERIVATION_CARD_CHALLENGE (counter @ aid) 8 = Inr (iu_card_challenge update)) \<and>
     keys_enc_length keys = Inr enc_length \<and> keys_mac_length keys = Inr mac_length \<and>
     keys_derive keys True DERIVATION_S_ENC (host_challenge @ iu_card_challenge update) enc_length = Inr (s_enc s) \<and>
     keys_derive keys False DERIVATION_S_MAC (host_challenge @ iu_card_challenge update) mac_length = Inr (s_mac s) \<and>
     keys_derive keys False DERIVATION_S_RMAC (host_challenge @ iu_card_challenge update) mac_length = Inr (s_rmac s) \<and>
     scp03_kdf P (s_mac s) DERIVATION_CARD_CRYPTOGRAM (host_challenge @ iu_card_challenge update) 64
       = Inr (take 8 (drop 21 (resp_data response))) \<and>
     scp03_kdf P (s_mac s) DERIVATION_HOST_CRYPTOGRAM (host_challenge @ iu_card_challenge update) 64
       = Inr host_cryptogram \<and>
     aes_cmac P (s_mac s) (replicate 16 0 @ [0x84, 0x82, level, 0x00, 0x10] @ host_cryptogram) = Inr mac \<and>
     transmit_apdu send \<lparr>apdu_cla = 0x84, apdu_ins = 0x82, apdu_p1 = level, apdu_p2 = 0,
       apdu_data = host_cryptogram @ take MAC_LENGTH mac, apdu_le = None, apdu_extended = False\<rparr> t1 = (Inr answer, t') \<and>
     resp_status answer = RESPONSE_OK \<and>
     take_dek keys = Inr (session_dek s) \<and>
     security_level s = level \<and> encryption_counter s = 0 \<and> mac_chaining_value s = mac \<and>
     oce_authenticated s"
  using assms
  by (auto simp: establish_using_def sbind_ok require_success_def from_initialize_update_def
      check_card_challenge_def external_authenticate_def Let_def split: if_splits sum.splits prod.splits option.splits)

definition sample_keys :: "unit scp03_keys" where
  "sample_keys =
     \<lparr>keys_enc_length = Inr 16, keys_mac_length = Inr 16,
      keys_counter_kdf = (\<lambda>enc fields n. case fields of KdfBytes label # _ \<Rightarrow> Inr (replicate n (last label)) | _ \<Rightarrow> Inr []),
      keys_dek = None\<rparr>"

definition sample_initialize_response :: response_apdu where
  "sample_initialize_response =
     \<lparr>resp_data = replicate 10 0 @ [0xff, 0x03, 0x60] @ replicate 8 5 @ replicate 8 0,
      resp_status = 0x9000\<rparr>"

lemma transmit_scripted:
  "is_ok (command_encode c) \<Longrightarrow> transmit_apdu scripted c (r # rs) = (Inr r, rs)"
  by (auto simp: transmit_apdu_def sbind_def slift_def scripted_def response_parse_encode)

lemma sample_parse:
  "initialize_update_parse (resp_data sample_initialize_response) =
     Inr \<lparr>iu_issuer_context = replicate 10 0, iu_key_version = 0xff, iu_scp_id = 0x03,
          iu_implementation = 0x60, iu_card_challenge = replicate 8 5, iu_sequence_counter = None\<rparr>"
  "take 8 (drop 21 (resp_data sample_initialize_response)) = replicate 8 0"
  by (simp_all add: sample_initialize_response_def initialize_update_parse_def
      validate_implementation_def nth_append)

lemma sample_from_initialize_update:
  "from_initialize_update sample_primitives sample_keys 0x33 (replicate 8 1)
     \<lparr>iu_issuer_context = replicate 10 0, iu_key_version = 0xff, iu_scp_id = 0x03,
      iu_implementation = 0x60, iu_card_challenge = replicate 8 5, iu_sequence_counter = None\<rparr>
     (replicate 8 0) =
   Inr (\<lparr>s_enc = replicate 16 4, s_mac = replicate 16 6, s_rmac = replicate 16 7,
         session_dek = None, oce_authenticated = True, mac_chaining_value = replicate 16 0,
         encryption_counter = 0, security_level = 0x33\<rparr>, be_of_nat 8 1)"
proof -
  have "be_of_nat n 0 = replicate n 0" for n
    by (induction n) (simp_all add: replicate_append_same)
  then show ?thesis
    by (simp add: from_initialize_update_def validate_security_level_def sample_keys_def keys_derive_def
        scp03_kdf_def sample_primitives_def)
qed

lemma sample_establish:
  "establish_using sample_primitives scripted 0xff 0 0x33 (replicate 8 1) [] (\<lambda>_. Inr sample_keys)
     [sample_initialize_response, \<lparr>resp_data = [], resp_status = 0x9000\<rparr>] =
   (Inr \<lparr>s_enc = replicate 16 4, s_mac = replicate 16 6, s_rmac = replicate 16 7,
         session_dek = None, oce_authenticated = True,
         mac_chaining_value = fold_mac (replicate 16 0 @ [0x84, 0x82, 0x33, 0, 0x10] @ be_of_nat 8 1),
         encryption_counter = 0, security_level = 0x33\<rparr>, [])"
proof -
  have enc: "is_ok (command_encode c)"
    if "length (apdu_data c) \<le> 255" "apdu_le c = None \<or> apdu_le c = Some 256" for c
    using that by (auto simp: command_encode_wire uses_extended_length_def)
  show ?thesis
    by (simp add: establish_using_def transmit_scripted enc sbind_def [of "transmit_apdu _ _"]
        require_success_def sample_parse sample_from_initialize_update check_card_challenge_def
        take_dek_def external_authenticate_def aes_cmac_def sensure_def validate_security_level_def
        validate_card_capabilities_def)
      (simp add: sample_initialize_response_def sample_keys_def sample_primitives_def fold_mac_def
        transmit_scripted enc sbind_def slift_def sok_def require_success_def)
qed

theorem scp03_establish_authenticated_witness:
  "\<exists>s. establish_using sample_primitives scripted 0xff 0 0x33 (replicate 8 1) [] (\<lambda>_. Inr sample_keys)
     [sample_initialize_response, \<lparr>resp_data = [], resp_status = 0x9000\<rparr>] = (Inr s, []) \<and>
   security_level s = 0x33 \<and> encryption_counter s = 0 \<and> oce_authenticated s \<and>
   (\<exists>context. keys_derive sample_keys False DERIVATION_S_MAC context 16 = Inr (s_mac s))"
proof -
  have "keys_mac_length sample_keys = Inr 16" by (simp add: sample_keys_def)
  with sample_establish scp03_establish_authenticated [OF sample_establish] show ?thesis by fastforce
qed
end
