(* ===== verification/Handles.thy ===== *)
theory Handles
  imports Prelude
begin

text \<open>
  Handle allocation (src/src/context.rs, \<open>HandleCounters\<close> and \<open>allocate_handle\<close>): two 64-bit
  counters that start at one and stop for good when they wrap to zero.  The interface that the
  tables of sessions and objects rely on is the locale \<open>handle_supply\<close>.
\<close>

type_synonym handle = u64

abbreviation (input) CK_ULONG_MAX :: nat where "CK_ULONG_MAX \<equiv> 18446744073709551615"

record handle_counters =
  next_object :: u64
  next_session :: u64

definition handle_counters_new :: handle_counters where
  "handle_counters_new = \<lparr>next_object = 1, next_session = 1\<rparr>"

text \<open>The handle issued and the counter after it; the comparison is on wider integers.\<close>

definition allocate_handle :: "u64 \<Rightarrow> (handle \<times> u64) result" where
  "allocate_handle candidate =
     (if candidate = 0 \<or> CK_ULONG_MAX < unat candidate then Inl (Generic CKR_HOST_MEMORY)
      else Inr (candidate, candidate + 1))"

definition allocate_object :: "(handle_counters, handle) comp" where
  "allocate_object = (\<lambda>c.
     case allocate_handle (next_object c) of
       Inl e \<Rightarrow> (Inl e, c)
     | Inr (h, n) \<Rightarrow> (Inr h, c\<lparr>next_object := n\<rparr>))"

definition allocate_session :: "(handle_counters, handle) comp" where
  "allocate_session = (\<lambda>c.
     case allocate_handle (next_session c) of
       Inl e \<Rightarrow> (Inl e, c)
     | Inr (h, n) \<Rightarrow> (Inr h, c\<lparr>next_session := n\<rparr>))"

section \<open>Issued handles\<close>

definition issued :: "u64 \<Rightarrow> handle \<Rightarrow> bool" where
  "issued n h \<longleftrightarrow> h \<noteq> 0 \<and> (n = 0 \<or> h < n)"

text \<open>Allocations one after the other.\<close>

fun alloc_list :: "('c \<Rightarrow> ('h \<times> 'c) result) \<Rightarrow> nat \<Rightarrow> 'c \<Rightarrow> ('h list \<times> 'c) result" where
  "alloc_list alloc 0 c = Inr ([], c)"
| "alloc_list alloc (Suc n) c =
     and_then (alloc c) (\<lambda>(h, c').
     and_then (alloc_list alloc n c') (\<lambda>(hs, c''). Inr (h # hs, c'')))"

text \<open>A supply of identifiers: what is issued was not issued before and stays issued.\<close>

locale handle_supply =
  fixes alloc :: "'c \<Rightarrow> ('h \<times> 'c) result"
    and used :: "'c \<Rightarrow> 'h \<Rightarrow> bool"
  assumes fresh: "alloc c = Inr (h, c') \<Longrightarrow> \<not> used c h"
    and exact: "alloc c = Inr (h, c') \<Longrightarrow> used c' k \<longleftrightarrow> k = h \<or> used c k"
begin

text \<open>A table whose keys were all issued can take the next handle as a new key.\<close>

lemma fresh_key: "alloc c = Inr (h, c') \<Longrightarrow> \<forall>k \<in> set ks. used c k \<Longrightarrow> h \<notin> set ks"
  using fresh by blast

lemma keys_stay: "alloc c = Inr (h, c') \<Longrightarrow> \<forall>k \<in> set ks. used c k \<Longrightarrow> \<forall>k \<in> set (h # ks). used c' k"
  by (auto simp: exact)

lemma alloc_list_distinct:
  "alloc_list alloc n c = Inr (hs, c') \<Longrightarrow>
   distinct hs \<and> (\<forall>h \<in> set hs. \<not> used c h) \<and> (\<forall>k. used c' k \<longleftrightarrow> k \<in> set hs \<or> used c k)"
proof (induction n arbitrary: c hs)
  case (Suc n)
  then obtain h d ks where "alloc c = Inr (h, d)" "alloc_list alloc n d = Inr (ks, c')" "hs = h # ks"
    by auto
  with Suc.IH [of d ks] show ?case using fresh exact by auto
qed simp

end

lemma allocate_handle_ok:
  assumes "allocate_handle n = Inr (h, n')"
  shows "h = n" "n' = n + 1" "n \<noteq> 0"
  using assms by (auto simp: allocate_handle_def split: if_splits)

lemma word_less_succ_iff: "(n :: u64) + 1 \<noteq> 0 \<Longrightarrow> k < n + 1 \<longleftrightarrow> k = n \<or> k < n"
  using unatSuc [of n] by (auto simp: word_less_nat_alt word_unat_eq_iff less_Suc_eq add.commute)

interpretation handles: handle_supply allocate_handle issued
proof
  fix c h c' :: u64
  assume a: "allocate_handle c = Inr (h, c')"
  then show "\<not> issued c h" using allocate_handle_ok [OF a] by (simp add: issued_def)
  fix k :: u64
  show "issued c' k \<longleftrightarrow> k = h \<or> issued c k"
  proof (cases "c + 1 = 0")
    case True
    then have "c = - 1" by (simp add: eq_neg_iff_add_eq_0)
    then have "k < c \<or> k = c" by (metis word_order.not_eq_extremum)
    with True allocate_handle_ok [OF a] show ?thesis by (auto simp: issued_def)
  next
    case False
    with allocate_handle_ok [OF a] show ?thesis
      by (auto simp: issued_def word_less_succ_iff)
  qed
qed

lemma allocate_object_swp [swp_simps]:
  "swp allocate_object Q E c =
     (case allocate_handle (next_object c) of
        Inl e \<Rightarrow> E e c | Inr (h, n) \<Rightarrow> Q h (c\<lparr>next_object := n\<rparr>))"
  by (simp add: allocate_object_def swp_def split: sum.splits prod.splits)

lemma allocate_session_swp [swp_simps]:
  "swp allocate_session Q E c =
     (case allocate_handle (next_session c) of
        Inl e \<Rightarrow> E e c | Inr (h, n) \<Rightarrow> Q h (c\<lparr>next_session := n\<rparr>))"
  by (simp add: allocate_session_def swp_def split: sum.splits prod.splits)

section \<open>Properties\<close>

text \<open>
  C11. Handles are never zero, never repeated and never given out again: any number of successive
  allocations yields distinct non-zero handles that were not issued before, and once the counter
  has wrapped to zero every allocation fails with \<open>CKR_HOST_MEMORY\<close>.
\<close>

theorem handles_never_reused:
  assumes "alloc_list allocate_handle n c = Inr (hs, c')"
  shows "distinct hs \<and> length hs = n \<and> (\<forall>h \<in> set hs. h \<noteq> 0 \<and> \<not> issued c h \<and> issued c' h)
    \<and> allocate_handle 0 = Inl (Generic CKR_HOST_MEMORY)"
proof -
  have "length hs = n" using assms by (induction n arbitrary: c hs) auto
  moreover have "\<forall>h \<in> set hs. issued c' h" "distinct hs" "\<forall>h \<in> set hs. \<not> issued c h"
    using handles.alloc_list_distinct [OF assms] by auto
  ultimately show ?thesis by (auto simp: issued_def allocate_handle_def)
qed

theorem handles_never_reused_witness:
  "alloc_list allocate_handle 3 (next_object handle_counters_new) = Inr ([1, 2, 3], 4) \<and>
   distinct [1, 2, 3 :: handle]"
proof -
  have "alloc_list allocate_handle 3 (next_object handle_counters_new) = Inr ([1, 2, 3], 4)"
    by (subst numeral_3_eq_3) (simp add: allocate_handle_def handle_counters_new_def)
  then show ?thesis using handles_never_reused by blast
qed
end
