(* ===== verification/Storage.thy ===== *)
theory Storage
  imports Prelude "HOL-Library.List_Lexorder"
begin

text \<open>
  Content-addressed storage of backed objects (src/src/storage.rs): references and their file
  names, the in-memory provider that every session owns, and the local provider that keeps one
  file per object.  The SHA3-256 digest and the CBOR well-formedness check belong to third-party
  crates and are arguments.  Files are a map from names to contents; the steps of a write to disk
  are listed one by one, so that an interruption between any two of them can be stated.
\<close>

datatype storage_error =
    Unavailable
  | StorageIo
  | InvalidReference
  | Integrity
  | InvalidCbor
  | Conflict
  | Provider string
  | UnsupportedHashAlgorithm string

type_synonym 'a stored = "storage_error + 'a"

section \<open>References\<close>

datatype content_hash_algorithm = Sha3_256

record content_reference =
  ref_algorithm :: content_hash_algorithm
  ref_digest :: bytes

fun algorithm_name :: "content_hash_algorithm \<Rightarrow> string" where
  "algorithm_name Sha3_256 = ''sha3-256''"

fun digest_length :: "content_hash_algorithm \<Rightarrow> nat" where
  "digest_length Sha3_256 = 32"

definition algorithm_from_name :: "string \<Rightarrow> content_hash_algorithm stored" where
  "algorithm_from_name name =
     (if name = ''sha3-256'' then Inr Sha3_256 else Inl (UnsupportedHashAlgorithm name))"

definition reference_for_object :: "(bytes \<Rightarrow> bytes) \<Rightarrow> bytes \<Rightarrow> content_reference" where
  "reference_for_object digest object = \<lparr>ref_algorithm = Sha3_256, ref_digest = digest object\<rparr>"

definition reference_new :: "content_hash_algorithm \<Rightarrow> bytes \<Rightarrow> content_reference stored" where
  "reference_new algorithm d =
     (if length d \<noteq> digest_length algorithm then Inl InvalidReference
      else Inr \<lparr>ref_algorithm = algorithm, ref_digest = d\<rparr>)"

definition reference_matches :: "(bytes \<Rightarrow> bytes) \<Rightarrow> content_reference \<Rightarrow> bytes \<Rightarrow> bool" where
  "reference_matches digest r object \<longleftrightarrow> digest object = ref_digest r"

section \<open>Hexadecimal file names\<close>

definition hex_digit :: "nat \<Rightarrow> char" where
  "hex_digit n = ''0123456789abcdef'' ! n"

fun encode_lower_hex :: "bytes \<Rightarrow> string" where
  "encode_lower_hex [] = []"
| "encode_lower_hex (b # bs) =
     hex_digit (unat (drop_bit 4 b)) # hex_digit (unat (b AND 0x0f)) # encode_lower_hex bs"

definition lower_hex_value :: "char \<Rightarrow> byte stored" where
  "lower_hex_value c =
     (let value = of_char c :: nat in
      if 48 \<le> value \<and> value \<le> 57 then Inr (of_nat (value - 48))
      else if 97 \<le> value \<and> value \<le> 102 then Inr (of_nat (value - 97 + 10))
      else Inl InvalidReference)"

fun decode_hex_pairs :: "string \<Rightarrow> bytes stored" where
  "decode_hex_pairs (a # b # rest) =
     and_then (lower_hex_value a) (\<lambda>high.
     and_then (lower_hex_value b) (\<lambda>low.
     and_then (decode_hex_pairs rest) (\<lambda>bs.
     Inr ((push_bit 4 high OR low) # bs))))"
| "decode_hex_pairs _ = Inr []"

definition decode_lower_hex :: "string \<Rightarrow> bytes stored" where
  "decode_lower_hex encoded =
     (if length encoded mod 2 \<noteq> 0 then Inl InvalidReference else decode_hex_pairs encoded)"

definition filename :: "content_reference \<Rightarrow> string" where
  "filename r =
     algorithm_name (ref_algorithm r) @ ''-'' @ encode_lower_hex (ref_digest r) @ ''.cbor''"

definition ends_with :: "string \<Rightarrow> string \<Rightarrow> bool" where
  "ends_with s suffix \<longleftrightarrow> length suffix \<le> length s \<and> drop (length s - length suffix) s = suffix"

definition starts_with :: "string \<Rightarrow> string \<Rightarrow> bool" where
  "starts_with s prefix \<longleftrightarrow> take (length prefix) s = prefix"

definition rsplit_once :: "char \<Rightarrow> string \<Rightarrow> (string \<times> string) option" where
  "rsplit_once c s =
     (case dropWhile (\<lambda>x. x \<noteq> c) (rev s) of
        [] \<Rightarrow> None
      | _ # front \<Rightarrow> Some (rev front, rev (takeWhile (\<lambda>x. x \<noteq> c) (rev s))))"

definition from_filename :: "string \<Rightarrow> content_reference stored" where
  "from_filename name =
     (if \<not> ends_with name ''.cbor'' then Inl InvalidReference
      else case rsplit_once (CHR ''-'') (take (length name - 5) name) of
        None \<Rightarrow> Inl InvalidReference
      | Some (algorithm, hex) \<Rightarrow>
          and_then (algorithm_from_name algorithm) (\<lambda>a.
          and_then (decode_lower_hex hex) (\<lambda>d.
          reference_new a d)))"

lemma hex_digit_value:
  assumes "n < 16"
  shows "lower_hex_value (hex_digit n) = Inr (of_nat n)" "hex_digit n \<noteq> CHR ''-''"
proof -
  have "list_all (\<lambda>n. lower_hex_value (hex_digit n) = Inr (of_nat n) \<and> hex_digit n \<noteq> CHR ''-'') [0..<16]"
    by (simp add: hex_digit_def lower_hex_value_def numeral_eq_Suc)
  with assms show "lower_hex_value (hex_digit n) = Inr (of_nat n)" "hex_digit n \<noteq> CHR ''-''"
    by (simp_all add: list_all_iff)
qed

lemma nibbles:
  fixes b :: byte
  shows "unat (drop_bit 4 b) < 16" "unat (b AND 0x0f) < 16"
    "push_bit 4 (drop_bit 4 b) OR (b AND 0x0f) = b"
proof -
  have m: "(0x0f :: byte) = mask 4" by (simp add: mask_eq_exp_minus_1)
  have "unat b < 256" by (rule unat_byte_bound)
  then show "unat (drop_bit 4 b) < 16"
    by (simp only: unsigned_drop_bit_eq) (simp add: drop_bit_eq_div take_bit_eq_mod)
  show "unat (b AND 0x0f) < 16"
    by (simp only: m unsigned_take_bit_eq flip: take_bit_eq_mask) (simp add: take_bit_eq_mod)
  show "push_bit 4 (drop_bit 4 b) OR (b AND 0x0f) = b"
    by (simp only: m flip: take_bit_eq_mask) (rule bit_word_eqI, auto simp: bit_simps)
qed

lemma decode_encode_hex: "decode_hex_pairs (encode_lower_hex bs) = Inr bs"
proof (induction bs)
  case (Cons b bs)
  have "(of_nat (unat (drop_bit 4 b)) :: byte) = drop_bit 4 b" "(of_nat (unat (b AND 0x0f)) :: byte) = b AND 0x0f"
    by simp_all
  then show ?case
    using Cons nibbles [of b] by (simp only: encode_lower_hex.simps decode_hex_pairs.simps
        hex_digit_value(1) and_then.simps)
qed simp

lemma length_encode_hex: "length (encode_lower_hex bs) = 2 * length bs"
  by (induction bs) auto

lemma hex_no_dash: "CHR ''-'' \<notin> set (encode_lower_hex bs)"
proof (induction bs)
  case (Cons b bs)
  then show ?case
    using hex_digit_value(2) [OF nibbles(1) [of b]] hex_digit_value(2) [OF nibbles(2) [of b]] by auto
qed simp

lemma rsplit_once_last: "c \<notin> set t \<Longrightarrow> rsplit_once c (s @ c # t) = Some (s, t)"
proof -
  assume c: "c \<notin> set t"
  then have "dropWhile (\<lambda>x. x \<noteq> c) (rev t @ c # rev s) = c # rev s"
    "takeWhile (\<lambda>x. x \<noteq> c) (rev t @ c # rev s) = rev t"
    by (subst dropWhile_append2 takeWhile_append2; auto)+
  then show ?thesis by (simp add: rsplit_once_def)
qed

lemma from_filename_filename:
  assumes "length (ref_digest r) = 32"
  shows "from_filename (filename r) = Inr r"
proof -
  have name: "filename r = (''sha3-256'' @ CHR ''-'' # encode_lower_hex (ref_digest r)) @ ''.cbor''"
    by (cases "ref_algorithm r") (simp add: filename_def)
  have "take (length (filename r) - 5) (filename r)
      = ''sha3-256'' @ CHR ''-'' # encode_lower_hex (ref_digest r)"
    unfolding name by simp
  moreover have "ends_with (filename r) ''.cbor''"
    unfolding name ends_with_def by simp
  ultimately show ?thesis
    using assms rsplit_once_last [OF hex_no_dash, of "''sha3-256''" "ref_digest r"]
    by (cases r; cases "ref_algorithm r")
      (simp add: from_filename_def algorithm_from_name_def decode_lower_hex_def length_encode_hex
        decode_encode_hex reference_new_def)
qed

section \<open>Ordering of references\<close>

text \<open>The derived order of the source: by algorithm, of which there is one, then by digest.\<close>

instantiation content_reference_ext :: (linorder) linorder
begin

definition less_eq_content_reference_ext ::
  "'a content_reference_ext \<Rightarrow> 'a content_reference_ext \<Rightarrow> bool" where
  "less_eq_content_reference_ext r s \<longleftrightarrow>
     ref_digest r < ref_digest s \<or>
     ref_digest r = ref_digest s \<and> content_reference.more r \<le> content_reference.more s"

definition less_content_reference_ext ::
  "'a content_reference_ext \<Rightarrow> 'a content_reference_ext \<Rightarrow> bool" where
  "less_content_reference_ext r s \<longleftrightarrow> r \<le> s \<and> \<not> s \<le> (r :: 'a content_reference_ext)"

instance
proof
  fix r s t :: "'a content_reference_ext"
  show "r < s \<longleftrightarrow> r \<le> s \<and> \<not> s \<le> r" by (rule less_content_reference_ext_def)
  show "r \<le> r" by (simp add: less_eq_content_reference_ext_def)
  show "r \<le> s \<Longrightarrow> s \<le> t \<Longrightarrow> r \<le> t" by (auto simp: less_eq_content_reference_ext_def)
  show "r \<le> s \<or> s \<le> r" by (auto simp: less_eq_content_reference_ext_def)
  show "r \<le> s \<Longrightarrow> s \<le> r \<Longrightarrow> r = s"
    by (cases "ref_algorithm r"; cases "ref_algorithm s"; cases r; cases s)
      (auto simp: less_eq_content_reference_ext_def)
qed

end

section \<open>Providers\<close>

text \<open>The interface of a provider and what its clients rely on: what was put can be read back
  until it is deleted, nothing else changes, and the consistency of the store is kept.\<close>

locale content_store =
  fixes put :: "bytes \<Rightarrow> 's \<Rightarrow> content_reference stored \<times> 's"
    and get :: "content_reference \<Rightarrow> 's \<Rightarrow> bytes option stored"
    and delete :: "content_reference \<Rightarrow> 's \<Rightarrow> bool stored \<times> 's"
    and consistent :: "'s \<Rightarrow> bool"
  assumes put_consistent: "consistent s \<Longrightarrow> put bs s = (outcome, s') \<Longrightarrow> consistent s'"
    and put_get: "consistent s \<Longrightarrow> put bs s = (Inr r, s') \<Longrightarrow> get r s' = Inr (Some bs)"
    and put_keeps: "consistent s \<Longrightarrow> put bs s = (outcome, s') \<Longrightarrow> get k s = Inr (Some x) \<Longrightarrow>
      get k s' = Inr (Some x)"
    and delete_consistent: "consistent s \<Longrightarrow> delete r s = (deleted, s') \<Longrightarrow> consistent s'"
    and delete_get: "consistent s \<Longrightarrow> delete r s = (Inr b, s') \<Longrightarrow> get r s' = Inr None"
    and delete_other: "consistent s \<Longrightarrow> delete r s = (deleted, s') \<Longrightarrow> k \<noteq> r \<Longrightarrow> get k s' = get k s"

text \<open>Storing the dependencies of an object and then the object (\<open>put_backed_object\<close> of
  src/src/backed_object.rs, after the encoding).\<close>

fun put_all :: "(bytes \<Rightarrow> 's \<Rightarrow> content_reference stored \<times> 's) \<Rightarrow> bytes list \<Rightarrow> 's \<Rightarrow> unit stored \<times> 's" where
  "put_all put [] s = (Inr (), s)"
| "put_all put (d # ds) s =
     (case put d s of
        (Inl e, s') \<Rightarrow> (Inl e, s')
      | (Inr _, s') \<Rightarrow> put_all put ds s')"

definition put_encoded ::
  "(bytes \<Rightarrow> 's \<Rightarrow> content_reference stored \<times> 's) \<Rightarrow> bytes list \<Rightarrow> bytes \<Rightarrow> 's
   \<Rightarrow> content_reference stored \<times> 's" where
  "put_encoded put dependencies object s =
     (case put_all put dependencies s of
        (Inl e, s') \<Rightarrow> (Inl e, s')
      | (Inr _, s') \<Rightarrow> put object s')"

context content_store
begin

lemma put_all_readable:
  "consistent s \<Longrightarrow> put_all put ds s = (outcome, s') \<Longrightarrow>
   consistent s' \<and> (\<forall>k x. get k s = Inr (Some x) \<longrightarrow> get k s' = Inr (Some x)) \<and>
   (outcome = Inr () \<longrightarrow> (\<forall>d \<in> set ds. \<exists>k. get k s' = Inr (Some d)))"
proof (induction ds arbitrary: s)
  case (Cons d ds)
  obtain r t where step: "put d s = (r, t)" by fastforce
  have t: "consistent t" "\<And>k x. get k s = Inr (Some x) \<Longrightarrow> get k t = Inr (Some x)"
    using put_consistent put_keeps step Cons.prems by blast+
  show ?case
  proof (cases r)
    case (Inl e)
    then show ?thesis using Cons.prems step t by auto
  next
    case (Inr k)
    then have "get k t = Inr (Some d)" using put_get step Cons.prems by blast
    with Inr show ?thesis using Cons.IH [OF t(1)] Cons.prems step t(2) by auto blast
  qed
qed simp

lemma put_encoded_readable:
  assumes "consistent s" "put_encoded put ds object s = (Inr r, s')"
  shows "consistent s'" "get r s' = Inr (Some object)" "\<forall>d \<in> set ds. \<exists>k. get k s' = Inr (Some d)"
    "get k s = Inr (Some x) \<Longrightarrow> get k s' = Inr (Some x)"
proof -
  obtain t where t: "put_all put ds s = (Inr (), t)" "put object t = (Inr r, s')"
    using assms(2) by (auto simp: put_encoded_def split: prod.splits sum.splits)
  note a = put_all_readable [OF assms(1) t(1)]
  show "consistent s'" "get r s' = Inr (Some object)" using put_consistent put_get a t(2) by blast+
  show "\<forall>d \<in> set ds. \<exists>k. get k s' = Inr (Some d)" "get k s = Inr (Some x) \<Longrightarrow> get k s' = Inr (Some x)"
    using put_keeps a t(2) by blast+
qed

end

subsection \<open>Memory\<close>

type_synonym memory_store = "(content_reference, bytes) hash_map"

definition memory_list :: "memory_store \<Rightarrow> content_reference list stored" where
  "memory_list s = Inr (sort (map_keys s))"

definition memory_get :: "(bytes \<Rightarrow> bytes) \<Rightarrow> content_reference \<Rightarrow> memory_store \<Rightarrow> bytes option stored" where
  "memory_get digest r s =
     (if is_some_and (map_of s r) (\<lambda>object. \<not> reference_matches digest r object) then Inl Integrity
      else Inr (map_of s r))"

definition memory_put ::
  "(bytes \<Rightarrow> bytes) \<Rightarrow> (bytes \<Rightarrow> bool) \<Rightarrow> bytes \<Rightarrow> memory_store \<Rightarrow> content_reference stored \<times> memory_store" where
  "memory_put digest valid_cbor object s =
     (if \<not> valid_cbor object then (Inl InvalidCbor, s)
      else let r = reference_for_object digest object in
        case map_of s r of
          Some existing \<Rightarrow> if existing = object then (Inr r, s) else (Inl Conflict, s)
        | None \<Rightarrow> (Inr r, AList.update r object s))"

definition memory_delete :: "content_reference \<Rightarrow> memory_store \<Rightarrow> bool stored \<times> memory_store" where
  "memory_delete r s = (Inr (map_of s r \<noteq> None), AList.delete r s)"

definition memory_consistent :: "(bytes \<Rightarrow> bytes) \<Rightarrow> memory_store \<Rightarrow> bool" where
  "memory_consistent digest s \<longleftrightarrow>
     distinct (map_keys s) \<and> (\<forall>(r, object) \<in> set s. r = reference_for_object digest object)"

lemma memory_consistent_lookup:
  "memory_consistent digest s \<Longrightarrow> map_of s r = Some x \<Longrightarrow> r = reference_for_object digest x"
  by (auto simp: memory_consistent_def dest: map_of_SomeD)

lemma memory_get_consistent: "memory_consistent digest s \<Longrightarrow> memory_get digest r s = Inr (map_of s r)"
  using memory_consistent_lookup [of digest s r]
  by (cases "map_of s r") (simp_all add: memory_get_def reference_matches_def reference_for_object_def)

lemma memory_put_consistent:
  "memory_consistent digest s \<Longrightarrow> memory_put digest valid bs s = (outcome, s') \<Longrightarrow> memory_consistent digest s'"
  by (auto simp: memory_put_def Let_def memory_consistent_def set_update split: if_splits option.splits)

interpretation memory: content_store "memory_put digest valid" "memory_get digest" memory_delete
  "memory_consistent digest"
proof
  fix s s' bs outcome deleted k x r b
  assume c: "memory_consistent digest s"
  show put: "memory_consistent digest s'" if "memory_put digest valid bs s = (outcome, s')"
    using memory_put_consistent [OF c that] .
  show "memory_get digest r s' = Inr (Some bs)" if p: "memory_put digest valid bs s = (Inr r, s')"
    using memory_put_consistent [OF c p] p
    by (auto simp: memory_get_consistent memory_put_def Let_def update_conv' split: if_splits option.splits)
  show "memory_get digest k s' = Inr (Some x)"
    if p: "memory_put digest valid bs s = (outcome, s')" and "memory_get digest k s = Inr (Some x)"
    using memory_put_consistent [OF c p] p that(2) c
    by (auto simp: memory_get_consistent memory_put_def Let_def update_conv' split: if_splits option.splits)
  show del: "memory_consistent digest s'" if "memory_delete r s = (deleted, s')"
    using c that by (auto simp: memory_delete_def memory_consistent_def set_delete)
  show "memory_get digest r s' = Inr None" if "memory_delete r s = (Inr b, s')"
    using that by (auto simp: memory_delete_def memory_get_def delete_conv')
  show "memory_get digest k s' = memory_get digest k s"
    if "memory_delete r s = (deleted, s')" "k \<noteq> r"
    using that by (auto simp: memory_delete_def memory_get_def)
qed

subsection \<open>Files\<close>

type_synonym files = "(string, bytes) hash_map"

definition temporary_name :: "string \<Rightarrow> bool" where
  "temporary_name name \<longleftrightarrow> starts_with name ''.pkcs11rs-'' \<and> ends_with name ''.tmp''"

definition read_verified ::
  "(bytes \<Rightarrow> bytes) \<Rightarrow> (bytes \<Rightarrow> bool) \<Rightarrow> content_reference \<Rightarrow> files \<Rightarrow> bytes option stored" where
  "read_verified digest valid_cbor r fs =
     (case map_of fs (filename r) of
        None \<Rightarrow> Inr None
      | Some object \<Rightarrow>
          if \<not> valid_cbor object then Inl InvalidCbor
          else if \<not> reference_matches digest r object then Inl Integrity
          else Inr (Some object))"

fun local_references ::
  "(bytes \<Rightarrow> bytes) \<Rightarrow> (bytes \<Rightarrow> bool) \<Rightarrow> files \<Rightarrow> string list \<Rightarrow> content_reference list stored" where
  "local_references digest valid_cbor fs [] = Inr []"
| "local_references digest valid_cbor fs (name # names) =
     (if temporary_name name \<or> \<not> ends_with name ''.cbor''
      then local_references digest valid_cbor fs names
      else
        and_then (from_filename name) (\<lambda>r.
        and_then (read_verified digest valid_cbor r fs) (\<lambda>found.
          case found of
            None \<Rightarrow> Inl Integrity
          | Some _ \<Rightarrow> and_then (local_references digest valid_cbor fs names) (\<lambda>rs. Inr (r # rs)))))"

definition local_list ::
  "(bytes \<Rightarrow> bytes) \<Rightarrow> (bytes \<Rightarrow> bool) \<Rightarrow> files \<Rightarrow> content_reference list stored" where
  "local_list digest valid_cbor fs =
     and_then (local_references digest valid_cbor fs (map_keys fs)) (\<lambda>rs. Inr (remdups (sort rs)))"

definition local_delete :: "content_reference \<Rightarrow> files \<Rightarrow> bool stored \<times> files" where
  "local_delete r fs = (Inr (map_of fs (filename r) \<noteq> None), AList.delete (filename r) fs)"

text \<open>
  The write of an object, one file-system action per step, interleaved with other processes that
  publish objects of their own; a failure at any step leads to an attempt to remove the temporary
  file, which may fail too.  An interruption is a run that stops at any state.
\<close>

datatype put_phase = Checked | Writing nat | Synced | Linked | Done | Failed

inductive put_step ::
  "(bytes \<Rightarrow> bytes) \<Rightarrow> (bytes \<Rightarrow> bool) \<Rightarrow> string \<Rightarrow> bytes
   \<Rightarrow> put_phase \<times> files \<Rightarrow> put_phase \<times> files \<Rightarrow> bool"
  for digest valid_cbor tmp object
where
  create: "tmp \<notin> set (map_keys fs) \<Longrightarrow>
    put_step digest valid_cbor tmp object (Checked, fs) (Writing 0, AList.update tmp [] fs)"
| write_part: "n \<le> m \<Longrightarrow> m \<le> length object \<Longrightarrow>
    put_step digest valid_cbor tmp object (Writing n, fs) (Writing m, AList.update tmp (take m object) fs)"
| sync: "n = length object \<Longrightarrow> put_step digest valid_cbor tmp object (Writing n, fs) (Synced, fs)"
| link: "map_of fs tmp = Some content \<Longrightarrow>
    filename (reference_for_object digest object) \<notin> set (map_keys fs) \<Longrightarrow>
    put_step digest valid_cbor tmp object (Synced, fs)
      (Linked, AList.update (filename (reference_for_object digest object)) content fs)"
| link_existing:
    "read_verified digest valid_cbor (reference_for_object digest object) fs = Inr (Some object) \<Longrightarrow>
     put_step digest valid_cbor tmp object (Synced, fs) (Linked, fs)"
| remove: "put_step digest valid_cbor tmp object (Linked, fs) (Done, AList.delete tmp fs)"
| fail: "phase \<noteq> Checked \<Longrightarrow> phase \<noteq> Done \<Longrightarrow>
    put_step digest valid_cbor tmp object (phase, fs) (Failed, fs)"
| cleanup: "put_step digest valid_cbor tmp object (Failed, fs) (Failed, AList.delete tmp fs)"
| other: "valid_cbor content \<Longrightarrow> filename (reference_for_object digest content) \<notin> set (map_keys fs) \<Longrightarrow>
    put_step digest valid_cbor tmp object (phase, fs)
      (phase, AList.update (filename (reference_for_object digest content)) content fs)"

inductive_cases put_stepE: "put_step digest valid_cbor tmp object s t"

text \<open>Every object file is complete and in its place.\<close>

definition files_consistent :: "(bytes \<Rightarrow> bytes) \<Rightarrow> (bytes \<Rightarrow> bool) \<Rightarrow> files \<Rightarrow> bool" where
  "files_consistent digest valid_cbor fs \<longleftrightarrow>
     distinct (map_keys fs) \<and>
     (\<forall>(name, content) \<in> set fs. ends_with name ''.cbor'' \<longrightarrow>
        name = filename (reference_for_object digest content) \<and> valid_cbor content)"

definition put_invariant ::
  "(bytes \<Rightarrow> bytes) \<Rightarrow> (bytes \<Rightarrow> bool) \<Rightarrow> string \<Rightarrow> bytes \<Rightarrow> put_phase \<times> files \<Rightarrow> bool" where
  "put_invariant digest valid_cbor tmp object = (\<lambda>(phase, fs).
     files_consistent digest valid_cbor fs \<and>
     (\<forall>n. phase = Writing n \<longrightarrow> n \<le> length object \<and> map_of fs tmp = Some (take n object)) \<and>
     (phase = Synced \<longrightarrow> map_of fs tmp = Some object) \<and>
     (phase = Linked \<or> phase = Done \<longrightarrow>
        map_of fs (filename (reference_for_object digest object)) = Some object))"

lemma ends_with_last: "ends_with s suffix \<Longrightarrow> suffix \<noteq> [] \<Longrightarrow> last s = last suffix"
proof -
  assume a: "ends_with s suffix" "suffix \<noteq> []"
  then have "length s - length suffix < length s" by (cases suffix) (auto simp: ends_with_def)
  then have "last (drop (length s - length suffix) s) = last s" by (rule last_drop)
  with a show ?thesis by (simp add: ends_with_def)
qed

lemma temporary_not_object: "temporary_name name \<Longrightarrow> \<not> ends_with name ''.cbor''"
  using ends_with_last [of name "''.tmp''"] ends_with_last [of name "''.cbor''"]
  by (auto simp: temporary_name_def)

lemma filename_ends: "ends_with (filename r) ''.cbor''"
  by (simp add: filename_def ends_with_def)

lemma filename_not_temporary: "temporary_name tmp \<Longrightarrow> filename r \<noteq> tmp"
  using temporary_not_object filename_ends by blast

lemma files_consistent_update:
  assumes "files_consistent digest valid fs"
    and "ends_with name ''.cbor'' \<Longrightarrow> name = filename (reference_for_object digest content) \<and> valid content"
  shows "files_consistent digest valid (AList.update name content fs)"
  using assms by (auto simp: files_consistent_def set_update)

lemma files_consistent_delete:
  "files_consistent digest valid fs \<Longrightarrow> files_consistent digest valid (AList.delete name fs)"
  by (auto simp: files_consistent_def set_delete)

lemma put_step_invariant:
  assumes "put_invariant digest valid tmp object s" "put_step digest valid tmp object s t"
    and "temporary_name tmp" "valid object"
  shows "put_invariant digest valid tmp object t"
  using assms(2,1)
proof cases
  case (create fs)
  then show ?thesis using assms(1,3) temporary_not_object
    by (auto simp: put_invariant_def update_conv' intro!: files_consistent_update)
next
  case (write_part n m fs)
  then show ?thesis using assms(1,3) temporary_not_object
    by (auto simp: put_invariant_def update_conv' intro!: files_consistent_update)
next
  case (link fs content)
  then show ?thesis using assms filename_not_temporary [OF assms(3)]
    by (auto simp: put_invariant_def update_conv' intro!: files_consistent_update)
next
  case (link_existing fs)
  then show ?thesis using assms(1)
    by (auto simp: put_invariant_def read_verified_def split: option.splits if_splits)
next
  case (remove fs)
  then show ?thesis using assms(1) filename_not_temporary [OF assms(3)]
    by (auto simp: put_invariant_def delete_conv' intro!: files_consistent_delete)
next
  case (cleanup fs)
  then show ?thesis using assms(1) by (auto simp: put_invariant_def intro!: files_consistent_delete)
next
  case (other content fs phase)
  then have "tmp \<noteq> filename (reference_for_object digest content)"
    using filename_not_temporary [OF assms(3)] by metis
  moreover have "map_of fs (filename (reference_for_object digest content)) = None"
    using other(4) by (auto simp: map_of_eq_None_iff)
  ultimately show ?thesis using other assms(1)
    by (auto simp: put_invariant_def update_conv' intro!: files_consistent_update)
qed (use assms(1) in \<open>auto simp: put_invariant_def\<close>)

interpretation local_put: transition_system
  "\<lambda>s. put_invariant digest valid tmp object s \<and> fst s = Checked \<and> temporary_name tmp \<and> valid object"
  "put_step digest valid tmp object"
  "\<lambda>s. put_invariant digest valid tmp object s \<and> temporary_name tmp \<and> valid object"
  by unfold_locales (auto intro: put_step_invariant)

lemma read_verified_consistent:
  assumes "files_consistent digest valid fs" "map_of fs (filename r) = Some content"
    "r = reference_for_object digest content"
  shows "read_verified digest valid r fs = Inr (Some content)"
  using assms map_of_SomeD [OF assms(2)] filename_ends [of r]
  by (auto simp: files_consistent_def read_verified_def reference_matches_def reference_for_object_def)

text \<open>A write that is not interrupted, as one action.\<close>

definition local_put_result ::
  "(bytes \<Rightarrow> bytes) \<Rightarrow> (bytes \<Rightarrow> bool) \<Rightarrow> bytes \<Rightarrow> files \<Rightarrow> content_reference stored \<times> files" where
  "local_put_result digest valid_cbor object fs =
     (if \<not> valid_cbor object then (Inl InvalidCbor, fs)
      else let r = reference_for_object digest object in
        case read_verified digest valid_cbor r fs of
          Inl e \<Rightarrow> (Inl e, fs)
        | Inr (Some existing) \<Rightarrow> if existing = object then (Inr r, fs) else (Inl Conflict, fs)
        | Inr None \<Rightarrow> (Inr r, AList.update (filename r) object fs))"

lemma filename_inject: "filename r = filename s \<Longrightarrow> r = s"
proof -
  assume "filename r = filename s"
  then have "encode_lower_hex (ref_digest r) = encode_lower_hex (ref_digest s)"
    by (cases "ref_algorithm r"; cases "ref_algorithm s") (simp add: filename_def)
  then have "ref_digest r = ref_digest s" by (metis decode_encode_hex Inr_inject)
  then show ?thesis by (cases r; cases s; cases "ref_algorithm r"; cases "ref_algorithm s") auto
qed

lemma local_put_result_cases:
  assumes "local_put_result digest valid object fs = (outcome, fs')"
  obtains (same) "fs' = fs"
      "\<And>r. outcome = Inr r \<Longrightarrow> read_verified digest valid r fs = Inr (Some object)"
  | (new) "valid object" "outcome = Inr (reference_for_object digest object)"
      "read_verified digest valid (reference_for_object digest object) fs = Inr None"
      "fs' = AList.update (filename (reference_for_object digest object)) object fs"
proof -
  let ?read = "read_verified digest valid (reference_for_object digest object) fs"
  consider "\<not> valid object" | e where "valid object" "?read = Inl e" | "valid object" "?read = Inr None"
    | x where "valid object" "?read = Inr (Some x)"
    by (metis sum.exhaust option.exhaust)
  then show ?thesis
  proof cases
    case 1
    then have "fs' = fs" "outcome = Inl InvalidCbor" using assms by (simp_all add: local_put_result_def)
    then show ?thesis using same by simp
  next
    case (2 e)
    then have "fs' = fs" "outcome = Inl e" using assms by (simp_all add: local_put_result_def)
    then show ?thesis using same by simp
  next
    case 3
    then show ?thesis using assms by (intro new) (simp_all add: local_put_result_def Let_def)
  next
    case (4 x)
    then show ?thesis using assms
      by (intro same) (auto simp: local_put_result_def Let_def split: if_splits)
  qed
qed

lemma read_verified_update:
  "read_verified digest valid k (AList.update (filename r) object fs) =
     (if k = r then if \<not> valid object then Inl InvalidCbor
                    else if \<not> reference_matches digest k object then Inl Integrity
                    else Inr (Some object)
      else read_verified digest valid k fs)"
  using filename_inject [of k r] by (auto simp: read_verified_def update_conv')

interpretation local_store: content_store "local_put_result digest valid" "read_verified digest valid"
  local_delete "files_consistent digest valid"
proof
  fix s s' bs outcome deleted k x r b
  assume c: "files_consistent digest valid s"
  show "files_consistent digest valid s'" if "local_put_result digest valid bs s = (outcome, s')"
    using that by (cases rule: local_put_result_cases) (use c in \<open>auto intro!: files_consistent_update\<close>)
  show "read_verified digest valid r s' = Inr (Some bs)"
    if "local_put_result digest valid bs s = (Inr r, s')"
    using that by (cases rule: local_put_result_cases)
      (auto simp: read_verified_update reference_matches_def reference_for_object_def)
  show "read_verified digest valid k s' = Inr (Some x)"
    if p: "local_put_result digest valid bs s = (outcome, s')"
      and k: "read_verified digest valid k s = Inr (Some x)"
    using p by (cases rule: local_put_result_cases) (use k in \<open>auto simp: read_verified_update\<close>)
  show "files_consistent digest valid s'" if "local_delete r s = (deleted, s')"
    using c that by (auto simp: local_delete_def intro!: files_consistent_delete)
  show "read_verified digest valid r s' = Inr None" if "local_delete r s = (Inr b, s')"
    using that by (auto simp: local_delete_def read_verified_def delete_conv')
  show "read_verified digest valid k s' = read_verified digest valid k s"
    if "local_delete r s = (deleted, s')" "k \<noteq> r"
    using that filename_inject [of k r] by (auto simp: local_delete_def read_verified_def delete_conv')
qed

lemma put_steps_complete:
  assumes new: "map_of fs (filename (reference_for_object digest object)) = None"
    and tmp: "tmp \<notin> set (map_keys fs)" "temporary_name tmp"
  shows "(put_step digest valid tmp object)\<^sup>*\<^sup>* (Checked, fs)
    (Done, AList.update (filename (reference_for_object digest object)) object fs)"
proof -
  let ?R = "put_step digest valid tmp object"
  let ?dest = "filename (reference_for_object digest object)"
  let ?s1 = "AList.update tmp (take (length object) object) (AList.update tmp [] fs)"
  have ne: "?dest \<noteq> tmp" by (rule filename_not_temporary [OF tmp(2)])
  have "tmp \<notin> fst ` set fs" using tmp(1) by simp
  then have final: "AList.delete tmp (AList.update ?dest object ?s1) = AList.update ?dest object fs"
    using ne by (simp add: delete_update delete_update_same delete_id)
  have "?R\<^sup>*\<^sup>* (Checked, fs) (Writing 0, AList.update tmp [] fs)"
    by (rule r_into_rtranclp, rule put_step.create [OF tmp(1)])
  also have "?R\<^sup>*\<^sup>* \<dots> (Writing (length object), ?s1)"
    by (rule r_into_rtranclp, rule put_step.write_part) auto
  also have "?R\<^sup>*\<^sup>* \<dots> (Synced, ?s1)" by (rule r_into_rtranclp, rule put_step.sync) simp
  also have "?R\<^sup>*\<^sup>* \<dots> (Linked, AList.update ?dest object ?s1)"
    using ne new
    by (intro r_into_rtranclp put_step.link) (auto simp: update_conv' map_of_eq_None_iff dom_update)
  also have "?R\<^sup>*\<^sup>* \<dots> (Done, AList.delete tmp (AList.update ?dest object ?s1))"
    by (rule r_into_rtranclp, rule put_step.remove)
  finally show ?thesis by (simp only: final)
qed

lemma fresh_name_kept:
  "name \<notin> set (map_keys fs) \<Longrightarrow> map_of fs (filename r) = Some content \<Longrightarrow>
   map_of (AList.update name c fs) (filename r) = Some content"
  by (auto simp: update_conv' dest!: map_of_SomeD) force

lemma put_step_keeps_objects:
  assumes "put_step digest valid tmp object s t" "temporary_name tmp"
    and "map_of (snd s) (filename r) = Some content"
  shows "map_of (snd t) (filename r) = Some content"
  using assms(1)
proof cases
  case (link fs c)
  then show ?thesis using assms(3) fresh_name_kept by simp
next
  case (other c fs phase)
  then show ?thesis using assms(3) fresh_name_kept by simp
qed (use assms filename_not_temporary [OF assms(2), of r] in \<open>auto simp: update_conv' delete_conv'\<close>)

lemma local_references_ok:
  assumes "files_consistent digest valid fs" "\<And>bs. length (digest bs) = 32"
    and "set names \<subseteq> set (map_keys fs)"
  shows "\<exists>rs. local_references digest valid fs names = Inr rs"
  using assms(3)
proof (induction names)
  case (Cons name names)
  then obtain rs where rs: "local_references digest valid fs names = Inr rs" by auto
  show ?case
  proof (cases "temporary_name name \<or> \<not> ends_with name ''.cbor''")
    case False
    from Cons.prems obtain content where c: "map_of fs name = Some content"
      by (cases "map_of fs name") (auto simp: map_of_eq_None_iff)
    let ?r = "reference_for_object digest content"
    have name: "name = filename ?r" using assms(1) map_of_SomeD [OF c] False
      by (auto simp: files_consistent_def)
    then have "read_verified digest valid ?r fs = Inr (Some content)"
      using read_verified_consistent [OF assms(1)] c by simp
    moreover have "from_filename name = Inr ?r"
      using assms(2) unfolding name
      by (intro from_filename_filename) (simp add: reference_for_object_def)
    ultimately show ?thesis using rs False by simp
  qed (use rs in auto)
qed simp

lemma put_steps_keep_objects:
  assumes "temporary_name tmp" "(put_step digest valid tmp object)\<^sup>*\<^sup>* s t"
  shows "map_of (snd s) (filename r) = Some content \<Longrightarrow> map_of (snd t) (filename r) = Some content"
  using assms(2) by (induction rule: rtranclp_induct) (blast intro: put_step_keeps_objects assms(1))+

text \<open>
  C12.  A write is atomic under interruption: whatever prefix of it ran, and whatever objects other
  processes published meanwhile, the directory can still be listed, every object that was readable
  still is, and a completed write is readable.
\<close>
theorem local_put_crash_safe:
  assumes "files_consistent digest valid fs" "temporary_name tmp" "valid object"
    and "\<And>bs. length (digest bs) = 32"
    and "(put_step digest valid tmp object)\<^sup>*\<^sup>* (Checked, fs) (phase, fs')"
  shows "(\<exists>rs. local_list digest valid fs' = Inr rs) \<and>
    (\<forall>r content. read_verified digest valid r fs = Inr (Some content) \<longrightarrow>
                 read_verified digest valid r fs' = Inr (Some content)) \<and>
    (phase = Done \<longrightarrow> read_verified digest valid (reference_for_object digest object) fs' = Inr (Some object))"
proof -
  have start: "put_invariant digest valid tmp object (Checked, fs)" using assms(1) by (simp add: put_invariant_def)
  have inv: "put_invariant digest valid tmp object (phase, fs')"
    using local_put.inv_steps [OF assms(5)] start assms(2,3) by simp
  then have c: "files_consistent digest valid fs'" by (simp add: put_invariant_def)
  have kept: "map_of fs' (filename r) = Some content" if "map_of fs (filename r) = Some content" for r content
    using assms(5) that by (rule put_steps_keep_objects [OF assms(2), of _ _ _ "(Checked, fs)" "(phase, fs')", simplified])
  obtain rs where "local_references digest valid fs' (map_keys fs') = Inr rs"
    using local_references_ok [OF c assms(4)] by blast
  then have "\<exists>rs. local_list digest valid fs' = Inr rs" by (simp add: local_list_def)
  moreover have "read_verified digest valid r fs' = Inr (Some content)"
    if "read_verified digest valid r fs = Inr (Some content)" for r content
    using that kept by (auto simp: read_verified_def split: option.splits if_splits)
  moreover have "read_verified digest valid (reference_for_object digest object) fs' = Inr (Some object)"
    if "phase = Done"
    using read_verified_consistent [OF c] inv that by (simp add: put_invariant_def)
  ultimately show ?thesis by blast
qed

definition sample_digest :: "bytes \<Rightarrow> bytes" where
  "sample_digest bs = take 32 (bs @ replicate 32 0)"

definition sample_files :: files where
  "sample_files = [(filename (reference_for_object sample_digest [1]), [1])]"

theorem local_put_crash_safe_witness:
  "\<exists>fs'. (put_step sample_digest (\<lambda>bs. bs \<noteq> []) ''.pkcs11rs-1-1.tmp'' [2])\<^sup>*\<^sup>* (Checked, sample_files) (Done, fs') \<and>
    read_verified sample_digest (\<lambda>bs. bs \<noteq> []) (reference_for_object sample_digest [1]) fs' = Inr (Some [1]) \<and>
    read_verified sample_digest (\<lambda>bs. bs \<noteq> []) (reference_for_object sample_digest [2]) fs' = Inr (Some [2])"
proof -
  let ?valid = "\<lambda>bs::bytes. bs \<noteq> []"
  let ?tmp = "''.pkcs11rs-1-1.tmp''"
  let ?fs' = "AList.update (filename (reference_for_object sample_digest [2])) [2] sample_files"
  have tmp: "temporary_name ?tmp" by (simp add: temporary_name_def starts_with_def ends_with_def)
  have ne: "filename (reference_for_object sample_digest [1]) \<noteq> filename (reference_for_object sample_digest [2])"
    using filename_inject [of "reference_for_object sample_digest [1]" "reference_for_object sample_digest [2]"]
    by (auto simp: reference_for_object_def sample_digest_def)
  have c: "files_consistent sample_digest ?valid sample_files"
    by (simp add: files_consistent_def sample_files_def)
  have run: "(put_step sample_digest ?valid ?tmp [2])\<^sup>*\<^sup>* (Checked, sample_files) (Done, ?fs')"
    using ne filename_not_temporary [OF tmp, of "reference_for_object sample_digest [1]"] tmp
    by (intro put_steps_complete) (auto simp: sample_files_def)
  have r1: "read_verified sample_digest ?valid (reference_for_object sample_digest [1]) sample_files = Inr (Some [1])"
    by (rule read_verified_consistent [OF c]) (simp_all add: sample_files_def)
  show ?thesis
    using local_put_crash_safe [OF c tmp _ _ run] run r1 by (auto simp: sample_digest_def)
qed

end
