(* ===== verification/Ffi.thy ===== *)
theory Ffi
  imports Prelude
begin

text \<open>
  The boundary to the calling application (src/src/lib.rs, the pointer helpers, and the PIN
  arguments of src/src/api/session.rs): a caller pointer is null, misaligned, or refers to data.
  Text arguments are checked to be UTF-8 as \<open>std::str::from_utf8\<close> checks them.
\<close>

datatype 'a raw_ptr = NullPtr | Misaligned | Pointing 'a

abbreviation (input) ISIZE_MAX :: nat where "ISIZE_MAX \<equiv> 9223372036854775807"

definition valid_raw_slice_length :: "nat \<Rightarrow> nat \<Rightarrow> bool" where
  "valid_raw_slice_length element_size len \<longleftrightarrow> element_size = 0 \<or> len \<le> ISIZE_MAX div element_size"

fun as_mut :: "'a raw_ptr \<Rightarrow> 'a result" where
  "as_mut NullPtr = Inl (Generic CKR_ARGUMENTS_BAD)"
| "as_mut Misaligned = Inl (Generic CKR_ARGUMENTS_BAD)"
| "as_mut (Pointing a) = Inr a"

text \<open>A slice of the first \<open>len\<close> elements; a zero length never looks at the pointer.\<close>

definition from_raw_parts :: "nat \<Rightarrow> 'a list raw_ptr \<Rightarrow> nat \<Rightarrow> 'a list result" where
  "from_raw_parts element_size ptr len =
     (if len = 0 then Inr []
      else case ptr of
        Pointing xs \<Rightarrow>
          if valid_raw_slice_length element_size len then Inr (take len xs)
          else Inl (Generic CKR_ARGUMENTS_BAD)
      | _ \<Rightarrow> Inl (Generic CKR_ARGUMENTS_BAD))"

text \<open>Blank-padded fixed-size text.\<close>

definition str_pad :: "bytes \<Rightarrow> nat \<Rightarrow> bytes" where
  "str_pad src dst_len =
     (if length src < dst_len then src @ replicate (dst_len - length src) 32 else take dst_len src)"

lemma length_str_pad [simp]: "length (str_pad src n) = n"
  by (simp add: str_pad_def)

section \<open>UTF-8\<close>

definition between :: "byte \<Rightarrow> byte \<Rightarrow> byte \<Rightarrow> bool" where
  "between lo hi b \<longleftrightarrow> lo \<le> b \<and> b \<le> hi"

definition continuation :: "byte \<Rightarrow> bool" where
  "continuation = between 0x80 0xbf"

text \<open>The bounds of the byte after a lead byte and the number of further continuation bytes.\<close>

definition utf8_second :: "byte \<Rightarrow> ((byte \<times> byte) \<times> nat) option" where
  "utf8_second b =
     (if between 0xc2 0xdf b then Some ((0x80, 0xbf), 0)
      else if b = 0xe0 then Some ((0xa0, 0xbf), 1)
      else if b = 0xed then Some ((0x80, 0x9f), 1)
      else if between 0xe1 0xef b then Some ((0x80, 0xbf), 1)
      else if b = 0xf0 then Some ((0x90, 0xbf), 2)
      else if b = 0xf4 then Some ((0x80, 0x8f), 2)
      else if between 0xf1 0xf3 b then Some ((0x80, 0xbf), 2)
      else None)"

text \<open>The length of the encoded character a text starts with.\<close>

fun utf8_char :: "bytes \<Rightarrow> nat option" where
  "utf8_char [] = None"
| "utf8_char (b # rest) =
     (if b < 0x80 then Some 1
      else case utf8_second b of
        None \<Rightarrow> None
      | Some ((lo, hi), more) \<Rightarrow>
          (case rest of
             [] \<Rightarrow> None
           | c # cs \<Rightarrow>
               if between lo hi c \<and> more \<le> length cs \<and> list_all continuation (take more cs)
               then Some (2 + more) else None))"

lemma utf8_char_pos: "utf8_char bs = Some n \<Longrightarrow> 0 < n \<and> n \<le> length bs"
  by (cases bs) (auto split: if_splits option.splits prod.splits list.splits)

function utf8_valid :: "bytes \<Rightarrow> bool" where
  "utf8_valid bs \<longleftrightarrow> bs = [] \<or> (case utf8_char bs of None \<Rightarrow> False | Some n \<Rightarrow> utf8_valid (drop n bs))"
  by pat_completeness auto
termination by (relation "measure length") (auto dest: utf8_char_pos)

declare utf8_valid.simps [simp del]

lemma utf8_valid_Nil [simp]: "utf8_valid []"
  by (simp add: utf8_valid.simps)

text \<open>Every ASCII text is UTF-8.\<close>

lemma utf8_valid_ascii: "list_all (\<lambda>b. b < 0x80) bs \<Longrightarrow> utf8_valid bs"
  by (induction bs) (simp_all add: utf8_valid.simps)

section \<open>PIN arguments\<close>

definition with_pin :: "bytes raw_ptr \<Rightarrow> nat \<Rightarrow> (bytes \<Rightarrow> ('s, 'a) comp) \<Rightarrow> ('s, 'a) comp" where
  "with_pin pin pin_len use_pin =
     sbind (slift (from_raw_parts 1 pin pin_len)) (\<lambda>pin.
       if \<not> utf8_valid pin then sfail (Generic CKR_PIN_INVALID) else use_pin pin)"

text \<open>A null pointer with a zero length is no PIN at all, a pointer with a zero length an empty
  PIN.\<close>

definition with_optional_pin ::
  "bytes raw_ptr \<Rightarrow> nat \<Rightarrow> (bytes option \<Rightarrow> ('s, 'a) comp) \<Rightarrow> ('s, 'a) comp" where
  "with_optional_pin pin pin_len use_pin =
     (if pin = NullPtr
      then if pin_len \<noteq> 0 then sfail (Generic CKR_ARGUMENTS_BAD) else use_pin None
      else with_pin pin pin_len (\<lambda>pin. use_pin (Some pin)))"

lemma keeps_with_pin [keeps_intros]:
  "(\<And>bs. keeps P (use_pin bs)) \<Longrightarrow> keeps P (with_pin pin pin_len use_pin)"
  unfolding with_pin_def by (intro keeps_intros)

lemma keeps_with_optional_pin [keeps_intros]:
  "(\<And>bs. keeps P (use_pin bs)) \<Longrightarrow> keeps P (with_optional_pin pin pin_len use_pin)"
  unfolding with_optional_pin_def by (intro keeps_intros)

end
