(* ===== verification/Piv_Tlv.thy ===== *)
theory Piv_Tlv
  imports Prelude
begin

text \<open>
  The tag-length-value encoding of the PIV applet (the parsing half of src/src/piv.rs): tags of one
  to three bytes, minimal lengths of up to two bytes, and the search for an extension in a DER
  certificate.  Tags are \<open>u32\<close> values of at most four bytes and lengths never reach the width of
  \<open>usize\<close>, so both are natural numbers here.
\<close>

unbundle bit_operations_syntax

abbreviation (input) data_invalid :: error where "data_invalid \<equiv> Generic CKR_DATA_INVALID"

section \<open>Parsing\<close>

fun parse_tag_rest :: "nat \<Rightarrow> nat \<Rightarrow> bytes \<Rightarrow> (nat \<times> nat) result" where
  "parse_tag_rest index tag [] = Inl data_invalid"
| "parse_tag_rest index tag (byte # rest) =
     (if index = 1 \<and> byte AND 0x7f = 0 then Inl data_invalid
      else let tag = tag * 256 + unat byte in
        if byte AND 0x80 = 0 then Inr (tag, index + 1) else parse_tag_rest (index + 1) tag rest)"

fun parse_tag :: "bytes \<Rightarrow> (nat \<times> nat) result" where
  "parse_tag [] = Inl data_invalid"
| "parse_tag (first # rest) =
     (if first AND 0x1f \<noteq> 0x1f then Inr (unat first, 1)
      else parse_tag_rest 1 (unat first) (take 3 rest))"

definition parse_length :: "bytes \<Rightarrow> (nat \<times> nat) result" where
  "parse_length encoded =
     (case encoded of
        [] \<Rightarrow> Inl data_invalid
      | first # rest \<Rightarrow>
          if first AND 0x80 = 0 then Inr (unat first, 1)
          else let count = unat (first AND 0x7f) in
            if count = 0 \<or> 2 < count \<or> length encoded \<le> count \<or> encoded ! 1 = 0 then Inl data_invalid
            else let len = nat_of_be (take count rest) in
              if len < 0x80 then Inl data_invalid else Inr (len, count + 1))"

lemma parse_tag_rest_pos: "parse_tag_rest i t bs = Inr (tag, k) \<Longrightarrow> i < k \<and> k \<le> i + length bs"
  by (induction i t bs rule: parse_tag_rest.induct) (auto simp: Let_def split: if_splits)

lemma parse_tag_pos: "parse_tag bs = Inr (tag, k) \<Longrightarrow> 0 < k \<and> k \<le> length bs"
  by (cases bs) (auto split: if_splits dest!: parse_tag_rest_pos)

lemma parse_length_pos: "parse_length bs = Inr (len, k) \<Longrightarrow> 0 < k \<and> k \<le> length bs"
  by (auto simp: parse_length_def Let_def split: list.splits if_splits)

type_synonym tlv = "nat \<times> bytes"

function parse_tlvs :: "bytes \<Rightarrow> tlv list result" where
  "parse_tlvs encoded =
     (if encoded = [] then Inr []
      else case parse_tag encoded of
        Inl e \<Rightarrow> Inl e
      | Inr (tag, tag_length) \<Rightarrow>
          (case parse_length (drop tag_length encoded) of
             Inl e \<Rightarrow> Inl e
           | Inr (len, length_length) \<Rightarrow>
               let body = drop length_length (drop tag_length encoded) in
               if length body < len then Inl data_invalid
               else and_then (parse_tlvs (drop len body)) (\<lambda>fields. Inr ((tag, take len body) # fields))))"
  by pat_completeness auto
termination
  by (relation "measure length") (auto dest!: parse_tag_pos parse_length_pos)

declare parse_tlvs.simps [simp del]

definition field :: "tlv list \<Rightarrow> nat \<Rightarrow> bytes option" where
  "field fields tag = map_option snd (find (\<lambda>(t, _). t = tag) fields)"

section \<open>Encoding\<close>

text \<open>\<open>iter().position()\<close>.\<close>

fun position :: "('a \<Rightarrow> bool) \<Rightarrow> 'a list \<Rightarrow> nat option" where
  "position P [] = None"
| "position P (x # xs) = (if P x then Some 0 else map_option Suc (position P xs))"

text \<open>The bytes of a \<open>u32\<close> from the first that is not zero, at least one.\<close>

definition significant_bytes :: "nat \<Rightarrow> bytes" where
  "significant_bytes n =
     (let bs = be_of_nat 4 n in
      drop (case position (\<lambda>b. b \<noteq> 0) bs of Some i \<Rightarrow> i | None \<Rightarrow> 3) bs)"

definition encode_length :: "nat \<Rightarrow> bytes" where
  "encode_length n =
     (if n < 0x80 then [of_nat n]
      else if n \<le> 0xff then [0x81, of_nat n]
      else 0x82 # be_of_nat 2 n)"

definition encode_tlv :: "nat \<Rightarrow> bytes \<Rightarrow> bytes result" where
  "encode_tlv tag v =
     (if 0xffffff < tag \<or> 65535 < length v then Inl (Generic CKR_DATA_LEN_RANGE)
      else Inr (significant_bytes tag @ encode_length (length v) @ v))"

text \<open>The concatenation of several fields, as the callers build it.\<close>

fun encode_tlvs :: "tlv list \<Rightarrow> bytes result" where
  "encode_tlvs [] = Inr []"
| "encode_tlvs ((tag, v) # fields) =
     and_then (encode_tlv tag v) (\<lambda>bs. and_then (encode_tlvs fields) (\<lambda>rest. Inr (bs @ rest)))"

section \<open>Tags that survive the wire\<close>

text \<open>A single byte whose low five bits are not all ones, or a first byte with them all ones and
  following bytes of which exactly the last has its top bit clear, the first not zero below it.\<close>

fun tag_tail :: "bytes \<Rightarrow> bool" where
  "tag_tail [] \<longleftrightarrow> False"
| "tag_tail [c] \<longleftrightarrow> c AND 0x80 = 0"
| "tag_tail (c # d # cs) \<longleftrightarrow> c AND 0x80 \<noteq> 0 \<and> tag_tail (d # cs)"

fun tag_form :: "bytes \<Rightarrow> bool" where
  "tag_form [] \<longleftrightarrow> False"
| "tag_form [b] \<longleftrightarrow> b AND 0x1f \<noteq> 0x1f"
| "tag_form (b # c # cs) \<longleftrightarrow> b AND 0x1f = 0x1f \<and> c AND 0x7f \<noteq> 0 \<and> tag_tail (c # cs)"

definition tlv_tag :: "nat \<Rightarrow> bool" where
  "tlv_tag tag \<longleftrightarrow> tag \<le> 0xffffff \<and> tag_form (significant_bytes tag)"


section \<open>Round trip\<close>

lemma foldl_be: "foldl (\<lambda>a b. a * 256 + unat b) t bs = t * 256 ^ length bs + nat_of_be bs"
proof (induction bs rule: rev_induct)
  case (snoc b bs)
  then show ?case by (simp add: algebra_simps)
qed simp

lemma nat_of_be_append: "nat_of_be (bs @ cs) = nat_of_be bs * 256 ^ length cs + nat_of_be cs"
  using foldl_be [of "nat_of_be bs" cs] by (simp add: nat_of_be_def)

lemma nat_of_be_zeros [simp]: "nat_of_be (replicate k 0 @ bs) = nat_of_be bs"
proof -
  have "nat_of_be (replicate k 0) = 0"
    by (induction k) (simp_all add: nat_of_be_def)
  then show ?thesis by (simp add: nat_of_be_append)
qed

lemma position_replicate [simp]:
  "\<not> P x \<Longrightarrow> position P (replicate k x @ ys) = map_option ((+) k) (position P ys)"
proof (induction k)
  case 0
  then show ?case by (simp add: option.map_id0 id_def [symmetric])
next
  case (Suc k)
  then show ?case by (simp add: option.map_comp comp_def)
qed

lemma significant_bytes_of_be:
  assumes "bs \<noteq> []" "length bs \<le> 4" "hd bs \<noteq> 0 \<or> length bs = 1"
  shows "significant_bytes (nat_of_be bs) = bs"
proof -
  let ?k = "4 - length bs"
  have be: "be_of_nat 4 (nat_of_be bs) = replicate ?k 0 @ bs"
    using be_of_nat_of_be [of "replicate ?k 0 @ bs"] assms(2) by simp
  obtain b cs where bs: "bs = b # cs" using assms(1) by (cases bs) auto
  show ?thesis
  proof (cases "b = 0")
    case True
    then have "cs = []" using assms(3) bs by simp
    then have "be_of_nat 4 (nat_of_be bs) = [0, 0, 0, 0]"
      using be True bs by (simp add: numeral_3_eq_3)
    then show ?thesis using True bs \<open>cs = []\<close> by (simp add: significant_bytes_def)
  next
    case False
    then have "position (\<lambda>b. b \<noteq> 0) (be_of_nat 4 (nat_of_be bs)) = Some ?k" unfolding be by (simp add: bs)
    then show ?thesis by (simp add: significant_bytes_def be)
  qed
qed

lemma significant_form:
  "be_of_nat 4 n = replicate (4 - length (significant_bytes n)) 0 @ significant_bytes n \<and>
   significant_bytes n \<noteq> [] \<and> length (significant_bytes n) \<le> 4"
proof -
  have "be_of_nat 4 n = be_of_nat (Suc (Suc (Suc (Suc 0)))) n" by (simp only: numeral_nat)
  then have "\<exists>a b c d. be_of_nat 4 n = [a, b, c, d]" by simp
  then obtain a b c d where be: "be_of_nat 4 n = [a, b, c, d]" by blast
  show ?thesis
    by (cases "a = 0"; cases "b = 0"; cases "c = 0"; cases "d = 0")
      (simp_all add: significant_bytes_def be numeral_3_eq_3 numeral_2_eq_2)
qed

lemma nat_of_be_significant: "n < 256 ^ 4 \<Longrightarrow> nat_of_be (significant_bytes n) = n"
proof -
  assume "n < 256 ^ 4"
  then have "nat_of_be (be_of_nat 4 n) = n" by (simp add: nat_of_be_of_nat)
  then show ?thesis using significant_form [of n] by (metis nat_of_be_zeros)
qed

lemma tag_tail_Cons: "cs \<noteq> [] \<Longrightarrow> tag_tail (c # cs) \<longleftrightarrow> c AND 0x80 \<noteq> 0 \<and> tag_tail cs"
  by (cases cs) auto

lemma parse_tag_rest_tail:
  "0 < i \<Longrightarrow> tag_tail cs \<Longrightarrow> (i = 1 \<Longrightarrow> hd cs AND 0x7f \<noteq> 0) \<Longrightarrow>
   parse_tag_rest i t (cs @ rest) = Inr (foldl (\<lambda>a b. a * 256 + unat b) t cs, i + length cs)"
proof (induction cs arbitrary: i t)
  case (Cons c cs)
  show ?case
  proof (cases "cs = []")
    case True
    then show ?thesis using Cons.prems by (auto simp: Let_def)
  next
    case False
    then have "c AND 0x80 \<noteq> 0" "tag_tail cs" using Cons.prems tag_tail_Cons by auto
    then show ?thesis using Cons.IH [of "i + 1" "t * 256 + unat c"] Cons.prems by (simp add: Let_def)
  qed
qed simp

lemma parse_tag_rest_sound:
  "0 < i \<Longrightarrow> parse_tag_rest i t bs = Inr (tag, k) \<Longrightarrow>
   i < k \<and> k \<le> i + length bs \<and> tag_tail (take (k - i) bs) \<and> (i = 1 \<longrightarrow> hd bs AND 0x7f \<noteq> 0) \<and>
   tag = foldl (\<lambda>a b. a * 256 + unat b) t (take (k - i) bs)"
proof (induction i t bs rule: parse_tag_rest.induct)
  case (2 i t b bs)
  show ?case
  proof (cases "b AND 0x80 = 0")
    case True
    then show ?thesis using 2 by (auto simp: Let_def split: if_splits)
  next
    case False
    let ?t = "t * 256 + unat b"
    from 2(3) False have first: "\<not> (i = 1 \<and> b AND 0x7f = 0)" and rest: "parse_tag_rest (i + 1) ?t bs = Inr (tag, k)"
      by (auto simp: Let_def split: if_splits)
    have ih: "i + 1 < k \<and> k \<le> i + 1 + length bs \<and> tag_tail (take (k - (i + 1)) bs) \<and>
        tag = foldl (\<lambda>a b. a * 256 + unat b) ?t (take (k - (i + 1)) bs)"
      using 2(1) [OF first refl False _ rest] by auto
    then have k: "k - i = Suc (k - (i + 1))" by linarith
    have "take (k - (i + 1)) bs \<noteq> []" using ih by auto
    then show ?thesis using ih first False by (simp add: k tag_tail_Cons del: diff_Suc_1)
  qed
qed simp

lemma parse_tag_form:
  assumes "tag_form cs" "length cs \<le> 4"
  shows "parse_tag (cs @ rest) = Inr (nat_of_be cs, length cs)"
proof (cases cs rule: tag_form.cases)
  case (2 b)
  then show ?thesis using assms by (simp add: nat_of_be_def)
next
  case (3 b c ds)
  have "take 3 ((c # ds) @ rest) = (c # ds) @ take (3 - length (c # ds)) rest"
    using assms(2) 3 by (simp add: take_Cons' del: take_append) (simp add: numeral_3_eq_3)
  moreover have "parse_tag_rest 1 (unat b) ((c # ds) @ take (3 - length (c # ds)) rest)
      = Inr (foldl (\<lambda>a b. a * 256 + unat b) (unat b) (c # ds), 1 + length (c # ds))"
    using assms(1) 3 by (intro parse_tag_rest_tail) auto
  moreover have "foldl (\<lambda>a b. a * 256 + unat b) (unat b) (c # ds) = nat_of_be cs"
    using 3 by (simp add: nat_of_be_def)
  ultimately show ?thesis using assms(1) 3 by simp
qed (use assms in simp)

lemma parse_tag_sound:
  assumes "parse_tag bs = Inr (tag, k)"
  shows "tag_form (take k bs)" "tag = nat_of_be (take k bs)" "k \<le> 4"
proof -
  obtain b rest where bs: "bs = b # rest" using assms by (cases bs) auto
  show "tag_form (take k bs)" "tag = nat_of_be (take k bs)" "k \<le> 4"
  proof -
    consider "b AND 0x1f \<noteq> 0x1f" "tag = unat b" "k = 1"
      | "b AND 0x1f = 0x1f" "parse_tag_rest 1 (unat b) (take 3 rest) = Inr (tag, k)"
      using assms bs by (auto split: if_splits)
    then have "tag_form (take k bs) \<and> tag = nat_of_be (take k bs) \<and> k \<le> 4"
    proof cases
      case 1
      then show ?thesis using bs by (simp add: nat_of_be_def)
    next
      case 2
      note s = parse_tag_rest_sound [OF _ 2(2), simplified]
      then have k4: "1 < k" "k \<le> 4" by auto
      then have "take (k - 1) (take 3 rest) = take (k - 1) rest" "hd (take 3 rest) = hd rest"
        by (simp_all add: min_absorb1)
      then have k: "1 < k" "k \<le> 4" "tag_tail (take (k - 1) rest)" "hd rest AND 0x7f \<noteq> 0"
        "tag = foldl (\<lambda>a b. a * 256 + unat b) (unat b) (take (k - 1) rest)"
        using parse_tag_rest_sound [OF _ 2(2)] k4 by auto
      then obtain m where m: "k = Suc m" "0 < m" by (cases k) auto
      obtain c cs where c: "take m rest = c # cs" using k m by (cases "take m rest") auto
      then have "hd rest = c" by (cases rest) (use m in \<open>auto simp: take_Cons'\<close>)
      then show ?thesis using k m c 2(1) bs by (simp add: nat_of_be_def)
    qed
    then show "tag_form (take k bs)" "tag = nat_of_be (take k bs)" "k \<le> 4" by auto
  qed
qed

lemma byte_high_bit: "(b :: byte) AND 0x80 = 0 \<longleftrightarrow> unat b < 0x80"
proof -
  have eq: "(0x80 :: byte) = 2 ^ 7" by simp
  have m: "bit (0x80 :: byte) n \<longleftrightarrow> n = 7" for n
    unfolding eq by (simp only: bit_exp_iff possible_bit_word) auto
  have "b AND 0x80 = (if bit b 7 then 0x80 else 0)"
  proof (rule bit_eqI)
    fix n
    show "bit (b AND 0x80) n \<longleftrightarrow> bit (if bit b 7 then 0x80 else 0 :: byte) n"
      by (cases "bit b 7"; cases "n = 7") (simp_all only: bit_and_iff m if_True if_False, simp_all)
  qed
  then have "b AND 0x80 = 0 \<longleftrightarrow> \<not> bit b 7" by simp
  also have "bit b 7 \<longleftrightarrow> bit (unat b) 7" by (simp add: bit_unsigned_iff)
  also have "\<not> bit (unat b) 7 \<longleftrightarrow> unat b < 0x80"
  proof -
    have "unat b < 256" by (rule unat_byte_bound)
    then have "unat b div 128 = 0 \<or> unat b div 128 = 1" by linarith
    then show ?thesis by (auto simp: bit_iff_odd)
  qed
  finally show ?thesis .
qed

lemma parse_length_encode:
  assumes "n \<le> 65535"
  shows "parse_length (encode_length n @ rest) = Inr (n, length (encode_length n))"
proof -
  consider "n < 0x80" | "0x80 \<le> n" "n \<le> 0xff" | "0x100 \<le> n" by linarith
  then show ?thesis
  proof cases
    case 1
    then show ?thesis by (simp add: encode_length_def parse_length_def byte_high_bit unat_of_nat)
  next
    case 2
    have "(of_nat n :: byte) \<noteq> 0" using 2 by (simp add: word_unat_eq_iff unat_of_nat)
    then show ?thesis using 2
      by (simp add: encode_length_def parse_length_def nat_of_be_def unat_of_nat)
  next
    case 3
    have "(of_nat (n div 256) :: byte) \<noteq> 0" using 3 assms by (simp add: word_unat_eq_iff unat_of_nat)
    moreover have "nat_of_be (be_of_nat 2 n) = n" using assms by (simp add: nat_of_be_of_nat)
    ultimately show ?thesis using 3
      by (simp add: encode_length_def parse_length_def be_of_nat_two Let_def)
  qed
qed

lemma unat_low_seven: "unat (b AND 0x7f :: byte) = unat b mod 0x80"
proof -
  have "(0x7f :: byte) = mask 7" by (simp add: mask_eq_exp_minus_1)
  then have "b AND 0x7f = take_bit 7 b" by (simp add: take_bit_eq_mask)
  then show ?thesis by (simp only: unsigned_take_bit_eq) (simp add: take_bit_eq_mod)
qed

lemma parse_length_sound:
  assumes "parse_length bs = Inr (len, k)"
  shows "len \<le> 65535 \<and> take k bs = encode_length len"
proof -
  obtain first rest where bs: "bs = first # rest"
    using assms by (cases bs) (auto simp: parse_length_def)
  show ?thesis
  proof (cases "first AND 0x80 = 0")
    case True
    then show ?thesis using assms by (auto simp: bs parse_length_def byte_high_bit encode_length_def)
  next
    case False
    define count where "count = unat (first AND 0x7f)"
    have c: "count = 1 \<or> count = 2" "length bs > count" "bs ! 1 \<noteq> 0"
        "len = nat_of_be (take count rest)" "k = count + 1" "0x80 \<le> len"
      using assms False by (auto simp: bs parse_length_def Let_def count_def split: if_splits)
    have "unat first = 0x80 + count"
      using False unat_byte_bound [of first] by (simp add: byte_high_bit count_def unat_low_seven le_mod_geq)
    then have "(of_nat (unat first) :: byte) = of_nat (0x80 + count)" by simp
    then have first: "first = of_nat (0x80 + count)" by simp
    obtain b cs where rest: "rest = b # cs" "b \<noteq> 0" using c(1,2,3) bs by (cases rest) auto
    from c(1) show ?thesis
    proof
      assume 1: "count = 1"
      then show ?thesis using c first rest bs unat_byte_bound [of b]
        by (auto simp: nat_of_be_def encode_length_def)
    next
      assume 2: "count = 2"
      obtain d ds where cs: "cs = d # ds" using 2 c(2) bs rest by (cases cs) auto
      then have len: "len = nat_of_be [b, d]" using 2 c(4) rest by simp
      have "0 < unat b" using rest(2) by (simp add: unat_gt_0)
      then have "256 \<le> len" by (simp add: len nat_of_be_two)
      moreover have "len < 65536" using nat_of_be_bound [of "[b, d]"] by (simp add: len)
      moreover have "be_of_nat 2 len = [b, d]" using be_of_nat_of_be [of "[b, d]"] by (simp add: len numeral_2_eq_2)
      ultimately show ?thesis using 2 c(5) first rest cs bs by (simp add: encode_length_def)
    qed
  qed
qed

lemma parse_tlvs_Nil [simp]: "parse_tlvs [] = Inr []"
  by (simp add: parse_tlvs.simps)

lemma tlv_tag_parse: "tlv_tag tag \<Longrightarrow> parse_tag (significant_bytes tag @ rest) = Inr (tag, length (significant_bytes tag))"
  using parse_tag_form [of "significant_bytes tag" rest] significant_form [of tag] nat_of_be_significant [of tag]
  by (simp add: tlv_tag_def)

lemma parse_tlvs_field:
  assumes "tlv_tag tag" "length v \<le> 65535"
  shows "parse_tlvs (significant_bytes tag @ encode_length (length v) @ v @ rest) =
    and_then (parse_tlvs rest) (\<lambda>fields. Inr ((tag, v) # fields))"
  using tlv_tag_parse [OF assms(1)] parse_length_encode [OF assms(2)] significant_form [of tag]
  by (subst parse_tlvs.simps) simp

lemma tag_form_significant: "tag_form cs \<Longrightarrow> length cs \<le> 4 \<Longrightarrow> significant_bytes (nat_of_be cs) = cs"
  by (cases cs rule: tag_form.cases) (auto intro!: significant_bytes_of_be)

lemma parse_tlvs_encode:
  "list_all (\<lambda>(tag, _). tlv_tag tag) fields \<Longrightarrow> encode_tlvs fields = Inr bs \<Longrightarrow> parse_tlvs bs = Inr fields"
  by (induction fields arbitrary: bs rule: encode_tlvs.induct)
    (auto simp: encode_tlv_def parse_tlvs_field split: if_splits)

lemma encode_tlvs_parse:
  "parse_tlvs bs = Inr fields \<Longrightarrow> list_all (\<lambda>(tag, _). tag \<le> 0xffffff) fields \<Longrightarrow> encode_tlvs fields = Inr bs"
proof (induction bs arbitrary: fields rule: parse_tlvs.induct)
  case (1 bs)
  show ?case
  proof (cases "bs = []")
    case False
    obtain tag k where t: "parse_tag bs = Inr (tag, k)"
      using "1.prems"(1) False by (subst (asm) parse_tlvs.simps) (auto split: sum.splits)
    obtain len j where l: "parse_length (drop k bs) = Inr (len, j)"
      using "1.prems"(1) False t by (subst (asm) parse_tlvs.simps) (auto split: sum.splits)
    let ?body = "drop j (drop k bs)"
    obtain fs where r: "\<not> length ?body < len" "parse_tlvs (drop len ?body) = Inr fs" "fields = (tag, take len ?body) # fs"
      using "1.prems"(1) False t l by (subst (asm) parse_tlvs.simps) (auto simp: Let_def split: if_splits)
    have rest: "encode_tlvs fs = Inr (drop len ?body)"
      using "1.IH" [OF False t refl l refl refl r(1,2)] "1.prems"(2) r(3) by simp
    have tag: "significant_bytes tag = take k bs" "tag \<le> 0xffffff"
      using parse_tag_sound [OF t] tag_form_significant "1.prems"(2) r(3) by simp_all
    have len: "encode_length len = take j (drop k bs)" "len \<le> 65535"
      using parse_length_sound [OF l] by simp_all
    have "length (take len ?body) = len" using r(1) by simp
    then have "encode_tlv tag (take len ?body) = Inr (take k bs @ take j (drop k bs) @ take len ?body)"
      using tag len unfolding encode_tlv_def by simp
    moreover have "take k bs @ take j (drop k bs) @ take len ?body @ drop len ?body = bs"
      by (simp only: append_take_drop_id)
    ultimately show ?thesis unfolding r(3) encode_tlvs.simps rest by (simp only: and_then.simps append_assoc)
  qed (use "1.prems" in simp)
qed

text \<open>
  C13. The tag-length-value encoding is a bijection on lists of well-formed fields: what the
  encoder writes the parser reads back field by field, and the parser accepts no other bytes for
  those fields, so lengths and tags have exactly one form.
\<close>
theorem tlv_round_trip:
  assumes "list_all (\<lambda>(tag, _). tlv_tag tag) fields"
  shows "encode_tlvs fields = Inr bs \<longleftrightarrow> parse_tlvs bs = Inr fields"
proof
  assume "parse_tlvs bs = Inr fields"
  moreover have "list_all (\<lambda>(tag, _). tag \<le> 0xffffff) fields"
    using assms by (auto simp: list_all_iff tlv_tag_def)
  ultimately show "encode_tlvs fields = Inr bs" by (rule encode_tlvs_parse)
qed (use assms parse_tlvs_encode in blast)

theorem tlv_round_trip_witness:
  "encode_tlvs [(0x7f49, [1, 2]), (0x53, [])] = Inr [0x7f, 0x49, 2, 1, 2, 0x53, 0] \<and>
   parse_tlvs [0x7f, 0x49, 2, 1, 2, 0x53, 0] = Inr [(0x7f49, [1, 2]), (0x53, [])]"
proof -
  have tags: "significant_bytes 0x7f49 = [0x7f, 0x49]" "significant_bytes 0x53 = [0x53]"
    using significant_bytes_of_be [of "[0x7f, 0x49]"] significant_bytes_of_be [of "[0x53]"]
    by (simp_all add: nat_of_be_def)
  have "encode_tlvs [(0x7f49, [1, 2]), (0x53, [])] = Inr [0x7f, 0x49, 2, 1, 2, 0x53, 0]"
    by (simp add: encode_tlv_def tags encode_length_def)
  moreover have "list_all (\<lambda>(tag, _). tlv_tag tag) [(0x7f49, [1, 2]), (0x53, [] :: bytes)]"
    by (simp add: tlv_tag_def tags)
  ultimately show ?thesis using tlv_round_trip by blast
qed
end
