(* ===== verification/Piv_Objects.thy ===== *)
theory Piv_Objects
  imports Prelude
begin

text \<open>
  The key slots, algorithms and data objects of the PIV applet (the tables of src/src/piv.rs), with
  the identifiers they have on the card (\<open>u8\<close> discriminants and \<open>u32\<close> object tags) and in PKCS #11
  (\<open>CKA_ID\<close> and \<open>CKA_OBJECT_ID\<close>).
\<close>

section \<open>Algorithms\<close>

datatype piv_algorithm =
    Rsa1024 | Rsa2048 | Rsa3072 | Rsa4096 | EccP256 | EccP384 | Ed25519
  | X25519 | MlDsa44 | MlDsa65 | MlDsa87 | MlKem512 | MlKem768 | MlKem1024
  | HybridMlKem768P256 | HybridMlKem768X25519 | HybridMlKem1024P384

fun algorithm_id :: "piv_algorithm \<Rightarrow> byte" where
  "algorithm_id Rsa1024 = 0x06"
| "algorithm_id Rsa2048 = 0x07"
| "algorithm_id Rsa3072 = 0x05"
| "algorithm_id Rsa4096 = 0x16"
| "algorithm_id EccP256 = 0x11"
| "algorithm_id EccP384 = 0x14"
| "algorithm_id Ed25519 = 0xe0"
| "algorithm_id X25519 = 0xe1"
| "algorithm_id MlDsa44 = 0xe2"
| "algorithm_id MlDsa65 = 0xe3"
| "algorithm_id MlDsa87 = 0xe4"
| "algorithm_id MlKem512 = 0xe5"
| "algorithm_id MlKem768 = 0xe6"
| "algorithm_id MlKem1024 = 0xe7"
| "algorithm_id HybridMlKem768P256 = 0xe8"
| "algorithm_id HybridMlKem768X25519 = 0xe9"
| "algorithm_id HybridMlKem1024P384 = 0xea"

definition algorithm_from_id :: "byte \<Rightarrow> piv_algorithm option" where
  "algorithm_from_id ident =
     (if ident = 0x06 then Some Rsa1024
      else if ident = 0x07 then Some Rsa2048
      else if ident = 0x05 then Some Rsa3072
      else if ident = 0x16 then Some Rsa4096
      else if ident = 0x11 then Some EccP256
      else if ident = 0x14 then Some EccP384
      else if ident = 0xe0 then Some Ed25519
      else if ident = 0xe1 then Some X25519
      else if ident = 0xe2 then Some MlDsa44
      else if ident = 0xe3 then Some MlDsa65
      else if ident = 0xe4 then Some MlDsa87
      else if ident = 0xe5 then Some MlKem512
      else if ident = 0xe6 then Some MlKem768
      else if ident = 0xe7 then Some MlKem1024
      else if ident = 0xe8 then Some HybridMlKem768P256
      else if ident = 0xe9 then Some HybridMlKem768X25519
      else if ident = 0xea then Some HybridMlKem1024P384
      else None)"

fun rsa_input_length :: "piv_algorithm \<Rightarrow> nat option" where
  "rsa_input_length Rsa1024 = Some 128"
| "rsa_input_length Rsa2048 = Some 256"
| "rsa_input_length Rsa3072 = Some 384"
| "rsa_input_length Rsa4096 = Some 512"
| "rsa_input_length _ = None"

fun ec_input_length :: "piv_algorithm \<Rightarrow> nat option" where
  "ec_input_length EccP256 = Some 32"
| "ec_input_length EccP384 = Some 48"
| "ec_input_length _ = None"

datatype management_algorithm = TripleDes | Aes128 | Aes192 | Aes256

fun management_id :: "management_algorithm \<Rightarrow> byte" where
  "management_id TripleDes = 0x03"
| "management_id Aes128 = 0x08"
| "management_id Aes192 = 0x0a"
| "management_id Aes256 = 0x0c"

definition management_from_id :: "byte \<Rightarrow> management_algorithm option" where
  "management_from_id ident =
     (if ident = 0x03 then Some TripleDes
      else if ident = 0x08 then Some Aes128
      else if ident = 0x0a then Some Aes192
      else if ident = 0x0c then Some Aes256
      else None)"

fun key_length :: "management_algorithm \<Rightarrow> nat" where
  "key_length TripleDes = 24"
| "key_length Aes192 = 24"
| "key_length Aes128 = 16"
| "key_length Aes256 = 32"

fun block_size :: "management_algorithm \<Rightarrow> nat" where
  "block_size TripleDes = 8"
| "block_size _ = 16"

lemma algorithm_from_id [simp]: "algorithm_from_id (algorithm_id a) = Some a"
  by (cases a) (simp_all add: algorithm_from_id_def)

lemma management_from_id [simp]: "management_from_id (management_id a) = Some a"
  by (cases a) (simp_all add: management_from_id_def)

section \<open>Slots\<close>

datatype piv_slot =
    SlotAuthentication | SlotSignature | SlotKeyManagement | SlotCardAuthentication
  | Retired1 | Retired2 | Retired3 | Retired4 | Retired5 | Retired6 | Retired7 | Retired8 | Retired9 | Retired10
  | Retired11 | Retired12 | Retired13 | Retired14 | Retired15 | Retired16 | Retired17 | Retired18 | Retired19 | Retired20
  | SlotAttestation

definition slot_all :: "piv_slot list" where
  "slot_all = [SlotAuthentication, SlotSignature, SlotKeyManagement, SlotCardAuthentication,
     Retired1, Retired2, Retired3, Retired4, Retired5, Retired6, Retired7, Retired8, Retired9, Retired10,
     Retired11, Retired12, Retired13, Retired14, Retired15, Retired16, Retired17, Retired18, Retired19, Retired20,
     SlotAttestation]"

text \<open>The discriminant of the enumeration: the key reference on the card.\<close>

fun slot_reference :: "piv_slot \<Rightarrow> byte" where
  "slot_reference SlotAuthentication = 0x9a"
| "slot_reference SlotSignature = 0x9c"
| "slot_reference SlotKeyManagement = 0x9d"
| "slot_reference SlotCardAuthentication = 0x9e"
| "slot_reference Retired1 = 0x82"
| "slot_reference Retired2 = 0x83"
| "slot_reference Retired3 = 0x84"
| "slot_reference Retired4 = 0x85"
| "slot_reference Retired5 = 0x86"
| "slot_reference Retired6 = 0x87"
| "slot_reference Retired7 = 0x88"
| "slot_reference Retired8 = 0x89"
| "slot_reference Retired9 = 0x8a"
| "slot_reference Retired10 = 0x8b"
| "slot_reference Retired11 = 0x8c"
| "slot_reference Retired12 = 0x8d"
| "slot_reference Retired13 = 0x8e"
| "slot_reference Retired14 = 0x8f"
| "slot_reference Retired15 = 0x90"
| "slot_reference Retired16 = 0x91"
| "slot_reference Retired17 = 0x92"
| "slot_reference Retired18 = 0x93"
| "slot_reference Retired19 = 0x94"
| "slot_reference Retired20 = 0x95"
| "slot_reference SlotAttestation = 0xf9"

fun cka_id :: "piv_slot \<Rightarrow> byte" where
  "cka_id SlotAuthentication = 1"
| "cka_id SlotSignature = 2"
| "cka_id SlotKeyManagement = 3"
| "cka_id SlotCardAuthentication = 4"
| "cka_id SlotAttestation = 25"
| "cka_id slot = 5 + (slot_reference slot - slot_reference Retired1)"

definition from_cka_id :: "byte \<Rightarrow> piv_slot option" where
  "from_cka_id ident = find (\<lambda>slot. cka_id slot = ident) slot_all"

fun certificate_object :: "piv_slot \<Rightarrow> u32" where
  "certificate_object SlotAuthentication = 0x5fc105"
| "certificate_object SlotSignature = 0x5fc10a"
| "certificate_object SlotKeyManagement = 0x5fc10b"
| "certificate_object SlotCardAuthentication = 0x5fc101"
| "certificate_object SlotAttestation = 0x5fff01"
| "certificate_object slot = 0x5fc10d + (ucast (slot_reference slot) - ucast (slot_reference Retired1))"

section \<open>Data objects\<close>

record object_mapping =
  mapping_object_id :: u32
  mapping_cka_id :: byte
  mapping_name :: string
  mapping_slot :: "piv_slot option"

definition data_object :: "u32 \<Rightarrow> byte \<Rightarrow> string \<Rightarrow> piv_slot option \<Rightarrow> object_mapping" where
  "data_object ident cka name slot =
     \<lparr>mapping_object_id = ident, mapping_cka_id = cka, mapping_name = name, mapping_slot = slot\<rparr>"

text \<open>The names of the data objects, in the order of the table.\<close>

definition DATA_OBJECT_NAMES :: "string list" where
  "DATA_OBJECT_NAMES =
     [''X.509 Certificate for PIV Authentication'',
      ''X.509 Certificate for Digital Signature'',
      ''X.509 Certificate for Key Management'',
      ''X.509 Certificate for Card Authentication'',
      ''X.509 Certificate for Retired Key 1'',
      ''X.509 Certificate for Retired Key 2'',
      ''X.509 Certificate for Retired Key 3'',
      ''X.509 Certificate for Retired Key 4'',
      ''X.509 Certificate for Retired Key 5'',
      ''X.509 Certificate for Retired Key 6'',
      ''X.509 Certificate for Retired Key 7'',
      ''X.509 Certificate for Retired Key 8'',
      ''X.509 Certificate for Retired Key 9'',
      ''X.509 Certificate for Retired Key 10'',
      ''X.509 Certificate for Retired Key 11'',
      ''X.509 Certificate for Retired Key 12'',
      ''X.509 Certificate for Retired Key 13'',
      ''X.509 Certificate for Retired Key 14'',
      ''X.509 Certificate for Retired Key 15'',
      ''X.509 Certificate for Retired Key 16'',
      ''X.509 Certificate for Retired Key 17'',
      ''X.509 Certificate for Retired Key 18'',
      ''X.509 Certificate for Retired Key 19'',
      ''X.509 Certificate for Retired Key 20'',
      ''X.509 Certificate for PIV Attestation'',
      ''Card Capability Container'',
      ''Cardholder Unique Identifier'',
      ''Cardholder Fingerprints'',
      ''Security Object'',
      ''Cardholder Facial Images'',
      ''Printed Information'',
      ''Discovery Object'',
      ''Key History Object'',
      ''Cardholder Iris Images'',
      ''Biometric Information Templates Group Template'',
      ''Secure Messaging Certificate Signer'',
      ''Pairing Code Reference Data Container'']"

definition DATA_OBJECTS :: "object_mapping list" where
  "DATA_OBJECTS =
     [data_object 0x5fc105 1 (DATA_OBJECT_NAMES ! 0) (Some SlotAuthentication),
      data_object 0x5fc10a 2 (DATA_OBJECT_NAMES ! 1) (Some SlotSignature),
      data_object 0x5fc10b 3 (DATA_OBJECT_NAMES ! 2) (Some SlotKeyManagement),
      data_object 0x5fc101 4 (DATA_OBJECT_NAMES ! 3) (Some SlotCardAuthentication),
      data_object 0x5fc10d 5 (DATA_OBJECT_NAMES ! 4) (Some Retired1),
      data_object 0x5fc10e 6 (DATA_OBJECT_NAMES ! 5) (Some Retired2),
      data_object 0x5fc10f 7 (DATA_OBJECT_NAMES ! 6) (Some Retired3),
      data_object 0x5fc110 8 (DATA_OBJECT_NAMES ! 7) (Some Retired4),
      data_object 0x5fc111 9 (DATA_OBJECT_NAMES ! 8) (Some Retired5),
      data_object 0x5fc112 10 (DATA_OBJECT_NAMES ! 9) (Some Retired6),
      data_object 0x5fc113 11 (DATA_OBJECT_NAMES ! 10) (Some Retired7),
      data_object 0x5fc114 12 (DATA_OBJECT_NAMES ! 11) (Some Retired8),
      data_object 0x5fc115 13 (DATA_OBJECT_NAMES ! 12) (Some Retired9),
      data_object 0x5fc116 14 (DATA_OBJECT_NAMES ! 13) (Some Retired10),
      data_object 0x5fc117 15 (DATA_OBJECT_NAMES ! 14) (Some Retired11),
      data_object 0x5fc118 16 (DATA_OBJECT_NAMES ! 15) (Some Retired12),
      data_object 0x5fc119 17 (DATA_OBJECT_NAMES ! 16) (Some Retired13),
      data_object 0x5fc11a 18 (DATA_OBJECT_NAMES ! 17) (Some Retired14),
      data_object 0x5fc11b 19 (DATA_OBJECT_NAMES ! 18) (Some Retired15),
      data_object 0x5fc11c 20 (DATA_OBJECT_NAMES ! 19) (Some Retired16),
      data_object 0x5fc11d 21 (DATA_OBJECT_NAMES ! 20) (Some Retired17),
      data_object 0x5fc11e 22 (DATA_OBJECT_NAMES ! 21) (Some Retired18),
      data_object 0x5fc11f 23 (DATA_OBJECT_NAMES ! 22) (Some Retired19),
      data_object 0x5fc120 24 (DATA_OBJECT_NAMES ! 23) (Some Retired20),
      data_object 0x5fff01 25 (DATA_OBJECT_NAMES ! 24) (Some SlotAttestation),
      data_object 0x5fc107 26 (DATA_OBJECT_NAMES ! 25) None,
      data_object 0x5fc102 27 (DATA_OBJECT_NAMES ! 26) None,
      data_object 0x5fc103 28 (DATA_OBJECT_NAMES ! 27) None,
      data_object 0x5fc106 29 (DATA_OBJECT_NAMES ! 28) None,
      data_object 0x5fc108 30 (DATA_OBJECT_NAMES ! 29) None,
      data_object 0x5fc109 31 (DATA_OBJECT_NAMES ! 30) None,
      data_object 0x7e 32 (DATA_OBJECT_NAMES ! 31) None,
      data_object 0x5fc10c 33 (DATA_OBJECT_NAMES ! 32) None,
      data_object 0x5fc121 34 (DATA_OBJECT_NAMES ! 33) None,
      data_object 0x7f61 35 (DATA_OBJECT_NAMES ! 34) None,
      data_object 0x5fc122 36 (DATA_OBJECT_NAMES ! 35) None,
      data_object 0x5fc123 37 (DATA_OBJECT_NAMES ! 36) None]"

definition data_object_mapping :: "u32 \<Rightarrow> object_mapping option" where
  "data_object_mapping ident = find (\<lambda>m. mapping_object_id m = ident) DATA_OBJECTS"

definition data_object_mapping_by_cka_id :: "byte \<Rightarrow> object_mapping option" where
  "data_object_mapping_by_cka_id ident = find (\<lambda>m. mapping_cka_id m = ident) DATA_OBJECTS"

text \<open>The object identifier of a mapping: a common prefix and two or three more bytes.\<close>

definition data_object_oid :: "object_mapping \<Rightarrow> bytes option" where
  "data_object_oid m =
     (let ident = mapping_cka_id m; piv = (\<lambda>rest. [0x60, 0x86, 0x48, 0x01, 0x65, 0x03, 0x07] @ rest) in
      if ident = 1 then Some (piv [0x02, 0x01, 0x01])
      else if ident = 2 then Some (piv [0x02, 0x01, 0x00])
      else if ident = 3 then Some (piv [0x02, 0x01, 0x02])
      else if ident = 4 then Some (piv [0x02, 0x05, 0x00])
      else if 5 \<le> ident \<and> ident \<le> 24 then Some (piv [0x02, 0x10, ident - 4])
      else if ident = 25 then Some [0x2b, 0x06, 0x01, 0x04, 0x01, 0x82, 0xc4, 0x0a, 0x03]
      else if ident = 26 then Some (piv [0x01, 0x81, 0x5b, 0x00])
      else if ident = 27 then Some (piv [0x02, 0x30, 0x00])
      else if ident = 28 then Some (piv [0x02, 0x60, 0x10])
      else if ident = 29 then Some (piv [0x02, 0x81, 0x10, 0x00])
      else if ident = 30 then Some (piv [0x02, 0x60, 0x30])
      else if ident = 31 then Some (piv [0x02, 0x30, 0x01])
      else if ident = 32 then Some (piv [0x02, 0x60, 0x50])
      else if ident = 33 then Some (piv [0x02, 0x60, 0x60])
      else if 34 \<le> ident \<and> ident \<le> 37 then Some (piv [0x02, 0x10, ident - 13])
      else None)"

definition data_object_mapping_by_oid :: "bytes \<Rightarrow> object_mapping option" where
  "data_object_mapping_by_oid oid = find (\<lambda>m. data_object_oid m = Some oid) DATA_OBJECTS"

definition data_object_allowed :: "u32 \<Rightarrow> bool" where
  "data_object_allowed ident \<longleftrightarrow>
     data_object_mapping ident \<noteq> None \<or> 0x5fff00 \<le> ident \<and> ident \<le> 0x5fffff \<and> ident \<noteq> 0x5fff01"


text \<open>The name of an object, or its tag in at least six upper-case hexadecimal digits.\<close>

definition upper_hex_digit :: "nat \<Rightarrow> char" where
  "upper_hex_digit n = ''0123456789ABCDEF'' ! n"

function upper_hex :: "nat \<Rightarrow> string" where
  "upper_hex n = (if n < 16 then [upper_hex_digit n] else upper_hex (n div 16) @ [upper_hex_digit (n mod 16)])"
  by pat_completeness auto
termination by (relation "measure (\<lambda>n. n)") auto

definition data_object_name :: "u32 \<Rightarrow> string" where
  "data_object_name ident =
     (case data_object_mapping ident of
        Some m \<Rightarrow> mapping_name m
      | None \<Rightarrow> let digits = upper_hex (unat ident) in
          ''PIV data '' @ replicate (6 - length digits) (CHR ''0'') @ digits)"

section \<open>Consistency of the tables\<close>

lemma find_distinct:
  "distinct (map k xs) \<Longrightarrow> x \<in> set xs \<Longrightarrow> find (\<lambda>y. k y = k x) xs = Some x"
  by (induction xs) auto

lemma from_cka_id_cka_id [simp]: "from_cka_id (cka_id slot) = Some slot"
  by (cases slot) (simp_all add: from_cka_id_def slot_all_def)

lemmas table_defs = DATA_OBJECTS_def data_object_def

lemma distinct_object_ids: "distinct (map mapping_object_id DATA_OBJECTS)"
  by (simp add: table_defs)

lemma distinct_cka_ids: "distinct (map mapping_cka_id DATA_OBJECTS)"
  by (simp add: table_defs)

lemma distinct_oids: "distinct (map data_object_oid DATA_OBJECTS)"
  by (simp add: table_defs data_object_oid_def)

lemma table_oids: "list_all (\<lambda>m. data_object_oid m \<noteq> None) DATA_OBJECTS"
  by (simp add: table_defs data_object_oid_def)

lemma table_slots:
  "list_all (\<lambda>m. case mapping_slot m of
       None \<Rightarrow> True
     | Some s \<Rightarrow> certificate_object s = mapping_object_id m \<and> cka_id s = mapping_cka_id m) DATA_OBJECTS"
  by (simp add: table_defs)

lemma slots_mapped: "\<exists>m \<in> set DATA_OBJECTS. mapping_slot m = Some slot"
  by (cases slot) (simp_all add: table_defs)

lemma entry_found:
  assumes "m \<in> set DATA_OBJECTS"
  shows "data_object_mapping (mapping_object_id m) = Some m"
    "data_object_mapping_by_cka_id (mapping_cka_id m) = Some m"
    "\<exists>oid. data_object_oid m = Some oid \<and> data_object_mapping_by_oid oid = Some m"
proof -
  show "data_object_mapping (mapping_object_id m) = Some m" "data_object_mapping_by_cka_id (mapping_cka_id m) = Some m"
    using find_distinct [OF distinct_object_ids assms] find_distinct [OF distinct_cka_ids assms]
    by (simp_all add: data_object_mapping_def data_object_mapping_by_cka_id_def)
  have "data_object_oid m \<noteq> None"
    using table_oids [unfolded list_all_iff, rule_format, OF assms] .
  then obtain oid where "data_object_oid m = Some oid" by blast
  with find_distinct [OF distinct_oids assms]
  show "\<exists>oid. data_object_oid m = Some oid \<and> data_object_mapping_by_oid oid = Some m"
    by (auto simp: data_object_mapping_by_oid_def)
qed

lemma slot_entry:
  "\<exists>m. mapping_slot m = Some slot \<and> data_object_mapping (certificate_object slot) = Some m \<and>
       data_object_mapping_by_cka_id (cka_id slot) = Some m"
proof -
  obtain e where e: "e \<in> set DATA_OBJECTS" "mapping_slot e = Some slot" using slots_mapped by blast
  then have "certificate_object slot = mapping_object_id e" "cka_id slot = mapping_cka_id e"
    using table_slots [unfolded list_all_iff, rule_format, OF e(1)] by simp_all
  with entry_found(1,2) [OF e(1)] e(2) show ?thesis by metis
qed

lemma certificate_object_inject: "certificate_object slot = certificate_object slot' \<Longrightarrow> slot = slot'"
  using slot_entry [of slot] slot_entry [of slot'] by (metis option.inject)

lemma certificate_object_bound: "\<not> 0x00ffffff < certificate_object slot"
  by (cases slot) simp_all

text \<open>
  C14. The PIV tables agree with each other: every data object is found again under its card tag,
  its \<open>CKA_ID\<close> and its object identifier, and for every key slot the certificate tag and the
  \<open>CKA_ID\<close> lead to the one entry that belongs to that slot, and the \<open>CKA_ID\<close> back to the slot.
\<close>
theorem piv_tables_consistent:
  "(\<forall>m \<in> set DATA_OBJECTS. data_object_mapping (mapping_object_id m) = Some m \<and>
      data_object_mapping_by_cka_id (mapping_cka_id m) = Some m \<and>
      (\<exists>oid. data_object_oid m = Some oid \<and> data_object_mapping_by_oid oid = Some m)) \<and>
   (\<forall>slot. from_cka_id (cka_id slot) = Some slot \<and>
      (\<exists>m. mapping_slot m = Some slot \<and> data_object_mapping (certificate_object slot) = Some m \<and>
           data_object_mapping_by_cka_id (cka_id slot) = Some m))"
  using entry_found slot_entry from_cka_id_cka_id by blast

theorem piv_tables_consistent_witness:
  "data_object_mapping_by_cka_id 3 = data_object_mapping 0x5fc10b \<and> from_cka_id 3 = Some SlotKeyManagement"
  using conjunct2 [OF piv_tables_consistent, THEN spec [of _ SlotKeyManagement]] by auto
end
