(* ===== verification/Piv.thy ===== *)
theory Piv
  imports Apdu Secure_Channel_Crypto Piv_Tlv Piv_Objects
begin

text \<open>
  The client of the PIV applet (src/src/piv.rs, \<open>Client\<close> and the certificate container).  The
  connector is the argument \<open>send\<close>, which carries one command APDU to the card and is a computation
  over the state of the connector; random bytes, the ciphers, compression and the parameters of
  the post-quantum algorithms come from other crates and are arguments too.
\<close>

type_synonym 'c send_apdu = "command_apdu \<Rightarrow> ('c, response_apdu) comp"

abbreviation (input) INS_SELECT :: byte where "INS_SELECT \<equiv> 0xa4"
abbreviation (input) INS_VERIFY :: byte where "INS_VERIFY \<equiv> 0x20"
abbreviation (input) INS_CHANGE_REFERENCE :: byte where "INS_CHANGE_REFERENCE \<equiv> 0x24"
abbreviation (input) INS_RESET_RETRY :: byte where "INS_RESET_RETRY \<equiv> 0x2c"
abbreviation (input) INS_AUTHENTICATE :: byte where "INS_AUTHENTICATE \<equiv> 0x87"
abbreviation (input) INS_GENERATE_ASYMMETRIC :: byte where "INS_GENERATE_ASYMMETRIC \<equiv> 0x47"
abbreviation (input) INS_GET_DATA :: byte where "INS_GET_DATA \<equiv> 0xcb"
abbreviation (input) INS_PUT_DATA :: byte where "INS_PUT_DATA \<equiv> 0xdb"
abbreviation (input) INS_IMPORT_KEY :: byte where "INS_IMPORT_KEY \<equiv> 0xfe"
abbreviation (input) INS_GET_VERSION :: byte where "INS_GET_VERSION \<equiv> 0xfd"
abbreviation (input) INS_GET_SERIAL :: byte where "INS_GET_SERIAL \<equiv> 0xf8"
abbreviation (input) INS_GET_METADATA :: byte where "INS_GET_METADATA \<equiv> 0xf7"
abbreviation (input) INS_MOVE_KEY :: byte where "INS_MOVE_KEY \<equiv> 0xf6"
abbreviation (input) INS_ATTEST :: byte where "INS_ATTEST \<equiv> 0xf9"
abbreviation (input) INS_SET_MANAGEMENT_KEY :: byte where "INS_SET_MANAGEMENT_KEY \<equiv> 0xff"
abbreviation (input) MANAGEMENT_KEY_REFERENCE :: byte where "MANAGEMENT_KEY_REFERENCE \<equiv> 0x9b"
abbreviation (input) STATUS_SUCCESS :: u16 where "STATUS_SUCCESS \<equiv> 0x9000"

record piv_version =
  ver_major :: byte
  ver_minor :: byte
  ver_patch :: byte

record device_info =
  info_version :: piv_version
  info_serial :: "nat option"

record metadata =
  meta_algorithm :: "byte option"
  meta_pin_policy :: "byte option"
  meta_touch_policy :: "byte option"
  meta_origin :: "byte option"
  meta_public_key :: "bytes option"

datatype metadata_public_key = MetaRsa bytes bytes | MetaEc bytes | MetaRaw bytes

record private_key_import =
  import_algorithm :: piv_algorithm
  import_components :: "(nat \<times> bytes) list"
  import_public_key :: metadata_public_key

text \<open>The post-quantum signature parameters of src/src/object.rs; a prehash is given by its digest
  length and identifier.\<close>

record ml_dsa_parameters =
  mldsa_prehash :: "(nat \<times> byte) option"
  mldsa_hedge :: nat
  mldsa_context :: bytes

section \<open>Commands\<close>

definition map_status :: "u16 \<Rightarrow> error" where
  "map_status status =
     (if status AND 0xfff0 = 0x63c0 then Generic CKR_PIN_INCORRECT
      else if status = 0x6982 then Generic CKR_USER_NOT_LOGGED_IN
      else if status = 0x6983 then Generic CKR_PIN_LOCKED
      else if status = 0x6985 then Generic CKR_FUNCTION_REJECTED
      else if status = 0x6d00 then Generic CKR_FUNCTION_NOT_SUPPORTED
      else Generic CKR_DEVICE_ERROR)"

definition piv_require_success :: "u16 \<Rightarrow> unit result" where
  "piv_require_success status = (if status = STATUS_SUCCESS then Inr () else Inl (map_status status))"

definition piv_command :: "'c send_apdu \<Rightarrow> byte \<Rightarrow> byte \<Rightarrow> byte \<Rightarrow> bytes \<Rightarrow> ('c, bytes) comp" where
  "piv_command send ins p1 p2 data =
     sbind (send \<lparr>apdu_cla = 0, apdu_ins = ins, apdu_p1 = p1, apdu_p2 = p2, apdu_data = data,
                  apdu_le = Some 256, apdu_extended = False\<rparr>) (\<lambda>response.
     sthen (slift (piv_require_success (resp_status response))) (sok (resp_data response)))"

definition selected_info :: "'c send_apdu \<Rightarrow> ('c, device_info) comp" where
  "selected_info send =
     sbind (piv_command send INS_GET_VERSION 0 0 []) (\<lambda>version.
     if length version \<noteq> 3 then sfail (Generic CKR_DEVICE_ERROR)
     else let v = \<lparr>ver_major = version ! 0, ver_minor = version ! 1, ver_patch = version ! 2\<rparr> in
       sbind (sattempt (piv_command send INS_GET_SERIAL 0 0 [])) (\<lambda>serial.
         case serial of
           Inr bs \<Rightarrow>
             if length bs = 4 then sok \<lparr>info_version = v, info_serial = Some (nat_of_be bs)\<rparr>
             else sfail (Generic CKR_DEVICE_ERROR)
         | Inl e \<Rightarrow>
             if e = Generic CKR_FUNCTION_NOT_SUPPORTED then sok \<lparr>info_version = v, info_serial = None\<rparr>
             else sfail e))"

definition piv_select :: "'c send_apdu \<Rightarrow> bytes \<Rightarrow> ('c, device_info) comp" where
  "piv_select send application_aid =
     sbind (send \<lparr>apdu_cla = 0, apdu_ins = INS_SELECT, apdu_p1 = 0x04, apdu_p2 = 0,
                  apdu_data = application_aid, apdu_le = Some 256, apdu_extended = False\<rparr>) (\<lambda>response.
     sthen (slift (piv_require_success (resp_status response))) (selected_info send))"

section \<open>PINs\<close>

definition pin_length_ok :: "bytes \<Rightarrow> bool" where
  "pin_length_ok pin \<longleftrightarrow> 6 \<le> length pin \<and> length pin \<le> 8"

text \<open>Fixed-size fields filled with \<open>0xff\<close> behind the value.\<close>

definition pin_padded :: "bytes \<Rightarrow> bytes" where
  "pin_padded pin = pin @ replicate (8 - length pin) 0xff"

definition verify_pin :: "'c send_apdu \<Rightarrow> bytes \<Rightarrow> ('c, unit) comp" where
  "verify_pin send pin =
     (if \<not> pin_length_ok pin then sfail (Generic CKR_PIN_LEN_RANGE)
      else sthen (piv_command send INS_VERIFY 0 0x80 (pin_padded pin)) (sok ()))"

definition deauthenticate_pin :: "'c send_apdu \<Rightarrow> ('c, unit) comp" where
  "deauthenticate_pin send =
     sbind (send \<lparr>apdu_cla = 0, apdu_ins = INS_VERIFY, apdu_p1 = 0xff, apdu_p2 = 0x80,
                  apdu_data = [], apdu_le = None, apdu_extended = False\<rparr>) (\<lambda>response.
     slift (piv_require_success (resp_status response)))"

definition change_reference ::
  "'c send_apdu \<Rightarrow> byte \<Rightarrow> byte \<Rightarrow> bytes \<Rightarrow> bytes \<Rightarrow> ('c, unit) comp" where
  "change_reference send ins reference old new =
     (if \<not> pin_length_ok old \<or> \<not> pin_length_ok new then sfail (Generic CKR_PIN_LEN_RANGE)
      else sthen (piv_command send ins 0 reference (pin_padded old @ pin_padded new)) (sok ()))"

definition change_pin :: "'c send_apdu \<Rightarrow> bytes \<Rightarrow> bytes \<Rightarrow> ('c, unit) comp" where
  "change_pin send old new = change_reference send INS_CHANGE_REFERENCE 0x80 old new"

definition change_puk :: "'c send_apdu \<Rightarrow> bytes \<Rightarrow> bytes \<Rightarrow> ('c, unit) comp" where
  "change_puk send old new = change_reference send INS_CHANGE_REFERENCE 0x81 old new"

definition unblock_pin :: "'c send_apdu \<Rightarrow> bytes \<Rightarrow> bytes \<Rightarrow> ('c, unit) comp" where
  "unblock_pin send puk new = change_reference send INS_RESET_RETRY 0x80 puk new"

definition pin_retries :: "'c send_apdu \<Rightarrow> ('c, byte) comp" where
  "pin_retries send =
     sbind (send \<lparr>apdu_cla = 0, apdu_ins = INS_VERIFY, apdu_p1 = 0, apdu_p2 = 0x80,
                  apdu_data = [], apdu_le = None, apdu_extended = False\<rparr>) (\<lambda>response.
     let status = resp_status response in
     if status AND 0xfff0 = 0x63c0 then sok (ucast (status AND 0xf))
     else if status = 0x6983 then sok 0
     else if status = STATUS_SUCCESS then sok 255
     else sfail (map_status status))"


section \<open>Metadata and public keys\<close>

definition metadata_for_reference :: "'c send_apdu \<Rightarrow> byte \<Rightarrow> ('c, metadata) comp" where
  "metadata_for_reference send reference =
     sbind (piv_command send INS_GET_METADATA 0 reference []) (\<lambda>data.
     sbind (slift (parse_tlvs data)) (\<lambda>fields.
       let policy = field fields 0x02; first = (\<lambda>v. if v = [] then None else Some (hd v)) in
       sok \<lparr>meta_algorithm = Option.bind (field fields 0x01) first,
            meta_pin_policy = Option.bind policy first,
            meta_touch_policy = Option.bind policy (\<lambda>v. if 1 < length v then Some (v ! 1) else None),
            meta_origin = Option.bind (field fields 0x03) first,
            meta_public_key = field fields 0x04\<rparr>))"

definition piv_metadata :: "'c send_apdu \<Rightarrow> piv_slot \<Rightarrow> ('c, metadata) comp" where
  "piv_metadata send slot = metadata_for_reference send (slot_reference slot)"

definition nonempty_field :: "tlv list \<Rightarrow> nat \<Rightarrow> bytes result" where
  "nonempty_field tlvs tag =
     (case field tlvs tag of
        Some v \<Rightarrow> if v = [] then Inl data_invalid else Inr v
      | None \<Rightarrow> Inl data_invalid)"

definition parse_metadata_public_key :: "piv_algorithm \<Rightarrow> bytes \<Rightarrow> metadata_public_key result" where
  "parse_metadata_public_key algorithm encoded =
     and_then (parse_tlvs encoded) (\<lambda>fields.
       if algorithm \<in> {Rsa1024, Rsa2048, Rsa3072, Rsa4096} then
         and_then (nonempty_field fields 0x81) (\<lambda>modulus.
         and_then (nonempty_field fields 0x82) (\<lambda>exponent. Inr (MetaRsa modulus exponent)))
       else if algorithm \<in> {EccP256, EccP384} then
         and_then (nonempty_field fields 0x86) (\<lambda>v. Inr (MetaEc v))
       else if algorithm \<in> {Ed25519, X25519} then
         and_then (nonempty_field fields 0x86) (\<lambda>v. Inr (MetaRaw v))
       else
         and_then (nonempty_field fields 0x87) (\<lambda>v. Inr (MetaRaw v)))"

section \<open>The management key\<close>

definition crypt_management_block ::
  "primitives \<Rightarrow> (bytes \<Rightarrow> bytes \<Rightarrow> direction \<Rightarrow> bytes option) \<Rightarrow> management_algorithm
   \<Rightarrow> bytes \<Rightarrow> bytes \<Rightarrow> direction \<Rightarrow> bytes result" where
  "crypt_management_block P tdes_ecb algorithm key input direction =
     (if length key \<noteq> key_length algorithm \<or> length input \<noteq> block_size algorithm
      then Inl (Generic CKR_DATA_LEN_RANGE)
      else if algorithm \<noteq> TripleDes then aes_ecb P key input direction
      else case tdes_ecb key input direction of
        Some bs \<Rightarrow> Inr bs
      | None \<Rightarrow> Inl (Generic CKR_DATA_LEN_RANGE))"

text \<open>The algorithm the card reports, triple DES when it reports none.\<close>

definition management_algorithm_of :: "metadata result \<Rightarrow> management_algorithm" where
  "management_algorithm_of m =
     (case m of
        Inl _ \<Rightarrow> TripleDes
      | Inr md \<Rightarrow> (case Option.bind (meta_algorithm md) management_from_id of
                    Some a \<Rightarrow> a | None \<Rightarrow> TripleDes))"

text \<open>The request of a challenge, and the dynamic authentication template of an answer.\<close>

definition challenge_request :: "bytes result" where
  "challenge_request = and_then (encode_tlv 0x80 []) (\<lambda>inner. encode_tlv 0x7c inner)"

definition dynamic_field :: "bytes \<Rightarrow> nat \<Rightarrow> bytes result" where
  "dynamic_field response tag =
     and_then (parse_tlvs response) (\<lambda>outer.
     case field outer 0x7c of
       None \<Rightarrow> Inl data_invalid
     | Some dynamic \<Rightarrow>
         and_then (parse_tlvs dynamic) (\<lambda>fields.
           case field fields tag of None \<Rightarrow> Inl data_invalid | Some v \<Rightarrow> Inr v))"

definition deauthenticate_management_key :: "'c send_apdu \<Rightarrow> ('c, unit) comp" where
  "deauthenticate_management_key send =
     sbind (sattempt (metadata_for_reference send MANAGEMENT_KEY_REFERENCE)) (\<lambda>m.
     sbind (slift challenge_request) (\<lambda>request.
     sthen (piv_command send INS_AUTHENTICATE (management_id (management_algorithm_of m))
              MANAGEMENT_KEY_REFERENCE request) (sok ())))"

text \<open>The answer to the card's challenge together with a challenge of our own.\<close>

definition authentication_request :: "bytes \<Rightarrow> bytes \<Rightarrow> bytes result" where
  "authentication_request card_response host_challenge =
     and_then (encode_tlv 0x80 card_response) (\<lambda>a.
     and_then (encode_tlv 0x81 host_challenge) (\<lambda>b. encode_tlv 0x7c (a @ b)))"

definition authenticate_management_key ::
  "primitives \<Rightarrow> (bytes \<Rightarrow> bytes \<Rightarrow> direction \<Rightarrow> bytes option) \<Rightarrow> (nat \<Rightarrow> bytes option)
   \<Rightarrow> 'c send_apdu \<Rightarrow> bytes \<Rightarrow> ('c, unit) comp" where
  "authenticate_management_key P tdes_ecb entropy send key =
     sbind (sattempt (metadata_for_reference send MANAGEMENT_KEY_REFERENCE)) (\<lambda>m.
     let algorithm = management_algorithm_of m;
         exchange = piv_command send INS_AUTHENTICATE (management_id algorithm) MANAGEMENT_KEY_REFERENCE in
     if length key \<noteq> key_length algorithm then sfail (Generic CKR_PIN_LEN_RANGE)
     else
       sbind (slift challenge_request) (\<lambda>request.
       sbind (exchange request) (\<lambda>response.
       sbind (slift (dynamic_field response 0x80)) (\<lambda>card_challenge.
       if length card_challenge \<noteq> block_size algorithm then sfail data_invalid
       else
         sbind (slift (crypt_management_block P tdes_ecb algorithm key card_challenge Decrypt)) (\<lambda>card_response.
         case entropy (block_size algorithm) of
           None \<Rightarrow> sfail (Generic CKR_DEVICE_ERROR)
         | Some host_challenge \<Rightarrow>
             sbind (slift (authentication_request card_response host_challenge)) (\<lambda>request.
             sbind (exchange request) (\<lambda>response.
             sbind (slift (dynamic_field response 0x82)) (\<lambda>card_cryptogram.
             sbind (slift (crypt_management_block P tdes_ecb algorithm key host_challenge Encrypt)) (\<lambda>expected.
               if card_cryptogram \<noteq> expected then sfail (Generic CKR_PIN_INCORRECT) else sok ())))))))))"

definition set_management_key :: "'c send_apdu \<Rightarrow> bytes \<Rightarrow> ('c, unit) comp" where
  "set_management_key send new_key =
     sbind (metadata_for_reference send MANAGEMENT_KEY_REFERENCE) (\<lambda>m.
     case Option.bind (meta_algorithm m) management_from_id of
       None \<Rightarrow> sfail data_invalid
     | Some algorithm \<Rightarrow>
         if length new_key \<noteq> key_length algorithm then sfail (Generic CKR_PIN_LEN_RANGE)
         else let touch = (case meta_touch_policy m of Some t \<Rightarrow> t | None \<Rightarrow> 0) in
           if touch = 0 \<or> touch = 1 \<or> touch = 2 then
             sthen (piv_command send INS_SET_MANAGEMENT_KEY 0xff (if touch = 2 then 0xfe else 0xff)
                ([management_id algorithm, MANAGEMENT_KEY_REFERENCE, of_nat (length new_key)] @ new_key)) (sok ())
           else sfail data_invalid)"

section \<open>Keys\<close>

text \<open>Optional policies: a field is present when the policy is not the default.\<close>

definition policy_fields :: "byte \<Rightarrow> byte \<Rightarrow> bytes result" where
  "policy_fields pin_policy touch_policy =
     and_then (if pin_policy \<noteq> 0 then encode_tlv 0xaa [pin_policy] else Inr []) (\<lambda>p.
     and_then (if touch_policy \<noteq> 0 then encode_tlv 0xab [touch_policy] else Inr []) (\<lambda>t. Inr (p @ t)))"

definition generate_key_pair ::
  "'c send_apdu \<Rightarrow> piv_slot \<Rightarrow> piv_algorithm \<Rightarrow> byte \<Rightarrow> byte \<Rightarrow> ('c, metadata_public_key) comp" where
  "generate_key_pair send slot algorithm pin_policy touch_policy =
     (if slot = SlotAttestation then sfail (Generic CKR_FUNCTION_REJECTED)
      else if 5 < pin_policy \<or> 3 < touch_policy then sfail data_invalid
      else
        sbind (slift (encode_tlv 0x80 [algorithm_id algorithm])) (\<lambda>attributes.
        sbind (slift (policy_fields pin_policy touch_policy)) (\<lambda>policies.
        sbind (slift (encode_tlv 0xac (attributes @ policies))) (\<lambda>request.
        sbind (piv_command send INS_GENERATE_ASYMMETRIC 0 (slot_reference slot) request) (\<lambda>response.
        sbind (slift (parse_tlvs response)) (\<lambda>fields.
          case field fields 0x7f49 of
            None \<Rightarrow> sfail data_invalid
          | Some public_key \<Rightarrow> slift (parse_metadata_public_key algorithm public_key)))))))"

fun element_length :: "piv_algorithm \<Rightarrow> nat" where
  "element_length Rsa1024 = 64"
| "element_length Rsa2048 = 128"
| "element_length Rsa3072 = 192"
| "element_length Rsa4096 = 256"
| "element_length EccP384 = 48"
| "element_length MlKem512 = 64"
| "element_length MlKem768 = 64"
| "element_length MlKem1024 = 64"
| "element_length _ = 32"

definition expandable :: "piv_algorithm \<Rightarrow> bool" where
  "expandable algorithm \<longleftrightarrow>
     algorithm \<in> {MlDsa44, MlDsa65, MlDsa87, MlKem512, MlKem768, MlKem1024}"

text \<open>One component of a private key, left-padded with zeros to the element length; an expanded
  post-quantum key (tag \<open>0x0a\<close>) must have its exact length, a seed (tag \<open>0x09\<close>) too.\<close>

definition import_component :: "(piv_algorithm \<Rightarrow> nat) \<Rightarrow> piv_algorithm \<Rightarrow> nat \<times> bytes \<Rightarrow> bytes result" where
  "import_component expanded algorithm = (\<lambda>(tag, component).
     if tag = 0x0a then
       if \<not> expandable algorithm then Inl data_invalid
       else if length component \<noteq> expanded algorithm then Inl (Generic CKR_KEY_SIZE_RANGE)
       else encode_tlv tag component
     else if component = [] \<or> element_length algorithm < length component
             \<or> tag = 0x09 \<and> length component \<noteq> element_length algorithm
       then Inl (Generic CKR_KEY_SIZE_RANGE)
     else encode_tlv tag (replicate (element_length algorithm - length component) 0 @ component))"

fun import_components_request ::
  "(piv_algorithm \<Rightarrow> nat) \<Rightarrow> piv_algorithm \<Rightarrow> (nat \<times> bytes) list \<Rightarrow> bytes result" where
  "import_components_request expanded algorithm [] = Inr []"
| "import_components_request expanded algorithm (c # cs) =
     and_then (import_component expanded algorithm c) (\<lambda>bs.
     and_then (import_components_request expanded algorithm cs) (\<lambda>rest. Inr (bs @ rest)))"

definition import_private_key ::
  "(piv_algorithm \<Rightarrow> nat) \<Rightarrow> 'c send_apdu \<Rightarrow> piv_slot \<Rightarrow> private_key_import \<Rightarrow> byte \<Rightarrow> byte \<Rightarrow> ('c, unit) comp" where
  "import_private_key expanded send slot key pin_policy touch_policy =
     (if slot = SlotAttestation \<or> 5 < pin_policy \<or> 3 < touch_policy then sfail data_invalid
      else
        sbind (slift (import_components_request expanded (import_algorithm key) (import_components key))) (\<lambda>components.
        sbind (slift (policy_fields pin_policy touch_policy)) (\<lambda>policies.
        sthen (piv_command send INS_IMPORT_KEY (algorithm_id (import_algorithm key)) (slot_reference slot)
                 (components @ policies)) (sok ()))))"

definition delete_key :: "'c send_apdu \<Rightarrow> piv_slot \<Rightarrow> ('c, unit) comp" where
  "delete_key send slot =
     (if slot = SlotAttestation then sfail (Generic CKR_FUNCTION_REJECTED)
      else sthen (piv_command send INS_MOVE_KEY 0xff (slot_reference slot) []) (sok ()))"

definition move_key :: "'c send_apdu \<Rightarrow> piv_slot \<Rightarrow> piv_slot \<Rightarrow> ('c, unit) comp" where
  "move_key send source target =
     (if source = SlotAttestation \<or> target = SlotAttestation then sfail (Generic CKR_FUNCTION_REJECTED)
      else if source = target then sok ()
      else sthen (piv_command send INS_MOVE_KEY (slot_reference target) (slot_reference source) []) (sok ()))"

definition attestation :: "'c send_apdu \<Rightarrow> piv_slot \<Rightarrow> ('c, bytes) comp" where
  "attestation send slot = piv_command send INS_ATTEST (slot_reference slot) 0 []"

section \<open>Data objects\<close>

definition put_data :: "'c send_apdu \<Rightarrow> u32 \<Rightarrow> bytes \<Rightarrow> ('c, unit) comp" where
  "put_data send object_id content =
     (if 0x00ffffff < object_id then sfail data_invalid
      else
        sbind (slift (encode_tlv 0x5c (significant_bytes (unat object_id)))) (\<lambda>tag.
        sbind (slift (encode_tlv 0x53 content)) (\<lambda>body.
        sthen (piv_command send INS_PUT_DATA 0x3f 0xff (tag @ body)) (sok ()))))"

definition get_data :: "'c send_apdu \<Rightarrow> u32 \<Rightarrow> ('c, bytes) comp" where
  "get_data send object_id =
     (if 0x00ffffff < object_id then sfail data_invalid
      else
        sbind (slift (encode_tlv 0x5c (significant_bytes (unat object_id)))) (\<lambda>request.
        sbind (piv_command send INS_GET_DATA 0x3f 0xff request) (\<lambda>response.
        sbind (slift (parse_tlvs response)) (\<lambda>fields.
          case field fields 0x53 of None \<Rightarrow> sfail data_invalid | Some v \<Rightarrow> sok v))))"

section \<open>Certificates\<close>

abbreviation (input) CERTIFICATE_UNCOMPRESSED :: byte where "CERTIFICATE_UNCOMPRESSED \<equiv> 0"
abbreviation (input) CERTIFICATE_GZIP :: byte where "CERTIFICATE_GZIP \<equiv> 1"
abbreviation (input) MAX_DECOMPRESSED_CERTIFICATE_SIZE :: nat where
  "MAX_DECOMPRESSED_CERTIFICATE_SIZE \<equiv> 65535"

text \<open>Compression as the code uses it: a compressor that may fail, and decompressors that deliver at
  most the given number of bytes or fail.\<close>

record compression =
  gzip :: "bytes \<Rightarrow> bytes option"
  gunzip :: "nat \<Rightarrow> bytes \<Rightarrow> bytes option"
  zlib_inflate :: "nat \<Rightarrow> bytes \<Rightarrow> bytes option"

definition encode_certificate_object :: "compression \<Rightarrow> bytes \<Rightarrow> bytes result" where
  "encode_certificate_object Z certificate =
     (case gzip Z certificate of
        None \<Rightarrow> Inl (Generic CKR_DEVICE_ERROR)
      | Some compressed \<Rightarrow>
          let (stored, cert_info) =
            if length compressed < length certificate then (compressed, CERTIFICATE_GZIP)
            else (certificate, CERTIFICATE_UNCOMPRESSED) in
          and_then (encode_tlv 0x70 stored) (\<lambda>a.
          and_then (encode_tlv 0x71 [cert_info]) (\<lambda>b.
          and_then (encode_tlv 0xfe []) (\<lambda>c. Inr (a @ b @ c)))))"

text \<open>A marker and the expected size in little-endian order may precede a zlib stream.\<close>

definition compressed_parts :: "bytes \<Rightarrow> bytes \<times> nat option" where
  "compressed_parts compressed =
     (case compressed of
        a # b # low # high # rest \<Rightarrow>
          if a = 0x01 \<and> b = 0x00 then (rest, Some (nat_of_be [high, low])) else (compressed, None)
      | _ \<Rightarrow> (compressed, None))"

definition decode_compressed_certificate :: "compression \<Rightarrow> bytes \<Rightarrow> bytes result" where
  "decode_compressed_certificate Z compressed =
     (let (stream, expected_length) = compressed_parts compressed;
          limit = MAX_DECOMPRESSED_CERTIFICATE_SIZE + 1 in
      case (if take 2 stream = [0x1f, 0x8b] then gunzip Z limit stream else zlib_inflate Z limit stream) of
        None \<Rightarrow> Inl data_invalid
      | Some decoded \<Rightarrow>
          if MAX_DECOMPRESSED_CERTIFICATE_SIZE < length decoded
             \<or> is_some_and expected_length (\<lambda>expected. expected \<noteq> length decoded)
          then Inl data_invalid else Inr decoded)"

definition decode_certificate_object :: "compression \<Rightarrow> bytes \<Rightarrow> bytes result" where
  "decode_certificate_object Z object =
     and_then (parse_tlvs object) (\<lambda>fields.
       if length fields \<noteq> 3 \<or> list_ex (\<lambda>(tag, _). tag \<notin> {0x70, 0x71, 0xfe}) fields then Inl data_invalid
       else if list_ex (\<lambda>tag. length (filter (\<lambda>(t, _). t = tag) fields) \<noteq> 1) [0x70, 0x71, 0xfe]
         then Inl data_invalid
       else if field fields 0xfe \<noteq> Some [] then Inl data_invalid
       else and_then (nonempty_field fields 0x70) (\<lambda>certificate.
         if field fields 0x71 = Some [CERTIFICATE_UNCOMPRESSED] then Inr certificate
         else if field fields 0x71 = Some [CERTIFICATE_GZIP] then decode_compressed_certificate Z certificate
         else Inl data_invalid))"

definition put_certificate ::
  "compression \<Rightarrow> (bytes \<Rightarrow> bool) \<Rightarrow> 'c send_apdu \<Rightarrow> piv_slot \<Rightarrow> bytes \<Rightarrow> ('c, bytes) comp" where
  "put_certificate Z valid_certificate send slot certificate =
     (if \<not> valid_certificate certificate then sfail data_invalid
      else
        sbind (slift (encode_certificate_object Z certificate)) (\<lambda>object.
        sthen (put_data send (certificate_object slot) object) (sok object)))"

definition delete_certificate :: "'c send_apdu \<Rightarrow> piv_slot \<Rightarrow> ('c, unit) comp" where
  "delete_certificate send slot = put_data send (certificate_object slot) []"

section \<open>Private key operations\<close>

definition general_authenticate ::
  "'c send_apdu \<Rightarrow> piv_slot \<Rightarrow> piv_algorithm \<Rightarrow> nat \<Rightarrow> bytes \<Rightarrow> bytes \<Rightarrow> ('c, bytes) comp" where
  "general_authenticate send slot algorithm input_tag input extra =
     sbind (slift (encode_tlv 0x82 [])) (\<lambda>a.
     sbind (slift (encode_tlv input_tag input)) (\<lambda>b.
     sbind (slift (encode_tlv 0x7c (a @ b @ extra))) (\<lambda>request.
     sbind (piv_command send INS_AUTHENTICATE (algorithm_id algorithm) (slot_reference slot) request) (\<lambda>response.
       slift (dynamic_field response 0x82)))))"

definition is_ml_dsa :: "piv_algorithm \<Rightarrow> bool" where
  "is_ml_dsa algorithm \<longleftrightarrow> algorithm \<in> {MlDsa44, MlDsa65, MlDsa87}"

text \<open>The input a signature algorithm accepts.\<close>

definition check_sign_input :: "piv_algorithm \<Rightarrow> bytes \<Rightarrow> unit result" where
  "check_sign_input algorithm input =
     (case rsa_input_length algorithm of
        Some len \<Rightarrow> ensure (length input = len) (Generic CKR_DATA_LEN_RANGE)
      | None \<Rightarrow>
          (case ec_input_length algorithm of
             Some len \<Rightarrow> ensure (length input \<le> len) (Generic CKR_DATA_LEN_RANGE)
           | None \<Rightarrow> ensure (algorithm = Ed25519 \<or> is_ml_dsa algorithm) (Generic CKR_FUNCTION_NOT_SUPPORTED)))"

abbreviation (input) CKH_HEDGE_PREFERRED :: nat where "CKH_HEDGE_PREFERRED \<equiv> 0"
abbreviation (input) CKH_HEDGE_REQUIRED :: nat where "CKH_HEDGE_REQUIRED \<equiv> 1"
abbreviation (input) CKH_DETERMINISTIC_REQUIRED :: nat where "CKH_DETERMINISTIC_REQUIRED \<equiv> 2"

definition hedge_field :: "nat \<Rightarrow> bytes result" where
  "hedge_field hedge =
     (if hedge = CKH_HEDGE_PREFERRED then Inr []
      else if hedge = CKH_HEDGE_REQUIRED then encode_tlv 0x89 [2]
      else if hedge = CKH_DETERMINISTIC_REQUIRED then encode_tlv 0x89 [3]
      else Inl (Generic CKR_MECHANISM_PARAM_INVALID))"

definition sign_extra :: "piv_algorithm \<Rightarrow> bytes \<Rightarrow> ml_dsa_parameters option \<Rightarrow> bytes result" where
  "sign_extra algorithm input ml_dsa =
     (case ml_dsa of
        None \<Rightarrow> if is_ml_dsa algorithm then encode_tlv 0x8a [0] else Inr []
      | Some parameters \<Rightarrow>
          if \<not> is_ml_dsa algorithm \<or> 255 < length (mldsa_context parameters)
          then Inl (Generic CKR_MECHANISM_PARAM_INVALID)
          else if is_some_and (mldsa_prehash parameters) (\<lambda>(digest_length, _). length input \<noteq> digest_length)
          then Inl (Generic CKR_DATA_LEN_RANGE)
          else
            and_then (encode_tlv 0x8a [case mldsa_prehash parameters of None \<Rightarrow> 0 | Some (_, ident) \<Rightarrow> ident]) (\<lambda>a.
            and_then (if mldsa_context parameters \<noteq> [] then encode_tlv 0x88 (mldsa_context parameters) else Inr []) (\<lambda>b.
            and_then (hedge_field (mldsa_hedge parameters)) (\<lambda>c. Inr (a @ b @ c)))))"

definition piv_sign ::
  "'c send_apdu \<Rightarrow> piv_slot \<Rightarrow> piv_algorithm \<Rightarrow> bytes \<Rightarrow> ml_dsa_parameters option \<Rightarrow> ('c, bytes) comp" where
  "piv_sign send slot algorithm input ml_dsa =
     sthen (slift (check_sign_input algorithm input))
     (sbind (slift (sign_extra algorithm input ml_dsa)) (\<lambda>extra.
        general_authenticate send slot algorithm 0x81 input extra))"

definition decipher_tag :: "piv_algorithm \<Rightarrow> bytes \<Rightarrow> nat result" where
  "decipher_tag algorithm input =
     (case rsa_input_length algorithm of
        Some len \<Rightarrow> if length input \<noteq> len then Inl (Generic CKR_DATA_LEN_RANGE) else Inr 0x81
      | None \<Rightarrow>
          (case ec_input_length algorithm of
             Some len \<Rightarrow> if length input \<noteq> len * 2 + 1 then Inl (Generic CKR_DATA_LEN_RANGE) else Inr 0x85
           | None \<Rightarrow>
               if algorithm = X25519 \<and> length input = 32 then Inr 0x85
               else Inl (Generic CKR_FUNCTION_NOT_SUPPORTED)))"

definition decipher :: "'c send_apdu \<Rightarrow> piv_slot \<Rightarrow> piv_algorithm \<Rightarrow> bytes \<Rightarrow> ('c, bytes) comp" where
  "decipher send slot algorithm input =
     sbind (slift (decipher_tag algorithm input)) (\<lambda>tag.
       general_authenticate send slot algorithm tag input [])"

fun ciphertext_length :: "piv_algorithm \<Rightarrow> nat option" where
  "ciphertext_length MlKem512 = Some 768"
| "ciphertext_length MlKem768 = Some 1088"
| "ciphertext_length MlKem1024 = Some 1568"
| "ciphertext_length HybridMlKem768P256 = Some 1153"
| "ciphertext_length HybridMlKem768X25519 = Some 1120"
| "ciphertext_length HybridMlKem1024P384 = Some 1665"
| "ciphertext_length _ = None"

definition decapsulate :: "'c send_apdu \<Rightarrow> piv_slot \<Rightarrow> piv_algorithm \<Rightarrow> bytes \<Rightarrow> ('c, bytes) comp" where
  "decapsulate send slot algorithm ciphertext =
     (case ciphertext_length algorithm of
        None \<Rightarrow> sfail (Generic CKR_KEY_TYPE_INCONSISTENT)
      | Some expected \<Rightarrow>
          if length ciphertext \<noteq> expected then sfail (Generic CKR_ENCRYPTED_DATA_LEN_RANGE)
          else
            sbind (general_authenticate send slot algorithm 0x81 ciphertext []) (\<lambda>shared.
              if length shared \<noteq> 32 then sfail (Generic CKR_DEVICE_ERROR) else sok shared))"

section \<open>Fields on the wire\<close>

lemma significant_bytes_small: "tag < 0x100 \<Longrightarrow> significant_bytes tag = [of_nat tag]"
  using significant_bytes_of_be [of "[of_nat tag]"] by (simp add: nat_of_be_def unat_of_nat)

lemma tlv_tag_small: "tag < 0x100 \<Longrightarrow> (of_nat tag :: byte) AND 0x1f \<noteq> 0x1f \<Longrightarrow> tlv_tag tag"
  by (simp add: tlv_tag_def significant_bytes_small)

lemma piv_tags [simp]:
  "tlv_tag 0x53" "tlv_tag 0x5c" "tlv_tag 0x70" "tlv_tag 0x71" "tlv_tag 0x7c" "tlv_tag 0x80"
  "tlv_tag 0x81" "tlv_tag 0x82" "tlv_tag 0xfe" "tlv_tag (Suc 0)"
  by (rule tlv_tag_small; simp)+

text \<open>One field, and a field in front of others.\<close>

definition tlv_bytes :: "nat \<Rightarrow> bytes \<Rightarrow> bytes" where
  "tlv_bytes tag v = significant_bytes tag @ encode_length (length v) @ v"

lemma encode_tlv_bytes: "tlv_tag tag \<Longrightarrow> length v \<le> 65535 \<Longrightarrow> encode_tlv tag v = Inr (tlv_bytes tag v)"
  by (simp add: encode_tlv_def tlv_bytes_def tlv_tag_def)

lemma parse_tlv_bytes:
  "tlv_tag tag \<Longrightarrow> length v \<le> 65535 \<Longrightarrow>
   parse_tlvs (tlv_bytes tag v @ rest) = and_then (parse_tlvs rest) (\<lambda>fields. Inr ((tag, v) # fields))"
  by (simp add: tlv_bytes_def parse_tlvs_field)

lemma parse_tlv_bytes_single [simp]:
  "tlv_tag tag \<Longrightarrow> length v \<le> 65535 \<Longrightarrow> parse_tlvs (tlv_bytes tag v) = Inr [(tag, v)]"
  using parse_tlv_bytes [of tag v "[]"] by simp

lemma length_encode_length: "length (encode_length n) \<le> 3"
  by (simp add: encode_length_def)

lemma length_tlv_bytes: "length (tlv_bytes tag v) \<le> length v + 7"
  using significant_form [of tag] length_encode_length [of "length v"] by (simp add: tlv_bytes_def)

lemma field_Cons [simp]: "field ((t, v) # fs) tag = (if t = tag then Some v else field fs tag)"
  by (simp add: field_def)

lemma field_Nil [simp]: "field [] tag = None"
  by (simp add: field_def)

lemma dynamic_field_bytes:
  "tlv_tag tag \<Longrightarrow> length v \<le> 65000 \<Longrightarrow> dynamic_field (tlv_bytes 0x7c (tlv_bytes tag v)) tag = Inr v"
  using length_tlv_bytes [of tag v] by (simp add: dynamic_field_def)

section \<open>Certificates survive the container\<close>

text \<open>What the code relies on of the compression crate for one certificate.\<close>

definition gzip_law :: "compression \<Rightarrow> bytes \<Rightarrow> bool" where
  "gzip_law Z certificate \<longleftrightarrow>
     (\<exists>z. gzip Z certificate = Some z \<and> take 2 z = [0x1f, 0x8b] \<and>
          (\<forall>limit. gunzip Z limit z = Some (take limit certificate)))"

lemma gzip_not_marked: "take 2 z = [0x1f, 0x8b] \<Longrightarrow> compressed_parts z = (z, None)"
  by (auto simp: compressed_parts_def split: list.splits)

lemma container_decoded:
  assumes "stored \<noteq> []" "length stored \<le> 65535"
  shows "decode_certificate_object Z (tlv_bytes 0x70 stored @ tlv_bytes 0x71 [info] @ tlv_bytes 0xfe []) =
    (if info = CERTIFICATE_UNCOMPRESSED then Inr stored
     else if info = CERTIFICATE_GZIP then decode_compressed_certificate Z stored else Inl data_invalid)"
  using assms by (simp add: decode_certificate_object_def parse_tlv_bytes nonempty_field_def)

lemma certificate_object_ok:
  assumes "gzip_law Z certificate" "certificate \<noteq> []" "length certificate \<le> 65535"
  shows "\<exists>object. encode_certificate_object Z certificate = Inr object \<and>
    decode_certificate_object Z object = Inr certificate \<and> length object \<le> length certificate + 22"
proof -
  obtain z where z: "gzip Z certificate = Some z" "take 2 z = [0x1f, 0x8b]"
      "\<And>limit. gunzip Z limit z = Some (take limit certificate)"
    using assms(1) by (auto simp: gzip_law_def)
  define stored where "stored = (if length z < length certificate then z else certificate)"
  define info :: byte where "info = (if length z < length certificate then 1 else 0)"
  let ?object = "tlv_bytes 0x70 stored @ tlv_bytes 0x71 [info] @ tlv_bytes 0xfe []"
  have stored: "stored \<noteq> []" "length stored \<le> length certificate" "length stored \<le> 65535"
    using z(2) assms(2,3) by (auto simp: stored_def)
  have "encode_certificate_object Z certificate = Inr ?object"
    using z(1) stored(3) by (auto simp: encode_certificate_object_def encode_tlv_bytes stored_def info_def)
  moreover have "decode_certificate_object Z ?object = Inr certificate"
    using container_decoded [OF stored(1,3)] z gzip_not_marked [OF z(2)] assms(3)
    by (simp add: stored_def info_def decode_compressed_certificate_def)
  moreover have "length ?object \<le> length certificate + 22"
    using length_tlv_bytes [of "0x70" stored] length_tlv_bytes [of "0x71" "[info]"]
      length_tlv_bytes [of "0xfe" "[]"] stored(2) by simp
  ultimately show ?thesis by blast
qed

text \<open>A card that keeps data objects under their tags.\<close>

definition data_card :: "(bytes \<Rightarrow> bytes option) send_apdu" where
  "data_card command store =
     (let answer = (\<lambda>data status. Inr \<lparr>resp_data = data, resp_status = status\<rparr>) in
      if apdu_ins command = INS_PUT_DATA then
        (case parse_tlvs (apdu_data command) of
           Inr [(t, tag), (u, v)] \<Rightarrow>
             if t = 0x5c \<and> u = 0x53 then (answer [] 0x9000, store(tag \<mapsto> v)) else (answer [] 0x6a80, store)
         | _ \<Rightarrow> (answer [] 0x6a80, store))
      else if apdu_ins command = INS_GET_DATA then
        (case parse_tlvs (apdu_data command) of
           Inr [(t, tag)] \<Rightarrow>
             (case store tag of
                Some v \<Rightarrow> (answer (tlv_bytes 0x53 v) 0x9000, store)
              | None \<Rightarrow> (answer [] 0x6a82, store))
         | _ \<Rightarrow> (answer [] 0x6a80, store))
      else (answer [] 0x6d00, store))"

definition card_tag :: "u32 \<Rightarrow> bytes" where
  "card_tag object_id = significant_bytes (unat object_id)"

lemma card_tag_inject: "card_tag a = card_tag b \<Longrightarrow> a = b"
proof -
  have "nat_of_be (card_tag x) = unat x" for x
    using unsigned_less [of x, where 'a = nat] by (simp add: card_tag_def nat_of_be_significant)
  then show "card_tag a = card_tag b \<Longrightarrow> a = b" by (metis word_unat_eq_iff)
qed

lemma put_data_card:
  assumes "\<not> 0x00ffffff < object_id" "length v \<le> 65535"
  shows "put_data data_card object_id v store = (Inr (), store(card_tag object_id \<mapsto> v))"
  using assms significant_form [of "unat object_id"]
  by (simp add: put_data_def encode_tlv_bytes piv_command_def data_card_def parse_tlv_bytes sbind_def sthen_def
      slift_def sok_def piv_require_success_def card_tag_def)

lemma get_data_card:
  assumes "\<not> 0x00ffffff < object_id" "store (card_tag object_id) = Some v" "length v \<le> 65535"
  shows "get_data data_card object_id store = (Inr v, store)"
  using assms significant_form [of "unat object_id"]
  by (simp add: get_data_def encode_tlv_bytes piv_command_def data_card_def sbind_def sthen_def
      slift_def sok_def piv_require_success_def card_tag_def)

text \<open>
  C15. A certificate written to a key slot is read back: the container that the client writes comes
  back from the card under the slot's object tag and decodes to the certificate, whether or not it
  was compressed, and the objects of all other slots are what they were.
\<close>
theorem piv_certificate_round_trip:
  assumes "gzip_law Z certificate" "certificate \<noteq> []" "length certificate \<le> 65000" "valid certificate"
  shows "\<exists>object store'. put_certificate Z valid data_card slot certificate store = (Inr object, store') \<and>
    get_data data_card (certificate_object slot) store' = (Inr object, store') \<and>
    decode_certificate_object Z object = Inr certificate \<and>
    (\<forall>slot'. slot' \<noteq> slot \<longrightarrow> store' (card_tag (certificate_object slot')) = store (card_tag (certificate_object slot')))"
proof -
  obtain object where object: "encode_certificate_object Z certificate = Inr object"
      "decode_certificate_object Z object = Inr certificate" "length object \<le> length certificate + 22"
    using certificate_object_ok [OF assms(1,2)] assms(3) by auto
  let ?store = "store(card_tag (certificate_object slot) \<mapsto> object)"
  have len: "length object \<le> 65535" using object(3) assms(3) by simp
  have "put_certificate Z valid data_card slot certificate store = (Inr object, ?store)"
    using put_data_card [OF certificate_object_bound len] object(1) assms(4)
    by (simp add: put_certificate_def sthen_def sbind_def sok_def slift_def)
  moreover have "get_data data_card (certificate_object slot) ?store = (Inr object, ?store)"
    by (rule get_data_card [OF certificate_object_bound _ len]) simp
  moreover have "?store (card_tag (certificate_object slot')) = store (card_tag (certificate_object slot'))"
    if "slot' \<noteq> slot" for slot'
    using that card_tag_inject certificate_object_inject by (metis fun_upd_other)
  ultimately show ?thesis using object(2) by blast
qed

definition sample_compression :: compression where
  "sample_compression =
     \<lparr>gzip = (\<lambda>c. Some ([0x1f, 0x8b] @ c)),
      gunzip = (\<lambda>limit z. Some (take limit (drop 2 z))),
      zlib_inflate = (\<lambda>limit z. None)\<rparr>"

theorem piv_certificate_round_trip_witness:
  "\<exists>object store'.
     put_certificate sample_compression (\<lambda>c. hd c = 0x30) data_card SlotSignature [0x30, 0x00] (\<lambda>_. None) = (Inr object, store') \<and>
     decode_certificate_object sample_compression object = Inr [0x30, 0x00]"
proof -
  have "gzip_law sample_compression [0x30, 0x00]"
    by (auto simp: gzip_law_def sample_compression_def)
  then show ?thesis
    using piv_certificate_round_trip [of sample_compression "[0x30, 0x00]" "\<lambda>c. hd c = 0x30" SlotSignature "\<lambda>_. None"]
    by fastforce
qed

section \<open>Mutual authentication\<close>

text \<open>A card that holds a management key: it reports its algorithm, hands out a challenge, checks the
  answer and proves its own possession of the key.\<close>

record management_card =
  mc_algorithm :: management_algorithm
  mc_decrypt :: "bytes \<Rightarrow> bytes"
  mc_encrypt :: "bytes \<Rightarrow> bytes"
  mc_challenge :: bytes
  mc_authenticated :: bool

definition management_card_step :: "management_card send_apdu" where
  "management_card_step command peer =
     (let answer = (\<lambda>data status. Inr \<lparr>resp_data = data, resp_status = status\<rparr>) in
      if apdu_ins command = INS_GET_METADATA then
        (answer (tlv_bytes 1 [management_id (mc_algorithm peer)]) 0x9000, peer)
      else case dynamic_field (apdu_data command) 0x81 of
        Inl _ \<Rightarrow> (answer (tlv_bytes 0x7c (tlv_bytes 0x80 (mc_challenge peer))) 0x9000, peer\<lparr>mc_authenticated := False\<rparr>)
      | Inr host_challenge \<Rightarrow>
          if dynamic_field (apdu_data command) 0x80 = Inr (mc_decrypt peer (mc_challenge peer))
          then (answer (tlv_bytes 0x7c (tlv_bytes 0x82 (mc_encrypt peer host_challenge))) 0x9000,
                peer\<lparr>mc_authenticated := True\<rparr>)
          else (answer [] 0x6982, peer))"

lemma challenge_request_bytes: "challenge_request = Inr (tlv_bytes 0x7c (tlv_bytes 0x80 []))"
  using length_tlv_bytes [of "0x80" "[]"] by (simp add: challenge_request_def encode_tlv_bytes)

lemma card_metadata:
  "metadata_for_reference management_card_step r peer =
     (Inr \<lparr>meta_algorithm = Some (management_id (mc_algorithm peer)), meta_pin_policy = None,
           meta_touch_policy = None, meta_origin = None, meta_public_key = None\<rparr>, peer)"
  by (simp add: metadata_for_reference_def piv_command_def management_card_step_def sbind_def sthen_def
      slift_def sok_def piv_require_success_def Let_def)

lemma card_hands_out_challenge:
  "piv_command management_card_step INS_AUTHENTICATE p1 p2 (tlv_bytes 0x7c (tlv_bytes 0x80 [])) peer =
     (Inr (tlv_bytes 0x7c (tlv_bytes 0x80 (mc_challenge peer))), peer\<lparr>mc_authenticated := False\<rparr>)"
  using length_tlv_bytes [of "0x80" "[]"]
  by (simp add: piv_command_def management_card_step_def sbind_def sthen_def slift_def sok_def
      piv_require_success_def dynamic_field_def)

lemma authentication_request_bytes:
  assumes "length a \<le> 16" "length b \<le> 16"
  shows "authentication_request a b = Inr (tlv_bytes 0x7c (tlv_bytes 0x80 a @ tlv_bytes 0x81 b))"
    "dynamic_field (tlv_bytes 0x7c (tlv_bytes 0x80 a @ tlv_bytes 0x81 b)) 0x80 = Inr a"
    "dynamic_field (tlv_bytes 0x7c (tlv_bytes 0x80 a @ tlv_bytes 0x81 b)) 0x81 = Inr b"
  using assms length_tlv_bytes [of "0x80" a] length_tlv_bytes [of "0x81" b]
  by (simp_all add: authentication_request_def encode_tlv_bytes dynamic_field_def parse_tlv_bytes)

lemma card_checks_answer:
  assumes "length a \<le> 16" "length b \<le> 16"
  shows "piv_command management_card_step INS_AUTHENTICATE p1 p2
      (tlv_bytes 0x7c (tlv_bytes 0x80 a @ tlv_bytes 0x81 b)) peer =
    (if a = mc_decrypt peer (mc_challenge peer)
     then (Inr (tlv_bytes 0x7c (tlv_bytes 0x82 (mc_encrypt peer b))), peer\<lparr>mc_authenticated := True\<rparr>)
     else (Inl (Generic CKR_USER_NOT_LOGGED_IN), peer))"
  using authentication_request_bytes [OF assms]
  by (simp add: piv_command_def management_card_step_def sbind_def sthen_def slift_def sok_def
      piv_require_success_def map_status_def)

text \<open>
  C16. Authentication with the management key is mutual.  Against a card that reports its algorithm,
  the client answers the card's challenge with the block decrypted under its key and accepts the card
  only when the card returns the client's own random challenge encrypted under that key: if the
  answer is wrong for the card the card refuses, if the cryptogram is wrong for the client the client
  refuses, and otherwise both sides are authenticated.
\<close>
theorem management_key_mutual:
  assumes "length key = key_length (mc_algorithm peer)"
    and "length (mc_challenge peer) = block_size (mc_algorithm peer)"
    and "crypt_management_block P tdes_ecb (mc_algorithm peer) key (mc_challenge peer) Decrypt = Inr answer"
    and "length answer = block_size (mc_algorithm peer)"
    and "entropy (block_size (mc_algorithm peer)) = Some host"
    and "length host = block_size (mc_algorithm peer)"
    and "crypt_management_block P tdes_ecb (mc_algorithm peer) key host Encrypt = Inr expected"
    and "length (mc_encrypt peer host) = block_size (mc_algorithm peer)"
  shows "authenticate_management_key P tdes_ecb entropy management_card_step key peer =
    (if answer \<noteq> mc_decrypt peer (mc_challenge peer)
     then (Inl (Generic CKR_USER_NOT_LOGGED_IN), peer\<lparr>mc_authenticated := False\<rparr>)
     else if mc_encrypt peer host \<noteq> expected
     then (Inl (Generic CKR_PIN_INCORRECT), peer\<lparr>mc_authenticated := True\<rparr>)
     else (Inr (), peer\<lparr>mc_authenticated := True\<rparr>))"
proof -
  have block: "block_size (mc_algorithm peer) \<le> 16" by (cases "mc_algorithm peer") simp_all
  have len: "length answer \<le> 16" "length host \<le> 16" "length (mc_challenge peer) \<le> 65000"
      "length (mc_encrypt peer host) \<le> 65000"
    using assms block by simp_all
  obtain m where m: "\<And>r. metadata_for_reference management_card_step r peer = (Inr m, peer)"
      "management_algorithm_of (Inr m) = mc_algorithm peer"
    using card_metadata by (auto simp: management_algorithm_of_def)
  let ?exchange = "piv_command management_card_step INS_AUTHENTICATE (management_id (mc_algorithm peer)) MANAGEMENT_KEY_REFERENCE"
  let ?finish = "\<lambda>response. sbind (slift (dynamic_field response 0x82)) (\<lambda>cryptogram.
    sbind (slift (crypt_management_block P tdes_ecb (mc_algorithm peer) key host Encrypt)) (\<lambda>expected.
      if cryptogram \<noteq> expected then sfail (Generic CKR_PIN_INCORRECT) else sok ()))"
  have "authenticate_management_key P tdes_ecb entropy management_card_step key peer =
      sbind (?exchange (tlv_bytes 0x7c (tlv_bytes 0x80 answer @ tlv_bytes 0x81 host))) ?finish
        (peer\<lparr>mc_authenticated := False\<rparr>)"
    using assms(1-6) len authentication_request_bytes(1) [OF len(1,2)]
    by (simp add: authenticate_management_key_def sattempt_def m challenge_request_bytes
        card_hands_out_challenge dynamic_field_bytes sbind_def slift_def Let_def)
  also have "\<dots> = (if answer \<noteq> mc_decrypt peer (mc_challenge peer)
      then (Inl (Generic CKR_USER_NOT_LOGGED_IN), peer\<lparr>mc_authenticated := False\<rparr>)
      else ?finish (tlv_bytes 0x7c (tlv_bytes 0x82 (mc_encrypt peer host))) (peer\<lparr>mc_authenticated := True\<rparr>))"
    by (simp add: card_checks_answer [OF len(1,2)] sbind_def)
  finally show ?thesis using assms(7) len by (simp add: dynamic_field_bytes sfail_def sok_def)
qed

definition sample_management_card :: management_card where
  "sample_management_card =
     \<lparr>mc_algorithm = TripleDes, mc_decrypt = map (\<lambda>b. b - 1), mc_encrypt = map (\<lambda>b. b + 1),
      mc_challenge = replicate 8 7, mc_authenticated = False\<rparr>"

theorem management_key_mutual_witness:
  "fst (authenticate_management_key sample_primitives
      (\<lambda>key input direction. Some (map (\<lambda>b. if direction = Encrypt then b + 1 else b - 1) input))
      (\<lambda>n. Some (replicate n 9)) management_card_step (replicate 24 0) sample_management_card) = Inr ()"
proof -
  let ?tdes = "\<lambda>(key :: bytes) input direction. Some (map (\<lambda>b :: byte. if direction = Encrypt then b + 1 else b - 1) input)"
  have "crypt_management_block sample_primitives ?tdes TripleDes (replicate 24 0) (replicate 8 7) Decrypt = Inr (replicate 8 6)"
    "crypt_management_block sample_primitives ?tdes TripleDes (replicate 24 0) (replicate 8 9) Encrypt = Inr (replicate 8 10)"
    by (simp_all add: crypt_management_block_def)
  then show ?thesis
    using management_key_mutual [of "replicate 24 0" sample_management_card sample_primitives ?tdes
      "replicate 8 6" "\<lambda>n. Some (replicate n 9)" "replicate 8 9" "replicate 8 10"]
    by (simp add: sample_management_card_def)
qed
end
