(* ===== verification/Piv_Attestation.thy ===== *)
theory Piv_Attestation
  imports Piv
begin

text \<open>
  Policies from an attestation certificate (src/src/piv.rs, \<open>find_der_extension\<close> and
  \<open>parse_attestation_metadata\<close>): a search for an extension in DER-encoded bytes by offsets.  The
  specification is a search in the tree that the bytes encode.
\<close>

definition der_length :: "bytes \<Rightarrow> nat \<Rightarrow> (nat \<times> nat) result" where
  "der_length input offset =
     (if length input \<le> offset then Inl data_invalid
      else let first = input ! offset in
        if first AND 0x80 = 0 then Inr (unat first, offset + 1)
        else let count = unat (first AND 0x7f); stop = offset + (1 + count) in
          if count = 0 \<or> 4 < count then Inl data_invalid
          else if length input < stop then Inl data_invalid
          else let bs = take count (drop (offset + 1) input) in
            if hd bs = 0 then Inl data_invalid else Inr (nat_of_be bs, stop))"

definition der_tlv :: "bytes \<Rightarrow> nat \<Rightarrow> (byte \<times> nat \<times> nat) result" where
  "der_tlv input offset =
     (if length input \<le> offset then Inl data_invalid
      else and_then (der_length input (offset + 1)) (\<lambda>(len, content).
        if length input < content + len then Inl data_invalid
        else Inr (input ! offset, content, content + len)))"

lemma der_tlv_bounds:
  "der_tlv input offset = Inr (tag, content, next) \<Longrightarrow>
   offset < content \<and> content \<le> next \<and> next \<le> length input"
  by (auto simp: der_tlv_def der_length_def Let_def split: if_splits)

text \<open>The first octet string among the elements from an offset on.\<close>

function find_octets :: "bytes \<Rightarrow> nat \<Rightarrow> nat \<Rightarrow> bytes option result" where
  "find_octets input child next =
     (if child < next then
        (case der_tlv input child of
           Inl e \<Rightarrow> Inl e
         | Inr (tag, content, child_next) \<Rightarrow>
             if tag = 0x04 then Inr (Some (take (child_next - content) (drop content input)))
             else find_octets input child_next next)
      else Inr None)"
  by pat_completeness auto
termination
  by (relation "measure (\<lambda>(input, child, next). next - child)") (auto dest!: der_tlv_bounds)

declare find_octets.simps [simp del]

text \<open>Not found here: go on.\<close>

definition or_else :: "'a option result \<Rightarrow> 'a option result \<Rightarrow> 'a option result" where
  "or_else r s = (case r of Inl e \<Rightarrow> Inl e | Inr (Some v) \<Rightarrow> Inr (Some v) | Inr None \<Rightarrow> s)"

function scan :: "bytes \<Rightarrow> bytes \<Rightarrow> nat \<Rightarrow> nat \<Rightarrow> bytes option result" where
  "scan input oid start stop =
     (if start < stop then
        (case der_tlv input start of
           Inl e \<Rightarrow> Inl e
         | Inr (tag, content, next) \<Rightarrow>
             if stop < next then Inl data_invalid
             else or_else
               (if tag = 0x30 then
                  (case der_tlv input content of
                     Inl e \<Rightarrow> Inl e
                   | Inr (first_tag, first_content, first_next) \<Rightarrow>
                       or_else
                         (if first_tag = 0x06 \<and> take (first_next - first_content) (drop first_content input) = oid
                          then find_octets input first_next next else Inr None)
                         (scan input oid content next))
                else if tag AND 0x20 \<noteq> 0 then scan input oid content next
                else Inr None)
               (scan input oid next stop))
      else Inr None)"
  by pat_completeness auto
termination
proof (relation "measure (\<lambda>(input, oid, start, stop). stop - start)")
qed (auto dest!: der_tlv_bounds)

declare scan.simps [simp del]

definition find_der_extension :: "bytes \<Rightarrow> bytes \<Rightarrow> bytes option result" where
  "find_der_extension input oid =
     and_then (der_tlv input 0) (\<lambda>(tag, content, stop).
       if tag \<noteq> 0x30 \<or> stop \<noteq> length input then Inl data_invalid
       else scan input oid content stop)"

definition YUBICO_PIV_USAGE_POLICY_OID :: bytes where
  "YUBICO_PIV_USAGE_POLICY_OID = [0x2b, 0x06, 0x01, 0x04, 0x01, 0x82, 0x44, 0x0a, 0x03, 0x08]"

definition parse_attestation_metadata :: "bytes \<Rightarrow> metadata result" where
  "parse_attestation_metadata certificate =
     and_then (find_der_extension certificate YUBICO_PIV_USAGE_POLICY_OID) (\<lambda>policy.
     and_then (case policy of
         Some [pin_policy, touch_policy] \<Rightarrow> Inr (Some pin_policy, Some touch_policy)
       | Some _ \<Rightarrow> Inl data_invalid
       | None \<Rightarrow> Inr (None, None)) (\<lambda>(pin_policy, touch_policy).
       Inr \<lparr>meta_algorithm = None, meta_pin_policy = pin_policy, meta_touch_policy = touch_policy,
            meta_origin = Some 1, meta_public_key = None\<rparr>))"

section \<open>Trees\<close>

datatype der = Prim byte bytes | Node byte "der list"

fun der_tag :: "der \<Rightarrow> byte" where
  "der_tag (Prim tag _) = tag"
| "der_tag (Node tag _) = tag"

definition der_length_bytes :: "nat \<Rightarrow> bytes" where
  "der_length_bytes n =
     (if n < 0x80 then [of_nat n]
      else let bs = significant_bytes n in of_nat (0x80 + length bs) # bs)"

fun der_bytes :: "der \<Rightarrow> bytes" where
  "der_bytes (Prim tag v) = tag # der_length_bytes (length v) @ v"
| "der_bytes (Node tag ts) =
     (let v = concat (map der_bytes ts) in tag # der_length_bytes (length v) @ v)"

text \<open>Constructed elements and only they have the constructed bit, no sequence is empty, and
  lengths fit in four bytes.\<close>

fun der_wf :: "der \<Rightarrow> bool" where
  "der_wf (Prim tag v) \<longleftrightarrow> tag AND 0x20 = 0 \<and> length v < 256 ^ 4"
| "der_wf (Node tag ts) \<longleftrightarrow>
     tag AND 0x20 \<noteq> 0 \<and> (tag = 0x30 \<longrightarrow> ts \<noteq> []) \<and> length (concat (map der_bytes ts)) < 256 ^ 4 \<and>
     list_all der_wf ts"

text \<open>The search: an extension is a sequence that starts with the identifier; its value is the
  first octet string after it.\<close>

fun octets_in :: "der list \<Rightarrow> bytes option" where
  "octets_in [] = None"
| "octets_in (Prim tag v # ts) = (if tag = 0x04 then Some v else octets_in ts)"
| "octets_in (Node _ _ # ts) = octets_in ts"

definition extension_value :: "bytes \<Rightarrow> der list \<Rightarrow> bytes option" where
  "extension_value oid ts =
     (case ts of Prim tag v # rest \<Rightarrow> if tag = 0x06 \<and> v = oid then octets_in rest else None | _ \<Rightarrow> None)"

fun first_some :: "'a option \<Rightarrow> 'a option \<Rightarrow> 'a option" where
  "first_some (Some v) _ = Some v"
| "first_some None w = w"

fun search :: "bytes \<Rightarrow> der list \<Rightarrow> bytes option" where
  "search oid [] = None"
| "search oid (Prim _ _ # ts) = search oid ts"
| "search oid (Node tag cs # ts) =
     first_some (if tag = 0x30 then extension_value oid cs else None)
       (first_some (search oid cs) (search oid ts))"


section \<open>Offsets and trees\<close>

fun der_content :: "der \<Rightarrow> bytes" where
  "der_content (Prim _ v) = v"
| "der_content (Node _ ts) = concat (map der_bytes ts)"

definition der_header :: "der \<Rightarrow> nat" where
  "der_header t = 1 + length (der_length_bytes (length (der_content t)))"

lemma der_bytes_split: "der_bytes t = der_tag t # der_length_bytes (length (der_content t)) @ der_content t"
  by (cases t) (simp_all add: Let_def)

lemma length_der_bytes: "length (der_bytes t) = der_header t + length (der_content t)"
  by (simp add: der_bytes_split der_header_def)

lemma der_wf_content: "der_wf t \<Longrightarrow> length (der_content t) < 256 ^ 4"
  by (cases t) simp_all

lemma significant_hd: "0 < n \<Longrightarrow> n < 256 ^ 4 \<Longrightarrow> hd (significant_bytes n) \<noteq> 0"
proof -
  assume n: "0 < n" "n < 256 ^ 4"
  have "\<exists>a b c d. be_of_nat 4 n = [a, b, c, d]"
  proof -
    have "be_of_nat 4 n = be_of_nat (Suc (Suc (Suc (Suc 0)))) n" by (simp only: numeral_nat)
    then show ?thesis by simp
  qed
  then obtain a b c d where be: "be_of_nat 4 n = [a, b, c, d]" by blast
  have "nat_of_be [a, b, c, d] = n" using n nat_of_be_of_nat [of 4 n] by (simp add: be)
  then have "\<not> (a = 0 \<and> b = 0 \<and> c = 0 \<and> d = 0)" using n by (auto simp: nat_of_be_def)
  then show ?thesis by (auto simp: significant_bytes_def be)
qed

lemma der_length_at:
  assumes "input = pre @ der_length_bytes n @ post" "n < 256 ^ 4"
  shows "der_length input (length pre) = Inr (n, length pre + length (der_length_bytes n))"
proof (cases "n < 0x80")
  case True
  then show ?thesis using assms
    by (simp add: der_length_def der_length_bytes_def nth_append byte_high_bit unat_of_nat)
next
  case False
  let ?bs = "significant_bytes n"
  have bs: "0 < length ?bs" "length ?bs \<le> 4" "hd ?bs \<noteq> 0" "nat_of_be ?bs = n"
    using significant_form [of n] significant_hd [of n] nat_of_be_significant [of n] assms(2) False by auto
  have u: "unat (of_nat (0x80 + length ?bs) :: byte) = 0x80 + length ?bs"
    using bs(2) by (simp add: unat_of_nat del: of_nat_add)
  have "input = pre @ (of_nat (0x80 + length ?bs) # ?bs) @ post"
    using assms(1) False by (simp add: der_length_bytes_def Let_def)
  moreover have "unat ((of_nat (0x80 + length ?bs) :: byte) AND 0x7f) = length ?bs"
    using bs(2) by (simp only: unat_low_seven u) simp
  moreover have "\<not> (of_nat (0x80 + length ?bs) :: byte) AND 0x80 = 0"
    unfolding byte_high_bit u by simp
  ultimately show ?thesis using bs False
    by (simp add: der_length_def der_length_bytes_def nth_append Let_def)
qed

lemma der_tlv_at:
  assumes "input = pre @ der_bytes t @ post" "der_wf t"
  shows "der_tlv input (length pre) =
    Inr (der_tag t, length pre + der_header t, length pre + length (der_bytes t))"
proof -
  have "input = (pre @ [der_tag t]) @ der_length_bytes (length (der_content t)) @ der_content t @ post"
    using assms(1) by (simp add: der_bytes_split)
  from der_length_at [OF this der_wf_content [OF assms(2)]] assms(1)
  show ?thesis by (simp add: der_tlv_def nth_append length_der_bytes der_header_def der_bytes_split)
qed

lemma content_at:
  assumes "input = pre @ der_bytes t @ post"
  shows "take (length (der_content t)) (drop (length pre + der_header t) input) = der_content t"
proof -
  have "input = (pre @ der_tag t # der_length_bytes (length (der_content t))) @ der_content t @ post"
    using assms by (simp add: der_bytes_split)
  moreover have "length (pre @ der_tag t # der_length_bytes (length (der_content t))) = length pre + der_header t"
    by (simp add: der_header_def)
  ultimately show ?thesis by (metis append_eq_conv_conj)
qed

lemma find_octets_at:
  assumes "input = pre @ concat (map der_bytes ts) @ post" "list_all der_wf ts"
  shows "find_octets input (length pre) (length pre + length (concat (map der_bytes ts))) = Inr (octets_in ts)"
  using assms
proof (induction ts arbitrary: pre)
  case (Cons t ts)
  have t: "input = pre @ der_bytes t @ concat (map der_bytes ts) @ post" "der_wf t"
    using Cons.prems by simp_all
  have tail: "find_octets input (length pre + length (der_bytes t))
      (length pre + length (der_bytes t) + length (concat (map der_bytes ts))) = Inr (octets_in ts)"
    using Cons.IH [of "pre @ der_bytes t"] Cons.prems by simp
  have "0 < length (der_bytes t)" by (simp add: der_bytes_split)
  then show ?case using der_tlv_at [OF t] content_at [OF t(1)] tail t(2)
    by (subst find_octets.simps) (cases t; auto simp: length_der_bytes der_header_def add.assoc)
qed (simp add: find_octets.simps)

lemma or_else_simps [simp]:
  "or_else (Inl e) s = Inl e" "or_else (Inr (Some v)) s = Inr (Some v)" "or_else (Inr None) s = s"
  by (simp_all add: or_else_def)

lemma or_else_ok [simp]: "or_else (Inr a) (Inr b) = Inr (first_some a b)"
  by (cases a) simp_all

lemma extension_at:
  assumes "input = pre @ der_bytes c @ concat (map der_bytes cs) @ post" "list_all der_wf (c # cs)"
  shows "(if der_tag c = 0x06 \<and>
            take (length pre + length (der_bytes c) - (length pre + der_header c)) (drop (length pre + der_header c) input) = oid
          then find_octets input (length pre + length (der_bytes c)) (length pre + length (concat (map der_bytes (c # cs))))
          else Inr None) = Inr (extension_value oid (c # cs))"
proof -
  have c: "take (length pre + length (der_bytes c) - (length pre + der_header c)) (drop (length pre + der_header c) input)
      = der_content c"
    using content_at [OF assms(1)] by (simp add: length_der_bytes)
  have rest: "find_octets input (length pre + length (der_bytes c)) (length pre + length (concat (map der_bytes (c # cs))))
      = Inr (octets_in cs)"
    using find_octets_at [of input "pre @ der_bytes c" cs post] assms by (simp add: add.assoc)
  show ?thesis unfolding c rest
    using assms(2) by (cases c) (auto simp: extension_value_def)
qed

lemma scan_at:
  assumes "input = pre @ concat (map der_bytes ts) @ post" "list_all der_wf ts"
  shows "scan input oid (length pre) (length pre + length (concat (map der_bytes ts))) = Inr (search oid ts)"
  using assms
proof (induction oid ts arbitrary: pre post rule: search.induct)
  case (1 oid)
  then show ?case by (simp add: scan.simps)
next
  case (2 oid tag v ts)
  let ?t = "Prim tag v"
  have t: "input = pre @ der_bytes ?t @ concat (map der_bytes ts) @ post" "der_wf ?t"
    using "2.prems" by simp_all
  have tail: "scan input oid (length pre + length (der_bytes ?t))
      (length pre + length (der_bytes ?t) + length (concat (map der_bytes ts))) = Inr (search oid ts)"
    using "2.IH" [of "pre @ der_bytes ?t" post] "2.prems" by simp
  show ?case using der_tlv_at [OF t] tail t(2)
    by (subst scan.simps) (auto simp: add.assoc)
next
  case (3 oid tag cs ts)
  let ?t = "Node tag cs"
  have t: "input = pre @ der_bytes ?t @ concat (map der_bytes ts) @ post" "der_wf ?t"
    using "3.prems" by simp_all
  define inner where "inner = pre @ der_tag ?t # der_length_bytes (length (der_content ?t))"
  define p where "p = length pre + der_header ?t"
  define q where "q = length pre + length (der_bytes ?t)"
  let ?post = "concat (map der_bytes ts) @ post"
  have inner: "input = inner @ concat (map der_bytes cs) @ ?post" "length inner = p"
      "p + length (concat (map der_bytes cs)) = q"
    using t(1) by (simp_all add: inner_def p_def q_def der_header_def der_bytes_split Let_def)
  have "scan input oid (length inner) (length inner + length (concat (map der_bytes cs))) = Inr (search oid cs)"
    by (rule "3.IH"(1) [OF inner(1)]) (use t(2) in simp)
  then have sub: "scan input oid p q = Inr (search oid cs)" by (simp only: inner(2,3))
  have tail: "scan input oid q (q + length (concat (map der_bytes ts))) = Inr (search oid ts)"
    using "3.IH"(2) [of "pre @ der_bytes ?t" post] "3.prems" by (simp add: q_def)
  let ?here = "if tag = 0x30 then
      (case der_tlv input p of
         Inl e \<Rightarrow> Inl e
       | Inr (first_tag, first_content, first_next) \<Rightarrow>
           or_else
             (if first_tag = 0x06 \<and> take (first_next - first_content) (drop first_content input) = oid
              then find_octets input first_next q else Inr None)
             (scan input oid p q))
    else if tag AND 0x20 \<noteq> 0 then scan input oid p q
    else Inr None"
  have here: "?here = Inr (first_some (if tag = 0x30 then extension_value oid cs else None) (search oid cs))"
  proof (cases "tag = 0x30")
    case True
    then obtain c rest where cs: "cs = c # rest" using t(2) by (cases cs) auto
    have wf: "list_all der_wf (c # rest)" using t(2) cs by simp
    have i: "input = inner @ der_bytes c @ concat (map der_bytes rest) @ ?post" using inner(1) cs by simp
    have first: "der_tlv input p = Inr (der_tag c, p + der_header c, p + length (der_bytes c))"
      using der_tlv_at [OF i] wf inner(2) by simp
    have ext: "(if der_tag c = 0x06 \<and> take (p + length (der_bytes c) - (p + der_header c)) (drop (p + der_header c) input) = oid
        then find_octets input (p + length (der_bytes c)) q else Inr None) = Inr (extension_value oid cs)"
      using extension_at [OF i wf, of oid] unfolding cs [symmetric] inner(2,3) .
    show ?thesis using True by (simp only: first sub sum.case prod.case ext or_else_ok) simp
  qed (use t(2) sub in simp)
  define r where "r = q + length (concat (map der_bytes ts))"
  have r: "length pre + length (concat (map der_bytes (?t # ts))) = r" by (simp add: q_def r_def)
  have "length pre < r" "\<not> r < q" by (simp_all add: q_def r_def der_bytes_split)
  moreover have "der_tlv input (length pre) = Inr (tag, p, q)" using der_tlv_at [OF t] by (simp add: p_def q_def)
  ultimately have "scan input oid (length pre) r = or_else ?here (scan input oid q r)"
    by (subst scan.simps) (simp only: if_True if_False sum.case prod.case simp_thms)
  then show ?case unfolding here r tail [folded r_def] by (cases "tag = 0x30"; cases "extension_value oid cs") simp_all
qed

text \<open>
  C17. The search by offsets is the search in the tree: on the encoding of any well-formed DER tree
  whose sequences are not empty, \<open>find_der_extension\<close> terminates without an error and returns what the
  search in the tree returns, so the value of the first extension with the identifier and \<open>None\<close>
  when there is none.
\<close>
theorem der_extension_search:
  assumes "der_wf (Node 0x30 ts)"
  shows "find_der_extension (der_bytes (Node 0x30 ts)) oid = Inr (search oid ts)"
proof -
  let ?t = "Node 0x30 ts"
  let ?inner = "der_tag ?t # der_length_bytes (length (der_content ?t))"
  have t: "der_bytes ?t = [] @ der_bytes ?t @ []" by simp
  have head: "der_tlv (der_bytes ?t) 0 = Inr (0x30, der_header ?t, length (der_bytes ?t))"
    using der_tlv_at [OF t assms] by simp
  have i: "der_bytes ?t = ?inner @ concat (map der_bytes ts) @ []" by (simp add: der_bytes_split Let_def)
  have len: "length ?inner = der_header ?t" "der_header ?t + length (concat (map der_bytes ts)) = length (der_bytes ?t)"
    by (simp_all add: der_header_def length_der_bytes Let_def)
  have "list_all der_wf ts" using assms by simp
  from scan_at [OF i this, of oid]
  have "scan (der_bytes ?t) oid (der_header ?t) (length (der_bytes ?t)) = Inr (search oid ts)"
    unfolding len .
  then show ?thesis unfolding find_der_extension_def head by simp
qed

definition sample_certificate :: "der list" where
  "sample_certificate =
     [Node 0x30 [Prim 0x02 [1], Node 0xa3 [Node 0x30 [
        Node 0x30 [Prim 0x06 [0x55, 0x1d], Prim 0x04 [9]],
        Node 0x30 [Prim 0x06 YUBICO_PIV_USAGE_POLICY_OID, Prim 0x01 [0xff], Prim 0x04 [2, 1]]]]],
      Prim 0x03 [0, 0xaa]]"

theorem der_extension_search_witness:
  "find_der_extension (der_bytes (Node 0x30 sample_certificate)) YUBICO_PIV_USAGE_POLICY_OID = Inr (Some [2, 1])"
proof -
  have "der_wf (Node 0x30 sample_certificate)"
    by (simp add: sample_certificate_def YUBICO_PIV_USAGE_POLICY_OID_def der_length_bytes_def Let_def)
  then have "find_der_extension (der_bytes (Node 0x30 sample_certificate)) YUBICO_PIV_USAGE_POLICY_OID =
      Inr (search YUBICO_PIV_USAGE_POLICY_OID sample_certificate)"
    by (rule der_extension_search)
  also have "search YUBICO_PIV_USAGE_POLICY_OID sample_certificate = Some [2, 1]"
    by (simp add: sample_certificate_def extension_value_def YUBICO_PIV_USAGE_POLICY_OID_def)
  finally show ?thesis .
qed

text \<open>The restriction to sequences that are not empty is needed: the code looks at the first element
  of every sequence before it knows that there is one.\<close>

lemma empty_sequence_rejected: "find_der_extension [0x30, 0x02, 0x30, 0x00] oid = Inl data_invalid"
  by (simp add: find_der_extension_def der_tlv_def der_length_def scan.simps)
end
