(* ===== verification/Objects.thy ===== *)
theory Objects
  imports Handles Storage Piv_Objects
begin

text \<open>
  Objects and sessions as the provider keeps them (src/src/object.rs, and the session part of
  src/src/context.rs).  The type variable \<open>'x\<close> stands for payloads that no modelled code looks
  into: connectors, caches, foreign key types, hash states.  Numbers of type \<open>CK_ULONG\<close> are
  64-bit words.
\<close>

type_synonym ck_ulong = u64
type_synonym slot_id = u64
type_synonym ck_flags = u64

abbreviation (input) CKF_TOKEN_PRESENT :: ck_flags where "CKF_TOKEN_PRESENT \<equiv> 0x1"
abbreviation (input) CKF_RW_SESSION :: ck_flags where "CKF_RW_SESSION \<equiv> 0x2"
abbreviation (input) CKF_SERIAL_SESSION :: ck_flags where "CKF_SERIAL_SESSION \<equiv> 0x4"
abbreviation (input) CKF_ASYNC_SESSION :: ck_flags where "CKF_ASYNC_SESSION \<equiv> 0x8"
abbreviation (input) CKF_FIND_OBJECTS :: ck_flags where "CKF_FIND_OBJECTS \<equiv> 0x40"
abbreviation (input) CKF_ENCRYPT :: ck_flags where "CKF_ENCRYPT \<equiv> 0x100"
abbreviation (input) CKF_DECRYPT :: ck_flags where "CKF_DECRYPT \<equiv> 0x200"
abbreviation (input) CKF_DIGEST :: ck_flags where "CKF_DIGEST \<equiv> 0x400"
abbreviation (input) CKF_SIGN :: ck_flags where "CKF_SIGN \<equiv> 0x800"
abbreviation (input) CKF_VERIFY :: ck_flags where "CKF_VERIFY \<equiv> 0x2000"

abbreviation (input) CKO_DATA :: ck_ulong where "CKO_DATA \<equiv> 0"
abbreviation (input) CKO_CERTIFICATE :: ck_ulong where "CKO_CERTIFICATE \<equiv> 1"
abbreviation (input) CKO_PUBLIC_KEY :: ck_ulong where "CKO_PUBLIC_KEY \<equiv> 2"
abbreviation (input) CKO_PRIVATE_KEY :: ck_ulong where "CKO_PRIVATE_KEY \<equiv> 3"
abbreviation (input) CKO_SECRET_KEY :: ck_ulong where "CKO_SECRET_KEY \<equiv> 4"
abbreviation (input) CKO_PROFILE :: ck_ulong where "CKO_PROFILE \<equiv> 9"

section \<open>Key material\<close>

datatype hybrid_kem_construction = MlKem768P256 | MlKem768X25519 | MlKem1024P384

datatype openpgp_key_ref = PgpSignature | PgpDecipher | PgpAuthentication | PgpAttestation

datatype 'x public_key_material =
    RsaPublic 'x
  | EcPublic bytes bytes
  | MlDsaPublic ck_ulong bytes
  | MlKemPublic ck_ulong bytes
  | HybridKemPublic hybrid_kem_construction bytes

record oath_credential =
  oath_name :: bytes
  oath_totp :: bool
  oath_hash :: byte
  oath_extended :: bool
  oath_period :: u64
  oath_digits :: "byte option"
  oath_touch :: "bool option"

datatype 'x key_material =
    NoMaterial
  | Profile ck_ulong
  | Data bytes bytes bytes bytes \<comment> \<open>instance, application, object id, value\<close>
  | Certificate bytes bytes \<comment> \<open>instance, value\<close>
  | Public "'x public_key_material"
  | SoftwarePrivate 'x
  | PlatformPrivate 'x
  | PivPrivate piv_slot piv_algorithm byte byte
  | OpenPgpPrivate openpgp_key_ref 'x byte byte
  | PivCertificate piv_algorithm bytes bool
  | PivData u32 bytes
  | PivAttestation 'x piv_slot piv_algorithm 'x
  | OpenPgpCertificate bytes
  | OpenPgpData u16 'x 'x
  | IssuerSecurityDomainData bytes string bytes
  | IssuerSecurityDomainCertificate bytes
  | FidoCredential bytes bytes
  | FidoResidentPrivate bytes
  | PreviewSignRegistration 'x bool \<comment> \<open>registration, owns the credential\<close>
  | PreviewSignDerived 'x 'x
  | OathCredential oath_credential
  | HsmAuthCredential 'x byte bool
  | YubiHsm u16 byte byte nat u16 bytes bytes bytes 'x
      \<comment> \<open>id, object type, algorithm, length, domains, capabilities, delegated, public key, value\<close>
  | YubiHsmSessionObject u64 nat
  | YubiHsmAttestation 'x 'x u16 byte 'x
  | SoftwareSecret bytes
  | Secret bytes

section \<open>Objects\<close>

record 'x key_policy_templates =
  policy_wrap :: "'x option"
  policy_unwrap :: "'x option"
  policy_derive :: "'x option"

record 'x token_object =
  obj_slot_id :: "slot_id option"
  unique_id :: string
  obj_class :: ck_ulong
  obj_key_type :: ck_ulong
  obj_label :: string
  obj_id :: bytes
  is_token :: bool
  is_private :: bool
  may_encrypt :: bool
  may_decrypt :: bool
  may_sign :: bool
  may_verify :: bool
  may_derive :: bool
  may_wrap :: bool
  may_unwrap :: bool
  may_encapsulate :: bool
  may_decapsulate :: bool
  sensitive :: bool
  extractable :: bool
  always_sensitive :: bool
  never_extractable :: bool
  obj_local :: bool
  key_gen_mechanism :: "ck_ulong option"
  allowed_mechanisms :: "ck_ulong list option"
  wrap_with_trusted :: bool
  policy_templates :: "'x key_policy_templates"
  creator_session :: "handle option"
  obj_public_key :: "'x public_key_material option"
  rp_id :: "string option"
  material :: "'x key_material"

definition is_visible_to :: "'x token_object \<Rightarrow> bool \<Rightarrow> bool" where
  "is_visible_to obj logged_in \<longleftrightarrow> \<not> is_private obj \<or> logged_in"

definition set_creator :: "handle \<Rightarrow> slot_id \<Rightarrow> 'x token_object \<Rightarrow> 'x token_object" where
  "set_creator session sid obj =
     obj\<lparr>obj_slot_id := Some sid,
         creator_session := (if \<not> is_token obj then Some session else None)\<rparr>"

definition YUBIHSM_PUBLIC_KEY :: byte where "YUBIHSM_PUBLIC_KEY = 0x03 OR 0x80"

definition YUBIHSM_WRAP_KEY_PUBLIC :: byte where "YUBIHSM_WRAP_KEY_PUBLIC = 0x04 OR 0x80"

fun is_public_projection_material :: "'x key_material \<Rightarrow> bool" where
  "is_public_projection_material (YubiHsm _ object_type _ _ _ _ _ _ _) \<longleftrightarrow>
     object_type = YUBIHSM_PUBLIC_KEY \<or> object_type = YUBIHSM_WRAP_KEY_PUBLIC"
| "is_public_projection_material _ \<longleftrightarrow> False"

definition is_yubihsm_public_projection :: "'x token_object \<Rightarrow> bool" where
  "is_yubihsm_public_projection obj = is_public_projection_material (material obj)"

definition validate_new_object_access :: "'x token_object \<Rightarrow> ck_flags \<Rightarrow> bool \<Rightarrow> unit result" where
  "validate_new_object_access obj session_flags logged_in =
     (if is_private obj \<and> \<not> logged_in then Inl (Generic CKR_USER_NOT_LOGGED_IN)
      else if is_token obj \<and> session_flags AND CKF_RW_SESSION = 0 then Inl (Generic CKR_SESSION_READ_ONLY)
      else Inr ())"

text \<open>Which objects live in content-addressed storage.\<close>

definition supports_backed_object :: "'x token_object \<Rightarrow> bool" where
  "supports_backed_object obj =
     (case material obj of
        Data _ _ _ _ \<Rightarrow> \<not> is_private obj
      | Certificate _ _ \<Rightarrow> \<not> is_private obj
      | Public _ \<Rightarrow> obj_class obj = CKO_PUBLIC_KEY
      | PreviewSignRegistration _ owns \<Rightarrow> \<not> owns \<and> obj_class obj = CKO_PRIVATE_KEY
      | PreviewSignDerived _ _ \<Rightarrow> obj_class obj = CKO_PRIVATE_KEY
      | _ \<Rightarrow> False)"

lemma set_creator_simps [simp]:
  "is_token (set_creator h sid obj) = is_token obj" "is_private (set_creator h sid obj) = is_private obj"
  "unique_id (set_creator h sid obj) = unique_id obj" "material (set_creator h sid obj) = material obj"
  "creator_session (set_creator h sid obj) = (if is_token obj then None else Some h)"
  by (simp_all add: set_creator_def)

section \<open>Operations of a session\<close>

record find_operation =
  find_objects_list :: "handle list"
  find_next :: nat

record 'x signature_operation =
  sig_multipart :: bool
  sig_prehash_state :: "'x option"
  sig_key :: "'x key_material"
  sig_public_key :: "'x public_key_material option"
  sig_slot_id :: slot_id
  sig_requires_login :: bool
  sig_context_specific_extended :: bool
  sig_context_specific_rp_id :: "string option"
  sig_oath_time :: "u64 option"
  sig_fido_authorization :: "'x option"
  sig_mechanism :: ck_ulong
  sig_mac_length :: "nat option"
  sig_gmac :: "'x option"
  sig_pss :: "(byte \<times> u16 \<times> ck_ulong) option"
  sig_ml_dsa :: "'x option"
  sig_piv_pin_policy :: "byte option"
  sig_buffer :: bytes
  sig_result :: "bytes option"

record 'x crypt_operation =
  crypt_key :: "'x key_material"
  crypt_public_key :: "'x public_key_material option"
  crypt_slot_id :: slot_id
  crypt_requires_login :: bool
  crypt_context_specific_extended :: bool
  crypt_mechanism :: ck_ulong
  crypt_iv :: "bytes option"
  crypt_des3_iv :: "bytes option"
  crypt_ctr :: "'x option"
  crypt_ccm :: "'x option"
  crypt_gcm :: "'x option"
  crypt_key_wrap_iv :: "bytes option"
  crypt_oaep :: "(byte \<times> ck_ulong \<times> bytes) option"
  crypt_piv_pin_policy :: "byte option"
  crypt_buffer :: bytes
  crypt_multipart :: bool
  crypt_result :: "bytes option"

record 'x digest_operation =
  digest_mechanism :: ck_ulong
  digest_algorithm :: 'x
  digest_state :: 'x
  digest_multipart :: bool

section \<open>Sessions\<close>

text \<open>Every implementation of \<open>BackendSession\<close> keeps the slot id and the flags it was opened
  with; they are the first two fields.  The memory store is the session's own storage provider.\<close>

record 'x session_context =
  session_slotID :: slot_id
  session_flags :: ck_flags
  session_storage :: memory_store
  find_operation :: "find_operation option"
  digest_operation :: "'x digest_operation option"
  encrypt_operation :: "'x crypt_operation option"
  decrypt_operation :: "'x crypt_operation option"
  sign_operation :: "'x signature_operation option"
  verify_operation :: "'x signature_operation option"

definition session_context_new :: "slot_id \<Rightarrow> ck_flags \<Rightarrow> 'x session_context" where
  "session_context_new sid flags =
     \<lparr>session_slotID = sid, session_flags = flags, session_storage = [], find_operation = None,
      digest_operation = None, encrypt_operation = None, decrypt_operation = None,
      sign_operation = None, verify_operation = None\<rparr>"

definition clear_operations :: "'x session_context \<Rightarrow> 'x session_context" where
  "clear_operations s =
     s\<lparr>find_operation := None, digest_operation := None, encrypt_operation := None,
       decrypt_operation := None, sign_operation := None, verify_operation := None\<rparr>"

definition crypt_operation_of :: "bool \<Rightarrow> 'x session_context \<Rightarrow> 'x crypt_operation option" where
  "crypt_operation_of encrypting s = (if encrypting then encrypt_operation s else decrypt_operation s)"

definition set_crypt_operation ::
  "bool \<Rightarrow> 'x crypt_operation \<Rightarrow> 'x session_context \<Rightarrow> 'x session_context" where
  "set_crypt_operation encrypting op s =
     (if encrypting then s\<lparr>encrypt_operation := Some op\<rparr> else s\<lparr>decrypt_operation := Some op\<rparr>)"

definition take_crypt_operation ::
  "bool \<Rightarrow> 'x session_context \<Rightarrow> 'x crypt_operation option \<times> 'x session_context" where
  "take_crypt_operation encrypting s =
     (if encrypting then (encrypt_operation s, s\<lparr>encrypt_operation := None\<rparr>)
      else (decrypt_operation s, s\<lparr>decrypt_operation := None\<rparr>))"

definition cancel_operations :: "ck_flags \<Rightarrow> 'x session_context \<Rightarrow> 'x session_context" where
  "cancel_operations flags s =
     s\<lparr>find_operation := if flags AND CKF_FIND_OBJECTS \<noteq> 0 then None else find_operation s,
       digest_operation := if flags AND CKF_DIGEST \<noteq> 0 then None else digest_operation s,
       encrypt_operation := if flags AND CKF_ENCRYPT \<noteq> 0 then None else encrypt_operation s,
       decrypt_operation := if flags AND CKF_DECRYPT \<noteq> 0 then None else decrypt_operation s,
       sign_operation := if flags AND CKF_SIGN \<noteq> 0 then None else sign_operation s,
       verify_operation := if flags AND CKF_VERIFY \<noteq> 0 then None else verify_operation s\<rparr>"

text \<open>No operation in progress.\<close>

definition session_idle :: "'x session_context \<Rightarrow> bool" where
  "session_idle s \<longleftrightarrow>
     find_operation s = None \<and> digest_operation s = None \<and> encrypt_operation s = None \<and>
     decrypt_operation s = None \<and> sign_operation s = None \<and> verify_operation s = None"

section \<open>Login roles\<close>

datatype login_role = UserRole | SoRole

definition session_state :: "ck_flags \<Rightarrow> login_role option \<Rightarrow> ck_ulong" where
  "session_state flags role =
     (case (flags AND CKF_RW_SESSION \<noteq> 0, role) of
        (_, Some SoRole) \<Rightarrow> 4
      | (False, Some UserRole) \<Rightarrow> 1
      | (True, Some UserRole) \<Rightarrow> 3
      | (False, None) \<Rightarrow> 0
      | (True, None) \<Rightarrow> 2)"

end
