(* ===== verification/Slot_State.thy ===== *)
theory Slot_State
  imports Objects "HOL-Library.List_Lexorder" "HOL-Library.Char_ord"
begin

text \<open>
  The state of a slot (src/src/context.rs, \<open>SlotState\<close> and \<open>SlotContext\<close>): sessions, the recorded
  login role, object handles and what is known of content-addressed storage, together with the
  backend behind the slot.  A backend is an object of the trait \<open>Slot\<close>: its state has the type
  \<open>'b\<close> and its methods are a record of functions, so that what is shown here holds for every
  backend.  A method that returns \<open>Result\<close> may change the backend; the predicates read it (the
  provider holds the device lock for the whole of an operation).
\<close>

section \<open>Interfaces\<close>

text \<open>The trait \<open>StorageProvider\<close> (src/src/storage.rs).\<close>

record 'b storage_ops =
  supports_mutation :: "'b \<Rightarrow> bool"
  st_list :: "'b \<Rightarrow> content_reference list stored"
  st_get :: "content_reference \<Rightarrow> 'b \<Rightarrow> bytes option stored"
  st_put :: "bytes \<Rightarrow> 'b \<Rightarrow> content_reference stored \<times> 'b"
  st_delete :: "content_reference \<Rightarrow> 'b \<Rightarrow> bool stored \<times> 'b"

text \<open>The methods of the trait \<open>Slot\<close> (src/src/backend/traits.rs) that the slot state calls.\<close>

record ('b, 'x) slot_ops =
  is_present :: "'b \<Rightarrow> bool"
  login_is_active :: "'b \<Rightarrow> bool"
  native_storage_provider :: "'b \<Rightarrow> 'b storage_ops option"
  native_storage_objects_are_backend_managed :: "'b \<Rightarrow> bool"
  refresh_token_objects_after_logout :: "'b \<Rightarrow> bool"
  token_objects :: "slot_id \<Rightarrow> ('b, 'x token_object list) comp"
  token_object_named :: "slot_id \<Rightarrow> string \<Rightarrow> ('b, 'x token_object option) comp"
  session_objects :: "slot_id \<Rightarrow> ('b, 'x token_object list) comp"
  profile_objects :: "slot_id \<Rightarrow> 'b \<Rightarrow> 'x token_object list"
  set_public_certificate_storage_enabled :: "bool \<Rightarrow> 'b \<Rightarrow> 'b"
  clear_session :: "'b \<Rightarrow> 'b"
  clear_lost_login :: "'b \<Rightarrow> 'b"
  logout_role :: "login_role \<Rightarrow> ('b, unit) comp"
  set_login_role :: "login_role option \<Rightarrow> ('b, unit) comp"
  backend_init_token :: "bytes \<Rightarrow> bytes \<Rightarrow> ('b, unit) comp"

text \<open>The encoding of stored objects (src/src/backed_object.rs) and what storage rests on: the
  dependencies and the object itself as byte strings; decoding may look up dependencies.\<close>

record ('b, 'x) backing_ops =
  encode_backed_object :: "'x token_object \<Rightarrow> (bytes list \<times> bytes) result"
  decode_backed_object ::
    "'b storage_ops \<Rightarrow> slot_id \<Rightarrow> bool \<Rightarrow> content_reference \<Rightarrow> bytes \<Rightarrow> 'b \<Rightarrow> 'x token_object option result"
  content_digest :: "bytes \<Rightarrow> bytes"
  valid_cbor :: "bytes \<Rightarrow> bool"

section \<open>State\<close>

text \<open>A \<open>TokenObjectLocator\<close> is the unique id it holds.  The handle counters are shared by all
  slots of the module; an operation on a slot runs on them.\<close>

record ('b, 'x) slot_context =
  backend :: 'b
  ctx_slot_id :: slot_id
  handles :: handle_counters
  token_storage :: "'b storage_ops"
  sessions :: "(handle, 'x session_context) hash_map"
  recorded_role :: "login_role option"
  memory_objects :: "(handle, 'x token_object) hash_map"
  token_object_handles :: "(handle, string) hash_map"
  backed_token_objects :: "(string, 'x token_object) hash_map"
  backed_object_references :: "(string, content_reference) hash_map"
  backed_object_handles :: "(handle, content_reference) hash_map"

type_synonym ('b, 'x, 'a) slot_comp = "(('b, 'x) slot_context, 'a) comp"

definition on_backend :: "('b, 'a) comp \<Rightarrow> ('b, 'x, 'a) slot_comp" where
  "on_backend m = (\<lambda>c. case m (backend c) of (r, b) \<Rightarrow> (r, c\<lparr>backend := b\<rparr>))"

definition on_handles :: "(handle_counters, 'a) comp \<Rightarrow> ('b, 'x, 'a) slot_comp" where
  "on_handles m = (\<lambda>c. case m (handles c) of (r, h) \<Rightarrow> (r, c\<lparr>handles := h\<rparr>))"

section \<open>Storage of objects\<close>

fun storage_error_code :: "storage_error \<Rightarrow> error" where
  "storage_error_code Unavailable = Generic CKR_TOKEN_WRITE_PROTECTED"
| "storage_error_code InvalidReference = Generic CKR_DATA_INVALID"
| "storage_error_code InvalidCbor = Generic CKR_DATA_INVALID"
| "storage_error_code (UnsupportedHashAlgorithm _) = Generic CKR_DATA_INVALID"
| "storage_error_code StorageIo = Generic CKR_DEVICE_ERROR"
| "storage_error_code Integrity = Generic CKR_DEVICE_ERROR"
| "storage_error_code Conflict = Generic CKR_DEVICE_ERROR"
| "storage_error_code (Provider _) = Generic CKR_DEVICE_ERROR"

definition map_storage :: "'a stored \<Rightarrow> 'a result" where
  "map_storage r = (case r of Inl e \<Rightarrow> Inl (storage_error_code e) | Inr a \<Rightarrow> Inr a)"

text \<open>\<open>put_backed_object\<close>, on any provider: dependencies first, then the object.\<close>

definition put_backed_object ::
  "bool \<Rightarrow> (bytes \<Rightarrow> 's \<Rightarrow> content_reference stored \<times> 's) \<Rightarrow> (bytes list \<times> bytes) result
   \<Rightarrow> ('s, content_reference) comp" where
  "put_backed_object mutable put encoded =
     sthen (sensure mutable (Generic CKR_TOKEN_WRITE_PROTECTED))
     (sbind (slift encoded) (\<lambda>(dependencies, object) s.
        case put_encoded put dependencies object s of (r, s') \<Rightarrow> (map_storage r, s')))"

fun decode_listed ::
  "('b, 'x) backing_ops \<Rightarrow> 'b storage_ops \<Rightarrow> slot_id \<Rightarrow> bool \<Rightarrow> 'b \<Rightarrow> content_reference list
   \<Rightarrow> (content_reference \<times> 'x token_object) list result" where
  "decode_listed cod provider sid tok b [] = Inr []"
| "decode_listed cod provider sid tok b (r # rs) =
     and_then (map_storage (st_get provider r b)) (\<lambda>found.
     and_then (case found of None \<Rightarrow> Inl (Generic CKR_DEVICE_ERROR) | Some encoded \<Rightarrow> Inr encoded) (\<lambda>encoded.
     and_then (decode_backed_object cod provider sid tok r encoded b) (\<lambda>decoded.
     and_then (decode_listed cod provider sid tok b rs) (\<lambda>rest.
     Inr (case decoded of None \<Rightarrow> rest | Some obj \<Rightarrow> (r, obj) # rest)))))"

definition stored_objects ::
  "('b, 'x) backing_ops \<Rightarrow> 'b storage_ops \<Rightarrow> slot_id \<Rightarrow> bool \<Rightarrow> 'b
   \<Rightarrow> (content_reference \<times> 'x token_object) list result" where
  "stored_objects cod provider sid tok b =
     (case st_list provider b of
        Inl Unavailable \<Rightarrow> Inr []
      | Inl e \<Rightarrow> Inl (storage_error_code e)
      | Inr references \<Rightarrow> decode_listed cod provider sid tok b references)"

definition backed_object_unique_id :: "content_reference \<Rightarrow> string" where
  "backed_object_unique_id r = ''pkcs11rs stored '' @ encode_lower_hex (ref_digest r)"

definition token_storage_provider ::
  "('b, 'x) slot_ops \<Rightarrow> ('b, 'x) slot_context \<Rightarrow> 'b storage_ops" where
  "token_storage_provider ops c =
     (case native_storage_provider ops (backend c) of Some p \<Rightarrow> p | None \<Rightarrow> token_storage c)"

definition stored_token_objects ::
  "('b, 'x) slot_ops \<Rightarrow> ('b, 'x) backing_ops
   \<Rightarrow> ('b, 'x, (content_reference \<times> 'x token_object) list) slot_comp" where
  "stored_token_objects ops cod = (\<lambda>c.
     (if native_storage_objects_are_backend_managed ops (backend c) then Inr []
      else stored_objects cod (token_storage_provider ops c) (ctx_slot_id c) True (backend c), c))"

definition record_backed_objects ::
  "(content_reference \<times> 'x token_object) list \<Rightarrow> ('b, 'x) slot_context \<Rightarrow> ('b, 'x) slot_context" where
  "record_backed_objects objects c =
     (let references = fold (\<lambda>(r, obj). AList.update (unique_id obj) r) objects [];
          known = fold (\<lambda>(r, obj). AList.update (unique_id obj) obj) objects [];
          by_handle =
            fold (\<lambda>(h, uid) m. case map_of references uid of
                    Some r \<Rightarrow> AList.update h r m | None \<Rightarrow> m)
              (token_object_handles c) (backed_object_handles c)
      in c\<lparr>backed_object_references := references, backed_token_objects := known,
           backed_object_handles := by_handle\<rparr>)"

section \<open>Slots and sessions\<close>

definition require_slot_id :: "slot_id \<Rightarrow> ('b, 'x, unit) slot_comp" where
  "require_slot_id sid = (\<lambda>c.
     (if sid = ctx_slot_id c then Inr () else Inl (Generic CKR_SLOT_ID_INVALID), c))"

definition get_present_slot :: "('b, 'x) slot_ops \<Rightarrow> slot_id \<Rightarrow> ('b, 'x, unit) slot_comp" where
  "get_present_slot ops sid =
     sthen (require_slot_id sid) (\<lambda>c.
       (if is_present ops (backend c) then Inr () else Inl (Generic CKR_TOKEN_NOT_PRESENT), c))"

definition get_session_context :: "handle \<Rightarrow> ('b, 'x) slot_context \<Rightarrow> 'x session_context result" where
  "get_session_context session c =
     (case map_of (sessions c) session of
        None \<Rightarrow> Inl (Generic CKR_SESSION_HANDLE_INVALID)
      | Some s \<Rightarrow>
          if session_slotID s \<noteq> ctx_slot_id c then Inl (Generic CKR_SESSION_HANDLE_INVALID) else Inr s)"

definition update_session ::
  "handle \<Rightarrow> ('x session_context \<Rightarrow> 'x session_context) \<Rightarrow> ('b, 'x) slot_context \<Rightarrow> ('b, 'x) slot_context" where
  "update_session session f c =
     (case map_of (sessions c) session of
        None \<Rightarrow> c
      | Some s \<Rightarrow> c\<lparr>sessions := AList.update session (f s) (sessions c)\<rparr>)"

definition login_role_of :: "('b, 'x) slot_ops \<Rightarrow> slot_id \<Rightarrow> ('b, 'x) slot_context \<Rightarrow> login_role option" where
  "login_role_of ops sid c =
     (if sid = ctx_slot_id c \<and> login_is_active ops (backend c) then recorded_role c else None)"

definition is_slot_logged_in :: "('b, 'x) slot_ops \<Rightarrow> slot_id \<Rightarrow> ('b, 'x) slot_context \<Rightarrow> bool" where
  "is_slot_logged_in ops sid c \<longleftrightarrow> login_role_of ops sid c \<noteq> None"

definition is_slot_user_logged_in :: "('b, 'x) slot_ops \<Rightarrow> slot_id \<Rightarrow> ('b, 'x) slot_context \<Rightarrow> bool" where
  "is_slot_user_logged_in ops sid c \<longleftrightarrow> login_role_of ops sid c = Some UserRole"

text \<open>Slot id, flags and whether the user is logged in.\<close>

definition session_details ::
  "('b, 'x) slot_ops \<Rightarrow> handle \<Rightarrow> ('b, 'x, slot_id \<times> ck_flags \<times> bool) slot_comp" where
  "session_details ops session = (\<lambda>c.
     (and_then (get_session_context session c) (\<lambda>s.
        Inr (session_slotID s, session_flags s,
             login_role_of ops (session_slotID s) c = Some UserRole)), c))"

section \<open>Objects\<close>

text \<open>\<open>u64::to_string\<close>.\<close>

fun decimal :: "nat \<Rightarrow> string" where
  "decimal n = (if n < 10 then [char_of (48 + n)] else decimal (n div 10) @ [char_of (48 + n mod 10)])"

declare decimal.simps [simp del]

definition insert_object :: "'x token_object \<Rightarrow> ('b, 'x, handle) slot_comp" where
  "insert_object obj =
     sbind (on_handles allocate_object) (\<lambda>h.
     sthen (smod (\<lambda>c. c\<lparr>memory_objects :=
       AList.update h (if unique_id obj = [] then obj\<lparr>unique_id := decimal (unat h)\<rparr> else obj)
         (memory_objects c)\<rparr>))
     (sok h))"

definition resolve_object ::
  "('b, 'x) slot_ops \<Rightarrow> handle \<Rightarrow> ('b, 'x, 'x token_object option) slot_comp" where
  "resolve_object ops h = (\<lambda>c.
     case map_of (memory_objects c) h of
       Some obj \<Rightarrow> (Inr (Some obj), c)
     | None \<Rightarrow>
         (case map_of (token_object_handles c) h of
            None \<Rightarrow> (Inr None, c)
          | Some uid \<Rightarrow>
              (case map_of (backed_token_objects c) uid of
                 Some obj \<Rightarrow> (Inr (Some obj), c)
               | None \<Rightarrow> on_backend (token_object_named ops (ctx_slot_id c) uid) c)))"

definition is_native_token_object_handle :: "handle \<Rightarrow> ('b, 'x) slot_context \<Rightarrow> bool" where
  "is_native_token_object_handle h c \<longleftrightarrow>
     map_of (token_object_handles c) h \<noteq> None \<and> map_of (backed_object_handles c) h = None"

definition resolved_objects ::
  "('b, 'x) slot_ops \<Rightarrow> ('b, 'x, (handle \<times> 'x token_object) list) slot_comp" where
  "resolved_objects ops = (\<lambda>c.
     sbind (on_backend (token_objects ops (ctx_slot_id c))) (\<lambda>listed.
       let by_id = fold (\<lambda>obj. AList.update (unique_id obj) obj) (filter is_token listed) [];
           all_ids = fold (\<lambda>(uid, obj). AList.update uid obj) (backed_token_objects c) by_id
       in sok (memory_objects c @
            List.map_filter (\<lambda>(h, uid). map_option (Pair h) (map_of all_ids uid))
              (token_object_handles c))) c)"

definition drop_from_find :: "handle \<Rightarrow> 'x session_context \<Rightarrow> 'x session_context" where
  "drop_from_find h s =
     (case find_operation s of
        None \<Rightarrow> s
      | Some op \<Rightarrow>
          (let already_returned = min (find_next op) (length (find_objects_list op));
               removed_before_cursor =
                 length (filter (\<lambda>x. x = h) (take already_returned (find_objects_list op)))
           in s\<lparr>find_operation := Some
                \<lparr>find_objects_list = filter (\<lambda>x. x \<noteq> h) (find_objects_list op),
                 find_next = find_next op - removed_before_cursor\<rparr>\<rparr>))"

definition remove_object_handle :: "handle \<Rightarrow> ('b, 'x) slot_context \<Rightarrow> ('b, 'x) slot_context" where
  "remove_object_handle h c =
     c\<lparr>backed_object_handles := AList.delete h (backed_object_handles c),
       backed_object_references :=
         (case map_of (memory_objects c) h of
            Some obj \<Rightarrow> if \<not> is_token obj then AList.delete (unique_id obj) (backed_object_references c)
                        else backed_object_references c
          | None \<Rightarrow> backed_object_references c),
       memory_objects := AList.delete h (memory_objects c),
       token_object_handles := AList.delete h (token_object_handles c),
       sessions := map (\<lambda>(k, s). (k, drop_from_find h s)) (sessions c)\<rparr>"

fun index_by_id :: "'x token_object list \<Rightarrow> (string, 'x token_object) hash_map \<Rightarrow>
    (string, 'x token_object) hash_map result" where
  "index_by_id [] m = Inr m"
| "index_by_id (obj # objs) m =
     (if unique_id obj = [] \<or> map_of m (unique_id obj) \<noteq> None then Inl (Generic CKR_DEVICE_ERROR)
      else index_by_id objs (AList.update (unique_id obj) obj m))"

fun check_rebindings ::
  "(string, 'x token_object) hash_map \<Rightarrow> ('b, 'x) slot_context \<Rightarrow> (handle \<times> string) list \<Rightarrow> unit result" where
  "check_rebindings by_id c [] = Inr ()"
| "check_rebindings by_id c ((h, uid) # rest) =
     (if map_of (token_object_handles c) h = None then Inl (Generic CKR_OBJECT_HANDLE_INVALID)
      else if map_of by_id uid = None then Inl (Generic CKR_DEVICE_ERROR)
      else check_rebindings by_id c rest)"

definition rebind :: "handle \<times> string \<Rightarrow> ('b, 'x, unit) slot_comp" where
  "rebind = (\<lambda>(h, uid) c.
     case map_of (token_object_handles c) h of
       None \<Rightarrow> (Inl (Generic CKR_OBJECT_HANDLE_INVALID), c)
     | Some _ \<Rightarrow> (Inr (), c\<lparr>token_object_handles := AList.update h uid (token_object_handles c)\<rparr>))"

definition add_token_handle :: "string \<Rightarrow> ('b, 'x, unit) slot_comp" where
  "add_token_handle uid =
     sbind (on_handles allocate_object) (\<lambda>h.
       smod (\<lambda>c. c\<lparr>token_object_handles := AList.update h uid (token_object_handles c)\<rparr>))"

definition reconcile_with_rebindings ::
  "slot_id \<Rightarrow> 'x token_object list \<Rightarrow> (handle \<times> string) list \<Rightarrow> ('b, 'x, unit) slot_comp" where
  "reconcile_with_rebindings sid objects rebindings =
     sthen (require_slot_id sid)
     (sbind (slift (index_by_id (filter is_token objects) [])) (\<lambda>by_id.
      sthen (\<lambda>c. (check_rebindings by_id c rebindings, c))
      (sthen (smod (\<lambda>c. fold remove_object_handle
         (map fst (filter (\<lambda>(h, uid). uid \<in> set (map snd rebindings) \<and> h \<notin> set (map fst rebindings))
           (token_object_handles c))) c))
      (sthen (seach rebind rebindings)
      (sthen (smod (\<lambda>c. fold remove_object_handle
         (map fst (filter (\<lambda>(h, uid). map_of by_id uid = None) (token_object_handles c))) c))
      (\<lambda>c. seach add_token_handle
         (sort (filter (\<lambda>uid. uid \<notin> set (map snd (token_object_handles c))) (map_keys by_id))) c))))))"

definition reconcile_slot_token_objects :: "slot_id \<Rightarrow> 'x token_object list \<Rightarrow> ('b, 'x, unit) slot_comp" where
  "reconcile_slot_token_objects sid objects = reconcile_with_rebindings sid objects []"

definition refresh_with_rebindings ::
  "('b, 'x) slot_ops \<Rightarrow> ('b, 'x) backing_ops \<Rightarrow> slot_id \<Rightarrow> (handle \<times> string) list
   \<Rightarrow> ('b, 'x, unit) slot_comp" where
  "refresh_with_rebindings ops cod sid rebindings =
     sthen (require_slot_id sid)
     (sbind (on_backend (token_objects ops sid)) (\<lambda>objects.
      sbind (stored_token_objects ops cod) (\<lambda>stored.
      sthen (smod (record_backed_objects stored))
            (reconcile_with_rebindings sid (objects @ map snd stored) rebindings))))"

definition refresh_slot_token_objects ::
  "('b, 'x) slot_ops \<Rightarrow> ('b, 'x) backing_ops \<Rightarrow> slot_id \<Rightarrow> ('b, 'x, unit) slot_comp" where
  "refresh_slot_token_objects ops cod sid = refresh_with_rebindings ops cod sid []"

fun insert_new_session_objects ::
  "slot_id \<Rightarrow> handle \<Rightarrow> 'x token_object list \<Rightarrow> ('b, 'x, unit) slot_comp" where
  "insert_new_session_objects sid session [] = sok ()"
| "insert_new_session_objects sid session (obj # objs) = (\<lambda>c.
     (if unique_id obj \<noteq> [] \<and>
         (\<exists>(_, existing) \<in> set (memory_objects c). \<not> is_token existing \<and> unique_id existing = unique_id obj)
      then insert_new_session_objects sid session objs
      else sbind (insert_object (set_creator session sid obj))
             (\<lambda>_. insert_new_session_objects sid session objs)) c)"

definition insert_session_objects ::
  "('b, 'x) slot_ops \<Rightarrow> slot_id \<Rightarrow> handle \<Rightarrow> ('b, 'x, unit) slot_comp" where
  "insert_session_objects ops sid session =
     sthen (require_slot_id sid)
     (sbind (on_backend (session_objects ops sid)) (\<lambda>objects.
      insert_new_session_objects sid session (filter (\<lambda>obj. \<not> is_token obj) objects)))"

section \<open>Login state\<close>

definition set_login_role_state :: "login_role option \<Rightarrow> ('b, 'x) slot_context \<Rightarrow> ('b, 'x) slot_context" where
  "set_login_role_state role c = c\<lparr>recorded_role := role\<rparr>"

definition clear_login_state :: "slot_id \<Rightarrow> ('b, 'x) slot_context \<Rightarrow> ('b, 'x) slot_context" where
  "clear_login_state sid c =
     (if sid \<noteq> ctx_slot_id c then c
      else let c = set_login_role_state None c
           in c\<lparr>sessions := map (\<lambda>(k, s). (k, clear_operations s)) (sessions c),
                memory_objects := retain (\<lambda>_ obj. is_token obj \<or> \<not> is_private obj) (memory_objects c)\<rparr>)"

definition reconcile_login_state ::
  "('b, 'x) slot_ops \<Rightarrow> slot_id \<Rightarrow> ('b, 'x) slot_context \<Rightarrow> ('b, 'x) slot_context" where
  "reconcile_login_state ops sid c =
     (if recorded_role c \<noteq> None \<and> \<not> is_slot_logged_in ops sid c
      then clear_login_state sid (c\<lparr>backend := clear_lost_login ops (backend c)\<rparr>)
      else c)"

definition logout_slot ::
  "('b, 'x) slot_ops \<Rightarrow> ('b, 'x) backing_ops \<Rightarrow> slot_id \<Rightarrow> ('b, 'x, unit) slot_comp" where
  "logout_slot ops cod sid =
     sbind (\<lambda>c. (case login_role_of ops sid c of
                    None \<Rightarrow> Inl (Generic CKR_USER_NOT_LOGGED_IN) | Some role \<Rightarrow> Inr role, c)) (\<lambda>role.
     sthen (require_slot_id sid)
     (sthen (on_backend (logout_role ops role))
     (sthen (require_slot_id sid)
     (sthen (on_backend (set_login_role ops None))
     (sthen (smod (clear_login_state sid))
     (sthen (require_slot_id sid)
     (\<lambda>c. (if refresh_token_objects_after_logout ops (backend c)
            then refresh_slot_token_objects ops cod sid else sok ()) c)))))))"

definition init_token ::
  "('b, 'x) slot_ops \<Rightarrow> ('b, 'x) backing_ops \<Rightarrow> bytes \<Rightarrow> bytes \<Rightarrow> ('b, 'x, unit) slot_comp" where
  "init_token ops cod so_pin label =
     sthen (\<lambda>c. (if sessions c \<noteq> [] then Inl (Generic CKR_SESSION_EXISTS) else Inr (), c))
     (sthen (on_backend (backend_init_token ops so_pin label))
     (sthen (smod (set_login_role_state None))
     (\<lambda>c. refresh_slot_token_objects ops cod (ctx_slot_id c) c)))"

section \<open>Backed objects\<close>

definition put_in_session ::
  "('b, 'x) backing_ops \<Rightarrow> handle \<Rightarrow> 'x token_object \<Rightarrow> ('b, 'x, content_reference) slot_comp" where
  "put_in_session cod session obj = (\<lambda>c.
     case get_session_context session c of
       Inl e \<Rightarrow> (Inl e, c)
     | Inr s \<Rightarrow>
         (case put_backed_object True (memory_put (content_digest cod) (valid_cbor cod))
                 (encode_backed_object cod obj) (session_storage s) of
            (r, store) \<Rightarrow> (r, update_session session (\<lambda>s. s\<lparr>session_storage := store\<rparr>) c)))"

definition put_in_token ::
  "('b, 'x) slot_ops \<Rightarrow> ('b, 'x) backing_ops \<Rightarrow> 'x token_object \<Rightarrow> ('b, 'x, content_reference) slot_comp" where
  "put_in_token ops cod obj = (\<lambda>c.
     let provider = token_storage_provider ops c
     in on_backend (put_backed_object (supports_mutation provider (backend c)) (st_put provider)
          (encode_backed_object cod obj)) c)"

definition delete_from_token ::
  "('b, 'x) slot_ops \<Rightarrow> content_reference \<Rightarrow> ('b, 'x, bool) slot_comp" where
  "delete_from_token ops r = (\<lambda>c.
     on_backend (\<lambda>b. case st_delete (token_storage_provider ops c) r b of (d, b') \<Rightarrow> (map_storage d, b')) c)"

definition delete_from_session :: "handle option \<Rightarrow> content_reference \<Rightarrow> ('b, 'x, bool) slot_comp" where
  "delete_from_session creator r = (\<lambda>c.
     case creator of
       None \<Rightarrow> (Inl (Generic CKR_DEVICE_ERROR), c)
     | Some session \<Rightarrow>
         (case get_session_context session c of
            Inl e \<Rightarrow> (Inl e, c)
          | Inr s \<Rightarrow>
              (case memory_delete r (session_storage s) of
                 (d, store) \<Rightarrow>
                   (map_storage d, update_session session (\<lambda>s. s\<lparr>session_storage := store\<rparr>) c))))"

definition store_backed_object ::
  "('b, 'x) slot_ops \<Rightarrow> ('b, 'x) backing_ops \<Rightarrow> handle \<Rightarrow> 'x token_object \<Rightarrow> ('b, 'x, handle) slot_comp" where
  "store_backed_object ops cod session obj =
     sbind (if is_token obj then put_in_token ops cod obj else put_in_session cod session obj) (\<lambda>reference.
     if is_token obj then
       (let uid = backed_object_unique_id reference in
        sthen (smod (\<lambda>c. c\<lparr>backed_object_references :=
          AList.update uid reference (backed_object_references c)\<rparr>))
        (sthen (\<lambda>c. refresh_slot_token_objects ops cod (ctx_slot_id c) c)
        (sbind (\<lambda>c. (case find (\<lambda>(h, u). u = uid) (token_object_handles c) of
                       None \<Rightarrow> Inl (Generic CKR_DEVICE_ERROR) | Some (h, _) \<Rightarrow> Inr h, c)) (\<lambda>h.
        sthen (smod (\<lambda>c. c\<lparr>backed_object_handles := AList.update h reference (backed_object_handles c)\<rparr>))
        (sok h)))))
     else
       sbind (\<lambda>c. insert_object (set_creator session (ctx_slot_id c) obj) c) (\<lambda>h.
       sthen (smod (\<lambda>c. c\<lparr>backed_object_handles := AList.update h reference (backed_object_handles c)\<rparr>))
       (sok h)))"

definition backed_reference_is_shared ::
  "handle \<Rightarrow> content_reference \<Rightarrow> 'x token_object \<Rightarrow> ('b, 'x) slot_context \<Rightarrow> bool" where
  "backed_reference_is_shared h reference obj c \<longleftrightarrow>
     (\<exists>(candidate, candidate_reference) \<in> set (backed_object_handles c).
        candidate \<noteq> h \<and> candidate_reference = reference \<and>
        (if is_token obj then map_of (token_object_handles c) candidate \<noteq> None
         else is_some_and (map_of (memory_objects c) candidate) (\<lambda>other.
                \<not> is_token other \<and> creator_session other = creator_session obj)))"

definition backed_reference_of ::
  "handle \<Rightarrow> 'x token_object \<Rightarrow> ('b, 'x) slot_context \<Rightarrow> content_reference option" where
  "backed_reference_of h obj c =
     (case map_of (backed_object_handles c) h of
        Some r \<Rightarrow> Some r
      | None \<Rightarrow> map_of (backed_object_references c) (unique_id obj))"

definition destroy_backed_object ::
  "('b, 'x) slot_ops \<Rightarrow> ('b, 'x) backing_ops \<Rightarrow> handle \<Rightarrow> 'x token_object \<Rightarrow> ('b, 'x, bool) slot_comp" where
  "destroy_backed_object ops cod h obj = (\<lambda>c.
     case backed_reference_of h obj c of
       None \<Rightarrow> (Inr False, c)
     | Some reference \<Rightarrow>
         sbind (if backed_reference_is_shared h reference obj c then sok True
                else if is_token obj then delete_from_token ops reference
                else delete_from_session (creator_session obj) reference) (\<lambda>deleted.
         sthen (sensure deleted (Generic CKR_DEVICE_ERROR))
         (sthen (smod (\<lambda>c. c\<lparr>backed_object_handles := AList.delete h (backed_object_handles c)\<rparr>))
         (sthen (smod (\<lambda>c. if is_token obj
                           then c\<lparr>backed_object_references :=
                                    AList.delete (unique_id obj) (backed_object_references c)\<rparr>
                           else c))
         (sthen (if is_token obj then (\<lambda>c. refresh_slot_token_objects ops cod (ctx_slot_id c) c)
                 else smod (remove_object_handle h))
         (sok True))))) c)"

definition replace_backed_object ::
  "('b, 'x) slot_ops \<Rightarrow> ('b, 'x) backing_ops \<Rightarrow> handle \<Rightarrow> 'x token_object \<Rightarrow> 'x token_object
   \<Rightarrow> ('b, 'x, bool) slot_comp" where
  "replace_backed_object ops cod h previous replacement = (\<lambda>c.
     case backed_reference_of h previous c of
       None \<Rightarrow> (Inr False, c)
     | Some previous_reference \<Rightarrow>
         sbind (if is_token replacement then put_in_token ops cod replacement
                else case creator_session previous of
                       None \<Rightarrow> sfail (Generic CKR_DEVICE_ERROR)
                     | Some creator \<Rightarrow> put_in_session cod creator replacement) (\<lambda>replacement_reference.
         sthen (\<lambda>c. (if replacement_reference \<noteq> previous_reference \<and>
                         \<not> backed_reference_is_shared h previous_reference previous c
                      then sbind (if is_token replacement then delete_from_token ops previous_reference
                                  else delete_from_session (creator_session previous) previous_reference)
                             (\<lambda>deleted. sensure deleted (Generic CKR_DEVICE_ERROR))
                      else sok ()) c)
         (let new_id = (if is_token replacement then backed_object_unique_id replacement_reference
                        else unique_id previous);
              renamed = replacement\<lparr>unique_id := new_id\<rparr> in
          sthen (smod (\<lambda>c. if is_token replacement
                           then c\<lparr>backed_object_references := AList.update new_id replacement_reference
                                    (AList.delete (unique_id previous) (backed_object_references c))\<rparr>
                           else c))
          (sthen (smod (\<lambda>c. c\<lparr>backed_object_handles :=
                      AList.update h replacement_reference (backed_object_handles c)\<rparr>))
          (sthen (if is_token replacement then
                    (\<lambda>c. sbind (on_backend (token_objects ops (ctx_slot_id c))) (\<lambda>objects.
                         sbind (stored_token_objects ops cod) (\<lambda>stored.
                         sthen (smod (record_backed_objects stored))
                               (reconcile_with_rebindings (ctx_slot_id c) (objects @ map snd stored)
                                  [(h, new_id)]))) c)
                  else case creator_session previous of
                         None \<Rightarrow> sfail (Generic CKR_DEVICE_ERROR)
                       | Some creator \<Rightarrow>
                           smod (\<lambda>c. c\<lparr>memory_objects :=
                             AList.update h (set_creator creator (ctx_slot_id c) renamed)
                               (memory_objects c)\<rparr>))
          (sok True))))) c)"

section \<open>Opening a slot\<close>

definition new_with_storage ::
  "('b, 'x) slot_ops \<Rightarrow> ('b, 'x) backing_ops \<Rightarrow> slot_id \<Rightarrow> 'b \<Rightarrow> 'x token_object list \<Rightarrow> handle_counters
   \<Rightarrow> 'b storage_ops \<Rightarrow> unit result \<times> ('b, 'x) slot_context" where
  "new_with_storage ops cod sid slot objects counters storage =
     (let c = \<lparr>backend = set_public_certificate_storage_enabled ops (supports_mutation storage slot) slot,
               ctx_slot_id = sid, handles = counters, token_storage = storage, sessions = [],
               recorded_role = None, memory_objects = [], token_object_handles = [],
               backed_token_objects = [], backed_object_references = [], backed_object_handles = []\<rparr>;
          listed = (if \<exists>obj \<in> set objects. obj_class obj = CKO_PROFILE
                    then filter (\<lambda>obj. obj_class obj \<noteq> CKO_PROFILE) objects @
                         profile_objects ops sid (backend c)
                    else objects)
      in sbind (stored_token_objects ops cod) (\<lambda>stored.
         sthen (smod (record_backed_objects stored))
               (reconcile_slot_token_objects sid (listed @ map snd stored))) c)"
end
