(* ===== verification/Slot_Invariant.thy ===== *)
theory Slot_Invariant
  imports Slot_State
begin

text \<open>
  What holds of the state of a slot at all times, whatever the backend does, and that the
  operations of the slot state keep it: handles are issued once and never shared between the two
  tables of objects, a search in progress lists only objects that still exist and its position is
  inside the list, objects of a session do not outlive it, and while the security officer is logged
  in every session is a read/write session.
\<close>

definition live :: "('b, 'x) slot_context \<Rightarrow> handle set" where
  "live c = fst ` set (memory_objects c) \<union> fst ` set (token_object_handles c)"

definition find_ok :: "handle set \<Rightarrow> 'x session_context \<Rightarrow> bool" where
  "find_ok H s \<longleftrightarrow>
     (\<forall>op. find_operation s = Some op \<longrightarrow>
        find_next op \<le> length (find_objects_list op) \<and> distinct (find_objects_list op) \<and>
        set (find_objects_list op) \<subseteq> H)"

definition tables_ok :: "('b, 'x) slot_context \<Rightarrow> bool" where
  "tables_ok c \<longleftrightarrow>
     distinct (map_keys (sessions c)) \<and> distinct (map_keys (memory_objects c)) \<and>
     distinct (map_keys (token_object_handles c)) \<and>
     fst ` set (memory_objects c) \<inter> fst ` set (token_object_handles c) = {} \<and>
     (\<forall>h \<in> live c. issued (next_object (handles c)) h) \<and>
     (\<forall>h \<in> fst ` set (sessions c). issued (next_session (handles c)) h)"

definition sessions_ok :: "('b, 'x) slot_context \<Rightarrow> bool" where
  "sessions_ok c \<longleftrightarrow>
     (\<forall>s \<in> snd ` set (sessions c). session_slotID s = ctx_slot_id c \<and> find_ok (live c) s)"

definition creators_ok :: "('b, 'x) slot_context \<Rightarrow> bool" where
  "creators_ok c \<longleftrightarrow>
     (\<forall>obj \<in> snd ` set (memory_objects c). \<forall>s. creator_session obj = Some s \<longrightarrow> s \<in> fst ` set (sessions c))"

definition so_ok :: "('b, 'x) slot_context \<Rightarrow> bool" where
  "so_ok c \<longleftrightarrow>
     (recorded_role c = Some SoRole \<longrightarrow>
        (\<forall>s \<in> snd ` set (sessions c). session_flags s AND CKF_RW_SESSION \<noteq> 0))"

definition slot_inv :: "('b, 'x) slot_context \<Rightarrow> bool" where
  "slot_inv c \<longleftrightarrow> tables_ok c \<and> sessions_ok c \<and> creators_ok c \<and> so_ok c"

lemmas parts = tables_ok_def sessions_ok_def creators_ok_def so_ok_def

text \<open>The invariant while the sessions in \<open>S\<close> are open.\<close>

definition inv_with :: "handle set \<Rightarrow> ('b, 'x) slot_context \<Rightarrow> bool" where
  "inv_with S c \<longleftrightarrow> slot_inv c \<and> S \<subseteq> fst ` set (sessions c)"

lemma inv_with_empty [simp]: "inv_with {} = slot_inv"
  by (simp add: inv_with_def fun_eq_iff)

lemma inv_withD: "inv_with S c \<Longrightarrow> slot_inv c"
  by (simp add: inv_with_def)

section \<open>Parts the invariant does not depend on\<close>

lemma live_frame [simp]:
  "live (c\<lparr>backend := b\<rparr>) = live c" "live (c\<lparr>backed_object_references := R\<rparr>) = live c"
  "live (c\<lparr>backed_object_handles := B\<rparr>) = live c" "live (c\<lparr>backed_token_objects := K\<rparr>) = live c"
  "live (c\<lparr>recorded_role := r\<rparr>) = live c" "live (c\<lparr>sessions := ss\<rparr>) = live c"
  "live (c\<lparr>handles := hs\<rparr>) = live c"
  by (simp_all add: live_def)

lemma inv_frame [simp]:
  "inv_with S (c\<lparr>backend := b\<rparr>) = inv_with S c"
  "inv_with S (c\<lparr>backed_object_references := R\<rparr>) = inv_with S c"
  "inv_with S (c\<lparr>backed_object_handles := B\<rparr>) = inv_with S c"
  "inv_with S (c\<lparr>backed_token_objects := K\<rparr>) = inv_with S c"
  by (simp_all add: inv_with_def slot_inv_def parts)

lemma inv_no_role: "inv_with S c \<Longrightarrow> inv_with S (set_login_role_state None c)"
  by (simp add: inv_with_def slot_inv_def parts set_login_role_state_def)

lemma inv_record_backed: "inv_with S (record_backed_objects objects c) = inv_with S c"
  by (simp add: record_backed_objects_def Let_def)

lemma keeps_on_backend [keeps_intros]: "keeps (inv_with S) (on_backend m)"
  by (simp add: keeps_def on_backend_def split: prod.splits)

lemma keeps_read: "(\<And>c0. keeps P (f c0)) \<Longrightarrow> keeps P (\<lambda>c. f c c)"
  by (simp add: keeps_def)

lemma keeps_smod_id [keeps_intros]: "keeps P (smod (\<lambda>c. c))"
  by (rule keeps_smod)

lemma keeps_same: "(\<And>c. snd (m c) = c) \<Longrightarrow> keeps P m"
  by (simp add: keeps_def)

lemma keeps_readers [keeps_intros]:
  "keeps P (require_slot_id sid)" "keeps P (session_details ops h)" "keeps P (stored_token_objects ops cod)"
  "keeps P (get_present_slot ops sid)"
  by (simp_all add: keeps_def require_slot_id_def session_details_def stored_token_objects_def
      get_present_slot_def sthen_def sbind_def)

lemma keeps_resolve_object [keeps_intros]: "keeps (inv_with S) (resolve_object ops h)"
  by (auto simp: keeps_def resolve_object_def on_backend_def split: option.splits prod.splits)

lemma keeps_resolved_objects [keeps_intros]: "keeps (inv_with S) (resolved_objects ops)"
  unfolding resolved_objects_def Let_def by (rule keeps_read) (intro keeps_intros)

lemma keeps_put_in_token [keeps_intros]:
  "keeps (inv_with S) (put_in_token ops cod obj)" "keeps (inv_with S) (delete_from_token ops r)"
  unfolding put_in_token_def delete_from_token_def Let_def by (rule keeps_read, intro keeps_intros)+

lemma keeps_backed_updates [keeps_intros]:
  "keeps (inv_with S) (smod (\<lambda>c. c\<lparr>backed_object_handles := f c\<rparr>))"
  "keeps (inv_with S) (smod (\<lambda>c. c\<lparr>backed_object_references := g c\<rparr>))"
  "keeps (inv_with S) (smod (record_backed_objects stored))"
  "keeps (inv_with S) (smod (set_login_role_state None))"
  by (rule keeps_smod, simp add: inv_record_backed inv_no_role)+

section \<open>Sessions\<close>

lemma fst_case_pair [simp]: "fst (case x of (k, s) \<Rightarrow> (k, f s)) = fst x"
  by (cases x) simp

lemma fst_image_map_snd [simp]: "fst ` (\<lambda>(k, s). (k, f s)) ` A = fst ` A"
  by force

lemma snd_image_map_snd: "snd ` (\<lambda>(k, s). (k, f s)) ` A = f ` snd ` A"
  by force

lemma map_keys_map_snd [simp]: "map_keys (map (\<lambda>(k, s). (k, f s)) m) = map_keys m"
  by (induction m) auto

lemma inv_sessions:
  assumes inv: "inv_with S c" and keys: "map_keys ss = map_keys (sessions c)"
    and step: "\<And>s'. s' \<in> snd ` set ss \<Longrightarrow> \<exists>s \<in> snd ` set (sessions c).
      session_slotID s' = session_slotID s \<and> session_flags s' = session_flags s \<and>
      (find_ok (live c) s \<longrightarrow> find_ok (live c) s')"
  shows "inv_with S (c\<lparr>sessions := ss\<rparr>)"
proof -
  have k: "fst ` set ss = fst ` set (sessions c)"
    using keys by (metis list.set_map)
  have "sessions_ok (c\<lparr>sessions := ss\<rparr>)"
    unfolding sessions_ok_def
  proof
    fix s' assume "s' \<in> snd ` set (sessions (c\<lparr>sessions := ss\<rparr>))"
    then have "s' \<in> snd ` set ss" by simp
    from step [OF this] inv
    show "session_slotID s' = ctx_slot_id (c\<lparr>sessions := ss\<rparr>) \<and> find_ok (live (c\<lparr>sessions := ss\<rparr>)) s'"
      by (auto simp: inv_with_def slot_inv_def sessions_ok_def)
  qed
  moreover have "so_ok (c\<lparr>sessions := ss\<rparr>)"
    unfolding so_ok_def
  proof (intro impI ballI)
    fix s' assume "recorded_role (c\<lparr>sessions := ss\<rparr>) = Some SoRole"
      and "s' \<in> snd ` set (sessions (c\<lparr>sessions := ss\<rparr>))"
    then have role: "recorded_role c = Some SoRole" and "s' \<in> snd ` set ss" by simp_all
    from step [OF this(2)] obtain s where "s \<in> snd ` set (sessions c)" "session_flags s' = session_flags s"
      by blast
    with role inv show "session_flags s' AND CKF_RW_SESSION \<noteq> 0"
      unfolding inv_with_def slot_inv_def so_ok_def by metis
  qed
  moreover have "tables_ok (c\<lparr>sessions := ss\<rparr>)" "creators_ok (c\<lparr>sessions := ss\<rparr>)"
    using inv by (simp_all add: inv_with_def slot_inv_def tables_ok_def creators_ok_def keys k)
  moreover have "S \<subseteq> fst ` set ss" using inv k by (simp add: inv_with_def)
  ultimately show ?thesis by (simp add: inv_with_def slot_inv_def)
qed

lemma inv_map_sessions:
  assumes "inv_with S c"
    and "\<And>s. session_slotID (f s) = session_slotID s" "\<And>s. session_flags (f s) = session_flags s"
    and "\<And>s. find_ok (live c) s \<Longrightarrow> find_ok (live c) (f s)"
  shows "inv_with S (c\<lparr>sessions := map (\<lambda>(k, s). (k, f s)) (sessions c)\<rparr>)"
proof (rule inv_sessions [OF assms(1)])
  fix s' assume "s' \<in> snd ` set (map (\<lambda>(k, s). (k, f s)) (sessions c))"
  then obtain s where "s \<in> snd ` set (sessions c)" "s' = f s" by force
  then show "\<exists>s \<in> snd ` set (sessions c). session_slotID s' = session_slotID s \<and>
      session_flags s' = session_flags s \<and> (find_ok (live c) s \<longrightarrow> find_ok (live c) s')"
    using assms(2-4) by blast
qed (rule map_keys_map_snd)

lemma map_keys_update_present: "k \<in> fst ` set m \<Longrightarrow> map_keys (AList.update k v m) = map_keys m"
  by (induction m) auto

lemma inv_update_session:
  assumes "inv_with S c"
    and "\<And>s. session_slotID (f s) = session_slotID s" "\<And>s. session_flags (f s) = session_flags s"
    and "\<And>s. find_ok (live c) s \<Longrightarrow> find_ok (live c) (f s)"
  shows "inv_with S (update_session h f c)"
proof (cases "map_of (sessions c) h")
  case None
  with assms(1) show ?thesis by (simp add: update_session_def)
next
  case (Some s)
  then have s: "(h, s) \<in> set (sessions c)" by (rule map_of_SomeD)
  have "inv_with S (c\<lparr>sessions := AList.update h (f s) (sessions c)\<rparr>)"
  proof (rule inv_sessions [OF assms(1)])
    show "map_keys (AList.update h (f s) (sessions c)) = map_keys (sessions c)"
      by (rule map_keys_update_present) (use s in force)
    fix s' assume "s' \<in> snd ` set (AList.update h (f s) (sessions c))"
    moreover have "distinct (map_keys (sessions c))"
      using assms(1) by (simp add: inv_with_def slot_inv_def tables_ok_def)
    ultimately have "s' = f s \<or> s' \<in> snd ` set (sessions c)"
      by (auto simp: set_update)
    moreover have "s \<in> snd ` set (sessions c)" using s by force
    ultimately show "\<exists>s \<in> snd ` set (sessions c). session_slotID s' = session_slotID s \<and>
        session_flags s' = session_flags s \<and> (find_ok (live c) s \<longrightarrow> find_ok (live c) s')"
      using assms(2-4) by blast
  qed
  with Some show ?thesis by (simp add: update_session_def)
qed

lemma put_in_session_inv [keeps_intros]:
  "keeps (inv_with S) (put_in_session cod session obj)"
  "keeps (inv_with S) (delete_from_session creator r)"
  by (auto simp: keeps_def put_in_session_def delete_from_session_def find_ok_def intro: inv_update_session
      split: sum.splits prod.splits option.splits)

section \<open>Removing objects\<close>

lemma drop_from_find_simps [simp]:
  "session_slotID (drop_from_find h s) = session_slotID s"
  "session_flags (drop_from_find h s) = session_flags s"
  by (simp_all add: drop_from_find_def Let_def split: option.splits)

text \<open>The position of a search stays on the object it stood on: what was returned before is what
  remains of it, and likewise what is still to come.\<close>

lemma drop_keeps_position:
  assumes "n \<le> length xs"
  shows "take (n - length (filter (\<lambda>x. x = h) (take n xs))) (filter (\<lambda>x. x \<noteq> h) xs) = filter (\<lambda>x. x \<noteq> h) (take n xs)"
    and "drop (n - length (filter (\<lambda>x. x = h) (take n xs))) (filter (\<lambda>x. x \<noteq> h) xs) = filter (\<lambda>x. x \<noteq> h) (drop n xs)"
proof -
  have len: "n - length (filter (\<lambda>x. x = h) (take n xs)) = length (filter (\<lambda>x. x \<noteq> h) (take n xs))"
    using sum_length_filter_compl [of "\<lambda>x. x = h" "take n xs"] assms by simp
  have split: "filter (\<lambda>x. x \<noteq> h) xs = filter (\<lambda>x. x \<noteq> h) (take n xs) @ filter (\<lambda>x. x \<noteq> h) (drop n xs)"
    by (metis append_take_drop_id filter_append)
  show "take (n - length (filter (\<lambda>x. x = h) (take n xs))) (filter (\<lambda>x. x \<noteq> h) xs) = filter (\<lambda>x. x \<noteq> h) (take n xs)"
    unfolding len by (subst split) simp
  show "drop (n - length (filter (\<lambda>x. x = h) (take n xs))) (filter (\<lambda>x. x \<noteq> h) xs) = filter (\<lambda>x. x \<noteq> h) (drop n xs)"
    unfolding len by (subst split) simp
qed

lemma drop_from_find_ok: "find_ok H s \<Longrightarrow> find_ok (H - {h}) (drop_from_find h s)"
proof -
  assume ok: "find_ok H s"
  show ?thesis
  proof (cases "find_operation s")
    case None
    then show ?thesis by (simp add: find_ok_def drop_from_find_def)
  next
    case (Some op)
    let ?xs = "find_objects_list op" and ?n = "find_next op"
    have n: "?n \<le> length ?xs" "distinct ?xs" "set ?xs \<subseteq> H" using ok Some by (simp_all add: find_ok_def)
    have "?n - length (filter (\<lambda>x. x = h) (take ?n ?xs)) = length (filter (\<lambda>x. x \<noteq> h) (take ?n ?xs))"
      using sum_length_filter_compl [of "\<lambda>x. x = h" "take ?n ?xs"] n(1) by simp
    also have "\<dots> \<le> length (filter (\<lambda>x. x \<noteq> h) ?xs)"
      by (metis append_take_drop_id filter_append le_add1 length_append)
    finally show ?thesis
      using Some n by (auto simp: find_ok_def drop_from_find_def Let_def min_absorb1)
  qed
qed

lemma live_remove: "live (remove_object_handle h c) = live c - {h}"
  by (auto simp: live_def remove_object_handle_def set_delete)

lemma remove_object_handle_simps [simp]:
  "memory_objects (remove_object_handle h c) = AList.delete h (memory_objects c)"
  "token_object_handles (remove_object_handle h c) = AList.delete h (token_object_handles c)"
  "sessions (remove_object_handle h c) = map (\<lambda>(k, s). (k, drop_from_find h s)) (sessions c)"
  "ctx_slot_id (remove_object_handle h c) = ctx_slot_id c"
  "recorded_role (remove_object_handle h c) = recorded_role c"
  "handles (remove_object_handle h c) = handles c" "backend (remove_object_handle h c) = backend c"
  by (simp_all add: remove_object_handle_def)

lemma set_delete_subset: "set (AList.delete k m) \<subseteq> set m"
  by (auto simp: set_delete)

lemma inv_remove: "inv_with S c \<Longrightarrow> inv_with S (remove_object_handle h c)"
proof -
  assume inv: "inv_with S c"
  let ?c = "remove_object_handle h c"
  have ss: "snd ` set (sessions ?c) = drop_from_find h ` snd ` set (sessions c)"
    by (simp add: snd_image_map_snd)
  have sub: "set (memory_objects ?c) \<subseteq> set (memory_objects c)"
    "set (token_object_handles ?c) \<subseteq> set (token_object_handles c)"
    by (simp_all add: set_delete_subset)
  have keys: "fst ` set (sessions ?c) = fst ` set (sessions c)" by simp
  have "tables_ok ?c"
    using inv sub unfolding inv_with_def slot_inv_def tables_ok_def live_remove
    by (auto simp del: map_map)
  moreover have "sessions_ok ?c"
    using inv unfolding inv_with_def slot_inv_def sessions_ok_def ss live_remove
    by (auto intro: drop_from_find_ok)
  moreover have "creators_ok ?c"
    using inv sub(1) unfolding inv_with_def slot_inv_def creators_ok_def keys by blast
  moreover have "so_ok ?c"
    using inv unfolding inv_with_def slot_inv_def so_ok_def ss by auto
  moreover have "S \<subseteq> fst ` set (sessions ?c)"
    using inv unfolding keys inv_with_def by blast
  ultimately show ?thesis by (simp add: inv_with_def slot_inv_def)
qed

lemma inv_remove_all: "inv_with S c \<Longrightarrow> inv_with S (fold remove_object_handle hs c)"
  by (induction hs arbitrary: c) (simp_all add: inv_remove)

lemma keeps_remove [keeps_intros]:
  "keeps (inv_with S) (smod (remove_object_handle h))"
  "keeps (inv_with S) (smod (\<lambda>c. fold remove_object_handle (f c) c))"
  by (rule keeps_smod, simp add: inv_remove inv_remove_all)+

section \<open>Login state\<close>

lemma clear_operations_simps [simp]:
  "session_slotID (clear_operations s) = session_slotID s"
  "session_flags (clear_operations s) = session_flags s" "find_ok H (clear_operations s)"
  "session_idle (clear_operations s)"
  by (simp_all add: clear_operations_def find_ok_def session_idle_def)

lemma inv_clear_login_state: "inv_with S c \<Longrightarrow> inv_with S (clear_login_state sid c)"
proof (cases "sid = ctx_slot_id c")
  case True
  assume inv: "inv_with S c"
  let ?c = "clear_login_state sid c"
  have ss: "snd ` set (sessions ?c) = clear_operations ` snd ` set (sessions c)"
    and keys: "map_keys (sessions ?c) = map_keys (sessions c)" "fst ` set (sessions ?c) = fst ` set (sessions c)"
    and tok: "token_object_handles ?c = token_object_handles c" "handles ?c = handles c"
      "recorded_role ?c = None" "ctx_slot_id ?c = ctx_slot_id c"
    and mem: "memory_objects ?c = retain (\<lambda>_ obj. is_token obj \<or> \<not> is_private obj) (memory_objects c)"
    using True by (simp_all add: clear_login_state_def Let_def set_login_role_state_def snd_image_map_snd)
  have sub: "set (memory_objects ?c) \<subseteq> set (memory_objects c)" by (auto simp: mem)
  have "live ?c \<subseteq> live c" using sub by (auto simp: live_def tok)
  then have "tables_ok ?c"
    using inv sub unfolding inv_with_def slot_inv_def tables_ok_def keys tok mem
    by (auto simp del: set_retain)
  moreover have "sessions_ok ?c"
    using inv unfolding inv_with_def slot_inv_def sessions_ok_def ss tok by auto
  moreover have "creators_ok ?c"
    using inv sub unfolding inv_with_def slot_inv_def creators_ok_def keys by blast
  moreover have "so_ok ?c" by (simp add: so_ok_def tok)
  ultimately show ?thesis using inv keys by (simp add: inv_with_def slot_inv_def)
qed (simp add: clear_login_state_def)

lemma inv_reconcile_login: "inv_with S c \<Longrightarrow> inv_with S (reconcile_login_state ops sid c)"
  by (simp add: reconcile_login_state_def inv_clear_login_state)

lemma keeps_login_state [keeps_intros]:
  "keeps (inv_with S) (smod (clear_login_state sid))"
  "keeps (inv_with S) (smod (reconcile_login_state ops sid))"
  by (rule keeps_smod, simp add: inv_clear_login_state inv_reconcile_login)+

section \<open>New handles\<close>

lemma fresh_object_handle:
  assumes "inv_with S c" "allocate_handle (next_object (handles c)) = Inr (h, n)"
  shows "h \<notin> live c" "\<And>k. k \<in> live c \<Longrightarrow> issued n k" "issued n h"
  using assms handles.fresh [OF assms(2)] handles.exact [OF assms(2)]
  by (auto simp: inv_with_def slot_inv_def tables_ok_def)

lemma find_ok_mono: "find_ok H s \<Longrightarrow> H \<subseteq> H' \<Longrightarrow> find_ok H' s"
  by (auto simp: find_ok_def)

text \<open>A context that differs in the object tables only, and whose new objects are all right.\<close>

lemma inv_objects:
  assumes inv: "inv_with S c"
    and same: "sessions c' = sessions c" "ctx_slot_id c' = ctx_slot_id c" "recorded_role c' = recorded_role c"
      "next_session (handles c') = next_session (handles c)"
    and tables: "distinct (map_keys (memory_objects c'))" "distinct (map_keys (token_object_handles c'))"
      "fst ` set (memory_objects c') \<inter> fst ` set (token_object_handles c') = {}"
      "\<And>h. h \<in> live c' \<Longrightarrow> issued (next_object (handles c')) h"
    and grow: "live c \<subseteq> live c'"
    and creators: "\<And>obj s. obj \<in> snd ` set (memory_objects c') \<Longrightarrow> creator_session obj = Some s \<Longrightarrow>
      s \<in> fst ` set (sessions c)"
  shows "inv_with S c'"
proof -
  have "tables_ok c'"
    using inv tables(1-3) unfolding inv_with_def slot_inv_def tables_ok_def same by (simp add: tables(4))
  moreover have "sessions_ok c'"
    unfolding sessions_ok_def same
  proof
    fix s assume "s \<in> snd ` set (sessions c)"
    with inv have "session_slotID s = ctx_slot_id c" "find_ok (live c) s"
      by (auto simp: inv_with_def slot_inv_def sessions_ok_def)
    with find_ok_mono [OF _ grow] show "session_slotID s = ctx_slot_id c \<and> find_ok (live c') s" by simp
  qed
  moreover have "creators_ok c'"
    using creators unfolding creators_ok_def same by blast
  moreover have "so_ok c'" "S \<subseteq> fst ` set (sessions c')"
    using inv by (simp_all add: inv_with_def slot_inv_def so_ok_def same)
  ultimately show ?thesis by (simp add: inv_with_def slot_inv_def)
qed

lemma inv_creator:
  "inv_with S c \<Longrightarrow> obj \<in> snd ` set (memory_objects c) \<Longrightarrow> creator_session obj = Some s \<Longrightarrow> s \<in> fst ` set (sessions c)"
  by (auto simp: inv_with_def slot_inv_def creators_ok_def)

lemma inv_tables:
  assumes "inv_with S c"
  shows "distinct (map_keys (memory_objects c))" "distinct (map_keys (token_object_handles c))"
    "fst ` set (memory_objects c) \<inter> fst ` set (token_object_handles c) = {}"
    "distinct (map_keys (sessions c))"
    "h \<in> live c \<Longrightarrow> issued (next_object (handles c)) h"
  using assms by (auto simp: inv_with_def slot_inv_def tables_ok_def)

lemma inv_new_memory_object:
  assumes inv: "inv_with S c" and new: "allocate_handle (next_object (handles c)) = Inr (h, n)"
    and creator: "\<And>s. creator_session obj = Some s \<Longrightarrow> s \<in> S"
  shows "inv_with S (c\<lparr>handles := (handles c)\<lparr>next_object := n\<rparr>,
                       memory_objects := AList.update h obj (memory_objects c)\<rparr>)" (is "inv_with S ?c")
proof -
  note fresh = fresh_object_handle [OF inv new]
  have mem: "memory_objects ?c = memory_objects c @ [(h, obj)]"
    using fresh(1) by (simp add: live_def keys_update_fresh image_iff)
  have lv: "live ?c = insert h (live c)" by (auto simp: live_def mem)
  show ?thesis
  proof (rule inv_objects [OF inv])
    show "distinct (map_keys (memory_objects ?c))"
      using inv_tables(1) [OF inv] by simp
    show "fst ` set (memory_objects ?c) \<inter> fst ` set (token_object_handles ?c) = {}"
      using inv_tables(3) [OF inv] fresh(1) by (auto simp: mem live_def)
    show "issued (next_object (handles ?c)) k" if "k \<in> live ?c" for k
      using that fresh by (auto simp: lv)
    show "s \<in> fst ` set (sessions c)" if "o' \<in> snd ` set (memory_objects ?c)" "creator_session o' = Some s" for o' s
      using that inv_creator [OF inv] creator inv by (auto simp: mem inv_with_def)
  qed (use inv_tables [OF inv] in \<open>simp_all add: lv subset_insertI\<close>)
qed

lemma inv_new_token_handle:
  assumes inv: "inv_with S c" and new: "allocate_handle (next_object (handles c)) = Inr (h, n)"
  shows "inv_with S (c\<lparr>handles := (handles c)\<lparr>next_object := n\<rparr>,
                       token_object_handles := AList.update h uid (token_object_handles c)\<rparr>)" (is "inv_with S ?c")
proof -
  note fresh = fresh_object_handle [OF inv new]
  have tok: "token_object_handles ?c = token_object_handles c @ [(h, uid)]"
    using fresh(1) by (simp add: live_def keys_update_fresh image_iff)
  have lv: "live ?c = insert h (live c)" by (auto simp: live_def tok)
  show ?thesis
  proof (rule inv_objects [OF inv])
    show "distinct (map_keys (token_object_handles ?c))"
      using inv_tables(2) [OF inv] by simp
    show "fst ` set (memory_objects ?c) \<inter> fst ` set (token_object_handles ?c) = {}"
      using inv_tables(3) [OF inv] fresh(1) by (auto simp: tok live_def)
    show "issued (next_object (handles ?c)) k" if "k \<in> live ?c" for k
      using that fresh by (auto simp: lv)
    show "s \<in> fst ` set (sessions c)" if "o' \<in> snd ` set (memory_objects ?c)" "creator_session o' = Some s" for o' s
      using that inv_creator [OF inv] by auto
  qed (use inv_tables [OF inv] in \<open>simp_all add: lv subset_insertI\<close>)
qed

lemma keeps_add_token_handle [keeps_intros]: "keeps (inv_with S) (add_token_handle uid)"
proof (rule keepsI, goal_cases)
  case (1 c)
  note inv = 1
  show ?case
    using inv inv_new_token_handle [OF inv]
    by (auto simp: add_token_handle_def swp_def sbind_def on_handles_def allocate_object_def smod_def
        split: sum.splits prod.splits)
qed

lemma keeps_insert_object:
  assumes "\<And>s. creator_session obj = Some s \<Longrightarrow> s \<in> S"
  shows "keeps (inv_with S) (insert_object obj)"
proof (rule keepsI, goal_cases)
  case (1 c)
  note inv = 1
  have "creator_session (if unique_id obj = [] then obj\<lparr>unique_id := i\<rparr> else obj) = Some s \<Longrightarrow> s \<in> S" for i s
    using assms by (simp split: if_splits)
  from inv_new_memory_object [OF inv _ this] inv
  show ?case
    by (auto simp: insert_object_def swp_def sbind_def sthen_def sok_def on_handles_def allocate_object_def
        smod_def split: sum.splits prod.splits)
qed

lemma keeps_insert_created [keeps_intros]:
  "session \<in> S \<Longrightarrow> keeps (inv_with S) (insert_object (set_creator session sid obj))"
  by (rule keeps_insert_object) (simp split: if_splits)

lemma keeps_rebind [keeps_intros]: "keeps (inv_with S) (rebind p)"
proof (rule keepsI, goal_cases)
  case (1 c)
  note inv = 1
  obtain h uid where p: "p = (h, uid)" by fastforce
  have "inv_with S (c\<lparr>token_object_handles := AList.update h uid (token_object_handles c)\<rparr>)" (is "inv_with S ?c")
    if "map_of (token_object_handles c) h = Some u" for u
  proof -
    have "h \<in> fst ` set (token_object_handles c)" using map_of_SomeD [OF that] by force
    then have keys: "map_keys (token_object_handles ?c) = map_keys (token_object_handles c)"
      by (simp add: map_keys_update_present)
    then have kset: "fst ` set (token_object_handles ?c) = fst ` set (token_object_handles c)"
      by (metis list.set_map)
    then have lv: "live ?c = live c" by (simp add: live_def)
    show ?thesis
    proof (rule inv_objects [OF inv])
      show "distinct (map_keys (token_object_handles ?c))" using inv_tables(2) [OF inv] keys by simp
      show "fst ` set (memory_objects ?c) \<inter> fst ` set (token_object_handles ?c) = {}"
        using inv_tables(3) [OF inv] kset by simp
      show "s \<in> fst ` set (sessions c)" if "o' \<in> snd ` set (memory_objects ?c)" "creator_session o' = Some s" for o' s
        using that inv_creator [OF inv] by auto
    qed (use inv_tables [OF inv] lv in simp_all)
  qed
  with inv p show ?case
    by (simp add: rebind_def swp_def split: option.splits)
qed

section \<open>Reconciliation and refresh\<close>

lemma keeps_reconcile [keeps_intros]:
  "keeps (inv_with S) (reconcile_with_rebindings sid objects rebindings)"
proof -
  have "keeps (inv_with S) (\<lambda>c. seach add_token_handle
      (sort (filter (\<lambda>uid. uid \<notin> set (map snd (token_object_handles c))) (map_keys by_id))) c)" for by_id
    by (rule keeps_read) (intro keeps_intros)
  moreover have "keeps (inv_with S) (\<lambda>c. (check_rebindings by_id c rebindings, c))" for by_id
    by (rule keeps_same) simp
  ultimately show ?thesis
    unfolding reconcile_with_rebindings_def by (intro keeps_intros)
qed

lemma keeps_refresh [keeps_intros]:
  "keeps (inv_with S) (refresh_with_rebindings ops cod sid rebindings)"
  "keeps (inv_with S) (refresh_slot_token_objects ops cod sid)"
  "keeps (inv_with S) (reconcile_slot_token_objects sid objects)"
  unfolding refresh_slot_token_objects_def refresh_with_rebindings_def reconcile_slot_token_objects_def
  by (intro keeps_intros)+

lemma keeps_refresh_own [keeps_intros]:
  "keeps (inv_with S) (\<lambda>c. refresh_slot_token_objects ops cod (ctx_slot_id c) c)"
  by (rule keeps_read) (rule keeps_refresh)

lemma keeps_insert_session_objects [keeps_intros]:
  assumes "session \<in> S"
  shows "keeps (inv_with S) (insert_session_objects ops sid session)"
proof -
  have "keeps (inv_with S) (insert_new_session_objects sid session objs)" for objs
  proof (induction objs)
    case (Cons obj objs)
    show ?case
      unfolding insert_new_session_objects.simps by (rule keeps_read, intro keeps_intros Cons assms)
  qed (simp add: keeps_intros)
  then show ?thesis unfolding insert_session_objects_def by (intro keeps_intros)
qed

section \<open>Backed objects\<close>

lemma keeps_store_backed_object [keeps_intros]:
  assumes "session \<in> S"
  shows "keeps (inv_with S) (store_backed_object ops cod session obj)"
proof -
  have lookup: "keeps (inv_with S) (\<lambda>c. (f c, c))" for f :: "('a, 'b) slot_context \<Rightarrow> handle result"
    by (rule keeps_same) simp
  have insert: "keeps (inv_with S) (\<lambda>c. insert_object (set_creator session (ctx_slot_id c) obj) c)"
    by (rule keeps_read, intro keeps_intros assms)
  show ?thesis
    unfolding store_backed_object_def Let_def by (intro keeps_intros lookup insert)
qed

lemma keeps_destroy_backed_object [keeps_intros]:
  "keeps (inv_with S) (destroy_backed_object ops cod h obj)"
proof -
  have *: "keeps (inv_with S) (smod (\<lambda>c. if b then c\<lparr>backed_object_references := f c\<rparr> else c))" for b f
    by (rule keeps_smod) simp
  have "keeps (inv_with S) (destroy_backed_object ops cod h obj) \<longleftrightarrow>
    (\<forall>c. inv_with S c \<longrightarrow> (\<forall>r. backed_reference_of h obj c = Some r \<longrightarrow>
      inv_with S (snd (destroy_backed_object ops cod h obj c))))"
    by (auto simp: keeps_def destroy_backed_object_def split: option.splits)
  moreover have "inv_with S (snd (destroy_backed_object ops cod h obj c))"
    if "inv_with S c" "backed_reference_of h obj c = Some r" for c r
    unfolding destroy_backed_object_def that(2) option.case
    by (rule keepsD [where P = "inv_with S", OF _ that(1)], intro keeps_intros *)
  ultimately show ?thesis by blast
qed

lemma keeps_logout_slot [keeps_intros]: "keeps (inv_with S) (logout_slot ops cod sid)"
proof -
  have "keeps (inv_with S) (\<lambda>c. (f c, c))" for f :: "('a, 'b) slot_context \<Rightarrow> login_role result"
    by (rule keeps_same) simp
  moreover have "keeps (inv_with S) (\<lambda>c. (if f c then refresh_slot_token_objects ops cod sid else sok ()) c)" for f
    by (rule keeps_read) (intro keeps_intros)
  ultimately show ?thesis unfolding logout_slot_def by (intro keeps_intros)
qed

lemma keeps_init_token [keeps_intros]: "keeps (inv_with S) (init_token ops cod so_pin label)"
proof -
  have "keeps (inv_with S) (\<lambda>c. (f c, c))" for f :: "('a, 'b) slot_context \<Rightarrow> unit result"
    by (rule keeps_same) simp
  then show ?thesis unfolding init_token_def by (intro keeps_intros)
qed

lemma new_with_storage_inv:
  "slot_inv (snd (new_with_storage ops cod sid slot objects counters storage))"
  unfolding new_with_storage_def Let_def inv_with_empty [symmetric]
  by (rule keepsD [where P = "inv_with {}"], intro keeps_intros) (simp add: slot_inv_def parts live_def)

text \<open>Replacing an object in place needs its handle to stay in the table.\<close>

definition holding :: "handle set \<Rightarrow> handle \<Rightarrow> ('b, 'x) slot_context \<Rightarrow> bool" where
  "holding S h c \<longleftrightarrow> inv_with S c \<and> h \<in> fst ` set (memory_objects c)"

lemma memory_update_session [simp]: "memory_objects (update_session h f c) = memory_objects c"
  by (simp add: update_session_def split: option.splits)

lemma memory_storage [simp]:
  "memory_objects (snd (put_in_session cod session obj c)) = memory_objects c"
  "memory_objects (snd (delete_from_session creator r c)) = memory_objects c"
  by (simp_all add: put_in_session_def delete_from_session_def split: sum.splits prod.splits option.splits)

lemma holding_keeps:
  "keeps (holding S h) (put_in_session cod session obj)" "keeps (holding S h) (delete_from_session creator r)"
  "keeps (holding S h) (smod (\<lambda>c. c\<lparr>backed_object_handles := f c\<rparr>))"
  by (auto simp: keeps_def holding_def smod_def intro: put_in_session_inv [THEN keepsD])

lemma inv_put_memory:
  assumes inv: "inv_with S c" and h: "h \<in> fst ` set (memory_objects c)"
    and creator: "\<And>s. creator_session obj = Some s \<Longrightarrow> s \<in> S"
  shows "inv_with S (c\<lparr>memory_objects := AList.update h obj (memory_objects c)\<rparr>)" (is "inv_with S ?c")
proof -
  have keys: "map_keys (memory_objects ?c) = map_keys (memory_objects c)"
    using h by (simp add: map_keys_update_present)
  then have kset: "fst ` set (memory_objects ?c) = fst ` set (memory_objects c)"
    by (metis list.set_map)
  then have lv: "live ?c = live c" by (simp add: live_def)
  show ?thesis
  proof (rule inv_objects [OF inv])
    show "distinct (map_keys (memory_objects ?c))" using inv_tables(1) [OF inv] keys by simp
    show "fst ` set (memory_objects ?c) \<inter> fst ` set (token_object_handles ?c) = {}"
      using inv_tables(3) [OF inv] kset by simp
    show "s \<in> fst ` set (sessions c)" if "o' \<in> snd ` set (memory_objects ?c)" "creator_session o' = Some s" for o' s
    proof -
      from that(1) inv_tables(1) [OF inv] have "o' = obj \<or> o' \<in> snd ` set (memory_objects c)"
        by (auto simp: set_update)
      then show ?thesis
        using that(2) inv_creator [OF inv] creator inv by (auto simp: inv_with_def)
    qed
  qed (use inv_tables [OF inv] lv in simp_all)
qed

lemma replace_backed_object_inv:
  assumes inv: "inv_with S c" and h: "\<not> is_token replacement \<Longrightarrow> h \<in> fst ` set (memory_objects c)"
    and creator: "\<And>s. \<not> is_token replacement \<Longrightarrow> creator_session previous = Some s \<Longrightarrow> s \<in> S"
  shows "inv_with S (snd (replace_backed_object ops cod h previous replacement c))"
proof (cases "backed_reference_of h previous c")
  case None
  with inv show ?thesis by (simp add: replace_backed_object_def)
next
  case (Some r)
  have upd: "keeps (inv_with S) (smod (\<lambda>c. if b then c\<lparr>backed_object_references := f c\<rparr> else c))" for b f
    by (rule keeps_smod) simp
  show ?thesis
  proof (cases "is_token replacement")
    case True
    have del: "keeps (inv_with S) (\<lambda>c. (if Q r' c then sbind (delete_from_token ops r)
        (\<lambda>deleted. sensure deleted (Generic CKR_DEVICE_ERROR)) else sok ()) c)" for r' and Q :: "content_reference \<Rightarrow> _"
      by (rule keeps_read) (intro keeps_intros)
    have rec: "keeps (inv_with S) (\<lambda>c. sbind (on_backend (token_objects ops (ctx_slot_id c))) (\<lambda>objects.
        sbind (stored_token_objects ops cod) (\<lambda>stored. sthen (smod (record_backed_objects stored))
        (reconcile_with_rebindings (ctx_slot_id c) (objects @ map snd stored) rb))) c)" for rb
      by (rule keeps_read) (intro keeps_intros)
    show ?thesis
      unfolding replace_backed_object_def Some option.case Let_def
      using True by simp (rule keepsD [where P = "inv_with S", OF _ inv], intro keeps_intros upd del rec)
  next
    case False
    have del: "keeps (holding S h) (\<lambda>c. (if Q r' c then sbind (delete_from_session (creator_session previous) r)
        (\<lambda>deleted. sensure deleted (Generic CKR_DEVICE_ERROR)) else sok ()) c)" for r' and Q :: "content_reference \<Rightarrow> _"
      by (rule keeps_read) (intro keeps_intros holding_keeps)
    have put: "keeps (holding S h) (smod (\<lambda>c. c\<lparr>memory_objects :=
        AList.update h (set_creator s (ctx_slot_id c) obj) (memory_objects c)\<rparr>))"
      if "creator_session previous = Some s" for s obj
    proof (rule keeps_smod, goal_cases)
      case (1 c)
      then have c: "inv_with S c" "h \<in> fst ` set (memory_objects c)" by (simp_all add: holding_def)
      have "inv_with S (c\<lparr>memory_objects :=
          AList.update h (set_creator s (ctx_slot_id c) obj) (memory_objects c)\<rparr>)"
        using creator [OF False] that by (intro inv_put_memory c) (simp split: if_splits)
      then show ?case using c(2) by (simp add: holding_def dom_update)
    qed
    have hold: "holding S h c" using inv h False by (simp add: holding_def)
    have "holding S h (snd (replace_backed_object ops cod h previous replacement c))"
      unfolding replace_backed_object_def Some option.case Let_def
      using False by simp (rule keepsD [where P = "holding S h", OF _ hold],
          intro keeps_intros holding_keeps del put)
    then show ?thesis by (simp add: holding_def)
  qed
qed
end
