(* ===== verification/Slot_Reconcile.thy ===== *)
theory Slot_Reconcile
  imports Slot_Invariant
begin

text \<open>
  What reconciliation does to the table of token objects (src/src/context.rs,
  \<open>reconcile_slot_token_objects\<close>): afterwards the table lists exactly the objects the token reported,
  one handle each; an object that is still there keeps its handle, and handles of objects that are
  gone are dead.
\<close>

lemma index_by_id_ok:
  "index_by_id objs m = Inr by_id \<Longrightarrow>
   by_id = m @ map (\<lambda>obj. (unique_id obj, obj)) objs"
proof (induction objs arbitrary: m)
  case (Cons obj objs)
  let ?m = "AList.update (unique_id obj) obj m"
  from Cons.prems have "index_by_id objs ?m = Inr by_id" and fresh: "unique_id obj \<notin> set (map_keys m)"
    by (auto simp: map_of_eq_None_iff split: if_splits)
  note IH = Cons.IH [OF this(1)]
  have "?m = m @ [(unique_id obj, obj)]" using fresh by (rule keys_update_fresh)
  with IH show ?case by simp
qed simp

lemma index_by_id_err:
  "index_by_id objs m = Inl e \<Longrightarrow> e = Generic CKR_DEVICE_ERROR"
  by (induction objs m rule: index_by_id.induct) (auto split: if_splits)

lemma index_by_id_fails:
  "distinct (map_keys m) \<Longrightarrow>
   (\<exists>e. index_by_id objs m = Inl e) \<longleftrightarrow>
   \<not> distinct (map_keys m @ map unique_id objs) \<or> [] \<in> unique_id ` set objs"
proof (induction objs arbitrary: m)
  case (Cons obj objs)
  show ?case
  proof (cases "unique_id obj = [] \<or> unique_id obj \<in> set (map_keys m)")
    case True
    then show ?thesis by (auto simp: map_of_eq_None_iff)
  next
    case False
    then have "AList.update (unique_id obj) obj m = m @ [(unique_id obj, obj)]"
      by (intro keys_update_fresh) auto
    with False Cons.IH [of "m @ [(unique_id obj, obj)]"] Cons.prems show ?thesis
      by (auto simp: map_of_eq_None_iff)
  qed
qed simp

lemma fold_remove_simps:
  "token_object_handles (fold remove_object_handle hs c) = filter (\<lambda>p. fst p \<notin> set hs) (token_object_handles c)"
  "ctx_slot_id (fold remove_object_handle hs c) = ctx_slot_id c"
  "handles (fold remove_object_handle hs c) = handles c"
  by (induction hs arbitrary: c) (auto simp: AList.delete_eq split_beta intro: filter_cong)

lemma fold_remove_memory:
  "set hs \<inter> fst ` set (memory_objects c) = {} \<Longrightarrow>
   memory_objects (fold remove_object_handle hs c) = memory_objects c"
proof (induction hs arbitrary: c)
  case (Cons h hs)
  then have "AList.delete h (memory_objects c) = memory_objects c"
    by (intro delete_id) (auto simp: image_iff)
  with Cons show ?case by simp
qed simp

lemma add_token_handle_ok:
  "add_token_handle uid c = (Inr u, c') \<longleftrightarrow>
   (\<exists>h n. allocate_handle (next_object (handles c)) = Inr (h, n) \<and>
      c' = c\<lparr>handles := (handles c)\<lparr>next_object := n\<rparr>,
             token_object_handles := AList.update h uid (token_object_handles c)\<rparr>)"
  by (auto simp: sbind_ok add_token_handle_def on_handles_def allocate_object_def smod_def
      split: sum.splits prod.splits)

lemma seach_add_token_handle:
  assumes "seach add_token_handle uids c = (Inr (), c')" "inv_with S c"
  shows "\<exists>hs. length hs = length uids \<and> token_object_handles c' = token_object_handles c @ zip hs uids \<and>
    memory_objects c' = memory_objects c \<and> (\<forall>h \<in> set hs. \<not> issued (next_object (handles c)) h)"
  using assms
proof (induction uids arbitrary: c)
  case (Cons uid uids)
  from Cons.prems(1) obtain h n where new: "allocate_handle (next_object (handles c)) = Inr (h, n)"
    and rest: "seach add_token_handle uids (c\<lparr>handles := (handles c)\<lparr>next_object := n\<rparr>,
      token_object_handles := AList.update h uid (token_object_handles c)\<rparr>) = (Inr (), c')"
      (is "seach _ _ ?c = _")
    by (auto simp: sthen_def sbind_ok add_token_handle_ok)
  have inv: "inv_with S ?c" by (rule inv_new_token_handle [OF Cons.prems(2) new])
  have fresh: "h \<notin> live c" by (rule fresh_object_handle(1) [OF Cons.prems(2) new])
  then have upd: "AList.update h uid (token_object_handles c) = token_object_handles c @ [(h, uid)]"
    by (simp add: live_def keys_update_fresh image_iff)
  from Cons.IH [OF rest inv] obtain hs where hs: "length hs = length uids"
    "token_object_handles c' = token_object_handles ?c @ zip hs uids" "memory_objects c' = memory_objects c"
    "\<forall>k \<in> set hs. \<not> issued n k" by auto
  have "\<not> issued (next_object (handles c)) k" if "k \<in> set (h # hs)" for k
    using that hs(4) handles.fresh [OF new] handles.exact [OF new, of k] by auto
  with hs upd show ?case by (intro exI [of _ "h # hs"]) auto
qed (auto intro: exI [of _ "[]"])

text \<open>Without rebindings, reconciliation removes the handles of objects that are gone and issues
  handles for new ones.\<close>

lemma reconcile_unfold:
  "reconcile_slot_token_objects (ctx_slot_id c) objects c =
     (case index_by_id (filter is_token objects) [] of
        Inl e \<Rightarrow> (Inl e, c)
      | Inr by_id \<Rightarrow>
          (let gone = map fst (filter (\<lambda>(h, uid). map_of by_id uid = None) (token_object_handles c));
               c1 = fold remove_object_handle gone c
           in seach add_token_handle
                (sort (filter (\<lambda>uid. uid \<notin> set (map snd (token_object_handles c1))) (map_keys by_id))) c1))"
  by (simp add: reconcile_slot_token_objects_def reconcile_with_rebindings_def sthen_def sbind_def
      require_slot_id_def slift_def smod_def sok_def Let_def split: sum.splits)

lemma seach_add_err: "seach add_token_handle uids c = (Inl e, c') \<Longrightarrow> e = Generic CKR_HOST_MEMORY"
proof (induction uids arbitrary: c)
  case (Cons uid uids)
  have "add_token_handle uid d = (Inl x, d') \<Longrightarrow> x = Generic CKR_HOST_MEMORY" for d d' x
    by (auto simp: add_token_handle_def sbind_def on_handles_def allocate_object_def allocate_handle_def smod_def
        split: if_splits)
  with Cons show ?case
    by (auto simp: sthen_def sbind_def split: prod.splits sum.splits)
qed (simp add: sok_def)

lemma gone_handles:
  fixes c :: "('b, 'x) slot_context"
  assumes inv: "slot_inv c"
    and gone: "gone = map fst (filter (\<lambda>(h, uid). P uid) (token_object_handles c))"
  shows "token_object_handles (fold remove_object_handle gone c) =
      filter (\<lambda>(h, uid). \<not> P uid) (token_object_handles c)" (is ?tok)
    and "memory_objects (fold remove_object_handle gone c) = memory_objects c" (is ?mem)
proof -
  note tab = inv_tables [of "{}" c, unfolded inv_with_empty, OF inv]
  have "h \<in> set gone \<longleftrightarrow> P uid" if "(h, uid) \<in> set (token_object_handles c)" for h uid
  proof
    assume "h \<in> set gone"
    then obtain uid' where "(h, uid') \<in> set (token_object_handles c)" "P uid'" by (force simp: gone)
    with eq_key_imp_eq_value [OF tab(2) that] show "P uid" by blast
  qed (use that in \<open>force simp: gone\<close>)
  then show ?tok unfolding fold_remove_simps by (intro filter_cong) auto
  show ?mem by (rule fold_remove_memory) (use tab(3) in \<open>auto simp: gone\<close>)
qed

definition listed_ids :: "'x token_object list \<Rightarrow> string list" where
  "listed_ids objects = map unique_id (filter is_token objects)"

text \<open>C18. Reconciling the handle table with what the token reports is exact and stable.  When it
  succeeds, the table has one handle for each reported token object and no other; an object that was
  known keeps its handle, a handle whose object is gone is dead, and every other handle in the table
  has never been issued before; session objects are untouched.  It fails without any change when two
  reported objects share an id or one has none, and otherwise only when handles are exhausted.\<close>
theorem reconcile_exact:
  assumes "slot_inv c" "distinct (map snd (token_object_handles c))"
    and "reconcile_slot_token_objects (ctx_slot_id c) objects c = (outcome, c')"
  shows "case outcome of
      Inr _ \<Rightarrow>
        set (map snd (token_object_handles c')) = set (listed_ids objects) \<and>
        distinct (map snd (token_object_handles c')) \<and> memory_objects c' = memory_objects c \<and>
        (\<forall>(h, uid) \<in> set (token_object_handles c).
           if uid \<in> set (listed_ids objects) then (h, uid) \<in> set (token_object_handles c') else h \<notin> live c') \<and>
        (\<forall>(h, uid) \<in> set (token_object_handles c').
           (h, uid) \<in> set (token_object_handles c) \<or> \<not> issued (next_object (handles c)) h)
    | Inl e \<Rightarrow>
        (e = Generic CKR_DEVICE_ERROR \<and> c' = c \<and>
           (\<not> distinct (listed_ids objects) \<or> [] \<in> set (listed_ids objects))) \<or>
        e = Generic CKR_HOST_MEMORY"
proof (cases "index_by_id (filter is_token objects) []")
  case (Inl e)
  then show ?thesis
    using assms(3) index_by_id_fails [of "[]" "filter is_token objects"] index_by_id_err [OF Inl]
    unfolding reconcile_unfold by (auto simp: listed_ids_def)
next
  case (Inr by_id)
  let ?ids = "set (listed_ids objects)" and ?t = "token_object_handles c"
  define gone where "gone = map fst (filter (\<lambda>(h, uid). map_of by_id uid = None) ?t)"
  define c1 where "c1 = fold remove_object_handle gone c"
  define new where "new = sort (filter (\<lambda>uid. uid \<notin> set (map snd (token_object_handles c1))) (map_keys by_id))"
  have keys: "map_keys by_id = listed_ids objects"
    using index_by_id_ok [OF Inr] by (simp add: listed_ids_def comp_def)
  have dist: "distinct (listed_ids objects)"
    using index_by_id_fails [of "[]" "filter is_token objects"] Inr by (auto simp: listed_ids_def)
  have known: "map_of by_id uid = None \<longleftrightarrow> uid \<notin> ?ids" for uid
    by (metis keys map_of_eq_None_iff list.set_map)
  have t1: "token_object_handles c1 = filter (\<lambda>(h, uid). uid \<in> ?ids) ?t" and m1: "memory_objects c1 = memory_objects c"
    using gone_handles [OF assms(1) gone_def] by (simp_all add: c1_def known)
  have h1: "handles c1 = handles c" by (simp add: c1_def fold_remove_simps)
  have inv1: "slot_inv c1"
    using inv_remove_all [of "{}" c gone] assms(1) by (simp add: c1_def)
  have run: "seach add_token_handle new c1 = (outcome, c')"
    using assms(3) Inr unfolding reconcile_unfold by (simp add: gone_def c1_def new_def Let_def)
  show ?thesis
  proof (cases outcome)
    case (Inl e)
    with run seach_add_err show ?thesis by fastforce
  next
    case ok: (Inr u)
    with run obtain hs where hs: "length hs = length new" "token_object_handles c' = token_object_handles c1 @ zip hs new"
      "memory_objects c' = memory_objects c" "\<forall>h \<in> set hs. \<not> issued (next_object (handles c)) h"
      using seach_add_token_handle [of new c1 c' "{}"] inv1 m1 h1 by auto
    have new: "set new = ?ids - snd ` set (token_object_handles c1)" "distinct new"
      using dist by (auto simp: new_def keys)
    have snds: "map snd (token_object_handles c') = map snd (token_object_handles c1) @ new"
      by (simp add: hs)
    have kept: "set (map snd (token_object_handles c1)) \<subseteq> ?ids" by (auto simp: t1)
    have d1: "distinct (map snd (token_object_handles c1))"
      unfolding t1 by (rule distinct_map_filter [OF assms(2)])
    have "h \<notin> live c'" if "(h, uid) \<in> set ?t" "uid \<notin> ?ids" for h uid
    proof -
      note tab = inv_tables [of "{}" c, unfolded inv_with_empty, OF assms(1)]
      have "issued (next_object (handles c)) h" using that(1) by (intro tab(5)) (force simp: live_def)
      then have "h \<notin> set hs" using hs(4) by blast
      moreover have "h \<notin> fst ` set (token_object_handles c1)"
      proof
        assume "h \<in> fst ` set (token_object_handles c1)"
        then obtain uid' where "(h, uid') \<in> set ?t" "uid' \<in> ?ids" by (force simp: t1)
        with eq_key_imp_eq_value [OF tab(2) that(1)] that(2) show False by blast
      qed
      moreover have "h \<notin> fst ` set (memory_objects c)" using tab(3) that(1) by force
      ultimately show ?thesis by (auto simp: live_def hs dest: set_zip_leftD)
    qed
    moreover have "(h, uid) \<in> set ?t \<or> \<not> issued (next_object (handles c)) h"
      if "(h, uid) \<in> set (token_object_handles c')" for h uid
      using that hs(4) by (auto simp: hs(2) t1 dest: set_zip_leftD)
    moreover have "(h, uid) \<in> set (token_object_handles c')" if "(h, uid) \<in> set ?t" "uid \<in> ?ids" for h uid
      using that by (simp add: hs(2) t1)
    ultimately show ?thesis
      using ok new kept d1 hs(3) unfolding snds by auto
  qed
qed

text \<open>A slot with two token objects, one of which the token no longer reports while it reports a
  new one.\<close>

definition plain_object :: "string \<Rightarrow> bool \<Rightarrow> bool \<Rightarrow> 'x token_object" where
  "plain_object uid tok priv =
     \<lparr>obj_slot_id = None, unique_id = uid, obj_class = CKO_DATA, obj_key_type = 0, obj_label = [], obj_id = [],
      is_token = tok, is_private = priv, may_encrypt = False, may_decrypt = False, may_sign = False,
      may_verify = False, may_derive = False, may_wrap = False, may_unwrap = False, may_encapsulate = False,
      may_decapsulate = False, sensitive = False, extractable = False, always_sensitive = False,
      never_extractable = False, obj_local = False, key_gen_mechanism = None, allowed_mechanisms = None,
      wrap_with_trusted = False,
      policy_templates = \<lparr>policy_wrap = None, policy_unwrap = None, policy_derive = None\<rparr>,
      creator_session = None, obj_public_key = None, rp_id = None, material = NoMaterial\<rparr>"

definition no_storage :: "'b storage_ops" where
  "no_storage =
     \<lparr>supports_mutation = \<lambda>_. False, st_list = \<lambda>_. Inl Unavailable, st_get = \<lambda>_ _. Inl Unavailable,
      st_put = \<lambda>_ b. (Inl Unavailable, b), st_delete = \<lambda>_ b. (Inl Unavailable, b)\<rparr>"

definition two_object_slot :: "(unit, unit) slot_context" where
  "two_object_slot =
     \<lparr>backend = (), ctx_slot_id = 7, handles = \<lparr>next_object = 3, next_session = 1\<rparr>, token_storage = no_storage,
      sessions = [], recorded_role = None, memory_objects = [],
      token_object_handles = [(1, ''a''), (2, ''b'')], backed_token_objects = [],
      backed_object_references = [], backed_object_handles = []\<rparr>"

theorem reconcile_exact_witness:
  "\<exists>c'. reconcile_slot_token_objects 7 [plain_object ''b'' True False, plain_object ''c'' True False] two_object_slot
          = (Inr (), c') \<and>
    set (map snd (token_object_handles c')) = {''b'', ''c''} \<and> (2, ''b'') \<in> set (token_object_handles c') \<and>
    1 \<notin> live c'"
proof -
  let ?objs = "[plain_object ''b'' True False, plain_object ''c'' True False] :: unit token_object list"
  have inv: "slot_inv two_object_slot"
    by (simp add: two_object_slot_def slot_inv_def parts live_def issued_def)
  have ids: "listed_ids ?objs = [''b'', ''c'']" by (simp add: listed_ids_def plain_object_def)
  obtain outcome c' where run: "reconcile_slot_token_objects 7 ?objs two_object_slot = (outcome, c')"
    by fastforce
  have "fst (reconcile_slot_token_objects (ctx_slot_id two_object_slot) ?objs two_object_slot) = Inr ()"
    unfolding reconcile_unfold
    by (simp add: plain_object_def two_object_slot_def remove_object_handle_def add_token_handle_def sthen_def
        sbind_def on_handles_def allocate_object_def allocate_handle_def smod_def sok_def Let_def)
  with run have ok: "outcome = Inr ()" by (simp add: two_object_slot_def)
  show ?thesis
    using reconcile_exact [of two_object_slot ?objs outcome c'] inv run ok ids
    by (auto simp: two_object_slot_def)
qed
end
