(* ===== verification/Slot_Frame.thy ===== *)
theory Slot_Frame
  imports Slot_Invariant
begin

text \<open>
  What the operations of the slot state leave alone: the slot, the sessions that are open and their flags
  (\<open>session_view\<close>), and, for the operations on objects, the recorded login role.
\<close>

definition session_view :: "('b, 'x) slot_context \<Rightarrow> slot_id \<times> (handle \<times> ck_flags) list" where
  "session_view c = (ctx_slot_id c, map (\<lambda>(h, s). (h, session_flags s)) (sessions c))"

abbreviation (input) viewing :: "slot_id \<times> (handle \<times> ck_flags) list \<Rightarrow> ('b, 'x) slot_context \<Rightarrow> bool" where
  "viewing v c \<equiv> session_view c = v"

abbreviation (input) in_role :: "login_role option \<Rightarrow> ('b, 'x) slot_context \<Rightarrow> bool" where
  "in_role r c \<equiv> recorded_role c = r"

section \<open>Updates\<close>

lemma view_update [simp]:
  "session_view (c\<lparr>backend := b\<rparr>) = session_view c" "session_view (c\<lparr>handles := hs\<rparr>) = session_view c"
  "session_view (c\<lparr>backed_object_references := R\<rparr>) = session_view c"
  "session_view (c\<lparr>backed_object_handles := B\<rparr>) = session_view c"
  "session_view (c\<lparr>backed_token_objects := K\<rparr>) = session_view c"
  "session_view (c\<lparr>recorded_role := r\<rparr>) = session_view c"
  "session_view (c\<lparr>memory_objects := M\<rparr>) = session_view c"
  "session_view (c\<lparr>token_object_handles := T\<rparr>) = session_view c"
  by (simp_all add: session_view_def)

lemma view_map_sessions:
  "(\<And>s. session_flags (f s) = session_flags s) \<Longrightarrow>
   session_view (c\<lparr>sessions := map (\<lambda>(k, s). (k, f s)) (sessions c)\<rparr>) = session_view c"
  by (simp add: session_view_def case_prod_unfold)

lemma view_remove [simp]:
  "session_view (remove_object_handle h c) = session_view c"
  "recorded_role (remove_object_handle h c) = recorded_role c"
  by (simp_all add: session_view_def case_prod_unfold)

lemma view_remove_all [simp]:
  "session_view (fold remove_object_handle hs c) = session_view c"
  "recorded_role (fold remove_object_handle hs c) = recorded_role c"
  by (induction hs arbitrary: c) simp_all

lemma view_update_flags:
  "map_of ss h = Some s \<Longrightarrow> session_flags s' = session_flags s \<Longrightarrow>
   map (\<lambda>(h, s). (h, session_flags s)) (AList.update h s' ss) = map (\<lambda>(h, s). (h, session_flags s)) ss"
  by (induction ss) auto

lemma view_update_session [simp]:
  "(\<And>s. session_flags (f s) = session_flags s) \<Longrightarrow> session_view (update_session h f c) = session_view c"
  "recorded_role (update_session h f c) = recorded_role c"
  by (auto simp: update_session_def session_view_def view_update_flags split: option.splits)

lemma view_login_state [simp]:
  "session_view (set_login_role_state r c) = session_view c"
  "session_view (clear_login_state sid c) = session_view c"
  "session_view (reconcile_login_state ops sid c) = session_view c"
  by (simp_all add: set_login_role_state_def clear_login_state_def reconcile_login_state_def session_view_def
      Let_def case_prod_unfold)

lemma view_record_backed [simp]:
  "session_view (record_backed_objects objects c) = session_view c"
  "recorded_role (record_backed_objects objects c) = recorded_role c"
  by (simp_all add: record_backed_objects_def Let_def)

section \<open>Operations\<close>

lemma frame_backend [keeps_intros]:
  "keeps (viewing v) (on_backend m)" "keeps (in_role r) (on_backend m)"
  "keeps (viewing v) (on_handles n)" "keeps (in_role r) (on_handles n)"
  by (simp_all add: keeps_def on_backend_def on_handles_def split: prod.splits)

lemma frame_smod [keeps_intros]:
  "keeps (viewing v) (smod (\<lambda>c. c\<lparr>backend := f1 c\<rparr>))" "keeps (in_role r) (smod (\<lambda>c. c\<lparr>backend := f1 c\<rparr>))"
  "keeps (viewing v) (smod (\<lambda>c. c\<lparr>backed_object_handles := f2 c\<rparr>))"
  "keeps (in_role r) (smod (\<lambda>c. c\<lparr>backed_object_handles := f2 c\<rparr>))"
  "keeps (viewing v) (smod (\<lambda>c. c\<lparr>backed_object_references := f3 c\<rparr>))"
  "keeps (in_role r) (smod (\<lambda>c. c\<lparr>backed_object_references := f3 c\<rparr>))"
  "keeps (viewing v) (smod (\<lambda>c. c\<lparr>memory_objects := f4 c\<rparr>))"
  "keeps (in_role r) (smod (\<lambda>c. c\<lparr>memory_objects := f4 c\<rparr>))"
  "keeps (viewing v) (smod (\<lambda>c. c\<lparr>token_object_handles := f5 c\<rparr>))"
  "keeps (in_role r) (smod (\<lambda>c. c\<lparr>token_object_handles := f5 c\<rparr>))"
  "keeps (viewing v) (smod (\<lambda>c. if b c then c\<lparr>backed_object_references := f6 c\<rparr> else c))"
  "keeps (in_role r) (smod (\<lambda>c. if b c then c\<lparr>backed_object_references := f6 c\<rparr> else c))"
  "keeps (viewing v) (smod (\<lambda>c. if b c then c\<lparr>backend := f7 c\<rparr> else c))"
  "keeps (in_role r) (smod (\<lambda>c. if b c then c\<lparr>backend := f7 c\<rparr> else c))"
  "keeps (viewing v) (smod (remove_object_handle h))" "keeps (in_role r) (smod (remove_object_handle h))"
  "keeps (viewing v) (smod (\<lambda>c. fold remove_object_handle (g c) c))"
  "keeps (in_role r) (smod (\<lambda>c. fold remove_object_handle (g c) c))"
  "keeps (viewing v) (smod (record_backed_objects stored))" "keeps (in_role r) (smod (record_backed_objects stored))"
  "keeps (viewing v) (smod (set_login_role_state role))"
  "keeps (viewing v) (smod (clear_login_state sid))"
  "keeps (viewing v) (smod (reconcile_login_state ops sid))"
  by (rule keeps_smod, simp)+

lemma keeps_test [keeps_intros]: "keeps P (\<lambda>c. (t c, c))"
  by (simp add: keeps_def)

lemma frame_rebind [keeps_intros]: "keeps (viewing v) (rebind p)" "keeps (in_role r) (rebind p)"
  by (auto simp: keeps_def rebind_def split: prod.splits option.splits)

lemma keeps_read_seach: "(\<And>xs. keeps P (seach f xs)) \<Longrightarrow> keeps P (\<lambda>c. seach f (g c) c)"
  by (simp add: keeps_def)

lemma keeps_read_option:
  "(\<And>a c0. keeps P (f a c0)) \<Longrightarrow> keeps P (\<lambda>c. case g c of None \<Rightarrow> (x, c) | Some a \<Rightarrow> f a c c)"
  by (auto simp: keeps_def split: option.splits)

lemma keeps_read_if: "keeps P m \<Longrightarrow> keeps P (\<lambda>c. (if Q c then m else sok ()) c)"
  by (simp add: keeps_def sok_def)

lemma frame_reconcile [keeps_intros]:
  "keeps (viewing v) (reconcile_with_rebindings sid objects rebindings)"
  "keeps (in_role r) (reconcile_with_rebindings sid objects rebindings)"
  unfolding reconcile_with_rebindings_def add_token_handle_def
  by (intro keeps_intros keeps_read_seach)+

lemma frame_refresh [keeps_intros]:
  "keeps (viewing v) (refresh_with_rebindings ops cod sid rebindings)"
  "keeps (in_role r) (refresh_with_rebindings ops cod sid rebindings)"
  "keeps (viewing v) (refresh_slot_token_objects ops cod sid)"
  "keeps (in_role r) (refresh_slot_token_objects ops cod sid)"
  "keeps (viewing v) (reconcile_slot_token_objects sid objects)"
  "keeps (in_role r) (reconcile_slot_token_objects sid objects)"
  unfolding refresh_slot_token_objects_def refresh_with_rebindings_def reconcile_slot_token_objects_def
  by (intro keeps_intros)+

lemma frame_refresh_own [keeps_intros]:
  "keeps (viewing v) (\<lambda>c. refresh_slot_token_objects ops cod (ctx_slot_id c) c)"
  "keeps (in_role r) (\<lambda>c. refresh_slot_token_objects ops cod (ctx_slot_id c) c)"
  by (rule keeps_read, rule frame_refresh)+

lemma frame_resolve [keeps_intros]:
  "keeps (viewing v) (resolve_object ops h)" "keeps (in_role r) (resolve_object ops h)"
  "keeps (viewing v) (resolved_objects ops)" "keeps (in_role r) (resolved_objects ops)"
proof -
  show "keeps (viewing v) (resolve_object ops h)" "keeps (in_role r) (resolve_object ops h)"
    by (auto simp: keeps_def resolve_object_def on_backend_def split: option.splits prod.splits)
  show "keeps (viewing v) (resolved_objects ops)" "keeps (in_role r) (resolved_objects ops)"
    unfolding resolved_objects_def Let_def by (rule keeps_read, intro keeps_intros)+
qed

lemma frame_insert [keeps_intros]:
  "keeps (viewing v) (insert_object obj)" "keeps (in_role r) (insert_object obj)"
  unfolding insert_object_def by (intro keeps_intros)+

lemma frame_insert_session_objects [keeps_intros]:
  "keeps (viewing v) (insert_session_objects ops sid session)"
  "keeps (in_role r) (insert_session_objects ops sid session)"
proof -
  have "keeps (viewing v) (insert_new_session_objects sid session objs) \<and>
      keeps (in_role r) (insert_new_session_objects sid session objs)" for objs
  proof (induction objs)
    case (Cons obj objs)
    show ?case
      unfolding insert_new_session_objects.simps
      by (rule conjI; rule keeps_read, intro keeps_intros conjunct1 [OF Cons] conjunct2 [OF Cons])
  qed (simp add: keeps_intros)
  then show "keeps (viewing v) (insert_session_objects ops sid session)"
    "keeps (in_role r) (insert_session_objects ops sid session)"
    unfolding insert_session_objects_def by (intro keeps_intros; blast)+
qed

lemma frame_storage [keeps_intros]:
  "keeps (viewing v) (put_in_token ops cod obj)" "keeps (in_role r) (put_in_token ops cod obj)"
  "keeps (viewing v) (delete_from_token ops ref)" "keeps (in_role r) (delete_from_token ops ref)"
  "keeps (viewing v) (put_in_session cod session obj)" "keeps (in_role r) (put_in_session cod session obj)"
  "keeps (viewing v) (delete_from_session creator ref)" "keeps (in_role r) (delete_from_session creator ref)"
proof -
  show "keeps (viewing v) (put_in_token ops cod obj)" "keeps (in_role r) (put_in_token ops cod obj)"
    "keeps (viewing v) (delete_from_token ops ref)" "keeps (in_role r) (delete_from_token ops ref)"
    unfolding put_in_token_def delete_from_token_def Let_def by (rule keeps_read, intro keeps_intros)+
  show "keeps (viewing v) (put_in_session cod session obj)" "keeps (in_role r) (put_in_session cod session obj)"
    "keeps (viewing v) (delete_from_session creator ref)" "keeps (in_role r) (delete_from_session creator ref)"
    by (auto simp: keeps_def put_in_session_def delete_from_session_def split: sum.splits prod.splits option.splits)
qed

lemma frame_store [keeps_intros]:
  "keeps (viewing v) (store_backed_object ops cod session obj)"
  "keeps (in_role r) (store_backed_object ops cod session obj)"
proof -
  have "keeps (viewing v) (\<lambda>c. insert_object (set_creator session (ctx_slot_id c) obj) c)"
    "keeps (in_role r) (\<lambda>c. insert_object (set_creator session (ctx_slot_id c) obj) c)"
    by (rule keeps_read, intro keeps_intros)+
  then show "keeps (viewing v) (store_backed_object ops cod session obj)"
    "keeps (in_role r) (store_backed_object ops cod session obj)"
    unfolding store_backed_object_def Let_def by (intro keeps_intros; blast)+
qed

lemma frame_destroy [keeps_intros]:
  "keeps (viewing v) (destroy_backed_object ops cod h obj)" "keeps (in_role r) (destroy_backed_object ops cod h obj)"
  unfolding destroy_backed_object_def by (rule keeps_read_option, intro keeps_intros)+

lemma frame_replace [keeps_intros]:
  "keeps (viewing v) (replace_backed_object ops cod h previous replacement)"
  "keeps (in_role r) (replace_backed_object ops cod h previous replacement)"
proof -
  have rec: "keeps (viewing v) (\<lambda>c. sbind (on_backend (token_objects ops (ctx_slot_id c))) (\<lambda>objects.
        sbind (stored_token_objects ops cod) (\<lambda>stored. sthen (smod (record_backed_objects stored))
        (reconcile_with_rebindings (ctx_slot_id c) (objects @ map snd stored) rb))) c)"
      "keeps (in_role r) (\<lambda>c. sbind (on_backend (token_objects ops (ctx_slot_id c))) (\<lambda>objects.
        sbind (stored_token_objects ops cod) (\<lambda>stored. sthen (smod (record_backed_objects stored))
        (reconcile_with_rebindings (ctx_slot_id c) (objects @ map snd stored) rb))) c)" for rb
    by (rule keeps_read, intro keeps_intros)+
  show "keeps (viewing v) (replace_backed_object ops cod h previous replacement)"
    unfolding replace_backed_object_def Let_def by (rule keeps_read_option, intro keeps_intros keeps_read_if rec)
  show "keeps (in_role r) (replace_backed_object ops cod h previous replacement)"
    unfolding replace_backed_object_def Let_def by (rule keeps_read_option, intro keeps_intros keeps_read_if rec)
qed

lemma frame_logout_slot [keeps_intros]: "keeps (viewing v) (logout_slot ops cod sid)"
  unfolding logout_slot_def by (intro keeps_intros keeps_read_if)

lemma frame_init_token [keeps_intros]: "keeps (viewing v) (init_token ops cod so_pin label)"
  unfolding init_token_def by (intro keeps_intros)

end
