(* ===== verification/Session_Api.thy ===== *)
theory Session_Api
  imports Slot_Reconcile Ffi
begin

text \<open>
  The session functions of Cryptoki on one slot (src/src/api/session.rs): opening and closing
  sessions, logging in and out, changing PINs, cancelling operations.  The process-wide registry that
  finds the slot of a session is not modelled: every function starts from the slot it runs on.  The further backend methods these functions call are
  again a record of functions; \<open>delete_session_object\<close> is the YubiHSM command of that name sent
  through the backend session.
\<close>

record ('b, 'x) auth_ops =
  slot_flags :: "'b \<Rightarrow> ck_flags"
  backend_session_is_active :: "'b \<Rightarrow> bool"
  refresh_token_objects_after_login :: "'b \<Rightarrow> bool"
  supports_login_user :: "'b \<Rightarrow> bool"
  login_user_uses_token_objects :: "bytes \<Rightarrow> 'b \<Rightarrow> bool"
  has_ccid_login_connector :: "'b \<Rightarrow> bool"
  secure_channel_required :: "'b \<Rightarrow> bool"
  prepare_secure_channel_login :: "bytes \<Rightarrow> ('b, unit) comp"
  finish_secure_channel_login :: "bool \<Rightarrow> 'b \<Rightarrow> 'b"
  clear_secure_channel :: "'b \<Rightarrow> 'b"
  backend_login :: "bytes option \<Rightarrow> ('b, unit) comp"
  backend_login_so :: "bytes option \<Rightarrow> ('b, unit) comp"
  backend_login_user :: "slot_id \<Rightarrow> bytes \<Rightarrow> bytes option \<Rightarrow> 'x token_object list \<Rightarrow> ('b, unit) comp"
  backend_set_pin :: "bytes \<Rightarrow> bytes \<Rightarrow> ('b, unit) comp"
  backend_set_so_pin :: "bytes \<Rightarrow> bytes \<Rightarrow> ('b, unit) comp"
  init_user_pin :: "bytes \<Rightarrow> ('b, unit) comp"
  login_context_specific :: "bytes \<Rightarrow> bool \<Rightarrow> string option \<Rightarrow> ('b, 'x option) comp"
  backend_refresh :: "('b, unit) comp"
  backend_open_session :: "slot_id \<Rightarrow> ck_flags \<Rightarrow> 'b \<Rightarrow> 'b"
  backend_get_session_info :: "slot_id \<Rightarrow> ck_flags \<Rightarrow> ('b, unit) comp"
  delete_session_object :: "slot_id \<Rightarrow> ck_flags \<Rightarrow> u64 \<Rightarrow> ('b, unit) comp"
  authenticated_credential_description :: "('b, bytes) comp"

definition get_session :: "handle \<Rightarrow> ('b, 'x, 'x session_context) slot_comp" where
  "get_session session = (\<lambda>c. (get_session_context session c, c))"

section \<open>Descriptions\<close>

text \<open>The text written to the caller's buffer and the length reported; a null buffer asks for the
  length only.\<close>

definition write_description ::
  "bytes \<Rightarrow> bool \<Rightarrow> ck_ulong \<Rightarrow> unit result \<times> bytes option \<times> ck_ulong" where
  "write_description text buffer_is_null capacity =
     (if CK_ULONG_MAX < length text then (Inl (Generic CKR_DEVICE_ERROR), None, capacity)
      else if buffer_is_null then (Inr (), None, of_nat (length text))
      else if unat capacity < length text
        then (Inl (Generic CKR_BUFFER_TOO_SMALL), None, of_nat (length text))
      else (Inr (), Some text, of_nat (length text)))"

definition get_authenticated_credential :: "('b, 'x) auth_ops \<Rightarrow> handle \<Rightarrow> ('b, 'x, bytes) slot_comp" where
  "get_authenticated_credential auth session =
     sthen (get_session session)
     (sbind (sattempt (on_backend (authenticated_credential_description auth))) (\<lambda>r.
      case r of
        Inl (Generic rv) \<Rightarrow>
          if rv = CKR_FUNCTION_NOT_SUPPORTED \<or> rv = CKR_USER_NOT_LOGGED_IN
          then sok (map of_char ''none'') else sfail (Generic rv)
      | _ \<Rightarrow> slift r))"

section \<open>Cancelling operations\<close>

definition session_cancel :: "handle \<Rightarrow> ck_flags \<Rightarrow> ('b, 'x, unit) slot_comp" where
  "session_cancel session flags =
     sthen (get_session session) (smod (update_session session (cancel_operations flags)))"

section \<open>PINs and initialisation\<close>

definition api_init_token ::
  "('b, 'x) slot_ops \<Rightarrow> ('b, 'x) backing_ops \<Rightarrow> bytes raw_ptr \<Rightarrow> nat \<Rightarrow> bytes raw_ptr \<Rightarrow> ('b, 'x, unit) slot_comp" where
  "api_init_token ops cod pin pin_len label =
     sbind (slift (from_raw_parts 1 label 32)) (\<lambda>label.
     sthen (sensure (utf8_valid label) (Generic CKR_ARGUMENTS_BAD))
     (sthen (sensure (length label = 32) (Generic CKR_ARGUMENTS_BAD))
     (with_pin pin pin_len (\<lambda>pin. init_token ops cod pin label))))"

definition init_pin ::
  "('b, 'x) slot_ops \<Rightarrow> ('b, 'x) auth_ops \<Rightarrow> handle \<Rightarrow> bytes raw_ptr \<Rightarrow> nat \<Rightarrow> ('b, 'x, unit) slot_comp" where
  "init_pin ops auth session pin pin_len =
     sbind (session_details ops session) (\<lambda>(sid, flags, _).
     sthen (sensure (flags AND CKF_RW_SESSION \<noteq> 0) (Generic CKR_SESSION_READ_ONLY))
     (sthen (smod (reconcile_login_state ops sid))
     (sbind (sget (login_role_of ops sid)) (\<lambda>role.
      sthen (sensure (role = Some SoRole) (Generic CKR_USER_NOT_LOGGED_IN))
      (with_pin pin pin_len (\<lambda>pin.
         sthen (require_slot_id sid) (on_backend (init_user_pin auth pin))))))))"

definition set_pin ::
  "('b, 'x) slot_ops \<Rightarrow> ('b, 'x) auth_ops \<Rightarrow> handle \<Rightarrow> bytes raw_ptr \<Rightarrow> nat \<Rightarrow> bytes raw_ptr \<Rightarrow> nat
   \<Rightarrow> ('b, 'x, unit) slot_comp" where
  "set_pin ops auth session old_pin old_len new_pin new_len =
     sbind (session_details ops session) (\<lambda>(sid, flags, _).
     sthen (sensure (flags AND CKF_RW_SESSION \<noteq> 0) (Generic CKR_SESSION_READ_ONLY))
     (with_pin old_pin old_len (\<lambda>old_pin.
      with_pin new_pin new_len (\<lambda>new_pin.
        sthen (smod (reconcile_login_state ops sid))
        (sbind (sget (login_role_of ops sid)) (\<lambda>role.
         sthen (if role = None then require_slot_id sid else sok ())
         (sbind (sget (\<lambda>c. has_ccid_login_connector auth (backend c) \<and>
                          secure_channel_required auth (backend c))) (\<lambda>channel_required.
          sthen (sensure (\<not> (role = None \<and> channel_required)) (Generic CKR_USER_NOT_LOGGED_IN))
          (sthen (require_slot_id sid)
          (on_backend (if role = Some SoRole then backend_set_so_pin auth old_pin new_pin
                       else backend_set_pin auth old_pin new_pin)))))))))))"

section \<open>Opening sessions\<close>

text \<open>The part of \<open>open_session_inner\<close> that runs on the slot.\<close>

definition open_session_on_slot ::
  "('b, 'x) slot_ops \<Rightarrow> ('b, 'x) auth_ops \<Rightarrow> slot_id \<Rightarrow> ck_flags \<Rightarrow> bool \<Rightarrow> ('b, 'x, handle) slot_comp" where
  "open_session_on_slot ops auth sid flags refresh =
     sthen (sensure (flags AND CKF_SERIAL_SESSION \<noteq> 0) (Generic CKR_SESSION_PARALLEL_NOT_SUPPORTED))
     (sthen (sensure (flags AND CKF_ASYNC_SESSION = 0) (Generic CKR_SESSION_ASYNC_NOT_SUPPORTED))
     (sthen (smod (reconcile_login_state ops sid))
     (sbind (sget (login_role_of ops sid)) (\<lambda>role.
      sthen (sensure (\<not> (flags AND CKF_RW_SESSION = 0 \<and> role = Some SoRole))
               (Generic CKR_SESSION_READ_WRITE_SO_EXISTS))
      (sthen (if refresh then signore (on_backend (backend_refresh auth)) else sok ())
      (sthen (\<lambda>c. (if slot_flags auth (backend c) AND CKF_TOKEN_PRESENT = 0
                     then Inl (Generic CKR_TOKEN_NOT_PRESENT) else Inr (), c))
      (sbind (on_handles allocate_session) (\<lambda>h.
       sthen (smod (\<lambda>c. c\<lparr>backend := backend_open_session auth sid flags (backend c),
                          sessions := AList.update h (session_context_new sid flags) (sessions c)\<rparr>))
       (sok h)))))))))"

section \<open>Logging in and out\<close>

definition login_with_role ::
  "('b, 'x) slot_ops \<Rightarrow> ('b, 'x) auth_ops \<Rightarrow> ('b, 'x) backing_ops \<Rightarrow> slot_id \<Rightarrow> login_role \<Rightarrow> ('b, unit) comp
   \<Rightarrow> ('b, 'x, unit) slot_comp" where
  "login_with_role ops auth cod sid role authenticate =
     sthen (smod (reconcile_login_state ops sid))
     (sthen (\<lambda>c. (case login_role_of ops sid c of
                     Some active \<Rightarrow>
                       Inl (Generic (if active = role then CKR_USER_ALREADY_LOGGED_IN
                                     else CKR_USER_ANOTHER_ALREADY_LOGGED_IN))
                   | None \<Rightarrow> Inr (), c))
     (sthen (\<lambda>c. (if role = SoRole \<and>
                       (\<exists>(_, s) \<in> set (sessions c). session_slotID s = sid \<and> session_flags s AND CKF_RW_SESSION = 0)
                    then Inl (Generic CKR_SESSION_READ_ONLY_EXISTS) else Inr (), c))
     (sthen (require_slot_id sid)
     (sthen (on_backend authenticate)
     (sthen (require_slot_id sid)
     (sbind (sattempt (on_backend (set_login_role ops (Some role)))) (\<lambda>mirrored.
      case mirrored of
        Inl e \<Rightarrow>
          sthen (require_slot_id sid)
          (sthen (signore (on_backend (logout_role ops role))) (sfail e))
      | Inr _ \<Rightarrow>
          sthen (smod (set_login_role_state (Some role)))
          (sthen (require_slot_id sid)
          (sbind (sget (\<lambda>c. refresh_token_objects_after_login auth (backend c))) (\<lambda>refresh.
           sbind (sattempt (if refresh then refresh_slot_token_objects ops cod sid else sok ())) (\<lambda>refreshed.
           case refreshed of
             Inr _ \<Rightarrow> sok ()
           | Inl e \<Rightarrow>
               sthen (require_slot_id sid)
               (sthen (signore (on_backend (logout_role ops role)))
               (sthen (require_slot_id sid)
               (sthen (signore (on_backend (set_login_role ops None)))
               (sthen (smod (clear_login_state sid)) (sfail e))))))))))))))))"

text \<open>The authentication step of \<open>login\<close>: with a CCID connector the secure channel is prepared
  before and settled after.\<close>

definition authenticate_login :: "('b, 'x) auth_ops \<Rightarrow> login_role \<Rightarrow> bytes option \<Rightarrow> ('b, unit) comp" where
  "authenticate_login auth role pin = (\<lambda>b.
     let connector = has_ccid_login_connector auth b in
     sthen (if connector then prepare_secure_channel_login auth [] else sok ())
     (sbind (sattempt (case role of UserRole \<Rightarrow> backend_login auth pin | SoRole \<Rightarrow> backend_login_so auth pin)) (\<lambda>r.
      sthen (if connector then smod (finish_secure_channel_login auth (is_ok r)) else sok ())
      (slift r))) b)"

definition context_specific_login ::
  "('b, 'x) slot_ops \<Rightarrow> ('b, 'x) auth_ops \<Rightarrow> handle \<Rightarrow> bytes \<Rightarrow> ('b, 'x, unit) slot_comp" where
  "context_specific_login ops auth session pin =
     sbind (get_session session) (\<lambda>s.
     sbind (slift (case (sign_operation s, decrypt_operation s) of
              (Some _, Some _) \<Rightarrow> Inl (Generic CKR_OPERATION_ACTIVE)
            | (Some op, None) \<Rightarrow>
                Inr (sig_slot_id op, sig_context_specific_extended op, sig_context_specific_rp_id op)
            | (None, Some op) \<Rightarrow> Inr (crypt_slot_id op, crypt_context_specific_extended op, None)
            | (None, None) \<Rightarrow> Inl (Generic CKR_OPERATION_NOT_INITIALIZED))) (\<lambda>(sid, extended, rp).
     sthen (smod (reconcile_login_state ops sid))
     (sbind (sget (is_slot_user_logged_in ops sid)) (\<lambda>user.
      sthen (sensure user (Generic CKR_USER_NOT_LOGGED_IN))
      (sthen (require_slot_id sid)
      (sbind (on_backend (login_context_specific auth pin extended rp)) (\<lambda>authorization.
       case authorization of
         None \<Rightarrow> sok ()
       | Some a \<Rightarrow>
           sthen (sensure (sign_operation s \<noteq> None) (Generic CKR_FUNCTION_FAILED))
           (sbind (get_session session) (\<lambda>s.
            case sign_operation s of
              None \<Rightarrow> sfail (Generic CKR_OPERATION_NOT_INITIALIZED)
            | Some op \<Rightarrow>
                sthen (sensure (sig_context_specific_rp_id op = rp) (Generic CKR_OPERATION_NOT_INITIALIZED))
                (smod (update_session session (\<lambda>s. s\<lparr>sign_operation :=
                   Some (op\<lparr>sig_fido_authorization := Some a\<rparr>)\<rparr>))))))))))))"

abbreviation (input) CKU_SO :: ck_ulong where "CKU_SO \<equiv> 0"
abbreviation (input) CKU_USER :: ck_ulong where "CKU_USER \<equiv> 1"
abbreviation (input) CKU_CONTEXT_SPECIFIC :: ck_ulong where "CKU_CONTEXT_SPECIFIC \<equiv> 2"

definition login ::
  "('b, 'x) slot_ops \<Rightarrow> ('b, 'x) auth_ops \<Rightarrow> ('b, 'x) backing_ops \<Rightarrow> handle \<Rightarrow> ck_ulong \<Rightarrow> bytes raw_ptr \<Rightarrow> nat
   \<Rightarrow> ('b, 'x, unit) slot_comp" where
  "login ops auth cod session user_type pin pin_len =
     sbind (get_session session) (\<lambda>s.
     if user_type = CKU_CONTEXT_SPECIFIC
     then with_pin pin pin_len (context_specific_login ops auth session)
     else
       sbind (slift (if user_type = CKU_USER then Inr UserRole
                     else if user_type = CKU_SO then Inr SoRole
                     else Inl (Generic CKR_USER_TYPE_INVALID))) (\<lambda>role.
       with_optional_pin pin pin_len (\<lambda>pin.
         login_with_role ops auth cod (session_slotID s) role (authenticate_login auth role pin))))"

definition login_user ::
  "('b, 'x) slot_ops \<Rightarrow> ('b, 'x) auth_ops \<Rightarrow> ('b, 'x) backing_ops \<Rightarrow> handle \<Rightarrow> ck_ulong \<Rightarrow> bytes raw_ptr \<Rightarrow> nat
   \<Rightarrow> bytes raw_ptr \<Rightarrow> nat \<Rightarrow> ('b, 'x, unit) slot_comp" where
  "login_user ops auth cod session user_type pin pin_len username username_len =
     sbind (get_session session) (\<lambda>s. let sid = session_slotID s in
     sthen (sensure (user_type = CKU_USER) (Generic CKR_USER_TYPE_INVALID))
     (sthen (require_slot_id sid)
     (sbind (sget (\<lambda>c. supports_login_user auth (backend c))) (\<lambda>supported.
      sthen (sensure supported (Generic CKR_FUNCTION_NOT_SUPPORTED))
      (sbind (slift (from_raw_parts 1 username username_len)) (\<lambda>username.
       sthen (sensure (utf8_valid username) (Generic CKR_ARGUMENTS_BAD))
       (sbind (sget (\<lambda>c. login_user_uses_token_objects auth username (backend c))) (\<lambda>with_objects.
        sbind (if with_objects then resolved_objects ops else sok []) (\<lambda>resolved.
        let objects = filter (\<lambda>obj. is_token obj \<and> \<not> is_private obj) (map snd resolved) in
        with_optional_pin pin pin_len (\<lambda>pin.
          login_with_role ops auth cod sid UserRole
            (backend_login_user auth sid username pin objects)))))))))))"

definition logout ::
  "('b, 'x) slot_ops \<Rightarrow> ('b, 'x) auth_ops \<Rightarrow> ('b, 'x) backing_ops \<Rightarrow> handle \<Rightarrow> ('b, 'x, unit) slot_comp" where
  "logout ops auth cod session =
     sbind (get_session session) (\<lambda>s. let sid = session_slotID s in
     sthen (smod (reconcile_login_state ops sid))
     (sbind (sget (is_slot_logged_in ops sid)) (\<lambda>logged_in.
      if \<not> logged_in then
        sthen (require_slot_id sid)
        (sthen (smod (\<lambda>c. if has_ccid_login_connector auth (backend c)
                          then c\<lparr>backend := clear_secure_channel auth (backend c)\<rparr> else c))
        (sfail (Generic CKR_USER_NOT_LOGGED_IN)))
      else logout_slot ops cod sid)))"
section \<open>Session information\<close>

text \<open>The slot id, the state and the flags reported.\<close>

definition get_session_info ::
  "('b, 'x) slot_ops \<Rightarrow> ('b, 'x) auth_ops \<Rightarrow> handle \<Rightarrow> ('b, 'x, slot_id \<times> ck_ulong \<times> ck_flags) slot_comp" where
  "get_session_info ops auth session =
     sbind (get_session session) (\<lambda>s. let sid = session_slotID s; flags = session_flags s in
     sthen (smod (reconcile_login_state ops sid))
     (sbind (sget (is_slot_logged_in ops sid)) (\<lambda>logged_in.
      sthen (if logged_in then sok () else require_slot_id sid)
      (sbind (sget (\<lambda>c. logged_in \<or> backend_session_is_active auth (backend c))) (\<lambda>ask.
       sthen (if ask then
                sbind (get_session session) (\<lambda>s.
                sbind (sattempt (on_backend (backend_get_session_info auth (session_slotID s) (session_flags s)))) (\<lambda>r.
                case r of
                  Inr _ \<Rightarrow> sok ()
                | Inl e \<Rightarrow> sthen (smod (reconcile_login_state ops sid)) (sfail e)))
              else sok ())
       (sthen (smod (reconcile_login_state ops sid))
       (sget (\<lambda>c. (sid, session_state flags (login_role_of ops sid c), flags)))))))))"

section \<open>Closing sessions\<close>

text \<open>Logging out because the last session goes; the login state is cleared even when the backend
  refuses.\<close>

definition final_logout ::
  "('b, 'x) slot_ops \<Rightarrow> ('b, 'x) backing_ops \<Rightarrow> slot_id \<Rightarrow> ('b, 'x, error option) slot_comp" where
  "final_logout ops cod sid =
     sbind (sget (is_slot_logged_in ops sid)) (\<lambda>logged_in.
     if \<not> logged_in then sok None
     else sbind (sattempt (logout_slot ops cod sid)) (\<lambda>r.
       case r of
         Inr _ \<Rightarrow> sok None
       | Inl e \<Rightarrow>
           sthen (smod (clear_login_state sid))
           (sthen (smod (\<lambda>c. c\<lparr>backend := clear_session ops (backend c)\<rparr>))
           (sok (Some e)))))"

definition drop_secure_channel :: "('b, 'x) auth_ops \<Rightarrow> ('b, 'x, unit) slot_comp" where
  "drop_secure_channel auth =
     smod (\<lambda>c. if has_ccid_login_connector auth (backend c)
               then c\<lparr>backend := clear_secure_channel auth (backend c)\<rparr> else c)"

text \<open>Objects of a closed session: those held by a YubiHSM are deleted there, whatever the answer.\<close>

definition release_object :: "('b, 'x) auth_ops \<Rightarrow> 'x session_context \<Rightarrow> handle \<Rightarrow> ('b, 'x, unit) slot_comp" where
  "release_object auth s h =
     sbind (sget (\<lambda>c. map_option material (map_of (memory_objects c) h))) (\<lambda>mat.
     sthen (case mat of
              Some (YubiHsmSessionObject native _) \<Rightarrow>
                signore (on_backend (delete_session_object auth (session_slotID s) (session_flags s) native))
            | _ \<Rightarrow> sok ())
     (smod (remove_object_handle h)))"

text \<open>The part of \<open>close_session\<close> that runs on the slot: it fails when there is no such session;
  otherwise the session is removed and the value is the error of the logout, if any.\<close>

definition close_session_on_slot ::
  "('b, 'x) slot_ops \<Rightarrow> ('b, 'x) auth_ops \<Rightarrow> ('b, 'x) backing_ops \<Rightarrow> handle \<Rightarrow> ('b, 'x, error option) slot_comp" where
  "close_session_on_slot ops auth cod session = (\<lambda>c.
     case map_of (sessions c) session of
       None \<Rightarrow> (Inl (Generic CKR_SESSION_HANDLE_INVALID), c)
     | Some s \<Rightarrow>
         (let sid = session_slotID s;
              is_last = (\<not> (\<exists>(h, other) \<in> set (sessions c). h \<noteq> session \<and> session_slotID other = sid))
          in sthen (smod (reconcile_login_state ops sid))
             (sbind (if is_last then final_logout ops cod sid else sok None) (\<lambda>logout_error.
              sthen (if is_last then drop_secure_channel auth else sok ())
              (sbind (sget (\<lambda>c. map_of (sessions c) session)) (\<lambda>found.
               case found of
                 None \<Rightarrow> sfail (Generic CKR_SESSION_HANDLE_INVALID)
               | Some s \<Rightarrow>
                   sthen (smod (\<lambda>c. c\<lparr>sessions := AList.delete session (sessions c)\<rparr>))
                   (sbind (sget (\<lambda>c. map fst (filter (\<lambda>(_, obj). creator_session obj = Some session)
                                                (memory_objects c)))) (\<lambda>owned.
                    sthen (seach (release_object auth s) owned)
                    (sok logout_error))))))) c))"

text \<open>\<open>C_CloseAllSessions\<close> on the slot: the sessions closed and the error of the logout, if any.\<close>

definition close_all_sessions_on_slot ::
  "('b, 'x) slot_ops \<Rightarrow> ('b, 'x) auth_ops \<Rightarrow> ('b, 'x) backing_ops \<Rightarrow> slot_id
   \<Rightarrow> ('b, 'x, handle list \<times> error option) slot_comp" where
  "close_all_sessions_on_slot ops auth cod sid =
     sbind (sget (\<lambda>c. map fst (filter (\<lambda>(_, s). session_slotID s = sid) (sessions c)))) (\<lambda>closed.
     sthen (smod (reconcile_login_state ops sid))
     (sbind (final_logout ops cod sid) (\<lambda>logout_error.
      sthen (drop_secure_channel auth)
      (sthen (smod (\<lambda>c. c\<lparr>sessions := retain (\<lambda>_ s. session_slotID s \<noteq> sid) (sessions c)\<rparr>))
      (sthen (smod (\<lambda>c. c\<lparr>memory_objects := retain (\<lambda>_ obj.
                case creator_session obj of None \<Rightarrow> True | Some owner \<Rightarrow> owner \<notin> set closed)
                (memory_objects c)\<rparr>))
      (sok (closed, logout_error)))))))"
end
