(* ===== verification/Session_Invariant.thy ===== *)
theory Session_Invariant
  imports Session_Api Slot_Frame
begin

text \<open>
  Every session function keeps the invariant of the slot, and what logging in, logging out and
  closing sessions leave behind.
\<close>

section \<open>Stronger intermediate states\<close>

text \<open>From a state with \<open>R\<close> the computation reaches one with \<open>P\<close>.\<close>

definition into :: "('s \<Rightarrow> bool) \<Rightarrow> ('s \<Rightarrow> bool) \<Rightarrow> ('s, 'a) comp \<Rightarrow> bool" where
  "into R P m \<longleftrightarrow> (\<forall>s. R s \<longrightarrow> P (snd (m s)))"

lemma into_keeps: "into P P m = keeps P m"
  by (simp add: into_def keeps_def)

lemma into_weaken: "keeps P m \<Longrightarrow> (\<And>s. R s \<Longrightarrow> P s) \<Longrightarrow> into R P m"
  by (simp add: into_def keeps_def)

lemma into_sbind:
  "keeps R m \<Longrightarrow> (\<And>s. R s \<Longrightarrow> P s) \<Longrightarrow> (\<And>a. into R P (f a)) \<Longrightarrow> into R P (sbind m f)"
  by (force simp: into_def keeps_def sbind_def split: prod.splits sum.splits)

lemma into_sthen: "keeps R m \<Longrightarrow> (\<And>s. R s \<Longrightarrow> P s) \<Longrightarrow> into R P n \<Longrightarrow> into R P (sthen m n)"
  by (simp add: sthen_def into_sbind)

lemma into_first: "into R P m \<Longrightarrow> keeps P n \<Longrightarrow> into R P (sthen m n)"
  by (force simp: into_def keeps_def sthen_def sbind_def split: prod.splits sum.splits)

lemma into_smod: "(\<And>s. R s \<Longrightarrow> P (f s)) \<Longrightarrow> into R P (smod f)"
  by (simp add: into_def smod_def)

lemma into_case_sum:
  "(\<And>e. r = Inl e \<Longrightarrow> into R P (f e)) \<Longrightarrow> (\<And>a. r = Inr a \<Longrightarrow> into R P (g a)) \<Longrightarrow>
   into R P (case r of Inl e \<Rightarrow> f e | Inr a \<Rightarrow> g a)"
  by (cases r) simp_all

text \<open>A check that does not change the state and whose success gives \<open>R\<close>.\<close>

lemma keeps_gate:
  assumes "\<And>s. P s \<Longrightarrow> t s = Inr () \<Longrightarrow> R s" "into R P n"
  shows "keeps P (sthen (\<lambda>s. (t s, s)) n)"
  using assms by (auto simp: keeps_def into_def sthen_def sbind_def split: sum.splits)

section \<open>The invariant\<close>

lemma keeps_get_session [keeps_intros]: "keeps P (get_session h)"
  by (simp add: keeps_def get_session_def)

lemma keeps_smod_backend [keeps_intros]:
  "keeps (inv_with S) (smod (\<lambda>c. c\<lparr>backend := f c\<rparr>))"
  "keeps (inv_with S) (smod (\<lambda>c. if t c then c\<lparr>backend := g c\<rparr> else c))"
  by (rule keeps_smod, simp)+

lemma keeps_get_authenticated_credential [keeps_intros]:
  "keeps (inv_with S) (get_authenticated_credential auth session)"
  unfolding get_authenticated_credential_def
proof (intro keeps_intros, goal_cases)
  case (1 r)
  then show ?case by (auto intro!: keeps_intros split: sum.splits error.splits)
qed

lemma cancel_operations_simps [simp]:
  "session_slotID (cancel_operations f s) = session_slotID s"
  "session_flags (cancel_operations f s) = session_flags s"
  "find_ok H s \<Longrightarrow> find_ok H (cancel_operations f s)"
  by (simp_all add: cancel_operations_def find_ok_def)

lemma keeps_update_session:
  assumes "\<And>s. session_slotID (f s) = session_slotID s" "\<And>s. session_flags (f s) = session_flags s"
    and "\<And>s H. find_ok H s \<Longrightarrow> find_ok H (f s)"
  shows "keeps (inv_with S) (smod (update_session h f))"
  by (rule keeps_smod, rule inv_update_session) (simp_all add: assms)

lemma keeps_session_cancel [keeps_intros]: "keeps (inv_with S) (session_cancel session flags)"
  unfolding session_cancel_def by (intro keeps_intros keeps_update_session) simp_all

lemma keeps_pins [keeps_intros]:
  "keeps (inv_with S) (api_init_token ops cod pin pin_len label)"
  "keeps (inv_with S) (init_pin ops auth session pin pin_len)"
  "keeps (inv_with S) (set_pin ops auth session pin pin_len new_pin new_len)"
  unfolding api_init_token_def init_pin_def set_pin_def case_prod_unfold by (intro keeps_intros)+

text \<open>While the security officer is about to be logged in, every session is read/write.\<close>

definition all_rw :: "login_role \<Rightarrow> ('b, 'x) slot_context \<Rightarrow> bool" where
  "all_rw role c \<longleftrightarrow>
     (role = SoRole \<longrightarrow> (\<forall>s \<in> snd ` set (sessions c). session_flags s AND CKF_RW_SESSION \<noteq> 0))"

lemma inv_set_role: "inv_with S c \<Longrightarrow> all_rw role c \<Longrightarrow> inv_with S (set_login_role_state (Some role) c)"
  by (simp add: inv_with_def slot_inv_def parts all_rw_def set_login_role_state_def)

lemma keeps_login_with_role [keeps_intros]:
  "keeps (inv_with S) (login_with_role ops auth cod sid role authenticate)"
proof -
  let ?R = "\<lambda>c. inv_with S c \<and> (sid = ctx_slot_id c \<longrightarrow> all_rw role c)"
  let ?T = "\<lambda>c. inv_with S c \<and> all_rw role c"
  have T: "keeps ?T (on_backend m)" "keeps ?T (require_slot_id sid)" for m :: "('a, 'c) comp"
    by (simp_all add: keeps_def on_backend_def require_slot_id_def all_rw_def split: prod.splits)
  have gate: "?R c" if "inv_with S c"
    "(if role = SoRole \<and> (\<exists>(_, s) \<in> set (sessions c). session_slotID s = sid \<and> session_flags s AND CKF_RW_SESSION = 0)
      then Inl (Generic CKR_SESSION_READ_ONLY_EXISTS) else Inr ()) = (Inr () :: unit result)" for c
    using that by (fastforce simp: all_rw_def inv_with_def slot_inv_def sessions_ok_def split: if_splits)
  have slot: "into ?R (inv_with S) (sthen (require_slot_id sid) n)" if "into ?T (inv_with S) n"
    for n :: "('a, 'b, 'c) slot_comp"
    using that by (auto simp: into_def require_slot_id_def sthen_def sbind_def)
  have attempt: "keeps ?T (sattempt (on_backend m))" for m :: "('a, unit) comp"
    by (rule keeps_sattempt) (rule T)
  show ?thesis
    unfolding login_with_role_def
    apply (rule keeps_sthen, rule keeps_intros)
    apply (rule keeps_sthen, rule keeps_test)
    apply (rule keeps_gate [where R = ?R], erule (1) gate)
    apply (rule slot, rule into_sthen, rule T, simp, rule into_sthen, rule T, simp)
    apply (rule into_sbind, rule attempt, simp, rule into_case_sum)
     apply (rule into_weaken, intro keeps_intros, simp)
    apply (rule into_first, rule into_smod, simp add: inv_set_role)
    by (intro keeps_intros)
qed

lemma keeps_context_specific_login [keeps_intros]:
  "keeps (inv_with S) (context_specific_login ops auth session pin)"
  unfolding context_specific_login_def case_prod_unfold
  by (intro keeps_intros keeps_update_session) (simp_all add: find_ok_def)

lemma keeps_login [keeps_intros]:
  "keeps (inv_with S) (login ops auth cod session user_type pin pin_len)"
  "keeps (inv_with S) (login_user ops auth cod session user_type pin pin_len username username_len)"
  "keeps (inv_with S) (logout ops auth cod session)"
  "keeps (inv_with S) (get_session_info ops auth session)"
  unfolding login_def login_user_def logout_def get_session_info_def Let_def by (intro keeps_intros)+

section \<open>Opening and closing\<close>

lemma inv_new_session:
  assumes inv: "inv_with S c" and new: "allocate_handle (next_session (handles c)) = Inr (h, n)"
    and s: "session_slotID s = ctx_slot_id c" "find_operation s = None"
    and role: "recorded_role c = Some SoRole \<Longrightarrow> session_flags s AND CKF_RW_SESSION \<noteq> 0"
  shows "inv_with S (c\<lparr>handles := (handles c)\<lparr>next_session := n\<rparr>, backend := b,
                       sessions := AList.update h s (sessions c)\<rparr>)" (is "inv_with S ?c")
proof -
  have fresh: "h \<notin> fst ` set (sessions c)"
    using inv handles.fresh [OF new] by (auto simp: inv_with_def slot_inv_def tables_ok_def)
  have ss: "sessions ?c = sessions c @ [(h, s)]"
    using fresh by (simp add: keys_update_fresh image_iff)
  have lv: "live ?c = live c" by simp
  have "tables_ok ?c"
    using inv fresh handles.fresh [OF new] handles.exact [OF new]
    unfolding inv_with_def slot_inv_def tables_ok_def lv ss by auto
  moreover have "sessions_ok ?c" "so_ok ?c"
    using inv s role unfolding inv_with_def slot_inv_def sessions_ok_def so_ok_def lv ss
    by (auto simp: find_ok_def)
  moreover have "creators_ok ?c" "S \<subseteq> fst ` set (sessions ?c)"
    using inv unfolding inv_with_def slot_inv_def creators_ok_def ss by auto
  ultimately show ?thesis by (simp add: inv_with_def slot_inv_def)
qed

text \<open>Once the login state is reconciled, the recorded role is the role.\<close>

lemma reconciled_role:
  "recorded_role (reconcile_login_state ops (ctx_slot_id c) c) =
   login_role_of ops (ctx_slot_id c) (reconcile_login_state ops (ctx_slot_id c) c)"
  by (auto simp: reconcile_login_state_def clear_login_state_def login_role_of_def is_slot_logged_in_def
      set_login_role_state_def Let_def)

lemma reconcile_login_simps [simp]:
  "ctx_slot_id (reconcile_login_state ops sid c) = ctx_slot_id c"
  "handles (reconcile_login_state ops sid c) = handles c"
  by (simp_all add: reconcile_login_state_def clear_login_state_def set_login_role_state_def Let_def)

lemma open_session_inv:
  assumes "inv_with S c" "sid = ctx_slot_id c"
  shows "inv_with S (snd (open_session_on_slot ops auth sid flags refresh c))"
proof -
  let ?P = "\<lambda>c. inv_with S c \<and> ctx_slot_id c = sid"
  let ?R = "\<lambda>c. ?P c \<and> recorded_role c = login_role_of ops sid c"
  let ?T = "\<lambda>c. ?P c \<and> (recorded_role c = Some SoRole \<longrightarrow> flags AND CKF_RW_SESSION \<noteq> 0)"
  have backend: "keeps ?T (on_backend m)" for m :: "('a, unit) comp"
    by (simp add: keeps_def on_backend_def split: prod.splits)
  have new: "into ?T ?P (sbind (on_handles allocate_session) (\<lambda>h.
      sthen (smod (\<lambda>c. c\<lparr>backend := backend_open_session auth sid flags (backend c),
                         sessions := AList.update h (session_context_new sid flags) (sessions c)\<rparr>))
      (sok h)))"
    by (auto simp: into_def sbind_def sthen_def smod_def sok_def on_handles_def allocate_session_def
        session_context_new_def intro!: inv_new_session split: sum.splits prod.splits)
  have role: "into ?R ?P (sbind (sget (login_role_of ops sid)) (\<lambda>role.
      sthen (sensure (\<not> (flags AND CKF_RW_SESSION = 0 \<and> role = Some SoRole)) e) n))"
    if "into ?T ?P n" for n :: "('a, 'b, handle) slot_comp" and e
    using that by (auto simp: into_def sbind_def sthen_def sget_def sensure_def sok_def sfail_def)
  have reconcile: "keeps ?P (sthen (smod (reconcile_login_state ops sid)) n)" if n: "into ?R ?P n"
    for n :: "('a, 'b, handle) slot_comp"
  proof (rule keepsI, goal_cases)
    case (1 c)
    then have "?R (reconcile_login_state ops sid c)"
      using reconciled_role [of ops c] by (auto simp: inv_reconcile_login)
    with n have "?P (snd (n (reconcile_login_state ops sid c)))" unfolding into_def by blast
    then show ?case
      by (cases "n (reconcile_login_state ops sid c)")
        (simp add: swp_def sthen_def sbind_def smod_def split: sum.splits)
  qed
  have "keeps ?P (open_session_on_slot ops auth sid flags refresh)"
    unfolding open_session_on_slot_def
    apply (rule keeps_sthen, rule keeps_intros)+
    apply (rule reconcile, rule role, rule into_sthen, intro keeps_intros backend, simp)
    by (rule into_sthen, rule keeps_test, simp, rule new)
  with assms show ?thesis by (simp add: keeps_def)
qed

lemma keeps_final_logout [keeps_intros]:
  "keeps (inv_with S) (final_logout ops cod sid)" "keeps (inv_with S) (drop_secure_channel auth)"
  unfolding final_logout_def drop_secure_channel_def by (intro keeps_intros)+

text \<open>While the objects \<open>hs\<close> of a closed session are being released.\<close>

definition closing :: "handle set \<Rightarrow> ('b, 'x) slot_context \<Rightarrow> bool" where
  "closing hs c \<longleftrightarrow> tables_ok c \<and> sessions_ok c \<and> so_ok c \<and>
     (\<forall>(h, obj) \<in> set (memory_objects c). \<forall>s. creator_session obj = Some s \<longrightarrow>
        h \<in> hs \<or> s \<in> fst ` set (sessions c))"

lemma closing_done: "closing {} c = slot_inv c"
  by (auto simp: closing_def slot_inv_def creators_ok_def)

lemma closing_backend [simp]: "closing hs (c\<lparr>backend := b\<rparr>) = closing hs c"
  by (simp add: closing_def tables_ok_def sessions_ok_def so_ok_def)

lemma closing_remove: "closing hs c \<Longrightarrow> closing (hs - {h}) (remove_object_handle h c)"
proof -
  assume ok: "closing hs c"
  let ?c = "remove_object_handle h c"
  have ss: "snd ` set (sessions ?c) = drop_from_find h ` snd ` set (sessions c)"
    by (simp add: snd_image_map_snd)
  have keys: "fst ` set (sessions ?c) = fst ` set (sessions c)" by simp
  have sub: "set (memory_objects ?c) \<subseteq> set (memory_objects c)"
    "set (token_object_handles ?c) \<subseteq> set (token_object_handles c)"
    by (simp_all add: set_delete_subset)
  have "tables_ok ?c"
    using ok sub unfolding closing_def tables_ok_def live_remove by (auto simp del: map_map)
  moreover have "sessions_ok ?c"
    using ok unfolding closing_def sessions_ok_def ss live_remove by (auto intro: drop_from_find_ok)
  moreover have "so_ok ?c"
    using ok unfolding closing_def so_ok_def ss by auto
  moreover have "\<forall>(k, obj) \<in> set (memory_objects ?c). \<forall>s. creator_session obj = Some s \<longrightarrow>
      k \<in> hs - {h} \<or> s \<in> fst ` set (sessions ?c)"
    using ok unfolding closing_def keys by (auto simp: set_delete)
  ultimately show ?thesis by (simp add: closing_def)
qed

lemma release_object_effect:
  "\<exists>b. release_object auth s h c = (Inr (), remove_object_handle h (c\<lparr>backend := b\<rparr>))"
proof -
  have same: "sthen (sok ()) (smod (remove_object_handle h)) c =
      (Inr (), remove_object_handle h (c\<lparr>backend := backend c\<rparr>))"
    by (simp add: sthen_def smod_def)
  have delete: "\<exists>b. sthen (signore (on_backend m)) (smod (remove_object_handle h)) c =
      (Inr (), remove_object_handle h (c\<lparr>backend := b\<rparr>))" for m :: "('a, unit) comp"
    by (auto simp: sthen_def sbind_def signore_def smod_def on_backend_def split: prod.splits)
  have "release_object auth s h c = sthen (case map_option material (map_of (memory_objects c) h) of
        Some (YubiHsmSessionObject native _) \<Rightarrow>
          signore (on_backend (delete_session_object auth (session_slotID s) (session_flags s) native))
      | _ \<Rightarrow> sok ()) (smod (remove_object_handle h)) c" (is "_ = sthen ?m _ c")
    by (simp add: release_object_def sbind_def sget_def)
  moreover have "?m = sok () \<or> (\<exists>m. ?m = signore (on_backend (m :: ('a, unit) comp)))"
    by (auto split: option.split key_material.split)
  ultimately show ?thesis using same delete by metis
qed

lemma release_objects_inv:
  "closing hs c \<Longrightarrow> hs \<subseteq> set owned \<Longrightarrow>
   slot_inv (snd (seach (release_object auth s) owned c)) \<and> fst (seach (release_object auth s) owned c) = Inr ()"
proof (induction owned arbitrary: c hs)
  case Nil
  then show ?case by (simp add: closing_done sok_def)
next
  case (Cons h owned)
  obtain b where r: "release_object auth s h c = (Inr (), remove_object_handle h (c\<lparr>backend := b\<rparr>))"
    using release_object_effect [of auth s h c] by (elim exE)
  have "closing (hs - {h}) (remove_object_handle h (c\<lparr>backend := b\<rparr>))"
    using Cons.prems(1) by (intro closing_remove) simp
  moreover have "hs - {h} \<subseteq> set owned" using Cons.prems(2) by auto
  ultimately show ?case using Cons.IH by (simp add: sthen_def sbind_def r)
qed

lemma closing_session:
  assumes "inv_with S c"
  shows "closing (fst ` set (filter (\<lambda>(_, obj). creator_session obj = Some session) (memory_objects c)))
    (c\<lparr>sessions := AList.delete session (sessions c)\<rparr>)" (is "closing ?hs ?c")
proof -
  have sub: "set (sessions ?c) \<subseteq> set (sessions c)" by (simp add: set_delete_subset)
  have keys: "fst ` set (sessions ?c) = fst ` set (sessions c) - {session}"
    using set_keys_delete [of session "sessions c"] by simp
  have "tables_ok ?c"
    using assms unfolding inv_with_def slot_inv_def tables_ok_def keys live_frame by auto
  moreover have "sessions_ok ?c" "so_ok ?c"
    using assms sub unfolding inv_with_def slot_inv_def sessions_ok_def so_ok_def live_frame by auto
  moreover have "\<forall>(h, obj) \<in> set (memory_objects ?c). \<forall>s. creator_session obj = Some s \<longrightarrow>
      h \<in> ?hs \<or> s \<in> fst ` set (sessions ?c)"
    using assms unfolding inv_with_def slot_inv_def creators_ok_def keys by force
  ultimately show ?thesis by (simp add: closing_def)
qed

text \<open>The state in which a session is closed, once the login has been looked after.\<close>

definition close_prefix ::
  "('b, 'x) slot_ops \<Rightarrow> ('b, 'x) auth_ops \<Rightarrow> ('b, 'x) backing_ops \<Rightarrow> slot_id \<Rightarrow> bool \<Rightarrow> ('b, 'x, error option) slot_comp" where
  "close_prefix ops auth cod sid is_last =
     sthen (smod (reconcile_login_state ops sid))
     (sbind (if is_last then final_logout ops cod sid else sok None) (\<lambda>logout_error.
      sthen (if is_last then drop_secure_channel auth else sok ()) (sok logout_error)))"

lemma keeps_close_prefix: "keeps (inv_with S) (close_prefix ops auth cod sid is_last)"
  unfolding close_prefix_def by (intro keeps_intros)

lemma final_logout_ok: "\<exists>e c'. final_logout ops cod sid c = (Inr e, c')"
  by (auto simp: final_logout_def sbind_def sthen_def sget_def smod_def sok_def sattempt_def
      split: prod.splits sum.splits)

lemma drop_secure_channel_ok: "\<exists>b. drop_secure_channel auth c = (Inr (), c\<lparr>backend := b\<rparr>)"
proof -
  have "c = c\<lparr>backend := backend c\<rparr>" by simp
  then show ?thesis unfolding drop_secure_channel_def smod_def by (metis (full_types))
qed

lemma sbind_assoc: "sbind (sbind m f) g = sbind m (\<lambda>a. sbind (f a) g)"
  by (auto simp: sbind_def fun_eq_iff split: prod.splits sum.splits)

lemma close_prefix_ok: "\<exists>e c'. close_prefix ops auth cod sid is_last c = (Inr e, c')"
proof -
  obtain e c1 where 1: "final_logout ops cod sid (reconcile_login_state ops sid c) = (Inr e, c1)"
    using final_logout_ok [of ops cod sid "reconcile_login_state ops sid c"] by (elim exE)
  obtain b where 2: "drop_secure_channel auth c1 = (Inr (), c1\<lparr>backend := b\<rparr>)"
    using drop_secure_channel_ok [of auth c1] by (elim exE)
  show ?thesis by (cases is_last) (simp_all add: close_prefix_def sthen_def sbind_def smod_def sok_def 1 2)
qed

text \<open>Closing an open session always succeeds in removing it; the value is the error of the
  logout.\<close>

lemma close_session_on_slot_run:
  assumes inv: "slot_inv c" and s: "map_of (sessions c) session = Some s"
    and prefix: "close_prefix ops auth cod (session_slotID s)
      (\<not> (\<exists>(h, other) \<in> set (sessions c). h \<noteq> session \<and> session_slotID other = session_slotID s)) c = (Inr e, c1)"
  obtains s1 where "map_of (sessions c1) session = Some s1" "slot_inv c1"
    "close_session_on_slot ops auth cod session c =
      (Inr e, snd (seach (release_object auth s1)
        (map fst (filter (\<lambda>(_, obj). creator_session obj = Some session) (memory_objects c1)))
        (c1\<lparr>sessions := AList.delete session (sessions c1)\<rparr>)))"
    "slot_inv (snd (close_session_on_slot ops auth cod session c))"
proof -
  let ?last = "\<not> (\<exists>(h, other) \<in> set (sessions c). h \<noteq> session \<and> session_slotID other = session_slotID s)"
  have "session \<in> fst ` set (sessions c)" using map_of_SomeD [OF s] by force
  then have "inv_with {session} c" using inv by (simp add: inv_with_def)
  with keeps_close_prefix have c1: "inv_with {session} c1"
    using keepsD [of "inv_with {session}" "close_prefix ops auth cod (session_slotID s) ?last" c] prefix
    by fastforce
  then have "session \<in> fst ` set (sessions c1)" by (simp add: inv_with_def)
  then obtain s1 where s1: "map_of (sessions c1) session = Some s1"
    by (metis map_of_eq_None_iff not_Some_eq)
  let ?owned = "map fst (filter (\<lambda>(_, obj). creator_session obj = Some session) (memory_objects c1))"
  let ?c2 = "c1\<lparr>sessions := AList.delete session (sessions c1)\<rparr>"
  have rel: "slot_inv (snd (seach (release_object auth s1) ?owned ?c2))"
    "fst (seach (release_object auth s1) ?owned ?c2) = Inr ()"
    using release_objects_inv [OF closing_session [OF c1, of session], of ?owned auth s1] by auto
  have "close_session_on_slot ops auth cod session c =
      sbind (close_prefix ops auth cod (session_slotID s) ?last) (\<lambda>logout_error.
        sbind (sget (\<lambda>c. map_of (sessions c) session)) (\<lambda>found.
          case found of
            None \<Rightarrow> sfail (Generic CKR_SESSION_HANDLE_INVALID)
          | Some s \<Rightarrow>
              sthen (smod (\<lambda>c. c\<lparr>sessions := AList.delete session (sessions c)\<rparr>))
              (sbind (sget (\<lambda>c. map fst (filter (\<lambda>(_, obj). creator_session obj = Some session)
                                           (memory_objects c)))) (\<lambda>owned.
               sthen (seach (release_object auth s) owned)
               (sok logout_error))))) c"
    by (simp add: close_session_on_slot_def s close_prefix_def sthen_def sbind_assoc Let_def)
  then have run: "close_session_on_slot ops auth cod session c =
      (Inr e, snd (seach (release_object auth s1) ?owned ?c2))"
    using rel(2) prefix s1
    by (cases "seach (release_object auth s1) ?owned ?c2")
      (simp add: sbind_def sthen_def sget_def smod_def sok_def)
  show ?thesis
    using that [OF s1 _ run] c1 rel(1) by (simp add: inv_with_def run)
qed

lemma keeps_close_session: "keeps slot_inv (close_session_on_slot ops auth cod session)"
proof (rule keepsI, goal_cases)
  case (1 c)
  show ?case
  proof (cases "map_of (sessions c) session")
    case None
    with 1 show ?thesis by (simp add: close_session_on_slot_def swp_def)
  next
    case (Some s)
    from close_prefix_ok obtain e c1 where "close_prefix ops auth cod (session_slotID s)
      (\<not> (\<exists>(h, other) \<in> set (sessions c). h \<noteq> session \<and> session_slotID other = session_slotID s)) c = (Inr e, c1)"
      by blast
    from close_session_on_slot_run [OF 1 Some this] show ?thesis
      by (metis (no_types, lifting) snd_conv swpI)
  qed
qed

lemma view_keys_eq: "map fst (snd (session_view c)) = map_keys (sessions c)"
  by (simp add: session_view_def case_prod_unfold)

lemma view_keys: "session_view c = session_view c' \<Longrightarrow> map_keys (sessions c) = map_keys (sessions c')"
  by (metis view_keys_eq)

lemma view_slot: "session_view c = session_view c' \<Longrightarrow> ctx_slot_id c = ctx_slot_id c'"
  by (simp add: session_view_def)

lemma frame_final_logout [keeps_intros]:
  "keeps (viewing v) (final_logout ops cod sid)" "keeps (viewing v) (drop_secure_channel auth)"
  "keeps (viewing v) (close_prefix ops auth cod sid is_last)"
  unfolding final_logout_def drop_secure_channel_def close_prefix_def by (intro keeps_intros)+

lemma close_all_run:
  assumes "close_prefix ops auth cod sid True c = (Inr e, c1)"
    and "closed = map fst (filter (\<lambda>(_, s). session_slotID s = sid) (sessions c))"
  shows "close_all_sessions_on_slot ops auth cod sid c =
    (Inr (closed, e), c1\<lparr>sessions := retain (\<lambda>_ s. session_slotID s \<noteq> sid) (sessions c1),
       memory_objects := retain (\<lambda>_ obj. case creator_session obj of None \<Rightarrow> True | Some owner \<Rightarrow> owner \<notin> set closed)
         (memory_objects c1)\<rparr>)"
proof -
  have "close_all_sessions_on_slot ops auth cod sid c =
    sbind (close_prefix ops auth cod sid True) (\<lambda>logout_error.
      sthen (smod (\<lambda>c. c\<lparr>sessions := retain (\<lambda>_ s. session_slotID s \<noteq> sid) (sessions c)\<rparr>))
      (sthen (smod (\<lambda>c. c\<lparr>memory_objects := retain (\<lambda>_ obj.
                case creator_session obj of None \<Rightarrow> True | Some owner \<Rightarrow> owner \<notin> set closed)
                (memory_objects c)\<rparr>))
      (sok (closed, logout_error)))) c"
    unfolding close_all_sessions_on_slot_def close_prefix_def assms(2)
    by (simp add: sthen_def sbind_assoc) (simp add: sbind_def sget_def)
  then show ?thesis
    by (simp add: sbind_def sthen_def smod_def sok_def assms(1))
qed

lemma keeps_close_all: "keeps slot_inv (close_all_sessions_on_slot ops auth cod sid)"
proof (rule keepsI, goal_cases)
  case (1 c)
  obtain e c1 where p: "close_prefix ops auth cod sid True c = (Inr e, c1)"
    using close_prefix_ok by blast
  let ?closed = "map fst (filter (\<lambda>(_, s). session_slotID s = sid) (sessions c))"
  have inv: "slot_inv c1"
    using keepsD [OF keeps_close_prefix [of "{}", unfolded inv_with_empty] 1, of ops auth cod sid True] p by simp
  have "session_view (snd (close_prefix ops auth cod sid True c)) = session_view c"
    by (rule keepsD [OF frame_final_logout(3)]) simp
  then have view: "session_view c1 = session_view c" by (simp add: p)
  let ?c2 = "c1\<lparr>sessions := retain (\<lambda>_ s. session_slotID s \<noteq> sid) (sessions c1),
       memory_objects := retain (\<lambda>_ obj. case creator_session obj of None \<Rightarrow> True | Some owner \<Rightarrow> owner \<notin> set ?closed)
         (memory_objects c1)\<rparr>"
  have "slot_inv ?c2"
  proof (cases "sid = ctx_slot_id c")
    case True
    have ids: "\<forall>s \<in> snd ` set (sessions c). session_slotID s = sid"
      "\<forall>s \<in> snd ` set (sessions c1). session_slotID s = sid"
      using 1 inv True view_slot [OF view] by (simp_all add: slot_inv_def sessions_ok_def)
    then have closed: "set ?closed = fst ` set (sessions c1)"
      using arg_cong [OF view_keys [OF view], of set] by (force simp: image_iff)
    have ss: "sessions ?c2 = []" using ids(2) by (auto simp: retain_def filter_empty_conv)
    have sub: "set (memory_objects ?c2) \<subseteq> set (memory_objects c1)" by auto
    have "live ?c2 \<subseteq> live c1" "fst ` set (memory_objects ?c2) \<subseteq> fst ` set (memory_objects c1)"
      using image_mono [OF sub, of fst] by (auto simp: live_def)
    then have "tables_ok ?c2"
      using inv unfolding slot_inv_def tables_ok_def ss by (auto simp del: set_retain)
    moreover have "creators_ok ?c2"
      using inv unfolding slot_inv_def creators_ok_def closed by (force split: option.splits)
    ultimately show ?thesis unfolding slot_inv_def sessions_ok_def so_ok_def ss by simp
  next
    case False
    have ids: "\<forall>s \<in> snd ` set (sessions c). session_slotID s \<noteq> sid"
      "\<forall>s \<in> snd ` set (sessions c1). session_slotID s \<noteq> sid"
      using 1 inv False view_slot [OF view] by (simp_all add: slot_inv_def sessions_ok_def)
    then have "?closed = []" "sessions ?c2 = sessions c1"
      by (auto simp: filter_empty_conv retain_def filter_id_conv)
    then have "?c2 = c1" by (simp add: retain_def case_prod_unfold option.case_eq_if)
    with inv show ?thesis by simp
  qed
  then show ?case by (simp add: swp_def close_all_run [OF p refl])
qed
end
