(* ===== verification/Session_Spec.thy ===== *)
theory Session_Spec
  imports Session_Invariant
begin

text \<open>
  The rules of Cryptoki on sessions and logins as an abstract machine, and that the session
  functions refine it.  The abstract state is who is logged in and which sessions are open, each
  read/write or not.
\<close>

section \<open>The abstract machine\<close>

type_synonym login_state = "login_role option \<times> (handle \<times> bool) list"

inductive login_step :: "login_state \<Rightarrow> login_state \<Rightarrow> bool" where
  open_session: "h \<notin> fst ` set ss \<Longrightarrow> role = Some SoRole \<longrightarrow> rw \<Longrightarrow> login_step (role, ss) (role, ss @ [(h, rw)])"
| close_session: "ss' = filter (\<lambda>(k, _). k \<noteq> h) ss \<Longrightarrow>
    login_step (role, ss) (if ss' = [] then None else role, ss')"
| close_all: "login_step (role, ss) (None, [])"
| log_in: "ss \<noteq> [] \<Longrightarrow> role = SoRole \<longrightarrow> (\<forall>(_, rw) \<in> set ss. rw) \<Longrightarrow> login_step (None, ss) (Some role, ss)"
| log_out: "login_step (role, ss) (None, ss)"

text \<open>What the rules give: handles are distinct, nobody is logged in without a session, and the
  security officer never meets a read-only session.\<close>

definition login_rules :: "login_state \<Rightarrow> bool" where
  "login_rules = (\<lambda>(role, ss). distinct (map fst ss) \<and> (ss = [] \<longrightarrow> role = None) \<and>
     (role = Some SoRole \<longrightarrow> (\<forall>(_, rw) \<in> set ss. rw)))"

interpretation login_machine: transition_system "\<lambda>s. s = (None, [])" login_step login_rules
proof
  show "login_rules s" if "s = (None, [])" for s
    using that by (simp add: login_rules_def)
  show "login_rules t" if "login_rules s" "login_step s t" for s t
    using that(2,1) by cases (auto simp: login_rules_def distinct_map_filter split: if_splits)
qed

section \<open>The abstraction\<close>

definition login_abs :: "('b, 'x) slot_context \<Rightarrow> login_state" where
  "login_abs c = (recorded_role c, map (\<lambda>(h, flags). (h, flags AND CKF_RW_SESSION \<noteq> 0)) (snd (session_view c)))"

text \<open>The invariant, and that the abstract state was reached from \<open>a\<close>.\<close>

definition tracks :: "login_state \<Rightarrow> ('b, 'x) slot_context \<Rightarrow> bool" where
  "tracks a c \<longleftrightarrow> slot_inv c \<and> login_step\<^sup>*\<^sup>* a (login_abs c)"

lemma tracks_start: "slot_inv c \<Longrightarrow> tracks (login_abs c) c"
  by (simp add: tracks_def)

lemma tracks_step: "tracks a c \<Longrightarrow> slot_inv c' \<Longrightarrow> login_step\<^sup>*\<^sup>* (login_abs c) (login_abs c') \<Longrightarrow> tracks a c'"
  by (auto simp: tracks_def)

text \<open>Operations under which the sessions stay and the role is kept or lost.\<close>

abbreviation (input) falling :: "login_role option \<Rightarrow> ('b, 'x) slot_context \<Rightarrow> bool" where
  "falling r c \<equiv> recorded_role c = r \<or> recorded_role c = None"

lemma keeps_falling: "(\<And>r. keeps (in_role r) m) \<Longrightarrow> keeps (falling r) m"
  by (auto simp: keeps_def)

lemma falling_login_state [keeps_intros]:
  "keeps (falling r) (smod (clear_login_state sid))" "keeps (falling r) (smod (reconcile_login_state ops sid))"
  "keeps (falling r) (smod (set_login_role_state None))"
  by (rule keeps_smod, auto simp: clear_login_state_def reconcile_login_state_def set_login_role_state_def Let_def)+

lemma keeps_tracks:
  assumes "keeps slot_inv m" "\<And>v. keeps (viewing v) m" "\<And>r. keeps (falling r) m"
  shows "keeps (tracks a) m"
proof (rule keepsI, goal_cases)
  case (1 c)
  let ?c = "snd (m c)"
  have "session_view ?c = session_view c" using assms(2) by (rule keepsD) simp
  moreover have "recorded_role ?c = recorded_role c \<or> recorded_role ?c = None"
    using assms(3) by (rule keepsD) simp
  ultimately have "login_step\<^sup>*\<^sup>* (login_abs c) (login_abs ?c)"
    using r_into_rtranclp [of login_step, OF login_step.log_out] by (auto simp: login_abs_def)
  moreover have "slot_inv ?c" using assms(1) 1 by (auto simp: tracks_def keeps_def)
  ultimately have "tracks a ?c" using 1 tracks_step by blast
  then show ?case by (cases "m c") (simp add: swp_def split: sum.splits)
qed


section \<open>Functions that leave the sessions alone\<close>

lemmas falls = keeps_falling [OF frame_backend(2)] keeps_falling [OF frame_backend(4)]
  keeps_falling [OF frame_refresh(4)] keeps_falling [OF frame_smod(2)] keeps_falling [OF frame_smod(14)]
  keeps_falling [OF frame_refresh_own(2)] keeps_falling [OF frame_resolve(4)]

lemma frame_update_session:
  "(\<And>s. session_flags (f s) = session_flags s) \<Longrightarrow> keeps (viewing v) (smod (update_session h f))"
  by (rule keeps_smod) simp

lemma falls_update_session: "keeps (in_role r) (smod (update_session h f))"
  by (rule keeps_smod) simp

lemma falls_logout_slot [keeps_intros]:
  "keeps (falling r) (logout_slot ops cod sid)" "keeps (falling r) (init_token ops cod so_pin label)"
  unfolding logout_slot_def init_token_def by (intro keeps_intros falls keeps_read_if)+

lemma view_session_functions [keeps_intros]:
  "keeps (viewing v) (session_cancel session flags)"
  "keeps (viewing v) (api_init_token ops cod pin pin_len label)"
  "keeps (viewing v) (init_pin ops auth session pin pin_len)"
  "keeps (viewing v) (set_pin ops auth session pin pin_len new_pin new_len)"
  "keeps (viewing v) (login_with_role ops auth cod sid role authenticate)"
  "keeps (viewing v) (context_specific_login ops auth session bs)"
  "keeps (viewing v) (logout ops auth cod session)"
  "keeps (viewing v) (get_session_info ops auth session)"
  unfolding session_cancel_def api_init_token_def init_pin_def set_pin_def login_with_role_def
    context_specific_login_def logout_def get_session_info_def case_prod_unfold Let_def
  by (intro keeps_intros frame_update_session; simp)+

lemma falling_session_functions [keeps_intros]:
  "keeps (falling r) (session_cancel session flags)"
  "keeps (falling r) (api_init_token ops cod pin pin_len label)"
  "keeps (falling r) (init_pin ops auth session pin pin_len)"
  "keeps (falling r) (set_pin ops auth session pin pin_len new_pin new_len)"
  "keeps (falling r) (context_specific_login ops auth session bs)"
  "keeps (falling r) (logout ops auth cod session)"
  "keeps (falling r) (get_session_info ops auth session)"
  unfolding session_cancel_def api_init_token_def init_pin_def set_pin_def
    context_specific_login_def logout_def get_session_info_def case_prod_unfold Let_def
  by (intro keeps_intros falls keeps_falling [OF falls_update_session])+

lemma credential_frame [keeps_intros]:
  "keeps (viewing v) (get_authenticated_credential auth session)"
  "keeps (falling r) (get_authenticated_credential auth session)"
  unfolding get_authenticated_credential_def
  by (intro keeps_intros falls; auto intro!: keeps_intros split: sum.splits error.splits)+

lemmas invs = keeps_get_authenticated_credential keeps_session_cancel keeps_pins
  keeps_context_specific_login keeps_login

lemma tracks_session_functions:
  "keeps (tracks a) (get_authenticated_credential auth session)"
  "keeps (tracks a) (session_cancel session flags)"
  "keeps (tracks a) (api_init_token ops cod pin pin_len label)"
  "keeps (tracks a) (init_pin ops auth session pin pin_len)"
  "keeps (tracks a) (set_pin ops auth session pin pin_len new_pin new_len)"
  "keeps (tracks a) (context_specific_login ops auth session bs)"
  "keeps (tracks a) (logout ops auth cod session)"
  "keeps (tracks a) (get_session_info ops auth session)"
  by (rule keeps_tracks, rule invs [where S = "{}", unfolded inv_with_empty], intro keeps_intros, intro keeps_intros)+

section \<open>Logging in\<close>

lemma swp_keeps:
  "keeps P m \<Longrightarrow> P c \<Longrightarrow> (\<And>a c'. P c' \<Longrightarrow> Q a c') \<Longrightarrow> (\<And>e c'. P c' \<Longrightarrow> E e c') \<Longrightarrow> swp m Q E c"
  by (rule swpI) (fastforce simp: keeps_def)+

lemma swp_sthenI: "swp m (\<lambda>_. swp n Q E) E c \<Longrightarrow> swp (sthen m n) Q E c"
  and swp_sbindI: "swp m (\<lambda>a. swp (f a) Q E) E c \<Longrightarrow> swp (sbind m f) Q E c"
  by (simp_all add: swp_simps)

lemma ensureI: "(b \<Longrightarrow> swp n Q E c) \<Longrightarrow> (\<not> b \<Longrightarrow> E e c) \<Longrightarrow> swp (sthen (sensure b e) n) Q E c"
  by (simp add: swp_simps)

lemma swp_ignore: "keeps P m \<Longrightarrow> P c \<Longrightarrow> (\<And>c'. P c' \<Longrightarrow> Q () c') \<Longrightarrow> swp (signore m) Q E c"
  by (simp add: swp_def signore_def keeps_def)

lemma swp_attempt: "keeps P m \<Longrightarrow> P c \<Longrightarrow> (\<And>r c'. P c' \<Longrightarrow> Q r c') \<Longrightarrow> swp (sattempt m) Q E c"
  by (cases "m c") (fastforce simp: swp_def sattempt_def keeps_def)

lemma swp_test [swp_simps]: "swp (\<lambda>c. (t c, c)) Q E c = (case t c of Inl e \<Rightarrow> E e c | Inr a \<Rightarrow> Q a c)"
  by (simp add: swp_def split: sum.splits)

lemma swp_require_slot [swp_simps]:
  "swp (require_slot_id sid) Q E c = (if sid = ctx_slot_id c then Q () c else E (Generic CKR_SLOT_ID_INVALID) c)"
  by (simp add: require_slot_id_def swp_simps)

lemma swp_on_backend:
  "(\<And>a b. Q a (c\<lparr>backend := b\<rparr>)) \<Longrightarrow> (\<And>e b. E e (c\<lparr>backend := b\<rparr>)) \<Longrightarrow> swp (on_backend m) Q E c"
  by (rule swpI) (auto simp: on_backend_def split: prod.splits)

text \<open>Logging in succeeds only when nobody is logged in, and a failure leaves nobody logged in
  unless somebody was before.\<close>

lemma keeps_conj: "keeps P m \<Longrightarrow> keeps R m \<Longrightarrow> keeps (\<lambda>s. P s \<and> R s) m"
  by (simp add: keeps_def)

lemma all_rw_view: "session_view c = session_view c' \<Longrightarrow> all_rw role c = all_rw role c'"
proof -
  have "all_rw role d \<longleftrightarrow> (role = SoRole \<longrightarrow> (\<forall>(_, flags) \<in> set (snd (session_view d)). flags AND CKF_RW_SESSION \<noteq> 0))"
    for d :: "('e, 'f) slot_context"
    by (force simp: all_rw_def session_view_def)
  then show "session_view c = session_view c' \<Longrightarrow> ?thesis" by metis
qed

lemma login_with_role_outcome:
  assumes "slot_inv c" "sid = ctx_slot_id c"
  shows "swp (login_with_role ops auth cod sid role authenticate)
     (\<lambda>_ c'. recorded_role c' = Some role \<and> login_role_of ops sid c = None \<and> all_rw role c)
     (\<lambda>e c'. recorded_role c' = None \<or>
        c' = c \<and> (\<exists>active. login_role_of ops sid c = Some active \<and>
          e = Generic (if active = role then CKR_USER_ALREADY_LOGGED_IN else CKR_USER_ANOTHER_ALREADY_LOGGED_IN))) c"
    (is "swp _ ?Q ?E c")
proof (cases "login_role_of ops sid c")
  case (Some active)
  then have "reconcile_login_state ops sid c = c"
    by (simp add: reconcile_login_state_def is_slot_logged_in_def)
  with Some show ?thesis by (simp add: login_with_role_def swp_simps)
next
  case None
  let ?c = "reconcile_login_state ops sid c"
  have role: "recorded_role ?c = None" "login_role_of ops sid ?c = None"
    using None assms(2)
    by (auto simp: reconcile_login_state_def is_slot_logged_in_def clear_login_state_def set_login_role_state_def
        login_role_of_def Let_def split: if_splits)
  have view: "session_view ?c = session_view c" by simp
  have slot: "ctx_slot_id d = sid" if "session_view d = session_view c" for d :: "('a, 'b) slot_context"
    using view_slot [OF that] assms(2) by simp
  have rw: "all_rw role c"
    if "\<not> (role = SoRole \<and> (\<exists>(_, s) \<in> set (sessions ?c). session_slotID s = sid \<and> session_flags s AND CKF_RW_SESSION = 0))"
  proof -
    have "slot_inv ?c" using inv_reconcile_login [of "{}" c ops sid] assms(1) by simp
    with that slot [OF view] have "all_rw role ?c"
      by (fastforce simp: all_rw_def slot_inv_def sessions_ok_def)
    then show ?thesis using all_rw_view [OF view] by simp
  qed
  have refresh: "keeps (\<lambda>d. recorded_role d = Some role \<and> session_view d = session_view c)
      (if r then refresh_slot_token_objects ops cod sid else sok ())" for r
    by (rule keeps_conj; intro keeps_intros)
  let ?N = "\<lambda>d. recorded_role d = None \<and> session_view d = session_view c"
  let ?L = "\<lambda>d. recorded_role d = Some role \<and> session_view d = session_view c"
  have dev: "keeps ?N (on_backend m)" "keeps ?L (on_backend m)" for m :: "('a, unit) comp"
    by (rule keeps_conj; rule frame_backend)+
  have cleared: "recorded_role (clear_login_state sid d) = None" if "session_view d = session_view c" for d :: "('a, 'b) slot_context"
    using slot [OF that] by (simp add: clear_login_state_def set_login_role_state_def Let_def)
  let ?ro = "role = SoRole \<and> (\<exists>(_, s) \<in> set (sessions ?c). session_slotID s = sid \<and> session_flags s AND CKF_RW_SESSION = 0)"
  show ?thesis
  proof (cases ?ro)
    case True
    then show ?thesis by (simp add: login_with_role_def swp_simps role)
  next
    case False
    note rw = rw [OF False]
    have undo: "swp (sthen (require_slot_id sid)
               (sthen (signore (on_backend (logout_role ops role)))
               (sthen (require_slot_id sid)
               (sthen (signore (on_backend (set_login_role ops None)))
               (sthen (smod (clear_login_state sid)) (sfail e)))))) ?Q ?E d" if "?L d" for d e
      using that
      apply (simp only: swp_sthen swp_require_slot slot refl if_True)
      apply (rule swp_ignore [where P = ?L, OF dev(2)], simp)
      apply (simp only: swp_sthen swp_require_slot slot refl if_True)
      apply (rule swp_ignore [where P = ?L, OF dev(2)], simp)
      by (simp add: swp_simps cleared)
    show ?thesis
      unfolding login_with_role_def
      apply (simp only: swp_sthen swp_smod swp_test role option.case sum.case)
      apply (simp only: False if_False sum.case swp_require_slot slot [OF view] refl if_True)
      apply (simp only: swp_sthen)
      apply (rule swp_keeps [where P = ?N, OF dev(1)], simp add: role)
       apply (simp only: swp_sthen swp_sbind swp_require_slot slot refl if_True)
       apply (rule swp_attempt [where P = ?N, OF dev(1)], simp)
       apply (case_tac r; simp only: sum.case swp_sthen swp_sbind swp_require_slot swp_smod swp_sget slot refl if_True view_login_state)
        apply (rule swp_ignore [where P = ?N, OF dev(1)], simp, simp add: swp_simps)
       apply (rule swp_attempt [where P = ?L, OF refresh], simp add: set_login_role_state_def)
       apply (case_tac ra; simp only: sum.case undo)
       apply (simp add: swp_simps None rw)
      by simp
  qed
qed

abbreviation (input) tracking :: "login_state \<Rightarrow> slot_id \<times> (handle \<times> ck_flags) list \<Rightarrow> ('b, 'x) slot_context \<Rightarrow> bool" where
  "tracking a v c \<equiv> tracks a c \<and> session_view c = v"

lemma keeps_tracking:
  assumes "keeps slot_inv m" "\<And>v. keeps (viewing v) m" "\<And>r. keeps (falling r) m"
  shows "keeps (tracking a v) m"
  using assms by (intro keeps_conj keeps_tracks)

lemma tracking_login_with_role:
  assumes "fst v = sid" "snd v \<noteq> []"
  shows "keeps (tracking a v) (login_with_role ops auth cod sid role authenticate)"
proof (rule keepsI, goal_cases)
  case (1 c)
  let ?m = "login_with_role ops auth cod sid role authenticate"
  have sid: "sid = ctx_slot_id c" using 1 assms(1) by (auto simp: session_view_def)
  have inv: "slot_inv c" using 1 by (simp add: tracks_def)
  have inv': "slot_inv (snd (?m c))"
    using keepsD [OF keeps_login_with_role [of "{}", unfolded inv_with_empty] inv] .
  have view: "session_view (snd (?m c)) = session_view c"
    by (rule keepsD [OF view_session_functions(5)]) simp
  let ?ss = "map (\<lambda>(h, flags). (h, flags AND CKF_RW_SESSION \<noteq> 0)) (snd (session_view c))"
  have abs: "login_abs c = (recorded_role c, ?ss)" "login_abs (snd (?m c)) = (recorded_role (snd (?m c)), ?ss)"
    by (simp_all add: login_abs_def view)
  have out: "login_step\<^sup>*\<^sup>* (recorded_role c, ?ss) (None, ?ss)"
    by (rule r_into_rtranclp) (rule login_step.log_out)
  have "login_step\<^sup>*\<^sup>* (login_abs c) (login_abs (snd (?m c)))"
  proof -
    consider (ok) "recorded_role (snd (?m c)) = Some role" "all_rw role c"
      | (none) "recorded_role (snd (?m c)) = None" | (same) "snd (?m c) = c"
      using login_with_role_outcome [OF inv sid, of ops auth cod role authenticate]
      by (cases "?m c"; cases "fst (?m c)") (auto simp: swp_def)
    then show ?thesis
    proof cases
      case ok
      have "role = SoRole \<longrightarrow> (\<forall>(_, rw) \<in> set ?ss. rw)"
        using ok(2) by (force simp: all_rw_def session_view_def)
      moreover have "?ss \<noteq> []" using 1 assms(2) by auto
      ultimately have "login_step (None, ?ss) (Some role, ?ss)" by (intro login_step.log_in)
      with out show ?thesis unfolding abs ok(1) by (rule rtranclp.rtrancl_into_rtrancl)
    next
      case none
      with out show ?thesis by (simp add: abs)
    qed simp
  qed
  with 1 inv' view have "tracking a v (snd (?m c))" by (auto intro: tracks_step)
  then show ?case by (cases "?m c") (simp add: swp_def split: sum.splits)
qed

lemma tracks_get_session:
  assumes "\<And>s v. snd v \<noteq> [] \<Longrightarrow> fst v = session_slotID s \<Longrightarrow> keeps (tracking a v) (f s)"
  shows "keeps (tracks a) (sbind (get_session session) f)"
proof (rule keepsI, goal_cases)
  case (1 c)
  show ?case
  proof (cases "get_session_context session c")
    case (Inl e)
    with 1 show ?thesis by (simp add: swp_def sbind_def get_session_def)
  next
    case (Inr s)
    then have "map_of (sessions c) session = Some s" "session_slotID s = ctx_slot_id c"
      by (auto simp: get_session_context_def split: option.splits if_splits)
    then have "snd (session_view c) \<noteq> []" "fst (session_view c) = session_slotID s"
      by (auto simp: session_view_def)
    from keepsD [OF assms [OF this], of c] 1 have "tracks a (snd (f s c))" by blast
    with Inr show ?thesis
      by (cases "f s c") (simp add: swp_def sbind_def get_session_def split: sum.splits)
  qed
qed

lemma tracking_context_specific [keeps_intros]:
  "keeps (tracking a v) (context_specific_login ops auth session bs)"
  by (rule keeps_tracking, rule invs [where S = "{}", unfolded inv_with_empty], intro keeps_intros, intro keeps_intros)

lemma tracking_resolved [keeps_intros]: "keeps (tracking a v) (resolved_objects ops)"
  by (rule keeps_tracking, rule keeps_resolved_objects [where S = "{}", unfolded inv_with_empty],
      intro keeps_intros, rule falls)

lemma tracks_login:
  "keeps (tracks a) (login ops auth cod session user_type pin pin_len)"
  "keeps (tracks a) (login_user ops auth cod session user_type pin pin_len username username_len)"
  unfolding login_def login_user_def Let_def
  by (rule tracks_get_session, intro keeps_intros tracking_login_with_role, assumption+)+

section \<open>Opening and closing\<close>

lemma open_session_outcome:
  assumes inv: "slot_inv c" and sid: "sid = ctx_slot_id c"
  shows "swp (open_session_on_slot ops auth sid flags refresh)
     (\<lambda>h c'. falling (recorded_role c) c' \<and> session_view c' = (sid, snd (session_view c) @ [(h, flags)]) \<and>
        h \<notin> fst ` set (sessions c) \<and> (recorded_role c' = Some SoRole \<longrightarrow> flags AND CKF_RW_SESSION \<noteq> 0))
     (\<lambda>_ c'. falling (recorded_role c) c' \<and> session_view c' = session_view c) c" (is "swp _ ?Q ?E c")
proof -
  let ?c = "reconcile_login_state ops sid c"
  have fall: "falling (recorded_role c) ?c"
    by (simp add: reconcile_login_state_def clear_login_state_def set_login_role_state_def Let_def)
  have role: "recorded_role ?c = login_role_of ops sid ?c"
    using reconciled_role [of ops c] sid by simp
  let ?P = "\<lambda>d. recorded_role d = recorded_role ?c \<and> session_view d = session_view c \<and> handles d = handles c"
  have dev: "keeps ?P (if refresh then signore (on_backend (backend_refresh auth)) else sok ())"
    by (auto simp: keeps_def on_backend_def signore_def sok_def split: prod.splits)
  have new: "swp (sbind (on_handles allocate_session) (\<lambda>h.
       sthen (smod (\<lambda>c. c\<lparr>backend := backend_open_session auth sid flags (backend c),
                          sessions := AList.update h (session_context_new sid flags) (sessions c)\<rparr>))
       (sok h))) ?Q ?E d"
    if d: "?P d" and rw: "recorded_role ?c = Some SoRole \<longrightarrow> flags AND CKF_RW_SESSION \<noteq> 0" for d
  proof -
    have keys: "fst ` set (sessions d) = fst ` set (sessions c)"
      using view_keys [of d c] d by (metis list.set_map)
    have fresh: "h \<notin> fst ` set (sessions c)" if "allocate_handle (next_session (handles c)) = Inr (h, n)" for h n
      using inv handles.fresh [OF that] by (auto simp: slot_inv_def tables_ok_def)
    then have "map (\<lambda>(h, s). (h, session_flags s)) (AList.update h (session_context_new sid flags) (sessions d)) =
        snd (session_view c) @ [(h, flags)]" if "allocate_handle (next_session (handles c)) = Inr (h, n)" for h n
      using that keys d keys_update_fresh [of h "sessions d"]
      by (auto simp: session_view_def session_context_new_def)
    then show ?thesis
      using d rw fall fresh sid by (auto simp: swp_def sbind_def sthen_def smod_def sok_def on_handles_def
          allocate_session_def session_view_def split: sum.splits prod.splits)
  qed
  show ?thesis
    unfolding open_session_on_slot_def
    apply (rule ensureI)
     apply (rule ensureI)
      apply (rule swp_sthenI, simp only: swp_smod, rule swp_sbindI, simp only: swp_sget role [symmetric])
      apply (rule ensureI)
       apply (rule swp_sthenI, rule swp_keeps [where P = ?P, OF dev], simp)
        apply (rule swp_sthenI, simp only: swp_test if_distrib [of "case_sum _ _"] sum.case, split if_split, rule conjI; rule impI)
         apply (use fall in simp)
        apply (rule new, assumption, blast)
    by (use fall in simp)+
qed

lemma tracks_open:
  assumes "tracks a c" "sid = ctx_slot_id c"
  shows "tracks a (snd (open_session_on_slot ops auth sid flags refresh c))"
proof -
  let ?m = "open_session_on_slot ops auth sid flags refresh"
  have inv: "slot_inv c" using assms(1) by (simp add: tracks_def)
  have inv': "slot_inv (snd (?m c))" using open_session_inv [of "{}" c sid] inv assms(2) by simp
  let ?rw = "map (\<lambda>(h, flags). (h, flags AND CKF_RW_SESSION \<noteq> 0))"
  have out: "login_step\<^sup>*\<^sup>* (recorded_role c, ss) (r, ss)" if "r = recorded_role c \<or> r = None" for r ss
    using that r_into_rtranclp [of login_step, OF login_step.log_out] by auto
  have "login_step\<^sup>*\<^sup>* (login_abs c) (login_abs (snd (?m c)))"
  proof (cases "?m c")
    case (Pair r c')
    show ?thesis
    proof (cases r)
      case (Inl e)
      then have "falling (recorded_role c) c'" "session_view c' = session_view c"
        using open_session_outcome [OF inv assms(2), of ops auth flags refresh] Pair by (simp_all add: swp_def)
      then show ?thesis using out by (simp add: Pair login_abs_def)
    next
      case (Inr h)
      then have new: "falling (recorded_role c) c'" "session_view c' = (sid, snd (session_view c) @ [(h, flags)])"
        "h \<notin> fst ` set (sessions c)" "recorded_role c' = Some SoRole \<longrightarrow> flags AND CKF_RW_SESSION \<noteq> 0"
        using open_session_outcome [OF inv assms(2), of ops auth flags refresh] Pair by (simp_all add: swp_def)
      have "fst ` set (?rw (snd (session_view c))) = fst ` set (sessions c)"
        using arg_cong [OF view_keys_eq [of c], of set] by (force simp: image_iff)
      with new(3,4) have "login_step (recorded_role c', ?rw (snd (session_view c)))
          (recorded_role c', ?rw (snd (session_view c)) @ [(h, flags AND CKF_RW_SESSION \<noteq> 0)])"
        by (intro login_step.open_session) simp_all
      from rtranclp.rtrancl_into_rtrancl [OF out [OF new(1)] this] show ?thesis
        by (simp add: Pair login_abs_def new(2))
    qed
  qed
  with assms(1) inv' show ?thesis by (rule tracks_step)
qed

text \<open>Closing the last session ends the login whatever the backend answers.\<close>

lemma cleared_role: "ctx_slot_id c = sid \<Longrightarrow> recorded_role (clear_login_state sid c) = None"
  by (simp add: clear_login_state_def set_login_role_state_def Let_def)

text \<open>A successful logout leaves nobody logged in, no operation in progress and no private
  object of a session.\<close>

definition logged_out :: "('b, 'x) slot_context \<Rightarrow> bool" where
  "logged_out c \<longleftrightarrow> recorded_role c = None \<and> (\<forall>s \<in> snd ` set (sessions c). session_idle s) \<and>
     (\<forall>obj \<in> snd ` set (memory_objects c). is_token obj \<or> \<not> is_private obj)"

lemma logged_out_clear: "ctx_slot_id c = sid \<Longrightarrow> logged_out (clear_login_state sid c)"
  by (auto simp: logged_out_def clear_login_state_def set_login_role_state_def Let_def)

lemma drop_from_find_idle: "session_idle s \<Longrightarrow> session_idle (drop_from_find h s)"
  by (simp add: session_idle_def drop_from_find_def)

lemma logged_out_remove: "logged_out c \<Longrightarrow> logged_out (remove_object_handle h c)"
  using set_delete_subset [of h "memory_objects c"]
  by (auto simp: logged_out_def snd_image_map_snd drop_from_find_idle)

lemma logged_out_updates:
  "logged_out (c\<lparr>backend := b\<rparr>) = logged_out c" "logged_out (c\<lparr>handles := hs\<rparr>) = logged_out c"
  "logged_out (c\<lparr>token_object_handles := T\<rparr>) = logged_out c"
  "logged_out (c\<lparr>backed_object_handles := B\<rparr>) = logged_out c"
  "logged_out (record_backed_objects stored c) = logged_out c"
  by (simp_all add: logged_out_def record_backed_objects_def Let_def)

lemma logged_out_refresh:
  "keeps logged_out (refresh_slot_token_objects ops cod sid)"
proof -
  have 1: "keeps logged_out (on_backend m)" "keeps logged_out (on_handles n)" for m n
    by (simp_all add: keeps_def on_backend_def on_handles_def logged_out_updates split: prod.splits)
  have 2: "keeps logged_out (smod (\<lambda>c. fold remove_object_handle (g c) c))" for g :: "('a, 'b) slot_context \<Rightarrow> handle list"
  proof -
    have "logged_out (fold remove_object_handle hs c)" if "logged_out c" for hs and c :: "('a, 'b) slot_context"
      using that by (induction hs arbitrary: c) (simp_all add: logged_out_remove)
    then show ?thesis by (intro keeps_smod)
  qed
  have 3: "keeps logged_out (rebind p)" "keeps logged_out (smod (record_backed_objects stored))"
    "keeps logged_out (smod (\<lambda>c. c\<lparr>token_object_handles := f5 c\<rparr>))" for p stored f5
    by (auto simp: keeps_def rebind_def smod_def logged_out_updates split: prod.splits option.splits)
  show ?thesis
    unfolding refresh_slot_token_objects_def refresh_with_rebindings_def reconcile_with_rebindings_def
      add_token_handle_def
    by (intro keeps_intros keeps_read_seach 1 2 3)
qed

lemma keeps_slot: "(\<And>v. keeps (viewing v) m) \<Longrightarrow> keeps (\<lambda>d. ctx_slot_id d = sid) m"
  unfolding keeps_def by (metis view_slot)

lemma logout_slot_outcome:
  assumes "ctx_slot_id c = sid"
  shows "swp (logout_slot ops cod sid) (\<lambda>_. logged_out) (\<lambda>_ c'. ctx_slot_id c' = sid) c"
proof -
  have dev: "keeps (\<lambda>d. ctx_slot_id d = sid) (on_backend m)" for m :: "('a, unit) comp"
    by (rule keeps_slot) (intro keeps_intros)
  have refresh: "keeps (\<lambda>d. logged_out d \<and> ctx_slot_id d = sid) (\<lambda>c. (if Q c then refresh_slot_token_objects ops cod sid else sok ()) c)"
    for Q by (intro keeps_read_if keeps_conj logged_out_refresh keeps_slot keeps_intros)
  have "swp (sthen (require_slot_id sid)
     (sthen (on_backend (logout_role ops role))
     (sthen (require_slot_id sid)
     (sthen (on_backend (set_login_role ops None))
     (sthen (smod (clear_login_state sid))
     (sthen (require_slot_id sid)
     (\<lambda>c. (if refresh_token_objects_after_logout ops (backend c)
            then refresh_slot_token_objects ops cod sid else sok ()) c))))))) (\<lambda>_. logged_out) (\<lambda>_ c'. ctx_slot_id c' = sid) c"
    for role
    apply (rule swp_sthenI, simp only: swp_require_slot assms refl if_True)
    apply (rule swp_sthenI, rule swp_keeps [where P = "\<lambda>d. ctx_slot_id d = sid", OF dev assms])
     apply (rule swp_sthenI, simp only: swp_require_slot refl if_True)
     apply (rule swp_sthenI, rule swp_keeps [where P = "\<lambda>d. ctx_slot_id d = sid", OF dev], assumption)
      apply (rule swp_sthenI, simp only: swp_smod)
      apply (rule swp_sthenI, simp add: swp_require_slot)
      apply (intro conjI impI)
       apply (rule swp_keeps [where P = "\<lambda>d. logged_out d \<and> ctx_slot_id d = sid", OF refresh])
         apply (simp add: logged_out_clear)
        apply simp_all
    by (simp add: clear_login_state_def set_login_role_state_def Let_def)
  then show ?thesis
    unfolding logout_slot_def by (intro swp_sbindI) (simp only: swp_test assms sum.case refl simp_thms split: option.split)
qed

lemma final_logout_role:
  assumes "recorded_role c = login_role_of ops sid c" "sid = ctx_slot_id c"
  shows "recorded_role (snd (final_logout ops cod sid c)) = None"
proof -
  have "swp (final_logout ops cod sid) (\<lambda>_ d. recorded_role d = None) (\<lambda>_ d. recorded_role d = None) c"
    unfolding final_logout_def
    apply (rule swp_sbindI, simp only: swp_sget, split if_split, rule conjI; rule impI)
     apply (use assms in \<open>simp add: swp_simps is_slot_logged_in_def\<close>)
    apply (rule swp_sbindI, simp only: swp_sattempt)
    apply (rule swp_mono [OF logout_slot_outcome])
    by (simp_all add: assms(2) swp_simps logged_out_def cleared_role)
  then show ?thesis by (cases "final_logout ops cod sid c") (simp add: swp_def split: sum.splits)
qed

lemma close_prefix_role:
  assumes "sid = ctx_slot_id c" "close_prefix ops auth cod sid True c = (Inr e, c1)"
  shows "recorded_role c1 = None"
proof -
  let ?c = "reconcile_login_state ops sid c"
  obtain e' c0 where f: "final_logout ops cod sid ?c = (Inr e', c0)" using final_logout_ok by blast
  have "recorded_role c0 = None"
    using final_logout_role [of ?c ops sid cod] reconciled_role [of ops c] assms(1) f by simp
  moreover obtain b where "drop_secure_channel auth c0 = (Inr (), c0\<lparr>backend := b\<rparr>)"
    using drop_secure_channel_ok [of auth c0] by (elim exE)
  ultimately show ?thesis
    using assms(2) f by (auto simp: close_prefix_def sthen_def sbind_def smod_def sok_def)
qed

lemma close_prefix_falls: "keeps (falling r) (close_prefix ops auth cod sid False)"
  unfolding close_prefix_def if_False by (intro keeps_intros)

lemma view_kept: "(\<And>v. keeps (viewing v) m) \<Longrightarrow> session_view (snd (m c)) = session_view c"
  by (simp add: keeps_def)

lemma role_falls: "(\<And>r. keeps (falling r) m) \<Longrightarrow> falling (recorded_role c) (snd (m c))"
  by (simp add: keeps_def)

lemma release_view:
  "session_view (snd (seach (release_object auth s) hs c)) = session_view c \<and>
   recorded_role (snd (seach (release_object auth s) hs c)) = recorded_role c"
proof (induction hs arbitrary: c)
  case (Cons h hs)
  obtain b where "release_object auth s h c = (Inr (), remove_object_handle h (c\<lparr>backend := b\<rparr>))"
    using release_object_effect [of auth s h c] by (elim exE)
  with Cons show ?case by (simp add: sthen_def sbind_def)
qed (simp add: sok_def)

lemma view_delete:
  "session_view (c\<lparr>sessions := AList.delete h (sessions c)\<rparr>) =
   (ctx_slot_id c, filter (\<lambda>(k, _). k \<noteq> h) (snd (session_view c)))"
proof -
  have "map (\<lambda>(h, s). (h, session_flags s)) (AList.delete h ss) =
      filter (\<lambda>(k, _). k \<noteq> h) (map (\<lambda>(h, s). (h, session_flags s)) ss)"
    for ss :: "(handle, 'b session_context) hash_map"
    by (induction ss) auto
  then show ?thesis by (simp add: session_view_def)
qed

lemma close_session_outcome:
  assumes inv: "slot_inv c" and s: "map_of (sessions c) session = Some s"
  obtains e c' where "close_session_on_slot ops auth cod session c = (Inr e, c')" "slot_inv c'"
    "session_view c' = (ctx_slot_id c, filter (\<lambda>(k, _). k \<noteq> session) (snd (session_view c)))"
    "falling (recorded_role c) c'" "snd (session_view c') = [] \<Longrightarrow> recorded_role c' = None"
proof -
  have s': "(session, s) \<in> set (sessions c)" using s by (rule map_of_SomeD)
  have ids: "\<forall>s \<in> snd ` set (sessions c). session_slotID s = ctx_slot_id c"
    using inv by (simp add: slot_inv_def sessions_ok_def)
  with s' have sid: "session_slotID s = ctx_slot_id c" by force
  let ?last = "\<not> (\<exists>(h, other) \<in> set (sessions c). h \<noteq> session \<and> session_slotID other = session_slotID s)"
  have last: "?last \<longleftrightarrow> filter (\<lambda>(k, _). k \<noteq> session) (snd (session_view c)) = []"
    using ids sid by (force simp: session_view_def filter_empty_conv)
  obtain e c1 where p: "close_prefix ops auth cod (session_slotID s) ?last c = (Inr e, c1)"
    using close_prefix_ok by blast
  have view: "session_view c1 = session_view c"
    using view_kept [OF frame_final_logout(3), of ops auth cod "session_slotID s" ?last c] by (simp only: p snd_conv)
  have role: "falling (recorded_role c) c1" "?last \<Longrightarrow> recorded_role c1 = None"
  proof -
    show none: "recorded_role c1 = None" if l: ?last
    proof -
      from l p have "close_prefix ops auth cod (session_slotID s) True c = (Inr e, c1)" by (simp only: simp_thms)
      then show ?thesis by (rule close_prefix_role [OF sid])
    qed
    show "falling (recorded_role c) c1"
    proof (cases ?last)
      case True
      then show ?thesis by (intro disjI2 none)
    next
      case False
      with p have q: "close_prefix ops auth cod (session_slotID s) False c = (Inr e, c1)" by (simp only: simp_thms)
      show ?thesis
        using role_falls [OF close_prefix_falls, of ops auth cod "session_slotID s" c] by (simp only: q snd_conv)
    qed
  qed
  from close_session_on_slot_run [OF inv s p] obtain s1 where
    run: "close_session_on_slot ops auth cod session c =
      (Inr e, snd (seach (release_object auth s1)
        (map fst (filter (\<lambda>(_, obj). creator_session obj = Some session) (memory_objects c1)))
        (c1\<lparr>sessions := AList.delete session (sessions c1)\<rparr>)))" (is "_ = (_, ?c')")
    and inv': "slot_inv (snd (close_session_on_slot ops auth cod session c))" by blast
  have "session_view ?c' = (ctx_slot_id c, filter (\<lambda>(k, _). k \<noteq> session) (snd (session_view c)))"
    using release_view [of auth s1] view_delete [where c = c1 and h = session] view view_slot [OF view] by simp
  moreover have "recorded_role ?c' = recorded_role c1" using release_view [of auth s1] by simp
  ultimately show ?thesis using that [OF run] inv' role last run by simp
qed

lemma close_all_outcome:
  assumes inv: "slot_inv c" and sid: "sid = ctx_slot_id c"
  obtains e c' where "close_all_sessions_on_slot ops auth cod sid c = (Inr (map_keys (sessions c), e), c')"
    "slot_inv c'" "sessions c' = []" "recorded_role c' = None"
proof -
  obtain e c1 where p: "close_prefix ops auth cod sid True c = (Inr e, c1)"
    using close_prefix_ok by blast
  have view: "session_view c1 = session_view c"
    using view_kept [OF frame_final_logout(3), of ops auth cod sid True c] by (simp only: p snd_conv)
  have inv1: "slot_inv c1"
    using keepsD [OF keeps_close_prefix [of "{}", unfolded inv_with_empty] inv, of ops auth cod sid True] p by simp
  have ids: "\<forall>s \<in> snd ` set (sessions c). session_slotID s = sid"
    "\<forall>s \<in> snd ` set (sessions c1). session_slotID s = sid"
    using inv inv1 sid view_slot [OF view] by (simp_all add: slot_inv_def sessions_ok_def)
  have all: "filter (\<lambda>(_, s). session_slotID s = sid) (sessions c) = sessions c"
    using ids(1) by (intro filter_True) auto
  have none: "retain (\<lambda>_ s. session_slotID s \<noteq> sid) (sessions c1) = []"
    using ids(2) by (auto simp: retain_def filter_empty_conv)
  note run = close_all_run [OF p refl, unfolded all none]
  moreover have "slot_inv (snd (close_all_sessions_on_slot ops auth cod sid c))"
    by (rule keepsD [OF keeps_close_all inv])
  ultimately show ?thesis
    using that close_prefix_role [OF sid p] by simp
qed

lemma tracks_close: "keeps (tracks a) (close_session_on_slot ops auth cod session)"
proof (rule keepsI, goal_cases)
  case (1 c)
  then have inv: "slot_inv c" by (simp add: tracks_def)
  show ?case
  proof (cases "map_of (sessions c) session")
    case None
    with 1 show ?thesis by (simp add: close_session_on_slot_def swp_def)
  next
    case (Some s)
    from close_session_outcome [OF inv Some] obtain e c' where
      run: "close_session_on_slot ops auth cod session c = (Inr e, c')" "slot_inv c'"
      and view: "session_view c' = (ctx_slot_id c, filter (\<lambda>(k, _). k \<noteq> session) (snd (session_view c)))"
      and role: "falling (recorded_role c) c'" "snd (session_view c') = [] \<Longrightarrow> recorded_role c' = None" by blast
    let ?rw = "map (\<lambda>(h, flags). (h, flags AND CKF_RW_SESSION \<noteq> 0))"
    let ?ss = "?rw (snd (session_view c))"
    have ss: "?rw (snd (session_view c')) = filter (\<lambda>(k, _). k \<noteq> session) ?ss"
      by (simp add: view filter_map comp_def case_prod_unfold)
    have "login_step\<^sup>*\<^sup>* (recorded_role c, ?ss) (recorded_role c', ?ss)"
      using role(1) r_into_rtranclp [of login_step, OF login_step.log_out] by auto
    moreover have "login_step (recorded_role c', ?ss) (recorded_role c', ?rw (snd (session_view c')))"
      using login_step.close_session [OF ss, of "recorded_role c'"] role(2) by (auto split: if_splits)
    ultimately have "login_step\<^sup>*\<^sup>* (login_abs c) (login_abs c')"
      unfolding login_abs_def by (rule rtranclp.rtrancl_into_rtrancl)
    with 1 run show ?thesis by (simp add: swp_def tracks_step)
  qed
qed

lemma tracks_close_all:
  assumes "tracks a c" "sid = ctx_slot_id c"
  shows "tracks a (snd (close_all_sessions_on_slot ops auth cod sid c))"
proof -
  have inv: "slot_inv c" using assms(1) by (simp add: tracks_def)
  from close_all_outcome [OF inv assms(2)] obtain e c' where
    "close_all_sessions_on_slot ops auth cod sid c = (Inr (map_keys (sessions c), e), c')" "slot_inv c'"
    "sessions c' = []" "recorded_role c' = None" by blast
  moreover from this have "login_abs c' = (None, [])" by (simp add: login_abs_def session_view_def)
  moreover have "login_step (login_abs c) (None, [])"
    by (cases "login_abs c") (simp add: login_step.close_all)
  ultimately show ?thesis using assms(1) by (auto intro: tracks_step)
qed

section \<open>Authentication and the last logout\<close>

text \<open>What the backend says to a login: preparing the secure channel, where there is one, and then its
  own check of the PIN.\<close>

definition login_verdict :: "('b, 'x) auth_ops \<Rightarrow> login_role \<Rightarrow> bytes option \<Rightarrow> 'b \<Rightarrow> unit result" where
  "login_verdict auth role pin b =
     (case (if has_ccid_login_connector auth b then prepare_secure_channel_login auth [] b else (Inr (), b)) of
        (Inl e, _) \<Rightarrow> Inl e
      | (Inr _, b1) \<Rightarrow> fst (case role of UserRole \<Rightarrow> backend_login auth pin b1 | SoRole \<Rightarrow> backend_login_so auth pin b1))"

lemma authenticate_verdict: "fst (authenticate_login auth role pin b) = login_verdict auth role pin b"
  by (auto simp: authenticate_login_def login_verdict_def Let_def sthen_def sbind_def sattempt_def smod_def slift_def
      sok_def split: prod.splits sum.splits login_role.splits)

text \<open>The PIN argument: a null pointer with a zero length is no PIN at all.\<close>

definition optional_pin :: "bytes raw_ptr \<Rightarrow> nat \<Rightarrow> bytes option result" where
  "optional_pin pin pin_len =
     (case pin of
        NullPtr \<Rightarrow> if pin_len = 0 then Inr None else Inl (Generic CKR_ARGUMENTS_BAD)
      | _ \<Rightarrow> and_then (from_raw_parts 1 pin pin_len) (\<lambda>bs.
               if utf8_valid bs then Inr (Some bs) else Inl (Generic CKR_PIN_INVALID)))"

lemma with_optional_pin_eq: "with_optional_pin pin pin_len f = sbind (slift (optional_pin pin pin_len)) f"
  by (cases pin) (auto simp: with_optional_pin_def with_pin_def optional_pin_def fun_eq_iff sbind_def slift_def sfail_def
      split: sum.splits)

lemma login_needs_authentication:
  assumes "login_with_role ops auth cod sid role authenticate c = (Inr (), c')"
  shows "fst (authenticate (backend (reconcile_login_state ops sid c))) = Inr ()"
  using assms
  by (auto simp: login_with_role_def sthen_def sbind_def smod_def on_backend_def require_slot_id_def
      split: prod.splits sum.splits option.splits if_splits)

lemma login_reports_refusal:
  assumes "fst (authenticate (backend (reconcile_login_state ops sid c))) = Inl e"
    and "login_role_of ops sid c = None" "all_rw role c" "slot_inv c" "sid = ctx_slot_id c"
  shows "fst (login_with_role ops auth cod sid role authenticate c) = Inl e"
proof -
  let ?c = "reconcile_login_state ops sid c"
  have none: "login_role_of ops sid ?c = None"
    using assms(2,5)
    by (auto simp: reconcile_login_state_def is_slot_logged_in_def clear_login_state_def set_login_role_state_def
        login_role_of_def Let_def split: if_splits)
  have view: "session_view ?c = session_view c" by simp
  have "all_rw role ?c" using assms(3) all_rw_view [OF view] by blast
  then have "\<not> (role = SoRole \<and> (\<exists>(_, s) \<in> set (sessions ?c). session_slotID s = sid \<and> session_flags s AND CKF_RW_SESSION = 0))"
    by (auto simp: all_rw_def)
  moreover have "ctx_slot_id ?c = sid" using view_slot [OF view] assms(5) by simp
  moreover obtain b where "authenticate (backend ?c) = (Inl e, b)"
    using assms(1) by (cases "authenticate (backend ?c)") simp
  ultimately show ?thesis
    by (auto simp: login_with_role_def sthen_def sbind_def smod_def on_backend_def require_slot_id_def none)
qed

text \<open>The error of the logout that goes with the last session.\<close>

definition logout_failure :: "('b, 'x) slot_ops \<Rightarrow> ('b, 'x) backing_ops \<Rightarrow> ('b, 'x) slot_context \<Rightarrow> error option" where
  "logout_failure ops cod c =
     (if login_role_of ops (ctx_slot_id c) c = None then None
      else case fst (logout_slot ops cod (ctx_slot_id c) c) of Inl e \<Rightarrow> Some e | Inr _ \<Rightarrow> None)"

lemma final_logout_failure:
  assumes "final_logout ops cod (ctx_slot_id c) (reconcile_login_state ops (ctx_slot_id c) c) = (Inr e, c1)"
  shows "e = logout_failure ops cod c"
proof (cases "login_role_of ops (ctx_slot_id c) c")
  case None
  then have "\<not> is_slot_logged_in ops (ctx_slot_id c) (reconcile_login_state ops (ctx_slot_id c) c)"
    by (auto simp: reconcile_login_state_def is_slot_logged_in_def clear_login_state_def set_login_role_state_def
        login_role_of_def Let_def split: if_splits)
  with assms None show ?thesis
    by (simp add: final_logout_def logout_failure_def sbind_def sget_def)
next
  case (Some r)
  then have "reconcile_login_state ops (ctx_slot_id c) c = c"
    by (simp add: reconcile_login_state_def is_slot_logged_in_def)
  with assms Some show ?thesis
    by (auto simp: final_logout_def logout_failure_def sbind_def sthen_def sget_def sattempt_def smod_def sok_def
        is_slot_logged_in_def split: prod.splits sum.splits)
qed

lemma close_prefix_failure:
  assumes "close_prefix ops auth cod (ctx_slot_id c) is_last c = (Inr e, c1)"
  shows "e = (if is_last then logout_failure ops cod c else None)"
proof (cases is_last)
  case True
  obtain e' c0 where f: "final_logout ops cod (ctx_slot_id c) (reconcile_login_state ops (ctx_slot_id c) c) = (Inr e', c0)"
    using final_logout_ok by blast
  with assms True show ?thesis
    using final_logout_failure [OF f] drop_secure_channel_ok [of auth c0]
    by (auto simp: close_prefix_def sthen_def sbind_def smod_def sok_def)
next
  case False
  with assms show ?thesis by (simp add: close_prefix_def sthen_def sbind_def smod_def sok_def)
qed


lemma close_session_exact:
  assumes inv: "slot_inv c" and s: "map_of (sessions c) session = Some s"
  obtains c' where "close_session_on_slot ops auth cod session c =
      (Inr (if map_keys (sessions c) = [session] then logout_failure ops cod c else None), c')" "slot_inv c'"
    "session_view c' = (ctx_slot_id c, filter (\<lambda>(k, _). k \<noteq> session) (snd (session_view c)))"
    "falling (recorded_role c) c'" "snd (session_view c') = [] \<Longrightarrow> recorded_role c' = None"
proof -
  have s': "(session, s) \<in> set (sessions c)" using s by (rule map_of_SomeD)
  have ids: "\<forall>s \<in> snd ` set (sessions c). session_slotID s = ctx_slot_id c"
    and keys: "distinct (map_keys (sessions c))"
    using inv by (simp_all add: slot_inv_def sessions_ok_def tables_ok_def)
  with s' have sid: "session_slotID s = ctx_slot_id c" by force
  let ?last = "\<not> (\<exists>(h, other) \<in> set (sessions c). h \<noteq> session \<and> session_slotID other = session_slotID s)"
  have only: "?last \<longleftrightarrow> map_keys (sessions c) = [session]"
  proof
    assume ?last
    then have "set (map_keys (sessions c)) \<subseteq> {session}" using ids sid by force
    with keys s' show "map_keys (sessions c) = [session]"
      by (cases "sessions c") (auto simp: subset_singleton_iff)
  next
    assume "map_keys (sessions c) = [session]"
    then have "fst ` set (sessions c) = {session}" by (metis list.set_map list.simps(15) empty_set)
    then show ?last by force
  qed
  obtain e c1 where p: "close_prefix ops auth cod (session_slotID s) ?last c = (Inr e, c1)"
    using close_prefix_ok by blast
  then have e: "e = (if map_keys (sessions c) = [session] then logout_failure ops cod c else None)"
    using close_prefix_failure [of ops auth cod c ?last e c1, folded sid] only by (simp only: simp_thms)
  have e': "fst (close_session_on_slot ops auth cod session c) = Inr e"
    by (rule close_session_on_slot_run [OF inv s p]) simp
  obtain e2 c' where run: "close_session_on_slot ops auth cod session c = (Inr e2, c')" "slot_inv c'"
    "session_view c' = (ctx_slot_id c, filter (\<lambda>(k, _). k \<noteq> session) (snd (session_view c)))"
    "falling (recorded_role c) c'" "snd (session_view c') = [] \<Longrightarrow> recorded_role c' = None"
    by (rule close_session_outcome [OF inv s, of ops auth cod]) blast
  then have "e2 = e" using e' by simp
  with run e that show ?thesis by simp
qed

lemma close_all_exact:
  assumes inv: "slot_inv c"
  obtains c' where "close_all_sessions_on_slot ops auth cod (ctx_slot_id c) c =
      (Inr (map_keys (sessions c), logout_failure ops cod c), c')"
    "slot_inv c'" "sessions c' = []" "recorded_role c' = None"
proof -
  obtain e c1 where p: "close_prefix ops auth cod (ctx_slot_id c) True c = (Inr e, c1)"
    using close_prefix_ok by blast
  have e: "e = logout_failure ops cod c" using close_prefix_failure [OF p] by simp
  have "\<exists>hs c'. close_all_sessions_on_slot ops auth cod (ctx_slot_id c) c = (Inr (hs, e), c')"
    using close_all_run [OF p refl] by blast
  moreover obtain e2 c' where run: "close_all_sessions_on_slot ops auth cod (ctx_slot_id c) c =
      (Inr (map_keys (sessions c), e2), c')" "slot_inv c'" "sessions c' = []" "recorded_role c' = None"
    by (rule close_all_outcome [OF inv refl, of ops auth cod]) blast
  ultimately show ?thesis using e that by simp
qed

section \<open>Properties\<close>


text \<open>A backend that authenticates everybody and refuses to log out.\<close>

definition stubborn_ops :: "(bool, unit) slot_ops" where
  "stubborn_ops =
     \<lparr>is_present = \<lambda>_. True, login_is_active = \<lambda>b. b, native_storage_provider = \<lambda>_. None,
      native_storage_objects_are_backend_managed = \<lambda>_. False, refresh_token_objects_after_logout = \<lambda>_. False,
      token_objects = \<lambda>_. sok [], token_object_named = \<lambda>_ _. sok None, session_objects = \<lambda>_. sok [],
      profile_objects = \<lambda>_ _. [], set_public_certificate_storage_enabled = \<lambda>_ b. b,
      clear_session = \<lambda>_. False, clear_lost_login = \<lambda>_. False, logout_role = \<lambda>_. sfail (Generic CKR_DEVICE_ERROR),
      set_login_role = \<lambda>_. sok (), backend_init_token = \<lambda>_ _. sok ()\<rparr>"

definition stubborn_auth :: "(bool, unit) auth_ops" where
  "stubborn_auth =
     \<lparr>slot_flags = \<lambda>_. CKF_TOKEN_PRESENT, backend_session_is_active = \<lambda>b. b,
      refresh_token_objects_after_login = \<lambda>_. False, supports_login_user = \<lambda>_. False,
      login_user_uses_token_objects = \<lambda>_ _. False, has_ccid_login_connector = \<lambda>_. False,
      secure_channel_required = \<lambda>_. False, prepare_secure_channel_login = \<lambda>_. sok (),
      finish_secure_channel_login = \<lambda>_ b. b, clear_secure_channel = \<lambda>b. b,
      backend_login = \<lambda>_. smod (\<lambda>_. True), backend_login_so = \<lambda>_. smod (\<lambda>_. True),
      backend_login_user = \<lambda>_ _ _ _. smod (\<lambda>_. True), backend_set_pin = \<lambda>_ _. sok (),
      backend_set_so_pin = \<lambda>_ _. sok (), init_user_pin = \<lambda>_. sok (),
      login_context_specific = \<lambda>_ _ _. sok None, backend_refresh = sok (),
      backend_open_session = \<lambda>_ _ b. b, backend_get_session_info = \<lambda>_ _. sok (),
      delete_session_object = \<lambda>_ _ _. sok (), authenticated_credential_description = sok []\<rparr>"

definition plain_backing :: "('b, 'x) backing_ops" where
  "plain_backing =
     \<lparr>encode_backed_object = \<lambda>_. Inl (Generic CKR_DEVICE_ERROR),
      decode_backed_object = \<lambda>_ _ _ _ _ _. Inr None, content_digest = id, valid_cbor = \<lambda>_. False\<rparr>"

text \<open>One session with a private object, and whoever is logged in.\<close>

definition one_session_slot :: "bool \<Rightarrow> login_role option \<Rightarrow> (bool, unit) slot_context" where
  "one_session_slot active role =
     \<lparr>backend = active, ctx_slot_id = 7, handles = \<lparr>next_object = 2, next_session = 2\<rparr>, token_storage = no_storage,
      sessions = [(1, session_context_new 7 (CKF_SERIAL_SESSION OR CKF_RW_SESSION))], recorded_role = role,
      memory_objects = [(1, set_creator 1 7 (plain_object ''o'' False True))],
      token_object_handles = [], backed_token_objects = [], backed_object_references = [],
      backed_object_handles = []\<rparr>"

lemma one_session_inv: "slot_inv (one_session_slot active role)"
  by (simp add: one_session_slot_def slot_inv_def parts live_def issued_def session_context_new_def find_ok_def
      plain_object_def)

text \<open>Another session beside it.\<close>

definition two_session_slot :: "(bool, unit) slot_context" where
  "two_session_slot = (one_session_slot True (Some UserRole))
     \<lparr>handles := \<lparr>next_object = 2, next_session = 3\<rparr>,
      sessions := [(1, session_context_new 7 (CKF_SERIAL_SESSION OR CKF_RW_SESSION)),
                   (2, session_context_new 7 CKF_SERIAL_SESSION)]\<rparr>"

lemma two_session_inv: "slot_inv two_session_slot"
  by (auto simp: two_session_slot_def one_session_slot_def slot_inv_def parts live_def issued_def
      session_context_new_def find_ok_def plain_object_def)

lemma two_session_failure: "logout_failure stubborn_ops plain_backing two_session_slot = Some (Generic CKR_DEVICE_ERROR)"
  by (simp add: logout_failure_def two_session_slot_def one_session_slot_def stubborn_ops_def login_role_of_def
      logout_slot_def sbind_def sthen_def on_backend_def require_slot_id_def sfail_def)



text \<open>The same backend, but with one PIN for the security officer.\<close>

definition checking_auth :: "(bool, unit) auth_ops" where
  "checking_auth = stubborn_auth\<lparr>backend_login_so := \<lambda>pin.
     if pin = Some [0x31] then smod (\<lambda>_. True) else sfail (Generic CKR_PIN_INCORRECT)\<rparr>"

definition login_attempt :: "byte \<Rightarrow> unit result \<times> (bool, unit) slot_context" where
  "login_attempt digit =
     login stubborn_ops checking_auth plain_backing 1 CKU_SO (Pointing [digit]) 1 (one_session_slot False None)"

lemma login_attempts:
  "fst (login_attempt 0x31) = Inr ()" "fst (login_attempt 0x32) = Inl (Generic CKR_PIN_INCORRECT)"
  by (simp_all add: login_attempt_def login_def get_session_def get_session_context_def one_session_slot_def
      session_context_new_def with_optional_pin_def with_pin_def from_raw_parts_def valid_raw_slice_length_def
      utf8_valid.simps login_with_role_def authenticate_login_def sbind_def sthen_def slift_def smod_def sok_def
      sget_def sattempt_def sfail_def on_backend_def require_slot_id_def login_role_of_def reconcile_login_state_def
      set_login_role_state_def stubborn_ops_def stubborn_auth_def checking_auth_def)


text \<open>C21. A successful \<open>C_Logout\<close> leaves nobody logged in, no operation in progress in any
  session of the slot, and no private object of a session; the sessions stay open.\<close>
theorem logout_complete:
  assumes "slot_inv c" "logout ops auth cod session c = (Inr (), c')"
  shows "recorded_role c' = None \<and> (\<forall>s \<in> snd ` set (sessions c'). session_idle s) \<and>
     (\<forall>obj \<in> snd ` set (memory_objects c'). is_token obj \<or> \<not> is_private obj) \<and>
     session_view c' = session_view c"
proof -
  from assms(2) obtain s where s: "get_session_context session c = Inr s"
    by (cases "get_session_context session c") (auto simp: logout_def sbind_def get_session_def)
  then have sid: "session_slotID s = ctx_slot_id c"
    by (auto simp: get_session_context_def split: option.splits if_splits)
  let ?c = "reconcile_login_state ops (session_slotID s) c"
  have "logout_slot ops cod (session_slotID s) ?c = (Inr (), c')"
    using assms(2) s by (auto simp: logout_def get_session_def Let_def sbind_def sthen_def smod_def sget_def
        require_slot_id_def sfail_def split: if_splits)
  then have "logged_out c'"
    using logout_slot_outcome [of ?c "session_slotID s" ops cod] sid by (simp add: swp_def)
  moreover have "session_view (snd (logout ops auth cod session c)) = session_view c"
    by (rule view_kept) (rule view_session_functions)
  ultimately show ?thesis by (simp add: assms(2) logged_out_def)
qed

text \<open>The same backend, but logging out.\<close>

definition yielding_ops :: "(bool, unit) slot_ops" where
  "yielding_ops = stubborn_ops\<lparr>logout_role := \<lambda>_. smod (\<lambda>_. False)\<rparr>"

theorem logout_complete_witness:
  "recorded_role (snd (logout yielding_ops stubborn_auth plain_backing 1 (one_session_slot True (Some UserRole)))) = None \<and>
   memory_objects (snd (logout yielding_ops stubborn_auth plain_backing 1 (one_session_slot True (Some UserRole)))) = []"
proof -
  let ?run = "logout yielding_ops stubborn_auth plain_backing 1 (one_session_slot True (Some UserRole))"
  have eval: "fst ?run = Inr ()" "memory_objects (snd ?run) = []"
    by (simp_all add: logout_def get_session_def get_session_context_def one_session_slot_def session_context_new_def
        sbind_def sthen_def slift_def smod_def sok_def sget_def on_backend_def require_slot_id_def login_role_of_def
        reconcile_login_state_def is_slot_logged_in_def logout_slot_def clear_login_state_def
        set_login_role_state_def yielding_ops_def stubborn_ops_def Let_def plain_object_def set_creator_def retain_def)
  have "?run = (Inr (), snd ?run)" using eval(1) by (metis prod.collapse)
  from logout_complete [OF one_session_inv this] eval(2) show ?thesis by blast
qed
end
