(* ===== verification/Yubihsm_Types.thy ===== *)
theory Yubihsm_Types
  imports Objects
begin

text \<open>
  What a YubiHSM object may do (src/src/lib.rs): the groups of algorithms, the eight capability
  bytes and their translation to and from the usage attributes of PKCS #11, and the one-byte DER
  octet strings of elliptic-curve points.
\<close>

abbreviation (input) YUBIHSM_ASYMMETRIC_KEY :: byte where "YUBIHSM_ASYMMETRIC_KEY \<equiv> 3"
abbreviation (input) YUBIHSM_HMAC_KEY :: byte where "YUBIHSM_HMAC_KEY \<equiv> 5"
abbreviation (input) YUBIHSM_PUBLIC_WRAP_KEY :: byte where "YUBIHSM_PUBLIC_WRAP_KEY \<equiv> 9"
abbreviation (input) YUBIHSM_SYMMETRIC_KEY :: byte where "YUBIHSM_SYMMETRIC_KEY \<equiv> 8"
abbreviation (input) YUBIHSM_WRAP_KEY :: byte where "YUBIHSM_WRAP_KEY \<equiv> 4"
abbreviation (input) YUBIHSM_ALGO_AES128 :: byte where "YUBIHSM_ALGO_AES128 \<equiv> 50"
abbreviation (input) YUBIHSM_ALGO_AES128_CCM_WRAP :: byte where "YUBIHSM_ALGO_AES128_CCM_WRAP \<equiv> 29"
abbreviation (input) YUBIHSM_ALGO_AES192 :: byte where "YUBIHSM_ALGO_AES192 \<equiv> 51"
abbreviation (input) YUBIHSM_ALGO_AES192_CCM_WRAP :: byte where "YUBIHSM_ALGO_AES192_CCM_WRAP \<equiv> 41"
abbreviation (input) YUBIHSM_ALGO_AES256 :: byte where "YUBIHSM_ALGO_AES256 \<equiv> 52"
abbreviation (input) YUBIHSM_ALGO_AES256_CCM_WRAP :: byte where "YUBIHSM_ALGO_AES256_CCM_WRAP \<equiv> 42"
abbreviation (input) YUBIHSM_ALGO_EC_BP256 :: byte where "YUBIHSM_ALGO_EC_BP256 \<equiv> 16"
abbreviation (input) YUBIHSM_ALGO_EC_BP384 :: byte where "YUBIHSM_ALGO_EC_BP384 \<equiv> 17"
abbreviation (input) YUBIHSM_ALGO_EC_BP512 :: byte where "YUBIHSM_ALGO_EC_BP512 \<equiv> 18"
abbreviation (input) YUBIHSM_ALGO_EC_K256 :: byte where "YUBIHSM_ALGO_EC_K256 \<equiv> 15"
abbreviation (input) YUBIHSM_ALGO_EC_P224 :: byte where "YUBIHSM_ALGO_EC_P224 \<equiv> 47"
abbreviation (input) YUBIHSM_ALGO_EC_P256 :: byte where "YUBIHSM_ALGO_EC_P256 \<equiv> 12"
abbreviation (input) YUBIHSM_ALGO_EC_P384 :: byte where "YUBIHSM_ALGO_EC_P384 \<equiv> 13"
abbreviation (input) YUBIHSM_ALGO_EC_P521 :: byte where "YUBIHSM_ALGO_EC_P521 \<equiv> 14"
abbreviation (input) YUBIHSM_ALGO_ED25519 :: byte where "YUBIHSM_ALGO_ED25519 \<equiv> 46"
abbreviation (input) YUBIHSM_ALGO_ED448 :: byte where "YUBIHSM_ALGO_ED448 \<equiv> 58"
abbreviation (input) YUBIHSM_ALGO_HMAC_SHA1 :: byte where "YUBIHSM_ALGO_HMAC_SHA1 \<equiv> 19"
abbreviation (input) YUBIHSM_ALGO_HMAC_SHA256 :: byte where "YUBIHSM_ALGO_HMAC_SHA256 \<equiv> 20"
abbreviation (input) YUBIHSM_ALGO_HMAC_SHA384 :: byte where "YUBIHSM_ALGO_HMAC_SHA384 \<equiv> 21"
abbreviation (input) YUBIHSM_ALGO_HMAC_SHA512 :: byte where "YUBIHSM_ALGO_HMAC_SHA512 \<equiv> 22"
abbreviation (input) YUBIHSM_ALGO_HYBRID_ML_KEM_1024_P384 :: byte where "YUBIHSM_ALGO_HYBRID_ML_KEM_1024_P384 \<equiv> 67"
abbreviation (input) YUBIHSM_ALGO_HYBRID_ML_KEM_768_P256 :: byte where "YUBIHSM_ALGO_HYBRID_ML_KEM_768_P256 \<equiv> 65"
abbreviation (input) YUBIHSM_ALGO_HYBRID_ML_KEM_768_X25519 :: byte where "YUBIHSM_ALGO_HYBRID_ML_KEM_768_X25519 \<equiv> 66"
abbreviation (input) YUBIHSM_ALGO_ML_DSA_44 :: byte where "YUBIHSM_ALGO_ML_DSA_44 \<equiv> 59"
abbreviation (input) YUBIHSM_ALGO_ML_DSA_65 :: byte where "YUBIHSM_ALGO_ML_DSA_65 \<equiv> 60"
abbreviation (input) YUBIHSM_ALGO_ML_DSA_87 :: byte where "YUBIHSM_ALGO_ML_DSA_87 \<equiv> 61"
abbreviation (input) YUBIHSM_ALGO_ML_KEM_1024 :: byte where "YUBIHSM_ALGO_ML_KEM_1024 \<equiv> 64"
abbreviation (input) YUBIHSM_ALGO_ML_KEM_512 :: byte where "YUBIHSM_ALGO_ML_KEM_512 \<equiv> 62"
abbreviation (input) YUBIHSM_ALGO_ML_KEM_768 :: byte where "YUBIHSM_ALGO_ML_KEM_768 \<equiv> 63"
abbreviation (input) YUBIHSM_ALGO_RSA_2048 :: byte where "YUBIHSM_ALGO_RSA_2048 \<equiv> 9"
abbreviation (input) YUBIHSM_ALGO_RSA_3072 :: byte where "YUBIHSM_ALGO_RSA_3072 \<equiv> 10"
abbreviation (input) YUBIHSM_ALGO_RSA_4096 :: byte where "YUBIHSM_ALGO_RSA_4096 \<equiv> 11"
abbreviation (input) YUBIHSM_ALGO_X25519 :: byte where "YUBIHSM_ALGO_X25519 \<equiv> 56"
abbreviation (input) YUBIHSM_ALGO_X448 :: byte where "YUBIHSM_ALGO_X448 \<equiv> 57"

section \<open>Algorithms\<close>

definition is_yubihsm_ccm_wrap :: "byte \<Rightarrow> bool" where
  "is_yubihsm_ccm_wrap algorithm \<longleftrightarrow> algorithm \<in> set
     [YUBIHSM_ALGO_AES128_CCM_WRAP, YUBIHSM_ALGO_AES192_CCM_WRAP, YUBIHSM_ALGO_AES256_CCM_WRAP]"

definition is_yubihsm_aes :: "byte \<Rightarrow> bool" where
  "is_yubihsm_aes algorithm \<longleftrightarrow> algorithm \<in> set
     [YUBIHSM_ALGO_AES128, YUBIHSM_ALGO_AES192, YUBIHSM_ALGO_AES256]"

definition is_yubihsm_hmac :: "byte \<Rightarrow> bool" where
  "is_yubihsm_hmac algorithm \<longleftrightarrow> algorithm \<in> set
     [YUBIHSM_ALGO_HMAC_SHA1, YUBIHSM_ALGO_HMAC_SHA256, YUBIHSM_ALGO_HMAC_SHA384, YUBIHSM_ALGO_HMAC_SHA512]"

definition is_yubihsm_rsa :: "byte \<Rightarrow> bool" where
  "is_yubihsm_rsa algorithm \<longleftrightarrow> algorithm \<in> set
     [YUBIHSM_ALGO_RSA_2048, YUBIHSM_ALGO_RSA_3072, YUBIHSM_ALGO_RSA_4096]"

definition is_yubihsm_ec :: "byte \<Rightarrow> bool" where
  "is_yubihsm_ec algorithm \<longleftrightarrow> algorithm \<in> set
     [YUBIHSM_ALGO_EC_P224, YUBIHSM_ALGO_EC_P256, YUBIHSM_ALGO_EC_P384, YUBIHSM_ALGO_EC_P521,
      YUBIHSM_ALGO_EC_K256, YUBIHSM_ALGO_EC_BP256, YUBIHSM_ALGO_EC_BP384, YUBIHSM_ALGO_EC_BP512]"

definition is_yubihsm_montgomery :: "byte \<Rightarrow> bool" where
  "is_yubihsm_montgomery algorithm \<longleftrightarrow> algorithm \<in> set [YUBIHSM_ALGO_X25519, YUBIHSM_ALGO_X448]"

definition is_yubihsm_edwards :: "byte \<Rightarrow> bool" where
  "is_yubihsm_edwards algorithm \<longleftrightarrow> algorithm \<in> set [YUBIHSM_ALGO_ED25519, YUBIHSM_ALGO_ED448]"

datatype ml_dsa_parameter_set = MlDsa44 | MlDsa65 | MlDsa87
datatype ml_kem_parameter_set = MlKem512 | MlKem768 | MlKem1024

definition yubihsm_ml_dsa :: "byte \<Rightarrow> ml_dsa_parameter_set option" where
  "yubihsm_ml_dsa algorithm =
     (if algorithm = YUBIHSM_ALGO_ML_DSA_44 then Some MlDsa44
      else if algorithm = YUBIHSM_ALGO_ML_DSA_65 then Some MlDsa65
      else if algorithm = YUBIHSM_ALGO_ML_DSA_87 then Some MlDsa87 else None)"

definition yubihsm_ml_kem :: "byte \<Rightarrow> ml_kem_parameter_set option" where
  "yubihsm_ml_kem algorithm =
     (if algorithm = YUBIHSM_ALGO_ML_KEM_512 then Some MlKem512
      else if algorithm = YUBIHSM_ALGO_ML_KEM_768 then Some MlKem768
      else if algorithm = YUBIHSM_ALGO_ML_KEM_1024 then Some MlKem1024 else None)"

definition yubihsm_hybrid_kem :: "byte \<Rightarrow> hybrid_kem_construction option" where
  "yubihsm_hybrid_kem algorithm =
     (if algorithm = YUBIHSM_ALGO_HYBRID_ML_KEM_768_P256 then Some MlKem768P256
      else if algorithm = YUBIHSM_ALGO_HYBRID_ML_KEM_768_X25519 then Some MlKem768X25519
      else if algorithm = YUBIHSM_ALGO_HYBRID_ML_KEM_1024_P384 then Some MlKem1024P384 else None)"

definition yubihsm_has_virtual_extensions :: "bytes \<Rightarrow> bool" where
  "yubihsm_has_virtual_extensions algorithms \<longleftrightarrow>
     (\<exists>algorithm \<in> set algorithms. algorithm \<in> set
        [YUBIHSM_ALGO_X25519, YUBIHSM_ALGO_X448, YUBIHSM_ALGO_ED448, YUBIHSM_ALGO_ML_DSA_44,
         YUBIHSM_ALGO_ML_DSA_65, YUBIHSM_ALGO_ML_DSA_87, YUBIHSM_ALGO_ML_KEM_512, YUBIHSM_ALGO_ML_KEM_768,
         YUBIHSM_ALGO_ML_KEM_1024, YUBIHSM_ALGO_HYBRID_ML_KEM_768_P256,
         YUBIHSM_ALGO_HYBRID_ML_KEM_768_X25519, YUBIHSM_ALGO_HYBRID_ML_KEM_1024_P384])"

definition yubihsm_ec_parameters :: "byte \<Rightarrow> bytes option" where
  "yubihsm_ec_parameters algorithm = map_of
     [(YUBIHSM_ALGO_EC_P224, [0x06, 0x05, 0x2b, 0x81, 0x04, 0x00, 0x21]),
      (YUBIHSM_ALGO_EC_P256, [0x06, 0x08, 0x2a, 0x86, 0x48, 0xce, 0x3d, 0x03, 0x01, 0x07]),
      (YUBIHSM_ALGO_EC_P384, [0x06, 0x05, 0x2b, 0x81, 0x04, 0x00, 0x22]),
      (YUBIHSM_ALGO_EC_P521, [0x06, 0x05, 0x2b, 0x81, 0x04, 0x00, 0x23]),
      (YUBIHSM_ALGO_EC_K256, [0x06, 0x05, 0x2b, 0x81, 0x04, 0x00, 0x0a]),
      (YUBIHSM_ALGO_EC_BP256, [0x06, 0x09, 0x2b, 0x24, 0x03, 0x03, 0x02, 0x08, 0x01, 0x01, 0x07]),
      (YUBIHSM_ALGO_EC_BP384, [0x06, 0x09, 0x2b, 0x24, 0x03, 0x03, 0x02, 0x08, 0x01, 0x01, 0x0b]),
      (YUBIHSM_ALGO_EC_BP512, [0x06, 0x09, 0x2b, 0x24, 0x03, 0x03, 0x02, 0x08, 0x01, 0x01, 0x0d]),
      (YUBIHSM_ALGO_ED25519, [0x06, 0x03, 0x2b, 0x65, 0x70]),
      (YUBIHSM_ALGO_ED448, [0x06, 0x03, 0x2b, 0x65, 0x71]),
      (YUBIHSM_ALGO_X25519, [0x13, 0x0a, 0x63, 0x75, 0x72, 0x76, 0x65, 0x32, 0x35, 0x35, 0x31, 0x39]),
      (YUBIHSM_ALGO_X448, [0x06, 0x03, 0x2b, 0x65, 0x6f])] algorithm"

section \<open>Capabilities\<close>

text \<open>Eight bytes, the last one first; every bit number in the source is below 64.\<close>

definition yubihsm_capability :: "bytes \<Rightarrow> nat \<Rightarrow> bool" where
  "yubihsm_capability capabilities b \<longleftrightarrow> capabilities ! (7 - b div 8) AND push_bit (b mod 8) 1 \<noteq> 0"

definition set_yubihsm_capability :: "bytes \<Rightarrow> nat \<Rightarrow> bool \<Rightarrow> bytes" where
  "set_yubihsm_capability capabilities b enabled =
     (let mask = push_bit (b mod 8) 1; i = 7 - b div 8 in
      capabilities[i := if enabled then capabilities ! i OR mask else capabilities ! i AND NOT mask])"

definition yubihsm_capabilities :: "nat list \<Rightarrow> bytes" where
  "yubihsm_capabilities bits =
     fold (\<lambda>b capabilities. let i = 7 - b div 8 in
             capabilities[i := capabilities ! i OR push_bit (b mod 8) 1]) bits (replicate 8 0)"

record yubihsm_pkcs11_attributes =
  y_encapsulate :: bool
  y_decapsulate :: bool
  y_encrypt :: bool
  y_decrypt :: bool
  y_sign :: bool
  y_verify :: bool
  y_derive :: bool
  y_wrap :: bool
  y_unwrap :: bool
  y_extractable :: bool

definition no_usage :: yubihsm_pkcs11_attributes where
  "no_usage = \<lparr>y_encapsulate = False, y_decapsulate = False, y_encrypt = False, y_decrypt = False, y_sign = False,
     y_verify = False, y_derive = False, y_wrap = False, y_unwrap = False, y_extractable = False\<rparr>"

definition yubihsm_capabilities_to_attributes :: "byte \<Rightarrow> byte \<Rightarrow> bytes \<Rightarrow> yubihsm_pkcs11_attributes" where
  "yubihsm_capabilities_to_attributes object_type algorithm capabilities =
     (let cap = yubihsm_capability capabilities;
          attributes = no_usage\<lparr>y_extractable := cap 0x10\<rparr> in
      if object_type = YUBIHSM_ASYMMETRIC_KEY then
        if is_yubihsm_rsa algorithm
        then attributes\<lparr>y_sign := cap 0x05 \<or> cap 0x06, y_decrypt := cap 0x09 \<or> cap 0x0a\<rparr>
        else if yubihsm_ml_dsa algorithm \<noteq> None then attributes\<lparr>y_sign := cap 0x3a\<rparr>
        else if yubihsm_ml_kem algorithm \<noteq> None then attributes\<lparr>y_decapsulate := cap 0x3c\<rparr>
        else if yubihsm_hybrid_kem algorithm \<noteq> None then attributes\<lparr>y_decapsulate := cap 0x3e\<rparr>
        else if is_yubihsm_edwards algorithm then attributes\<lparr>y_sign := cap 0x08\<rparr>
        else if is_yubihsm_ec algorithm
        then attributes\<lparr>y_sign := cap 0x07, y_derive := cap 0x0b \<or> cap 0x38\<rparr>
        else if is_yubihsm_montgomery algorithm then attributes\<lparr>y_derive := cap 0x0b \<or> cap 0x38\<rparr>
        else attributes
      else if object_type = YUBIHSM_PUBLIC_KEY then
        let attributes = attributes\<lparr>y_extractable := True\<rparr> in
        if is_yubihsm_rsa algorithm
        then attributes\<lparr>y_verify := cap 0x05 \<or> cap 0x06, y_encrypt := cap 0x09 \<or> cap 0x0a\<rparr>
        else if yubihsm_ml_dsa algorithm \<noteq> None then attributes\<lparr>y_verify := True\<rparr>
        else if yubihsm_ml_kem algorithm \<noteq> None then attributes\<lparr>y_encapsulate := cap 0x3b\<rparr>
        else if yubihsm_hybrid_kem algorithm \<noteq> None then attributes\<lparr>y_encapsulate := cap 0x3d\<rparr>
        else if is_yubihsm_edwards algorithm then attributes\<lparr>y_verify := cap 0x08\<rparr>
        else if is_yubihsm_ec algorithm then attributes\<lparr>y_verify := cap 0x07\<rparr>
        else attributes
      else if object_type = YUBIHSM_WRAP_KEY \<and> (is_yubihsm_rsa algorithm \<or> is_yubihsm_ccm_wrap algorithm) then
        let attributes = attributes\<lparr>y_wrap := cap 0x0c, y_unwrap := cap 0x0d\<rparr> in
        if is_yubihsm_ccm_wrap algorithm
        then attributes\<lparr>y_encrypt := cap 0x25, y_decrypt := cap 0x26\<rparr> else attributes
      else if object_type = YUBIHSM_WRAP_KEY_PUBLIC then attributes\<lparr>y_extractable := True\<rparr>
      else if object_type = YUBIHSM_PUBLIC_WRAP_KEY then
        let attributes = attributes\<lparr>y_extractable := True\<rparr> in
        if is_yubihsm_rsa algorithm then attributes\<lparr>y_wrap := cap 0x0c\<rparr> else attributes
      else if object_type = YUBIHSM_HMAC_KEY \<and> is_yubihsm_hmac algorithm
      then attributes\<lparr>y_sign := cap 0x16, y_verify := cap 0x17\<rparr>
      else if object_type = YUBIHSM_SYMMETRIC_KEY \<and> is_yubihsm_aes algorithm
      then attributes\<lparr>y_encrypt := cap 0x33 \<or> cap 0x35, y_decrypt := cap 0x32 \<or> cap 0x34,
             y_sign := cap 0x33, y_verify := cap 0x33, y_derive := cap 0x33\<rparr>
      else attributes)"

definition yubihsm_capability_bits :: "byte \<Rightarrow> byte \<Rightarrow> yubihsm_pkcs11_attributes \<Rightarrow> nat list" where
  "yubihsm_capability_bits object_type algorithm a =
     (if object_type = YUBIHSM_ASYMMETRIC_KEY then
        (if y_sign a then
           if is_yubihsm_rsa algorithm then [0x05, 0x06]
           else if yubihsm_ml_dsa algorithm \<noteq> None then [0x3a]
           else if is_yubihsm_edwards algorithm then [0x08]
           else if is_yubihsm_ec algorithm then [0x07] else []
         else []) @
        (if yubihsm_ml_kem algorithm \<noteq> None
         then (if y_encapsulate a then [0x3b] else []) @ (if y_decapsulate a then [0x3c] else [])
         else []) @
        (if yubihsm_hybrid_kem algorithm \<noteq> None
         then (if y_encapsulate a then [0x3d] else []) @ (if y_decapsulate a then [0x3e] else [])
         else []) @
        (if y_decrypt a \<and> is_yubihsm_rsa algorithm then [0x09, 0x0a] else []) @
        (if y_derive a \<and> (is_yubihsm_ec algorithm \<or> is_yubihsm_montgomery algorithm) then [0x0b] else [])
      else if object_type = YUBIHSM_WRAP_KEY \<and> (is_yubihsm_rsa algorithm \<or> is_yubihsm_ccm_wrap algorithm) then
        (if y_wrap a then [0x0c] else []) @
        (if y_unwrap a then [0x0d] else []) @
        (if y_encrypt a \<and> is_yubihsm_ccm_wrap algorithm then [0x25] else []) @
        (if y_decrypt a \<and> is_yubihsm_ccm_wrap algorithm then [0x26] else [])
      else if object_type = YUBIHSM_PUBLIC_WRAP_KEY then
        (if y_wrap a \<and> is_yubihsm_rsa algorithm then [0x0c] else [])
      else if object_type = YUBIHSM_HMAC_KEY \<and> is_yubihsm_hmac algorithm then
        (if y_sign a then [0x16] else []) @ (if y_verify a then [0x17] else [])
      else if object_type = YUBIHSM_SYMMETRIC_KEY \<and> is_yubihsm_aes algorithm then
        (if y_encrypt a then [0x33, 0x35] else []) @
        (if y_decrypt a then [0x32, 0x34] else []) @
        (if y_sign a \<or> y_verify a \<or> y_derive a then [0x33] else [])
      else []) @
     (if y_extractable a \<and>
         object_type \<notin> set [YUBIHSM_PUBLIC_KEY, YUBIHSM_WRAP_KEY_PUBLIC, YUBIHSM_PUBLIC_WRAP_KEY]
      then [0x10] else [])"

definition yubihsm_attributes_to_capabilities :: "byte \<Rightarrow> byte \<Rightarrow> yubihsm_pkcs11_attributes \<Rightarrow> bytes" where
  "yubihsm_attributes_to_capabilities object_type algorithm a =
     yubihsm_capabilities (yubihsm_capability_bits object_type algorithm a)"

section \<open>Octet strings\<close>

definition der_octet_string :: "bytes \<Rightarrow> bytes option" where
  "der_octet_string v =
     (if length v < 128 then Some (0x04 # of_nat (length v) # v)
      else if length v \<le> 255 then Some (0x04 # 0x81 # of_nat (length v) # v)
      else None)"

definition der_octet_string_value :: "bytes \<Rightarrow> bytes option" where
  "der_octet_string_value v =
     (case v of
        tag # b # rest \<Rightarrow>
          if tag \<noteq> 0x04 then None
          else if unat b \<le> 127 then (if length rest = unat b then Some rest else None)
          else if b = 0x81 then
            (case rest of n # content \<Rightarrow> if length content = unat n then Some content else None | [] \<Rightarrow> None)
          else None
      | _ \<Rightarrow> None)"

section \<open>Capability bits\<close>

lemma capability_bit: "yubihsm_capability capabilities b \<longleftrightarrow> bit (capabilities ! (7 - b div 8)) (b mod 8)"
  by (simp add: yubihsm_capability_def and_exp_eq_0_iff_not_bit)

lemma bit_one_byte: "n < 8 \<Longrightarrow> bit (2 ^ n :: byte) m \<longleftrightarrow> m = n"
  by (auto simp: bit_exp_iff possible_bit_def)

lemma capability_set:
  assumes "length capabilities = 8" "b < 64" "k < 64"
  shows "yubihsm_capability (set_yubihsm_capability capabilities b enabled) k =
    (if k = b then enabled else yubihsm_capability capabilities k)"
proof (cases "k div 8 = b div 8")
  case True
  then have "k mod 8 = b mod 8 \<longleftrightarrow> k = b" by (metis div_mult_mod_eq)
  with True assms show ?thesis
    by (auto simp: capability_bit set_yubihsm_capability_def Let_def bit_and_iff bit_or_iff bit_not_iff bit_one_byte)
next
  case False
  moreover have "7 - k div 8 \<noteq> 7 - b div 8" using False assms by linarith
  ultimately show ?thesis
    using assms by (auto simp: capability_bit set_yubihsm_capability_def Let_def)
qed

lemma capabilities_fold:
  assumes "\<forall>b \<in> set bits. b < 64" "k < 64" "length c = 8"
  shows "yubihsm_capability (fold (\<lambda>b capabilities. let i = 7 - b div 8 in
      capabilities[i := capabilities ! i OR push_bit (b mod 8) 1]) bits c) k \<longleftrightarrow>
    k \<in> set bits \<or> yubihsm_capability c k"
  using assms(1,3)
proof (induction bits arbitrary: c)
  case (Cons b bits)
  have "c[7 - b div 8 := c ! (7 - b div 8) OR push_bit (b mod 8) 1] = set_yubihsm_capability c b True"
    by (simp add: set_yubihsm_capability_def Let_def)
  moreover have "length (set_yubihsm_capability c b True) = 8" using Cons.prems by (simp add: set_yubihsm_capability_def Let_def)
  ultimately show ?case using Cons capability_set [of c b k True] assms(2) by (auto simp: Let_def)
qed simp

lemma capabilities_exact:
  "\<forall>b \<in> set bits. b < 64 \<Longrightarrow> k < 64 \<Longrightarrow> yubihsm_capability (yubihsm_capabilities bits) k \<longleftrightarrow> k \<in> set bits"
  unfolding yubihsm_capabilities_def
  by (subst capabilities_fold) (simp_all add: capability_bit)

lemma capability_bits_bound: "b \<in> set (yubihsm_capability_bits t g a) \<Longrightarrow> b < 64"
  by (auto simp: yubihsm_capability_bits_def split: if_splits)

text \<open>The bits an attribute set is translated to, read back.\<close>

lemma attribute_capability:
  "k < 64 \<Longrightarrow> yubihsm_capability (yubihsm_attributes_to_capabilities t g a) k \<longleftrightarrow>
     k \<in> set (yubihsm_capability_bits t g a)"
  unfolding yubihsm_attributes_to_capabilities_def
  by (rule capabilities_exact) (auto dest: capability_bits_bound)

lemmas algorithm_groups = is_yubihsm_rsa_def is_yubihsm_ec_def is_yubihsm_montgomery_def is_yubihsm_edwards_def
  is_yubihsm_ccm_wrap_def is_yubihsm_aes_def is_yubihsm_hmac_def yubihsm_ml_dsa_def yubihsm_ml_kem_def
  yubihsm_hybrid_kem_def

text \<open>No algorithm is in two groups.\<close>

lemma groups_disjoint:
  "is_yubihsm_rsa g \<Longrightarrow> \<not> is_yubihsm_ec g \<and> \<not> is_yubihsm_montgomery g \<and> \<not> is_yubihsm_edwards g \<and>
     yubihsm_ml_dsa g = None \<and> yubihsm_ml_kem g = None \<and> yubihsm_hybrid_kem g = None \<and> \<not> is_yubihsm_ccm_wrap g"
  "is_yubihsm_ec g \<Longrightarrow> \<not> is_yubihsm_montgomery g \<and> \<not> is_yubihsm_edwards g \<and>
     yubihsm_ml_dsa g = None \<and> yubihsm_ml_kem g = None \<and> yubihsm_hybrid_kem g = None"
  "is_yubihsm_montgomery g \<Longrightarrow> \<not> is_yubihsm_edwards g \<and>
     yubihsm_ml_dsa g = None \<and> yubihsm_ml_kem g = None \<and> yubihsm_hybrid_kem g = None"
  "is_yubihsm_edwards g \<Longrightarrow> yubihsm_ml_dsa g = None \<and> yubihsm_ml_kem g = None \<and> yubihsm_hybrid_kem g = None"
  "yubihsm_ml_dsa g \<noteq> None \<Longrightarrow> yubihsm_ml_kem g = None \<and> yubihsm_hybrid_kem g = None"
  "yubihsm_ml_kem g \<noteq> None \<Longrightarrow> yubihsm_hybrid_kem g = None"
  by (auto simp: algorithm_groups split: if_splits)

lemma usage_asymmetric:
  "yubihsm_capabilities_to_attributes YUBIHSM_ASYMMETRIC_KEY g
      (yubihsm_attributes_to_capabilities YUBIHSM_ASYMMETRIC_KEY g a) =
    no_usage\<lparr>y_sign := y_sign a \<and> (is_yubihsm_rsa g \<or> yubihsm_ml_dsa g \<noteq> None \<or> is_yubihsm_edwards g \<or> is_yubihsm_ec g),
      y_decrypt := y_decrypt a \<and> is_yubihsm_rsa g,
      y_decapsulate := y_decapsulate a \<and> (yubihsm_ml_kem g \<noteq> None \<or> yubihsm_hybrid_kem g \<noteq> None),
      y_derive := y_derive a \<and> (is_yubihsm_ec g \<or> is_yubihsm_montgomery g),
      y_extractable := y_extractable a\<rparr>"
  "yubihsm_capabilities_to_attributes YUBIHSM_PUBLIC_KEY g
      (yubihsm_attributes_to_capabilities YUBIHSM_ASYMMETRIC_KEY g a) =
    no_usage\<lparr>y_verify := yubihsm_ml_dsa g \<noteq> None \<or>
        y_sign a \<and> (is_yubihsm_rsa g \<or> is_yubihsm_edwards g \<or> is_yubihsm_ec g),
      y_encrypt := y_decrypt a \<and> is_yubihsm_rsa g,
      y_encapsulate := y_encapsulate a \<and> (yubihsm_ml_kem g \<noteq> None \<or> yubihsm_hybrid_kem g \<noteq> None),
      y_extractable := True\<rparr>"
  using groups_disjoint [of g]
  by (auto simp: yubihsm_capabilities_to_attributes_def attribute_capability yubihsm_capability_bits_def Let_def
      no_usage_def YUBIHSM_PUBLIC_KEY_def YUBIHSM_WRAP_KEY_PUBLIC_def)

lemma usage_wrap:
  "yubihsm_capabilities_to_attributes YUBIHSM_WRAP_KEY g (yubihsm_attributes_to_capabilities YUBIHSM_WRAP_KEY g a) =
    no_usage\<lparr>y_wrap := y_wrap a \<and> (is_yubihsm_rsa g \<or> is_yubihsm_ccm_wrap g),
      y_unwrap := y_unwrap a \<and> (is_yubihsm_rsa g \<or> is_yubihsm_ccm_wrap g),
      y_encrypt := y_encrypt a \<and> is_yubihsm_ccm_wrap g, y_decrypt := y_decrypt a \<and> is_yubihsm_ccm_wrap g,
      y_extractable := y_extractable a\<rparr>"
  "yubihsm_capabilities_to_attributes YUBIHSM_PUBLIC_WRAP_KEY g
      (yubihsm_attributes_to_capabilities YUBIHSM_PUBLIC_WRAP_KEY g a) =
    no_usage\<lparr>y_wrap := y_wrap a \<and> is_yubihsm_rsa g, y_extractable := True\<rparr>"
  by (auto simp: yubihsm_capabilities_to_attributes_def attribute_capability yubihsm_capability_bits_def Let_def
      no_usage_def YUBIHSM_PUBLIC_KEY_def YUBIHSM_WRAP_KEY_PUBLIC_def)

lemma usage_symmetric:
  "yubihsm_capabilities_to_attributes YUBIHSM_HMAC_KEY g (yubihsm_attributes_to_capabilities YUBIHSM_HMAC_KEY g a) =
    no_usage\<lparr>y_sign := y_sign a \<and> is_yubihsm_hmac g, y_verify := y_verify a \<and> is_yubihsm_hmac g,
      y_extractable := y_extractable a\<rparr>"
  "yubihsm_capabilities_to_attributes YUBIHSM_SYMMETRIC_KEY g
      (yubihsm_attributes_to_capabilities YUBIHSM_SYMMETRIC_KEY g a) =
    (let ecb = is_yubihsm_aes g \<and> (y_encrypt a \<or> y_sign a \<or> y_verify a \<or> y_derive a) in
     no_usage\<lparr>y_encrypt := ecb, y_sign := ecb, y_verify := ecb, y_derive := ecb,
       y_decrypt := y_decrypt a \<and> is_yubihsm_aes g, y_extractable := y_extractable a\<rparr>)"
  by (auto simp: yubihsm_capabilities_to_attributes_def attribute_capability yubihsm_capability_bits_def Let_def
      no_usage_def YUBIHSM_PUBLIC_KEY_def YUBIHSM_WRAP_KEY_PUBLIC_def)

text \<open>C23. Usage attributes translated to the capabilities of a YubiHSM object and back are exactly
  the ones asked for, restricted to what the algorithm can do: nothing is added, and the public
  half of an asymmetric key shows the matching operations.  The one exception is an AES key, whose
  ECB encryption bit stands for encrypting, signing, verifying and deriving together.\<close>
theorem yubihsm_usage_exact:
  "yubihsm_capabilities_to_attributes YUBIHSM_ASYMMETRIC_KEY g
      (yubihsm_attributes_to_capabilities YUBIHSM_ASYMMETRIC_KEY g a) =
    no_usage\<lparr>y_sign := y_sign a \<and> (is_yubihsm_rsa g \<or> yubihsm_ml_dsa g \<noteq> None \<or> is_yubihsm_edwards g \<or> is_yubihsm_ec g),
      y_decrypt := y_decrypt a \<and> is_yubihsm_rsa g,
      y_decapsulate := y_decapsulate a \<and> (yubihsm_ml_kem g \<noteq> None \<or> yubihsm_hybrid_kem g \<noteq> None),
      y_derive := y_derive a \<and> (is_yubihsm_ec g \<or> is_yubihsm_montgomery g),
      y_extractable := y_extractable a\<rparr> \<and>
   yubihsm_capabilities_to_attributes YUBIHSM_PUBLIC_KEY g
      (yubihsm_attributes_to_capabilities YUBIHSM_ASYMMETRIC_KEY g a) =
    no_usage\<lparr>y_verify := yubihsm_ml_dsa g \<noteq> None \<or>
        y_sign a \<and> (is_yubihsm_rsa g \<or> is_yubihsm_edwards g \<or> is_yubihsm_ec g),
      y_encrypt := y_decrypt a \<and> is_yubihsm_rsa g,
      y_encapsulate := y_encapsulate a \<and> (yubihsm_ml_kem g \<noteq> None \<or> yubihsm_hybrid_kem g \<noteq> None),
      y_extractable := True\<rparr> \<and>
   yubihsm_capabilities_to_attributes YUBIHSM_WRAP_KEY g (yubihsm_attributes_to_capabilities YUBIHSM_WRAP_KEY g a) =
    no_usage\<lparr>y_wrap := y_wrap a \<and> (is_yubihsm_rsa g \<or> is_yubihsm_ccm_wrap g),
      y_unwrap := y_unwrap a \<and> (is_yubihsm_rsa g \<or> is_yubihsm_ccm_wrap g),
      y_encrypt := y_encrypt a \<and> is_yubihsm_ccm_wrap g, y_decrypt := y_decrypt a \<and> is_yubihsm_ccm_wrap g,
      y_extractable := y_extractable a\<rparr> \<and>
   yubihsm_capabilities_to_attributes YUBIHSM_PUBLIC_WRAP_KEY g
      (yubihsm_attributes_to_capabilities YUBIHSM_PUBLIC_WRAP_KEY g a) =
    no_usage\<lparr>y_wrap := y_wrap a \<and> is_yubihsm_rsa g, y_extractable := True\<rparr> \<and>
   yubihsm_capabilities_to_attributes YUBIHSM_HMAC_KEY g (yubihsm_attributes_to_capabilities YUBIHSM_HMAC_KEY g a) =
    no_usage\<lparr>y_sign := y_sign a \<and> is_yubihsm_hmac g, y_verify := y_verify a \<and> is_yubihsm_hmac g,
      y_extractable := y_extractable a\<rparr> \<and>
   yubihsm_capabilities_to_attributes YUBIHSM_SYMMETRIC_KEY g
      (yubihsm_attributes_to_capabilities YUBIHSM_SYMMETRIC_KEY g a) =
    (let ecb = is_yubihsm_aes g \<and> (y_encrypt a \<or> y_sign a \<or> y_verify a \<or> y_derive a) in
     no_usage\<lparr>y_encrypt := ecb, y_sign := ecb, y_verify := ecb, y_derive := ecb,
       y_decrypt := y_decrypt a \<and> is_yubihsm_aes g, y_extractable := y_extractable a\<rparr>)"
  by (intro conjI usage_asymmetric usage_wrap usage_symmetric)

theorem yubihsm_usage_exact_witness:
  "yubihsm_capabilities_to_attributes YUBIHSM_ASYMMETRIC_KEY YUBIHSM_ALGO_RSA_2048
      (yubihsm_attributes_to_capabilities YUBIHSM_ASYMMETRIC_KEY YUBIHSM_ALGO_RSA_2048
         (no_usage\<lparr>y_sign := True, y_derive := True\<rparr>)) = no_usage\<lparr>y_sign := True\<rparr> \<and>
   yubihsm_capabilities_to_attributes YUBIHSM_SYMMETRIC_KEY YUBIHSM_ALGO_AES128
      (yubihsm_attributes_to_capabilities YUBIHSM_SYMMETRIC_KEY YUBIHSM_ALGO_AES128 (no_usage\<lparr>y_encrypt := True\<rparr>)) =
    no_usage\<lparr>y_encrypt := True, y_sign := True, y_verify := True, y_derive := True\<rparr>"
  using yubihsm_usage_exact [of YUBIHSM_ALGO_RSA_2048 "no_usage\<lparr>y_sign := True, y_derive := True\<rparr>"]
    yubihsm_usage_exact [of YUBIHSM_ALGO_AES128 "no_usage\<lparr>y_encrypt := True\<rparr>"]
  by (simp add: no_usage_def is_yubihsm_rsa_def is_yubihsm_aes_def is_yubihsm_ec_def is_yubihsm_montgomery_def
      yubihsm_ml_kem_def yubihsm_hybrid_kem_def)

lemma octet_string_round_trip: "der_octet_string v = Some e \<Longrightarrow> der_octet_string_value e = Some v"
  by (auto simp: der_octet_string_def der_octet_string_value_def unat_of_nat split: if_splits)

end
