(* ===== verification/Attribute_Types.thy ===== *)
theory Attribute_Types
  imports Objects Ffi
begin

text \<open>
  Attributes as the calling application passes them (src/src/object.rs): the numbers of the
  attribute types and of the key types and mechanisms used here (src/src/pkcs11.rs and
  src/src/lib.rs), reading a value from a template, and which types belong to which kind of object.
  \<open>CK_ULONG\<close> values are eight bytes in the order of the machine, taken as little-endian.
\<close>

section \<open>Numbers\<close>

abbreviation (input) CKA_CLASS :: ck_ulong where "CKA_CLASS \<equiv> 0"
abbreviation (input) CKA_TOKEN :: ck_ulong where "CKA_TOKEN \<equiv> 1"
abbreviation (input) CKA_PRIVATE :: ck_ulong where "CKA_PRIVATE \<equiv> 2"
abbreviation (input) CKA_MODIFIABLE :: ck_ulong where "CKA_MODIFIABLE \<equiv> 368"
abbreviation (input) CKA_LABEL :: ck_ulong where "CKA_LABEL \<equiv> 3"
abbreviation (input) CKA_COPYABLE :: ck_ulong where "CKA_COPYABLE \<equiv> 369"
abbreviation (input) CKA_DESTROYABLE :: ck_ulong where "CKA_DESTROYABLE \<equiv> 370"
abbreviation (input) CKA_UNIQUE_ID :: ck_ulong where "CKA_UNIQUE_ID \<equiv> 4"
abbreviation (input) CKA_KEY_TYPE :: ck_ulong where "CKA_KEY_TYPE \<equiv> 256"
abbreviation (input) CKA_ID :: ck_ulong where "CKA_ID \<equiv> 258"
abbreviation (input) CKA_START_DATE :: ck_ulong where "CKA_START_DATE \<equiv> 272"
abbreviation (input) CKA_END_DATE :: ck_ulong where "CKA_END_DATE \<equiv> 273"
abbreviation (input) CKA_DERIVE :: ck_ulong where "CKA_DERIVE \<equiv> 268"
abbreviation (input) CKA_LOCAL :: ck_ulong where "CKA_LOCAL \<equiv> 355"
abbreviation (input) CKA_KEY_GEN_MECHANISM :: ck_ulong where "CKA_KEY_GEN_MECHANISM \<equiv> 358"
abbreviation (input) CKA_ALLOWED_MECHANISMS :: ck_ulong where "CKA_ALLOWED_MECHANISMS \<equiv> 1073743360"
abbreviation (input) CKA_OBJECT_VALIDATION_FLAGS :: ck_ulong where "CKA_OBJECT_VALIDATION_FLAGS \<equiv> 1566"
abbreviation (input) CKA_SUBJECT :: ck_ulong where "CKA_SUBJECT \<equiv> 257"
abbreviation (input) CKA_ENCRYPT :: ck_ulong where "CKA_ENCRYPT \<equiv> 260"
abbreviation (input) CKA_VERIFY :: ck_ulong where "CKA_VERIFY \<equiv> 266"
abbreviation (input) CKA_VERIFY_RECOVER :: ck_ulong where "CKA_VERIFY_RECOVER \<equiv> 267"
abbreviation (input) CKA_WRAP :: ck_ulong where "CKA_WRAP \<equiv> 262"
abbreviation (input) CKA_ENCAPSULATE :: ck_ulong where "CKA_ENCAPSULATE \<equiv> 1587"
abbreviation (input) CKA_TRUSTED :: ck_ulong where "CKA_TRUSTED \<equiv> 134"
abbreviation (input) CKA_WRAP_TEMPLATE :: ck_ulong where "CKA_WRAP_TEMPLATE \<equiv> 1073742353"
abbreviation (input) CKA_PUBLIC_KEY_INFO :: ck_ulong where "CKA_PUBLIC_KEY_INFO \<equiv> 297"
abbreviation (input) CKA_PUBLIC_CRC64_VALUE :: ck_ulong where "CKA_PUBLIC_CRC64_VALUE \<equiv> 1590"
abbreviation (input) CKA_SENSITIVE :: ck_ulong where "CKA_SENSITIVE \<equiv> 259"
abbreviation (input) CKA_DECRYPT :: ck_ulong where "CKA_DECRYPT \<equiv> 261"
abbreviation (input) CKA_SIGN :: ck_ulong where "CKA_SIGN \<equiv> 264"
abbreviation (input) CKA_SIGN_RECOVER :: ck_ulong where "CKA_SIGN_RECOVER \<equiv> 265"
abbreviation (input) CKA_UNWRAP :: ck_ulong where "CKA_UNWRAP \<equiv> 263"
abbreviation (input) CKA_DECAPSULATE :: ck_ulong where "CKA_DECAPSULATE \<equiv> 1588"
abbreviation (input) CKA_EXTRACTABLE :: ck_ulong where "CKA_EXTRACTABLE \<equiv> 354"
abbreviation (input) CKA_ALWAYS_SENSITIVE :: ck_ulong where "CKA_ALWAYS_SENSITIVE \<equiv> 357"
abbreviation (input) CKA_NEVER_EXTRACTABLE :: ck_ulong where "CKA_NEVER_EXTRACTABLE \<equiv> 356"
abbreviation (input) CKA_WRAP_WITH_TRUSTED :: ck_ulong where "CKA_WRAP_WITH_TRUSTED \<equiv> 528"
abbreviation (input) CKA_UNWRAP_TEMPLATE :: ck_ulong where "CKA_UNWRAP_TEMPLATE \<equiv> 1073742354"
abbreviation (input) CKA_ALWAYS_AUTHENTICATE :: ck_ulong where "CKA_ALWAYS_AUTHENTICATE \<equiv> 514"
abbreviation (input) CKA_DERIVE_TEMPLATE :: ck_ulong where "CKA_DERIVE_TEMPLATE \<equiv> 1073742355"
abbreviation (input) CKA_CHECK_VALUE :: ck_ulong where "CKA_CHECK_VALUE \<equiv> 144"
abbreviation (input) CKA_VALUE_LEN :: ck_ulong where "CKA_VALUE_LEN \<equiv> 353"
abbreviation (input) CKA_CERTIFICATE_TYPE :: ck_ulong where "CKA_CERTIFICATE_TYPE \<equiv> 128"
abbreviation (input) CKA_CERTIFICATE_CATEGORY :: ck_ulong where "CKA_CERTIFICATE_CATEGORY \<equiv> 135"
abbreviation (input) CKA_ISSUER :: ck_ulong where "CKA_ISSUER \<equiv> 129"
abbreviation (input) CKA_SERIAL_NUMBER :: ck_ulong where "CKA_SERIAL_NUMBER \<equiv> 130"
abbreviation (input) CKA_VALUE :: ck_ulong where "CKA_VALUE \<equiv> 17"
abbreviation (input) CKA_URL :: ck_ulong where "CKA_URL \<equiv> 137"
abbreviation (input) CKA_HASH_OF_SUBJECT_PUBLIC_KEY :: ck_ulong where "CKA_HASH_OF_SUBJECT_PUBLIC_KEY \<equiv> 138"
abbreviation (input) CKA_HASH_OF_ISSUER_PUBLIC_KEY :: ck_ulong where "CKA_HASH_OF_ISSUER_PUBLIC_KEY \<equiv> 139"
abbreviation (input) CKA_JAVA_MIDP_SECURITY_DOMAIN :: ck_ulong where "CKA_JAVA_MIDP_SECURITY_DOMAIN \<equiv> 136"
abbreviation (input) CKA_NAME_HASH_ALGORITHM :: ck_ulong where "CKA_NAME_HASH_ALGORITHM \<equiv> 140"
abbreviation (input) CKA_MODULUS :: ck_ulong where "CKA_MODULUS \<equiv> 288"
abbreviation (input) CKA_MODULUS_BITS :: ck_ulong where "CKA_MODULUS_BITS \<equiv> 289"
abbreviation (input) CKA_PUBLIC_EXPONENT :: ck_ulong where "CKA_PUBLIC_EXPONENT \<equiv> 290"
abbreviation (input) CKA_PRIVATE_EXPONENT :: ck_ulong where "CKA_PRIVATE_EXPONENT \<equiv> 291"
abbreviation (input) CKA_PRIME_1 :: ck_ulong where "CKA_PRIME_1 \<equiv> 292"
abbreviation (input) CKA_PRIME_2 :: ck_ulong where "CKA_PRIME_2 \<equiv> 293"
abbreviation (input) CKA_EXPONENT_1 :: ck_ulong where "CKA_EXPONENT_1 \<equiv> 294"
abbreviation (input) CKA_EXPONENT_2 :: ck_ulong where "CKA_EXPONENT_2 \<equiv> 295"
abbreviation (input) CKA_COEFFICIENT :: ck_ulong where "CKA_COEFFICIENT \<equiv> 296"
abbreviation (input) CKA_EC_PARAMS :: ck_ulong where "CKA_EC_PARAMS \<equiv> 384"
abbreviation (input) CKA_EC_POINT :: ck_ulong where "CKA_EC_POINT \<equiv> 385"
abbreviation (input) CKA_PARAMETER_SET :: ck_ulong where "CKA_PARAMETER_SET \<equiv> 1565"
abbreviation (input) CKA_SEED :: ck_ulong where "CKA_SEED \<equiv> 1591"
abbreviation (input) CKA_OTP_FORMAT :: ck_ulong where "CKA_OTP_FORMAT \<equiv> 544"
abbreviation (input) CKA_OTP_LENGTH :: ck_ulong where "CKA_OTP_LENGTH \<equiv> 545"
abbreviation (input) CKA_OTP_TIME_INTERVAL :: ck_ulong where "CKA_OTP_TIME_INTERVAL \<equiv> 546"
abbreviation (input) CKA_OTP_USER_FRIENDLY_MODE :: ck_ulong where "CKA_OTP_USER_FRIENDLY_MODE \<equiv> 547"
abbreviation (input) CKA_OTP_CHALLENGE_REQUIREMENT :: ck_ulong where "CKA_OTP_CHALLENGE_REQUIREMENT \<equiv> 548"
abbreviation (input) CKA_OTP_TIME_REQUIREMENT :: ck_ulong where "CKA_OTP_TIME_REQUIREMENT \<equiv> 549"
abbreviation (input) CKA_OTP_COUNTER_REQUIREMENT :: ck_ulong where "CKA_OTP_COUNTER_REQUIREMENT \<equiv> 550"
abbreviation (input) CKA_OTP_PIN_REQUIREMENT :: ck_ulong where "CKA_OTP_PIN_REQUIREMENT \<equiv> 551"
abbreviation (input) CKA_APPLICATION :: ck_ulong where "CKA_APPLICATION \<equiv> 16"
abbreviation (input) CKA_OBJECT_ID :: ck_ulong where "CKA_OBJECT_ID \<equiv> 18"
abbreviation (input) CKA_PROFILE_ID :: ck_ulong where "CKA_PROFILE_ID \<equiv> 1537"
abbreviation (input) CKA_ATTR_TYPES :: ck_ulong where "CKA_ATTR_TYPES \<equiv> 133"
abbreviation (input) CKA_PKCS11RS_OATH_HASH :: ck_ulong where "CKA_PKCS11RS_OATH_HASH \<equiv> 3495100423"
abbreviation (input) CKA_PKCS11RS_OATH_TOUCH_REQUIRED :: ck_ulong where "CKA_PKCS11RS_OATH_TOUCH_REQUIRED \<equiv> 3495100424"
abbreviation (input) CKA_PKCS11RS_URI :: ck_ulong where "CKA_PKCS11RS_URI \<equiv> 3495100420"
abbreviation (input) CKA_PKCS11RS_PIV_OBJECT_TAG :: ck_ulong where "CKA_PKCS11RS_PIV_OBJECT_TAG \<equiv> 2147504214"
abbreviation (input) CKA_YUBICO_HSMAUTH_RETRIES :: ck_ulong where "CKA_YUBICO_HSMAUTH_RETRIES \<equiv> 2147506434"
abbreviation (input) CKA_YUBICO_HSMAUTH_TOUCH_REQUIRED :: ck_ulong where "CKA_YUBICO_HSMAUTH_TOUCH_REQUIRED \<equiv> 2147506435"
abbreviation (input) CKA_YUBICO_TOUCH_POLICY :: ck_ulong where "CKA_YUBICO_TOUCH_POLICY \<equiv> 3646243329"
abbreviation (input) CKA_YUBICO_PIN_POLICY :: ck_ulong where "CKA_YUBICO_PIN_POLICY \<equiv> 3646243330"
abbreviation (input) CKA_PKCS11RS_PREVIEW_SIGN_REGISTRATION :: ck_ulong where "CKA_PKCS11RS_PREVIEW_SIGN_REGISTRATION \<equiv> 3495100417"
abbreviation (input) CKA_PKCS11RS_PREVIEW_SIGN_DERIVED_KEY :: ck_ulong where "CKA_PKCS11RS_PREVIEW_SIGN_DERIVED_KEY \<equiv> 3495100418"
abbreviation (input) CKA_PKCS11RS_FIDO_RP_ID :: ck_ulong where "CKA_PKCS11RS_FIDO_RP_ID \<equiv> 3495100419"
abbreviation (input) CKK_RSA :: ck_ulong where "CKK_RSA \<equiv> 0"
abbreviation (input) CKK_EC :: ck_ulong where "CKK_EC \<equiv> 3"
abbreviation (input) CKK_EC_EDWARDS :: ck_ulong where "CKK_EC_EDWARDS \<equiv> 64"
abbreviation (input) CKK_EC_MONTGOMERY :: ck_ulong where "CKK_EC_MONTGOMERY \<equiv> 65"
abbreviation (input) CKK_ML_DSA :: ck_ulong where "CKK_ML_DSA \<equiv> 74"
abbreviation (input) CKK_ML_KEM :: ck_ulong where "CKK_ML_KEM \<equiv> 73"
abbreviation (input) CKK_PKCS11RS_MLKEM768_P256 :: ck_ulong where "CKK_PKCS11RS_MLKEM768_P256 \<equiv> 3495100432"
abbreviation (input) CKK_PKCS11RS_MLKEM768_X25519 :: ck_ulong where "CKK_PKCS11RS_MLKEM768_X25519 \<equiv> 3495100433"
abbreviation (input) CKK_PKCS11RS_MLKEM1024_P384 :: ck_ulong where "CKK_PKCS11RS_MLKEM1024_P384 \<equiv> 3495100434"
abbreviation (input) CKO_OTP_KEY :: ck_ulong where "CKO_OTP_KEY \<equiv> 8"
abbreviation (input) CKA_OTP_COUNTER :: ck_ulong where "CKA_OTP_COUNTER \<equiv> 558"
abbreviation (input) CKK_HOTP :: ck_ulong where "CKK_HOTP \<equiv> 35"
abbreviation (input) CKK_PKCS11RS_TOTP :: ck_ulong where "CKK_PKCS11RS_TOTP \<equiv> 3495100418"
abbreviation (input) CKK_PKCS11RS_HOTP :: ck_ulong where "CKK_PKCS11RS_HOTP \<equiv> 3495100419"
abbreviation (input) CKM_HOTP :: ck_ulong where "CKM_HOTP \<equiv> 657"
abbreviation (input) CKM_PKCS11RS_TOTP :: ck_ulong where "CKM_PKCS11RS_TOTP \<equiv> 3495100423"
abbreviation (input) CKM_PKCS11RS_HOTP :: ck_ulong where "CKM_PKCS11RS_HOTP \<equiv> 3495100424"
abbreviation (input) CKM_SHA_1 :: ck_ulong where "CKM_SHA_1 \<equiv> 544"
abbreviation (input) CKM_SHA256 :: ck_ulong where "CKM_SHA256 \<equiv> 592"
abbreviation (input) CKM_SHA512 :: ck_ulong where "CKM_SHA512 \<equiv> 624"
abbreviation (input) CK_OTP_FORMAT_DECIMAL :: ck_ulong where "CK_OTP_FORMAT_DECIMAL \<equiv> 0"
abbreviation (input) CK_OTP_PARAM_IGNORED :: ck_ulong where "CK_OTP_PARAM_IGNORED \<equiv> 0"
abbreviation (input) CK_OTP_PARAM_OPTIONAL :: ck_ulong where "CK_OTP_PARAM_OPTIONAL \<equiv> 1"
abbreviation (input) CK_OTP_PIN :: ck_ulong where "CK_OTP_PIN \<equiv> 1"
abbreviation (input) CK_OTP_CHALLENGE :: ck_ulong where "CK_OTP_CHALLENGE \<equiv> 2"
abbreviation (input) CK_OTP_TIME :: ck_ulong where "CK_OTP_TIME \<equiv> 3"
abbreviation (input) CK_OTP_COUNTER :: ck_ulong where "CK_OTP_COUNTER \<equiv> 4"
abbreviation (input) CK_OTP_FLAGS :: ck_ulong where "CK_OTP_FLAGS \<equiv> 5"
abbreviation (input) CK_OTP_OUTPUT_FORMAT :: ck_ulong where "CK_OTP_OUTPUT_FORMAT \<equiv> 7"
abbreviation (input) CKF_USER_FRIENDLY_OTP :: ck_ulong where "CKF_USER_FRIENDLY_OTP \<equiv> 32"
abbreviation (input) CK_UNAVAILABLE_INFORMATION :: ck_ulong where "CK_UNAVAILABLE_INFORMATION \<equiv> 0xffffffffffffffff"

section \<open>Values\<close>

definition u64_to_le :: "u64 \<Rightarrow> bytes" where "u64_to_le w = rev (be_of_nat 8 (unat w))"

definition u64_from_le :: "bytes \<Rightarrow> u64" where "u64_from_le bs = of_nat (nat_of_be (rev bs))"

definition ulong_attribute :: "ck_ulong \<Rightarrow> bytes" where
  "ulong_attribute v = u64_to_le v"

definition bool_attribute :: "bool \<Rightarrow> bytes" where
  "bool_attribute v = [if v then 1 else 0]"

record ck_attribute =
  attr_type :: ck_ulong
  attr_value :: "bytes raw_ptr"
  attr_len :: ck_ulong

definition read_attribute_value :: "ck_attribute \<Rightarrow> bytes result" where
  "read_attribute_value a =
     (if attr_len a = CK_UNAVAILABLE_INFORMATION \<or> ISIZE_MAX < unat (attr_len a)
      then Inl (Generic CKR_ATTRIBUTE_VALUE_INVALID)
      else if attr_len a = 0 then Inr []
      else case attr_value a of
             Pointing bs \<Rightarrow> Inr (take (unat (attr_len a)) bs)
           | _ \<Rightarrow> Inl (Generic CKR_ARGUMENTS_BAD))"

definition read_ulong_template_attribute :: "ck_attribute \<Rightarrow> ck_ulong result" where
  "read_ulong_template_attribute a =
     (if attr_len a \<noteq> 8 then Inl (Generic CKR_ATTRIBUTE_VALUE_INVALID)
      else and_then (read_attribute_value a) (\<lambda>v. Inr (u64_from_le v)))"

definition read_bool_template_attribute :: "ck_attribute \<Rightarrow> bool result" where
  "read_bool_template_attribute a =
     (if attr_len a \<noteq> 1 then Inl (Generic CKR_ATTRIBUTE_VALUE_INVALID)
      else and_then (read_attribute_value a) (\<lambda>v.
        if v ! 0 = 0 then Inr False
        else if v ! 0 = 1 then Inr True
        else Inl (Generic CKR_ATTRIBUTE_VALUE_INVALID)))"

lemma u64_le_round_trip [simp]: "u64_from_le (u64_to_le w) = w"
  using unsigned_less [of w, where 'a = nat]
  by (simp add: u64_from_le_def u64_to_le_def nat_of_be_of_nat)

lemma length_u64_to_le [simp]: "length (u64_to_le w) = 8"
  by (simp add: u64_to_le_def)

text \<open>A template entry that points to a buffer of the length it states.\<close>

definition attr_of :: "ck_ulong \<Rightarrow> bytes \<Rightarrow> ck_attribute" where
  "attr_of t bs = \<lparr>attr_type = t, attr_value = Pointing bs, attr_len = of_nat (length bs)\<rparr>"

lemma read_attr_of:
  assumes "length bs \<le> ISIZE_MAX"
  shows "read_attribute_value (attr_of t bs) = Inr bs"
proof -
  have "length bs < 2 ^ 64" using assms by simp
  then have u: "unat (of_nat (length bs) :: u64) = length bs" by (simp add: unat_of_nat)
  then have "of_nat (length bs) \<noteq> CK_UNAVAILABLE_INFORMATION"
  proof (intro notI)
    assume "of_nat (length bs) = CK_UNAVAILABLE_INFORMATION"
    then have "length bs = unat CK_UNAVAILABLE_INFORMATION" using u by metis
    with assms show False by simp
  qed
  with assms u show ?thesis
    by (auto simp: read_attribute_value_def attr_of_def)
qed

lemma read_bool_round_trip: "read_bool_template_attribute (attr_of t (bool_attribute v)) = Inr v"
  using read_attr_of [of "bool_attribute v" t]
  by (simp add: read_bool_template_attribute_def bool_attribute_def) (simp add: attr_of_def)

lemma read_ulong_round_trip: "read_ulong_template_attribute (attr_of t (ulong_attribute v)) = Inr v"
  using read_attr_of [of "ulong_attribute v" t]
  by (simp add: read_ulong_template_attribute_def ulong_attribute_def) (simp add: attr_of_def)

section \<open>Attribute types by kind of object\<close>

definition is_common_storage_attribute :: "ck_ulong \<Rightarrow> bool" where
  "is_common_storage_attribute t \<longleftrightarrow> t \<in> set
     [CKA_CLASS, CKA_TOKEN, CKA_PRIVATE, CKA_MODIFIABLE, CKA_LABEL, CKA_COPYABLE, CKA_DESTROYABLE,
      CKA_UNIQUE_ID]"

definition is_common_key_attribute :: "ck_ulong \<Rightarrow> bool" where
  "is_common_key_attribute t \<longleftrightarrow> t \<in> set
     [CKA_KEY_TYPE, CKA_ID, CKA_START_DATE, CKA_END_DATE, CKA_DERIVE, CKA_LOCAL,
      CKA_KEY_GEN_MECHANISM, CKA_ALLOWED_MECHANISMS, CKA_OBJECT_VALIDATION_FLAGS]"

definition is_common_public_key_attribute :: "ck_ulong \<Rightarrow> bool" where
  "is_common_public_key_attribute t \<longleftrightarrow> t \<in> set
     [CKA_SUBJECT, CKA_ENCRYPT, CKA_VERIFY, CKA_VERIFY_RECOVER, CKA_WRAP, CKA_ENCAPSULATE,
      CKA_TRUSTED, CKA_WRAP_TEMPLATE, CKA_PUBLIC_KEY_INFO, CKA_PUBLIC_CRC64_VALUE]"

definition is_common_private_key_attribute :: "ck_ulong \<Rightarrow> bool" where
  "is_common_private_key_attribute t \<longleftrightarrow> t \<in> set
     [CKA_SUBJECT, CKA_SENSITIVE, CKA_DECRYPT, CKA_SIGN, CKA_SIGN_RECOVER, CKA_UNWRAP,
      CKA_DECAPSULATE, CKA_EXTRACTABLE, CKA_ALWAYS_SENSITIVE, CKA_NEVER_EXTRACTABLE,
      CKA_WRAP_WITH_TRUSTED, CKA_UNWRAP_TEMPLATE, CKA_ALWAYS_AUTHENTICATE, CKA_PUBLIC_KEY_INFO,
      CKA_DERIVE_TEMPLATE, CKA_PUBLIC_CRC64_VALUE]"

definition is_common_secret_key_attribute :: "ck_ulong \<Rightarrow> bool" where
  "is_common_secret_key_attribute t \<longleftrightarrow> t \<in> set
     [CKA_SENSITIVE, CKA_ENCRYPT, CKA_DECRYPT, CKA_SIGN, CKA_VERIFY, CKA_WRAP, CKA_UNWRAP,
      CKA_EXTRACTABLE, CKA_ALWAYS_SENSITIVE, CKA_NEVER_EXTRACTABLE, CKA_CHECK_VALUE,
      CKA_WRAP_WITH_TRUSTED, CKA_TRUSTED, CKA_WRAP_TEMPLATE, CKA_UNWRAP_TEMPLATE,
      CKA_DERIVE_TEMPLATE, CKA_VALUE_LEN]"

definition is_x509_certificate_attribute :: "ck_ulong \<Rightarrow> bool" where
  "is_x509_certificate_attribute t \<longleftrightarrow> t \<in> set
     [CKA_CERTIFICATE_TYPE, CKA_TRUSTED, CKA_CERTIFICATE_CATEGORY, CKA_CHECK_VALUE, CKA_START_DATE,
      CKA_END_DATE, CKA_PUBLIC_KEY_INFO, CKA_SUBJECT, CKA_ID, CKA_ISSUER, CKA_SERIAL_NUMBER,
      CKA_VALUE, CKA_URL, CKA_HASH_OF_SUBJECT_PUBLIC_KEY, CKA_HASH_OF_ISSUER_PUBLIC_KEY,
      CKA_JAVA_MIDP_SECURITY_DOMAIN, CKA_NAME_HASH_ALGORITHM]"

definition is_rsa_public_attribute :: "ck_ulong \<Rightarrow> bool" where
  "is_rsa_public_attribute t \<longleftrightarrow> t \<in> set
     [CKA_MODULUS, CKA_MODULUS_BITS, CKA_PUBLIC_EXPONENT]"

definition is_rsa_private_attribute :: "ck_ulong \<Rightarrow> bool" where
  "is_rsa_private_attribute t \<longleftrightarrow> t \<in> set
     [CKA_MODULUS, CKA_PUBLIC_EXPONENT, CKA_PRIVATE_EXPONENT, CKA_PRIME_1, CKA_PRIME_2,
      CKA_EXPONENT_1, CKA_EXPONENT_2, CKA_COEFFICIENT]"

definition is_ec_public_attribute :: "ck_ulong \<Rightarrow> bool" where
  "is_ec_public_attribute t \<longleftrightarrow> t \<in> set
     [CKA_EC_PARAMS, CKA_EC_POINT]"

definition is_ec_private_attribute :: "ck_ulong \<Rightarrow> bool" where
  "is_ec_private_attribute t \<longleftrightarrow> t \<in> set
     [CKA_EC_PARAMS, CKA_VALUE]"

definition is_ml_dsa_public_attribute :: "ck_ulong \<Rightarrow> bool" where
  "is_ml_dsa_public_attribute t \<longleftrightarrow> t \<in> set
     [CKA_PARAMETER_SET, CKA_VALUE]"

definition is_ml_dsa_private_attribute :: "ck_ulong \<Rightarrow> bool" where
  "is_ml_dsa_private_attribute t \<longleftrightarrow> t \<in> set
     [CKA_PARAMETER_SET, CKA_SEED, CKA_VALUE]"

definition is_ml_kem_public_attribute :: "ck_ulong \<Rightarrow> bool" where
  "is_ml_kem_public_attribute t \<longleftrightarrow> t \<in> set
     [CKA_PARAMETER_SET, CKA_VALUE]"

definition is_ml_kem_private_attribute :: "ck_ulong \<Rightarrow> bool" where
  "is_ml_kem_private_attribute t \<longleftrightarrow> t \<in> set
     [CKA_PARAMETER_SET, CKA_SEED, CKA_VALUE]"

definition is_hybrid_kem_key_type :: "ck_ulong \<Rightarrow> bool" where
  "is_hybrid_kem_key_type key_type \<longleftrightarrow> key_type \<in> set
     [CKK_PKCS11RS_MLKEM768_P256, CKK_PKCS11RS_MLKEM768_X25519, CKK_PKCS11RS_MLKEM1024_P384]"

definition is_certificate_attribute :: "ck_ulong \<Rightarrow> bool" where
  "is_certificate_attribute t \<longleftrightarrow> t \<in> set
     [CKA_VALUE, CKA_CERTIFICATE_CATEGORY, CKA_CHECK_VALUE, CKA_SUBJECT, CKA_ISSUER, CKA_SERIAL_NUMBER,
      CKA_PUBLIC_KEY_INFO]"

definition PKCS11_OBJECT_ATTRIBUTE_TYPES :: "ck_ulong list" where
  "PKCS11_OBJECT_ATTRIBUTE_TYPES =
     [CKA_OTP_FORMAT, CKA_OTP_LENGTH, CKA_OTP_TIME_INTERVAL, CKA_OTP_USER_FRIENDLY_MODE,
      CKA_OTP_CHALLENGE_REQUIREMENT, CKA_OTP_TIME_REQUIREMENT, CKA_OTP_COUNTER_REQUIREMENT,
      CKA_OTP_PIN_REQUIREMENT, CKA_CLASS, CKA_TOKEN, CKA_PRIVATE, CKA_MODIFIABLE, CKA_LABEL,
      CKA_COPYABLE, CKA_DESTROYABLE, CKA_UNIQUE_ID, CKA_APPLICATION, CKA_OBJECT_ID, CKA_VALUE,
      CKA_CERTIFICATE_TYPE, CKA_TRUSTED, CKA_CERTIFICATE_CATEGORY, CKA_CHECK_VALUE, CKA_START_DATE,
      CKA_END_DATE, CKA_PUBLIC_KEY_INFO, CKA_SUBJECT, CKA_ID, CKA_ISSUER, CKA_SERIAL_NUMBER,
      CKA_URL, CKA_HASH_OF_SUBJECT_PUBLIC_KEY, CKA_HASH_OF_ISSUER_PUBLIC_KEY,
      CKA_JAVA_MIDP_SECURITY_DOMAIN, CKA_NAME_HASH_ALGORITHM, CKA_PROFILE_ID, CKA_KEY_TYPE,
      CKA_DERIVE, CKA_LOCAL, CKA_KEY_GEN_MECHANISM, CKA_ALLOWED_MECHANISMS,
      CKA_OBJECT_VALIDATION_FLAGS, CKA_ENCRYPT, CKA_VERIFY, CKA_VERIFY_RECOVER, CKA_WRAP,
      CKA_ENCAPSULATE, CKA_WRAP_TEMPLATE, CKA_PUBLIC_CRC64_VALUE, CKA_SENSITIVE, CKA_DECRYPT,
      CKA_SIGN, CKA_SIGN_RECOVER, CKA_UNWRAP, CKA_DECAPSULATE, CKA_EXTRACTABLE,
      CKA_ALWAYS_SENSITIVE, CKA_NEVER_EXTRACTABLE, CKA_WRAP_WITH_TRUSTED, CKA_UNWRAP_TEMPLATE,
      CKA_ALWAYS_AUTHENTICATE, CKA_DERIVE_TEMPLATE, CKA_MODULUS, CKA_MODULUS_BITS,
      CKA_PUBLIC_EXPONENT, CKA_PRIVATE_EXPONENT, CKA_PRIME_1, CKA_PRIME_2, CKA_EXPONENT_1,
      CKA_EXPONENT_2, CKA_COEFFICIENT, CKA_EC_PARAMS, CKA_EC_POINT, CKA_PARAMETER_SET, CKA_SEED,
      CKA_VALUE_LEN]"

end
