(* ===== verification/Oath.thy ===== *)
theory Oath
  imports Attribute_Types Session_Api Iso7816
begin

text \<open>
  The YKOATH client and the one-time-password view of its credentials (src/src/oath.rs): the
  tag-length-value fields, credential names, the commands of the applet, the mechanism parameters
  with their calendar time, importing from a template, and producing a code.  PBKDF2, HMAC and the
  random generator are parameters; a connector is a function sending one command.
\<close>

section \<open>Credentials\<close>

definition oath_mechanism :: "oath_credential \<Rightarrow> ck_ulong" where
  "oath_mechanism c =
     (if oath_totp c then CKM_PKCS11RS_TOTP else if oath_extended c then CKM_PKCS11RS_HOTP else CKM_HOTP)"

definition oath_key_type :: "oath_credential \<Rightarrow> ck_ulong" where
  "oath_key_type c =
     (if oath_totp c then CKK_PKCS11RS_TOTP else if oath_extended c then CKK_PKCS11RS_HOTP else CKK_HOTP)"

definition hash_mechanism :: "oath_credential \<Rightarrow> ck_ulong" where
  "hash_mechanism c =
     (if oath_hash c = 1 then CKM_SHA_1 else if oath_hash c = 2 then CKM_SHA256 else CKM_SHA512)"

text \<open>\<open>str::parse::<u64>\<close>: an optional plus sign, at least one digit, no overflow.\<close>

definition ascii_digit :: "byte \<Rightarrow> bool" where
  "ascii_digit b \<longleftrightarrow> 0x30 \<le> b \<and> b \<le> 0x39"

definition digits_value :: "bytes \<Rightarrow> nat" where
  "digits_value ds = foldl (\<lambda>a d. a * 10 + (unat d - 0x30)) 0 ds"

definition parse_u64 :: "bytes \<Rightarrow> u64 option" where
  "parse_u64 s =
     (let ds = (case s of c # rest \<Rightarrow> if c = 0x2b then rest else s | [] \<Rightarrow> s) in
      if ds \<noteq> [] \<and> list_all ascii_digit ds \<and> digits_value ds < 2 ^ 64
      then Some (of_nat (digits_value ds)) else None)"

text \<open>\<open>split_once('/')\<close>, the part before the first slash.\<close>

definition before_slash :: "bytes \<Rightarrow> bytes option" where
  "before_slash s = (if 0x2f \<in> set s then Some (takeWhile (\<lambda>c. c \<noteq> 0x2f) s) else None)"

definition name_period :: "bytes \<Rightarrow> u64" where
  "name_period name =
     (case (if utf8_valid name then Option.bind (before_slash name) parse_u64 else None) of
        Some p \<Rightarrow> p | None \<Rightarrow> 30)"

definition oath_from_name :: "bytes \<Rightarrow> byte \<Rightarrow> oath_credential result" where
  "oath_from_name name kind =
     (let totp = (kind AND 0xf0 = 0x20); period = (if totp then name_period name else 0) in
      if name = [] \<or> 64 < length name \<or> kind AND 0xf0 \<notin> {0x10, 0x20} \<or> kind AND 15 \<notin> {1, 2, 3}
      then Inl (Generic CKR_DEVICE_ERROR)
      else if totp \<and> period = 0 then Inl (Generic CKR_DEVICE_ERROR)
      else Inr \<lparr>oath_name = name, oath_totp = totp, oath_hash = kind AND 15,
                oath_extended = (\<not> totp \<and> kind AND 15 \<noteq> 1), oath_period = period,
                oath_digits = None, oath_touch = None\<rparr>)"

section \<open>Fields\<close>

definition oath_tlv :: "byte \<Rightarrow> bytes \<Rightarrow> bytes result" where
  "oath_tlv tag v =
     (if 255 < length v then Inl (Generic CKR_DATA_LEN_RANGE)
      else Inr ([tag] @ (if 128 \<le> length v then [0x81] else []) @ [of_nat (length v)] @ v))"

text \<open>Length and offset of the value of the field the data starts with.\<close>

definition oath_length :: "bytes \<Rightarrow> (nat \<times> nat) option" where
  "oath_length data =
     (if length data < 2 then None
      else if unat (data ! 1) \<le> 127 then Some (unat (data ! 1), 2)
      else if data ! 1 = 0x81 \<and> 3 \<le> length data then Some (unat (data ! 2), 3)
      else None)"

function oath_parse :: "bytes \<Rightarrow> (byte \<times> bytes) list result" where
  "oath_parse data =
     (if data = [] then Inr []
      else case oath_length data of
        None \<Rightarrow> Inl (Generic CKR_DEVICE_ERROR)
      | Some (len, offset) \<Rightarrow>
          if length data < offset + len then Inl (Generic CKR_DEVICE_ERROR)
          else and_then (oath_parse (drop (offset + len) data)) (\<lambda>rest.
                 Inr ((data ! 0, take len (drop offset data)) # rest)))"
  by pat_completeness auto
termination
  by (relation "measure length") (auto simp: oath_length_def split: if_splits)

declare oath_parse.simps [simp del]

definition oath_field :: "(byte \<times> bytes) list \<Rightarrow> byte \<Rightarrow> bytes option result" where
  "oath_field values tag =
     (case map snd (filter (\<lambda>(t, _). t = tag) values) of
        [] \<Rightarrow> Inr None
      | [v] \<Rightarrow> Inr (Some v)
      | _ \<Rightarrow> Inl (Generic CKR_DEVICE_ERROR))"

definition required :: "bytes option \<Rightarrow> bytes result" where
  "required v = (case v of None \<Rightarrow> Inl (Generic CKR_DEVICE_ERROR) | Some bs \<Rightarrow> Inr bs)"

section \<open>Commands\<close>

definition oath_apdu :: "byte \<Rightarrow> byte \<Rightarrow> byte \<Rightarrow> bytes \<Rightarrow> command_apdu" where
  "oath_apdu ins p1 p2 data =
     \<lparr>apdu_cla = 0, apdu_ins = ins, apdu_p1 = p1, apdu_p2 = p2, apdu_data = data, apdu_le = Some 256,
      apdu_extended = False\<rparr>"

definition oath_status :: "byte \<Rightarrow> response_apdu \<Rightarrow> bytes result" where
  "oath_status ins response =
     (let status = resp_status response in
      if status = 0x9000 then Inr (resp_data response)
      else if status = 0x6982 then Inl (Generic CKR_USER_NOT_LOGGED_IN)
      else if status = 0x6a80 \<and> (ins = 1 \<or> ins = 3) then Inl (Generic CKR_ATTRIBUTE_VALUE_INVALID)
      else if status = 0x6a80 \<or> status = 0x6a88 then Inl (Generic CKR_KEY_HANDLE_INVALID)
      else if status = 0x6985 then Inl (Generic CKR_FUNCTION_CANCELED)
      else if status = 0x6a84 then Inl (Generic CKR_DEVICE_MEMORY)
      else Inl (Generic CKR_DEVICE_ERROR))"

definition oath_command ::
  "(command_apdu \<Rightarrow> ('c, response_apdu) comp) \<Rightarrow> byte \<Rightarrow> byte \<Rightarrow> byte \<Rightarrow> bytes \<Rightarrow> ('c, bytes) comp" where
  "oath_command send ins p1 p2 data =
     sbind (send (oath_apdu ins p1 p2 data)) (\<lambda>response. slift (oath_status ins response))"

record oath_info =
  info_version :: bytes
  info_salt :: bytes
  info_challenge :: "bytes option"

definition oath_info_parse :: "bytes \<Rightarrow> oath_info result" where
  "oath_info_parse data =
     and_then (oath_parse data) (\<lambda>fields.
     and_then (oath_field fields 0x79) (\<lambda>v.
     and_then (required v) (\<lambda>version.
     if length version \<noteq> 3 then Inl (Generic CKR_DEVICE_ERROR)
     else
       and_then (oath_field fields 0x71) (\<lambda>v.
       and_then (required v) (\<lambda>salt.
       and_then (oath_field fields 0x74) (\<lambda>challenge.
       if salt = [] \<or> is_some_and challenge (\<lambda>v. length v \<noteq> 8) then Inl (Generic CKR_DEVICE_ERROR)
       else
         and_then (oath_field fields 0x7b) (\<lambda>algorithm.
         if is_some_and algorithm (\<lambda>v. v \<noteq> [1]) then Inl (Generic CKR_DEVICE_ERROR)
         else Inr \<lparr>info_version = version, info_salt = salt, info_challenge = challenge\<rparr>)))))))"

definition oath_select ::
  "(command_apdu \<Rightarrow> ('c, response_apdu) comp) \<Rightarrow> bytes \<Rightarrow> ('c, oath_info) comp" where
  "oath_select send aid =
     sbind (oath_command send 0xa4 4 0 aid) (\<lambda>data. slift (oath_info_parse data))"

text \<open>\<open>access_key\<close> and \<open>mac\<close> over the key derivation and the HMAC of the software key library.\<close>

record oath_crypto =
  pbkdf2_sha1 :: "bytes \<Rightarrow> bytes \<Rightarrow> bytes option"
  hmac_sha1 :: "bytes \<Rightarrow> bytes \<Rightarrow> bytes option"

definition or_failed :: "bytes option \<Rightarrow> bytes result" where
  "or_failed v = (case v of None \<Rightarrow> Inl (Generic CKR_FUNCTION_FAILED) | Some bs \<Rightarrow> Inr bs)"

definition access_key :: "oath_crypto \<Rightarrow> oath_info \<Rightarrow> bytes \<Rightarrow> bytes result" where
  "access_key K info password = or_failed (pbkdf2_sha1 K password (info_salt info))"

definition oath_mac :: "oath_crypto \<Rightarrow> bytes \<Rightarrow> bytes \<Rightarrow> bytes result" where
  "oath_mac K key data = or_failed (hmac_sha1 K key data)"

definition or_no_rng :: "bytes option \<Rightarrow> bytes result" where
  "or_no_rng v = (case v of None \<Rightarrow> Inl (Generic CKR_RANDOM_NO_RNG) | Some bs \<Rightarrow> Inr bs)"

definition oath_authenticate ::
  "oath_crypto \<Rightarrow> bytes option \<Rightarrow> (command_apdu \<Rightarrow> ('c, response_apdu) comp) \<Rightarrow> oath_info \<Rightarrow> bytes
   \<Rightarrow> ('c, unit) comp" where
  "oath_authenticate K random send info password =
     (case info_challenge info of
        None \<Rightarrow> if password = [] then sok () else sfail (Generic CKR_PIN_INCORRECT)
      | Some challenge \<Rightarrow>
          sbind (slift (access_key K info password)) (\<lambda>key.
          sbind (slift (or_no_rng random)) (\<lambda>host.
          sbind (slift (and_then (oath_mac K key challenge) (oath_tlv 0x75))) (\<lambda>response.
          sbind (slift (oath_tlv 0x74 host)) (\<lambda>host_field.
          sbind (send (oath_apdu 0xa3 0 0 (response @ host_field))) (\<lambda>response.
          if resp_status response = 0x6a80 \<or> resp_status response = 0x6984
          then sfail (Generic CKR_PIN_INCORRECT)
          else if resp_status response \<noteq> 0x9000 then sfail (Generic CKR_DEVICE_ERROR)
          else
            sbind (slift (oath_parse (resp_data response))) (\<lambda>fields.
            sbind (slift (and_then (oath_field fields 0x75) required)) (\<lambda>response.
            sbind (slift (oath_mac K key host)) (\<lambda>expected.
            sensure (response = expected) (Generic CKR_DEVICE_ERROR))))))))))"

definition password_data :: "oath_crypto \<Rightarrow> bytes option \<Rightarrow> oath_info \<Rightarrow> bytes \<Rightarrow> bytes result" where
  "password_data K random info password =
     (if password = [] then oath_tlv 0x73 []
      else
        and_then (access_key K info password) (\<lambda>key.
        and_then (or_no_rng random) (\<lambda>host.
        and_then (oath_tlv 0x73 (0x21 # key)) (\<lambda>key_field.
        and_then (oath_tlv 0x74 host) (\<lambda>host_field.
        and_then (and_then (oath_mac K key host) (oath_tlv 0x75)) (\<lambda>response.
        Inr (key_field @ host_field @ response)))))))"

definition change_password ::
  "oath_crypto \<Rightarrow> bytes option \<Rightarrow> (command_apdu \<Rightarrow> ('c, response_apdu) comp) \<Rightarrow> oath_info \<Rightarrow> bytes
   \<Rightarrow> ('c, unit) comp" where
  "change_password K random send info password =
     sbind (slift (password_data K random info password)) (\<lambda>data.
     sthen (oath_command send 3 0 0 data) (sok ()))"

fun oath_credentials :: "(byte \<times> bytes) list \<Rightarrow> bytes set \<Rightarrow> oath_credential list result" where
  "oath_credentials [] names = Inr []"
| "oath_credentials ((tag, v) # rest) names =
     (if tag \<noteq> 0x72 \<or> length v < 2 \<or> drop 1 v \<in> names then Inl (Generic CKR_DEVICE_ERROR)
      else and_then (oath_from_name (drop 1 v) (v ! 0)) (\<lambda>c.
           and_then (oath_credentials rest (insert (drop 1 v) names)) (\<lambda>cs. Inr (c # cs))))"

definition oath_list :: "(command_apdu \<Rightarrow> ('c, response_apdu) comp) \<Rightarrow> ('c, oath_credential list) comp" where
  "oath_list send =
     sbind (oath_command send 0xa1 0 0 []) (\<lambda>data.
     slift (and_then (oath_parse data) (\<lambda>fields. oath_credentials fields {})))"

text \<open>\<open>format!("{:0width$}")\<close>.\<close>

definition padded_decimal :: "nat \<Rightarrow> nat \<Rightarrow> bytes" where
  "padded_decimal width n =
     (let ds = map of_char (decimal n) in replicate (width - length ds) 0x30 @ ds)"

definition oath_code :: "bytes \<Rightarrow> bytes result" where
  "oath_code outcome =
     (if length outcome \<noteq> 5 \<or> \<not> (6 \<le> outcome ! 0 \<and> outcome ! 0 \<le> 8) then Inl (Generic CKR_DEVICE_ERROR)
      else let number = (of_nat (nat_of_be (drop 1 outcome)) :: u32) AND 0x7fffffff;
               digits = unat (outcome ! 0)
           in Inr (padded_decimal digits (unat number mod 10 ^ digits)))"

definition oath_calculate ::
  "(command_apdu \<Rightarrow> ('c, response_apdu) comp) \<Rightarrow> u64 option \<Rightarrow> oath_credential \<Rightarrow> u64 option
   \<Rightarrow> ('c, bytes) comp" where
  "oath_calculate send now c time =
     sbind (slift
       (if oath_totp c then
          case (case time of Some v \<Rightarrow> Some v | None \<Rightarrow> now) of
            None \<Rightarrow> Inl (Generic CKR_FUNCTION_FAILED)
          | Some timestamp \<Rightarrow> Inr (be_of_nat 8 (unat (timestamp div oath_period c)))
        else Inr [])) (\<lambda>challenge.
     sbind (slift (oath_tlv 0x71 (oath_name c))) (\<lambda>name.
     sbind (slift (oath_tlv 0x74 challenge)) (\<lambda>challenge.
     sbind (oath_command send 0xa2 0 1 (name @ challenge)) (\<lambda>response.
     slift (and_then (oath_parse response) (\<lambda>fields.
            and_then (and_then (oath_field fields 0x76) required) oath_code))))))"

definition oath_put ::
  "(command_apdu \<Rightarrow> ('c, response_apdu) comp) \<Rightarrow> oath_credential \<Rightarrow> bytes \<Rightarrow> u32 \<Rightarrow> ('c, unit) comp" where
  "oath_put send c secret counter =
     sthen (sensure (\<not> (secret = [] \<or> 64 < length secret)) (Generic CKR_KEY_SIZE_RANGE))
     (case oath_digits c of
        None \<Rightarrow> sfail (Generic CKR_TEMPLATE_INCOMPLETE)
      | Some digits \<Rightarrow>
          (let key = [(if oath_totp c then 0x20 else 0x10) OR oath_hash c, digits] @ secret;
               key = key @ replicate (16 - length key) 0 in
           sbind (slift (oath_tlv 0x71 (oath_name c))) (\<lambda>name.
           sbind (slift (oath_tlv 0x73 key)) (\<lambda>key.
           sbind (slift (if \<not> oath_totp c then oath_tlv 0x7a (be_of_nat 4 (unat counter)) else Inr [])) (\<lambda>imf.
           sthen (oath_command send 1 0 0
                    (name @ key @ (if oath_touch c = Some True then [0x78, 2] else []) @ imf))
           (sok ()))))))"

definition oath_delete ::
  "(command_apdu \<Rightarrow> ('c, response_apdu) comp) \<Rightarrow> bytes \<Rightarrow> ('c, unit) comp" where
  "oath_delete send name =
     sbind (slift (oath_tlv 0x71 name)) (\<lambda>data. sthen (oath_command send 2 0 0 data) (sok ()))"

section \<open>Objects\<close>

definition oath_supports_attribute :: "ck_ulong \<Rightarrow> bool" where
  "oath_supports_attribute t \<longleftrightarrow> t \<in> set
     [CKA_CLASS, CKA_TOKEN, CKA_PRIVATE, CKA_LABEL, CKA_UNIQUE_ID, CKA_MODIFIABLE, CKA_COPYABLE,
      CKA_DESTROYABLE, CKA_KEY_TYPE, CKA_ID, CKA_SIGN, CKA_VERIFY, CKA_ENCRYPT, CKA_DECRYPT,
      CKA_DERIVE, CKA_WRAP, CKA_UNWRAP, CKA_SENSITIVE, CKA_EXTRACTABLE, CKA_ALWAYS_SENSITIVE,
      CKA_NEVER_EXTRACTABLE, CKA_LOCAL, CKA_ALLOWED_MECHANISMS, CKA_VALUE, CKA_OTP_FORMAT,
      CKA_OTP_LENGTH, CKA_OTP_TIME_INTERVAL, CKA_OTP_USER_FRIENDLY_MODE,
      CKA_OTP_CHALLENGE_REQUIREMENT, CKA_OTP_TIME_REQUIREMENT, CKA_OTP_COUNTER_REQUIREMENT,
      CKA_OTP_PIN_REQUIREMENT, CKA_ATTR_TYPES, CKA_PKCS11RS_OATH_HASH,
      CKA_PKCS11RS_OATH_TOUCH_REQUIRED, CKA_PKCS11RS_URI]"

definition oath_attribute :: "oath_credential \<Rightarrow> ck_ulong \<Rightarrow> bytes option" where
  "oath_attribute c t =
     (if t = CKA_DESTROYABLE then Some [1]
      else if t = CKA_OTP_FORMAT then Some (ulong_attribute CK_OTP_FORMAT_DECIMAL)
      else if t = CKA_OTP_LENGTH then
        Some (ulong_attribute (case oath_digits c of None \<Rightarrow> CK_UNAVAILABLE_INFORMATION | Some d \<Rightarrow> ucast d))
      else if t = CKA_OTP_TIME_INTERVAL then Some (ulong_attribute (oath_period c))
      else if t = CKA_OTP_USER_FRIENDLY_MODE then Some [1]
      else if t = CKA_OTP_TIME_REQUIREMENT then
        Some (ulong_attribute (if oath_totp c then CK_OTP_PARAM_OPTIONAL else CK_OTP_PARAM_IGNORED))
      else if t \<in> {CKA_OTP_CHALLENGE_REQUIREMENT, CKA_OTP_COUNTER_REQUIREMENT, CKA_OTP_PIN_REQUIREMENT}
      then Some (ulong_attribute CK_OTP_PARAM_IGNORED)
      else if t = CKA_PKCS11RS_OATH_HASH then Some (ulong_attribute (hash_mechanism c))
      else if t = CKA_PKCS11RS_OATH_TOUCH_REQUIRED then map_option bool_attribute (oath_touch c)
      else None)"

text \<open>\<open>String::from_utf8_lossy\<close>: each invalid piece becomes a replacement character.\<close>

fun invalid_length :: "bytes \<Rightarrow> nat" where
  "invalid_length [] = 0"
| "invalid_length (b # rest) =
     (case (utf8_second b, rest) of
        (Some ((lo, hi), further), c # cs) \<Rightarrow>
          if between lo hi c then 2 + length (takeWhile continuation (take further cs)) else 1
      | _ \<Rightarrow> 1)"

function from_utf8_lossy :: "bytes \<Rightarrow> bytes" where
  "from_utf8_lossy bs =
     (if bs = [] then []
      else case utf8_char bs of
        Some n \<Rightarrow> take n bs @ from_utf8_lossy (drop n bs)
      | None \<Rightarrow> [0xef, 0xbf, 0xbd] @ from_utf8_lossy (drop (max 1 (invalid_length bs)) bs))"
  by pat_completeness auto
termination by (relation "measure length") (auto dest: utf8_char_pos)

declare from_utf8_lossy.simps [simp del]

definition oath_object :: "slot_id \<Rightarrow> oath_credential \<Rightarrow> 'x token_object" where
  "oath_object slot c =
     \<lparr>obj_slot_id = Some slot,
      unique_id = (if \<not> oath_totp c \<and> oath_extended c then ''oath-extended'' else ''oath'') @ '':'' @
        encode_lower_hex (oath_name c),
      obj_class = CKO_OTP_KEY, obj_key_type = oath_key_type c,
      obj_label = map (\<lambda>b. char_of (unat b)) (from_utf8_lossy (oath_name c)), obj_id = oath_name c,
      is_token = True, is_private = True, may_encrypt = False, may_decrypt = False, may_sign = True,
      may_verify = False, may_derive = False, may_wrap = False, may_unwrap = False, may_encapsulate = False,
      may_decapsulate = False, sensitive = True, extractable = False, always_sensitive = False,
      never_extractable = False, obj_local = False, key_gen_mechanism = None,
      allowed_mechanisms = Some [oath_mechanism c], wrap_with_trusted = False,
      policy_templates = \<lparr>policy_wrap = None, policy_unwrap = None, policy_derive = None\<rparr>,
      creator_session = None, obj_public_key = None, rp_id = None, material = OathCredential c\<rparr>"

definition oath_is_mechanism :: "ck_ulong \<Rightarrow> bool" where
  "oath_is_mechanism m \<longleftrightarrow> m = CKM_HOTP \<or> m = CKM_PKCS11RS_TOTP \<or> m = CKM_PKCS11RS_HOTP"

section \<open>Calendar time\<close>

definition leap :: "nat \<Rightarrow> bool" where
  "leap y \<longleftrightarrow> y mod 4 = 0 \<and> (y mod 100 \<noteq> 0 \<or> y mod 400 = 0)"

definition month_lengths :: "nat \<Rightarrow> nat list" where
  "month_lengths year = [31, if leap year then 29 else 28, 31, 30, 31, 30, 31, 31, 30, 31, 30, 31]"

definition unix_time :: "nat \<Rightarrow> nat \<Rightarrow> nat \<Rightarrow> nat \<Rightarrow> nat \<Rightarrow> nat \<Rightarrow> nat" where
  "unix_time year month day h m s =
     (sum_list (map (\<lambda>y. if leap y then 366 else 365) [1970..<year])
      + sum_list (take (month - 1) (month_lengths year)) + day - 1) * 86400
     + h * 3600 + m * 60 + s"

definition valid_time :: "nat \<Rightarrow> nat \<Rightarrow> nat \<Rightarrow> nat \<Rightarrow> nat \<Rightarrow> nat \<Rightarrow> bool" where
  "valid_time year month day h m s \<longleftrightarrow>
     1970 \<le> year \<and> 1 \<le> month \<and> month \<le> 12 \<and> 0 < day \<and> day \<le> month_lengths year ! (month - 1) \<and>
     h \<le> 23 \<and> m \<le> 59 \<and> s \<le> 59"

definition parse_time :: "bytes \<Rightarrow> u64 result" where
  "parse_time v =
     (if length v \<noteq> 14 \<or> \<not> list_all ascii_digit v then Inl (Generic CKR_MECHANISM_PARAM_INVALID)
      else
        let year = digits_value (take 4 v); month = digits_value (take 2 (drop 4 v));
            day = digits_value (take 2 (drop 6 v)); h = digits_value (take 2 (drop 8 v));
            m = digits_value (take 2 (drop 10 v)); s = digits_value (drop 12 v)
        in if \<not> valid_time year month day h m s then Inl (Generic CKR_MECHANISM_PARAM_INVALID)
           else Inr (of_nat (unix_time year month day h m s)))"

section \<open>Mechanism parameters\<close>

text \<open>A null pointer is \<open>None\<close>; the structures are read unaligned.\<close>

record otp_param =
  otp_type :: ck_ulong
  otp_value :: "bytes option"
  otp_len :: ck_ulong

record otp_mechanism =
  otp_mechanism_type :: ck_ulong
  otp_params :: "(otp_param list option \<times> ck_ulong) option"
  otp_params_len :: ck_ulong

definition otp_bytes :: "otp_param \<Rightarrow> bytes result" where
  "otp_bytes p =
     (case otp_value p of
        None \<Rightarrow> Inl (Generic CKR_MECHANISM_PARAM_INVALID)
      | Some bs \<Rightarrow>
          (case from_raw_parts 1 (Pointing bs) (unat (otp_len p)) of
             Inl _ \<Rightarrow> Inl (Generic CKR_MECHANISM_PARAM_INVALID)
           | Inr bs \<Rightarrow> Inr bs))"

fun otp_parameters :: "ck_ulong \<Rightarrow> otp_param list \<Rightarrow> ck_ulong set \<Rightarrow> u64 option \<Rightarrow> u64 option result" where
  "otp_parameters mechanism [] seen time = Inr time"
| "otp_parameters mechanism (p # ps) seen time =
     (if otp_type p \<in> seen then Inl (Generic CKR_MECHANISM_PARAM_INVALID)
      else
        let seen = insert (otp_type p) seen in
        if otp_type p = CK_OTP_COUNTER \<or> otp_type p = CK_OTP_PIN \<or> otp_type p = CK_OTP_CHALLENGE \<or>
           (otp_type p = CK_OTP_TIME \<and> mechanism \<noteq> CKM_PKCS11RS_TOTP)
        then otp_parameters mechanism ps seen time
        else
          and_then (otp_bytes p) (\<lambda>bs.
            if otp_type p = CK_OTP_TIME \<and> mechanism = CKM_PKCS11RS_TOTP
            then and_then (parse_time bs) (\<lambda>t. otp_parameters mechanism ps seen (Some t))
            else if otp_type p = CK_OTP_OUTPUT_FORMAT \<and> bs = u64_to_le CK_OTP_FORMAT_DECIMAL
            then otp_parameters mechanism ps seen time
            else if otp_type p = CK_OTP_FLAGS \<and> length bs = 8
            then if u64_from_le bs AND NOT CKF_USER_FRIENDLY_OTP \<noteq> 0
                 then Inl (Generic CKR_MECHANISM_PARAM_INVALID)
                 else otp_parameters mechanism ps seen time
            else Inl (Generic CKR_MECHANISM_PARAM_INVALID)))"

definition oath_parameters :: "otp_mechanism \<Rightarrow> u64 option result" where
  "oath_parameters m =
     (case otp_params m of
        None \<Rightarrow> if otp_params_len m = 0 then Inr None else Inl (Generic CKR_MECHANISM_PARAM_INVALID)
      | Some (params, count) \<Rightarrow>
          if otp_params_len m \<noteq> 16 then Inl (Generic CKR_MECHANISM_PARAM_INVALID)
          else if 16 < count \<or> (params = None \<and> count \<noteq> 0) then Inl (Generic CKR_MECHANISM_PARAM_INVALID)
          else otp_parameters (otp_mechanism_type m)
                 (take (unat count) (case params of None \<Rightarrow> [] | Some ps \<Rightarrow> ps)) {} None)"

section \<open>Producing a code\<close>

definition allows_mechanism :: "'x token_object \<Rightarrow> ck_ulong \<Rightarrow> bool" where
  "allows_mechanism obj mechanism =
     (case allowed_mechanisms obj of None \<Rightarrow> True | Some allowed \<Rightarrow> mechanism \<in> set allowed)"

definition oath_sign_init ::
  "('b, 'x) slot_ops \<Rightarrow> ('b \<Rightarrow> ck_ulong list) \<Rightarrow> handle \<Rightarrow> otp_mechanism \<Rightarrow> handle \<Rightarrow> ('b, 'x, unit) slot_comp" where
  "oath_sign_init ops backend_mechanisms session m key =
     sbind (session_details ops session) (\<lambda>(slot, _, logged).
     sbind (sget (\<lambda>c. otp_mechanism_type m \<in> set (backend_mechanisms (backend c)))) (\<lambda>known.
     sthen (sensure known (Generic CKR_MECHANISM_INVALID))
     (sbind (slift (oath_parameters m)) (\<lambda>time.
      sbind (resolve_object ops key) (\<lambda>found.
      case found of
        None \<Rightarrow> sfail (Generic CKR_KEY_HANDLE_INVALID)
      | Some obj \<Rightarrow>
          sthen (sensure (\<not> (is_private obj \<and> \<not> logged)) (Generic CKR_USER_NOT_LOGGED_IN))
          (case material obj of
             OathCredential c \<Rightarrow>
               sthen (sensure (oath_mechanism c = otp_mechanism_type m \<and> may_sign obj \<and>
                               allows_mechanism obj (otp_mechanism_type m))
                        (Generic CKR_KEY_FUNCTION_NOT_PERMITTED))
               (sthen (get_session session)
               (smod (update_session session (\<lambda>s. s\<lparr>sign_operation := Some
                  \<lparr>sig_multipart = False, sig_prehash_state = None, sig_key = material obj,
                   sig_public_key = None, sig_slot_id = slot, sig_requires_login = is_private obj,
                   sig_context_specific_extended = False, sig_context_specific_rp_id = None,
                   sig_oath_time = time, sig_fido_authorization = None,
                   sig_mechanism = otp_mechanism_type m, sig_mac_length = None, sig_gmac = None,
                   sig_pss = None, sig_ml_dsa = None, sig_piv_pin_policy = None, sig_buffer = [],
                   sig_result = None\<rparr>\<rparr>))))
           | _ \<Rightarrow> sfail (Generic CKR_KEY_TYPE_INCONSISTENT)))))))"

definition oath_result_size :: "nat \<Rightarrow> nat" where
  "oath_result_size digits = 16 + 24 + digits"

text \<open>The outcome, the code written behind the two structures, and the length reported.\<close>

definition oath_sign ::
  "(oath_credential \<Rightarrow> u64 option \<Rightarrow> ('b, bytes) comp) \<Rightarrow> handle \<Rightarrow> 'x signature_operation \<Rightarrow> bytes \<Rightarrow> bool \<Rightarrow> ck_ulong
   \<Rightarrow> ('b, 'x, unit result \<times> bytes option \<times> ck_ulong) slot_comp" where
  "oath_sign calculate session op input output_is_null capacity =
     (let finish = sthen (get_session session) (smod (update_session session (\<lambda>s. s\<lparr>sign_operation := None\<rparr>)));
          needed = oath_result_size (case sig_result op of None \<Rightarrow> 8 | Some r \<Rightarrow> length r) in
      if input \<noteq> [] then
        sbind (sattempt finish) (\<lambda>r.
        sok (case r of Inl e \<Rightarrow> Inl e | Inr _ \<Rightarrow> Inl (Generic CKR_DATA_LEN_RANGE), None, capacity))
      else case sig_key op of
        OathCredential c \<Rightarrow>
          if output_is_null then sok (Inr (), None, of_nat needed)
          else if unat capacity < needed then sok (Inl (Generic CKR_BUFFER_TOO_SMALL), None, of_nat needed)
          else
            sbind (sattempt (on_backend (calculate c (sig_oath_time op)))) (\<lambda>code.
            sbind (sattempt finish) (\<lambda>r.
            sok (case (r, code) of
                   (Inl e, _) \<Rightarrow> (Inl e, None, capacity)
                 | (Inr _, Inl e) \<Rightarrow> (Inl e, None, capacity)
                 | (Inr _, Inr code) \<Rightarrow> (Inr (), Some code, of_nat (oath_result_size (length code))))))
      | _ \<Rightarrow> sok (Inl (Generic CKR_KEY_TYPE_INCONSISTENT), None, capacity))"

section \<open>Importing\<close>

record oath_import =
  im_seen :: "ck_ulong set"
  im_class :: "ck_ulong option"
  im_kind :: "ck_ulong option"
  im_label :: "bytes option"
  im_id :: "bytes option"
  im_secret :: "bytes option"
  im_digits :: byte
  im_hash :: byte
  im_touch :: bool
  im_period :: "u64 option"
  im_counter :: u32

definition import_attribute :: "ck_attribute \<Rightarrow> oath_import \<Rightarrow> oath_import result" where
  "import_attribute a im =
     (let t = attr_type a; number = read_ulong_template_attribute a;
          boolean = read_bool_template_attribute a; bs = read_attribute_value a in
      if t \<in> im_seen im then Inl (Generic CKR_TEMPLATE_INCONSISTENT)
      else
        let im = im\<lparr>im_seen := insert t (im_seen im)\<rparr> in
        if t = CKA_CLASS then and_then number (\<lambda>n. Inr (im\<lparr>im_class := Some n\<rparr>))
        else if t = CKA_KEY_TYPE then and_then number (\<lambda>n. Inr (im\<lparr>im_kind := Some n\<rparr>))
        else if t = CKA_LABEL then and_then bs (\<lambda>v. Inr (im\<lparr>im_label := Some v\<rparr>))
        else if t = CKA_ID then and_then bs (\<lambda>v. Inr (im\<lparr>im_id := Some v\<rparr>))
        else if t = CKA_VALUE then and_then bs (\<lambda>v. Inr (im\<lparr>im_secret := Some v\<rparr>))
        else if t \<in> set [CKA_TOKEN, CKA_SENSITIVE, CKA_SIGN]
        then and_then boolean (\<lambda>b. if \<not> b then Inl (Generic CKR_TEMPLATE_INCONSISTENT) else Inr im)
        else if t = CKA_PRIVATE then and_then boolean (\<lambda>_. Inr im)
        else if t \<in> set [CKA_EXTRACTABLE, CKA_VERIFY, CKA_ENCRYPT, CKA_DECRYPT, CKA_WRAP, CKA_UNWRAP, CKA_DERIVE,
                        CKA_COPYABLE, CKA_MODIFIABLE]
        then and_then boolean (\<lambda>b. if b then Inl (Generic CKR_TEMPLATE_INCONSISTENT) else Inr im)
        else if t = CKA_OTP_FORMAT
        then and_then number (\<lambda>n.
               if n \<noteq> CK_OTP_FORMAT_DECIMAL then Inl (Generic CKR_ATTRIBUTE_VALUE_INVALID) else Inr im)
        else if t = CKA_OTP_LENGTH
        then and_then number (\<lambda>n.
               if \<not> (6 \<le> n \<and> n \<le> 8) then Inl (Generic CKR_ATTRIBUTE_VALUE_INVALID)
               else Inr (im\<lparr>im_digits := ucast n\<rparr>))
        else if t = CKA_OTP_TIME_INTERVAL
        then and_then number (\<lambda>n.
               if n = 0 then Inl (Generic CKR_ATTRIBUTE_VALUE_INVALID) else Inr (im\<lparr>im_period := Some n\<rparr>))
        else if t = CKA_OTP_COUNTER
        then and_then bs (\<lambda>b.
               if length b \<noteq> 8 \<or> 2 ^ 32 \<le> nat_of_be b then Inl (Generic CKR_ATTRIBUTE_VALUE_INVALID)
               else Inr (im\<lparr>im_counter := of_nat (nat_of_be b)\<rparr>))
        else if t = CKA_PKCS11RS_OATH_HASH
        then and_then number (\<lambda>n.
               if n = CKM_SHA_1 then Inr (im\<lparr>im_hash := 1\<rparr>)
               else if n = CKM_SHA256 then Inr (im\<lparr>im_hash := 2\<rparr>)
               else if n = CKM_SHA512 then Inr (im\<lparr>im_hash := 3\<rparr>)
               else Inl (Generic CKR_ATTRIBUTE_VALUE_INVALID))
        else if t = CKA_PKCS11RS_OATH_TOUCH_REQUIRED
        then and_then boolean (\<lambda>b. Inr (im\<lparr>im_touch := b\<rparr>))
        else Inl (Generic CKR_ATTRIBUTE_TYPE_INVALID))"

fun import_attributes :: "ck_attribute list \<Rightarrow> oath_import \<Rightarrow> oath_import result" where
  "import_attributes [] im = Inr im"
| "import_attributes (a # as) im = and_then (import_attribute a im) (import_attributes as)"

definition import_start :: oath_import where
  "import_start = \<lparr>im_seen = {}, im_class = None, im_kind = None, im_label = None, im_id = None, im_secret = None,
     im_digits = 6, im_hash = 1, im_touch = False, im_period = None, im_counter = 0\<rparr>"

definition starts_with_bytes :: "bytes \<Rightarrow> bytes \<Rightarrow> bool" where
  "starts_with_bytes s prefix \<longleftrightarrow> take (length prefix) s = prefix"

definition period_name :: "u64 option \<Rightarrow> bytes \<Rightarrow> bytes" where
  "period_name period name =
     (case period of
        None \<Rightarrow> name
      | Some p \<Rightarrow>
          (let prefix = map of_char (decimal (unat p)) @ [0x2f] in
           if p \<noteq> 30 \<and> \<not> starts_with_bytes name prefix then prefix @ name else name))"

definition import_finish :: "oath_import \<Rightarrow> (oath_credential \<times> bytes \<times> u32) result" where
  "import_finish im =
     and_then (ensure (CKA_TOKEN \<in> im_seen im) (Generic CKR_TEMPLATE_INCONSISTENT)) (\<lambda>_.
     and_then (ensure (im_class im = Some CKO_OTP_KEY) (Generic CKR_TEMPLATE_INCONSISTENT)) (\<lambda>_.
     and_then (case im_kind im of None \<Rightarrow> Inl (Generic CKR_TEMPLATE_INCOMPLETE) | Some k \<Rightarrow> Inr k) (\<lambda>key_type.
     and_then (if key_type = CKK_HOTP \<or> key_type = CKK_PKCS11RS_HOTP then Inr False
               else if key_type = CKK_PKCS11RS_TOTP then Inr True
               else Inl (Generic CKR_TEMPLATE_INCONSISTENT)) (\<lambda>totp.
     and_then (ensure (\<not> (key_type = CKK_PKCS11RS_HOTP \<and> CKA_PKCS11RS_OATH_HASH \<notin> im_seen im))
                 (Generic CKR_TEMPLATE_INCOMPLETE)) (\<lambda>_.
     and_then (ensure (\<not> (key_type = CKK_HOTP \<and> im_hash im \<noteq> 1 \<or> \<not> totp \<and> im_period im \<noteq> None \<or>
                           totp \<and> CKA_OTP_COUNTER \<in> im_seen im)) (Generic CKR_TEMPLATE_INCONSISTENT)) (\<lambda>_.
     and_then (ensure (\<not> (im_label im \<noteq> None \<and> im_id im \<noteq> None \<and> im_label im \<noteq> im_id im))
                 (Generic CKR_TEMPLATE_INCONSISTENT)) (\<lambda>_.
     and_then (case (im_id im, im_label im) of
                 (Some n, _) \<Rightarrow> Inr n | (None, Some n) \<Rightarrow> Inr n
               | (None, None) \<Rightarrow> Inl (Generic CKR_TEMPLATE_INCOMPLETE)) (\<lambda>name.
     and_then (ensure (utf8_valid name) (Generic CKR_ATTRIBUTE_VALUE_INVALID)) (\<lambda>_.
     and_then (case oath_from_name (if totp then period_name (im_period im) name else name)
                      ((if totp then 0x20 else 0x10) OR im_hash im) of
                 Inl _ \<Rightarrow> Inl (Generic CKR_ATTRIBUTE_VALUE_INVALID) | Inr c \<Rightarrow> Inr c) (\<lambda>c.
     and_then (ensure (\<not> is_some_and (im_period im) (\<lambda>p. oath_period c \<noteq> p)) (Generic CKR_TEMPLATE_INCONSISTENT)) (\<lambda>_.
     and_then (case im_secret im of None \<Rightarrow> Inl (Generic CKR_TEMPLATE_INCOMPLETE) | Some v \<Rightarrow> Inr v) (\<lambda>secret.
     Inr (c\<lparr>oath_extended := (key_type = CKK_PKCS11RS_HOTP), oath_digits := Some (im_digits im),
            oath_touch := Some (im_touch im)\<rparr>, secret, im_counter im)))))))))))))"

definition import_template :: "ck_attribute list \<Rightarrow> (oath_credential \<times> bytes \<times> u32) result" where
  "import_template template = and_then (import_attributes template import_start) import_finish"

end
