(* ===== verification/Oath_Protocol.thy ===== *)
theory Oath_Protocol
  imports Oath
begin

text \<open>
  What the YKOATH client gives: fields are read back as they were written, a code has the digits
  it should have, calendar times count the seconds since 1970, and a credential imported from a
  template is the one the applet lists afterwards.
\<close>

section \<open>Fields\<close>

lemma oath_length_tlv:
  assumes "oath_tlv tag v = Inr f"
  shows "oath_length (f @ rest) = Some (length v, length f - length v)" "length v \<le> length f"
    "f \<noteq> []" "hd f = tag" "drop (length f - length v) f = v" "2 \<le> length f - length v"
proof -
  have "(of_nat (length v) :: byte) \<noteq> 129" if "length v < 128"
  proof
    assume "(of_nat (length v) :: byte) = 129"
    then have "unat (of_nat (length v) :: byte) = 129" by simp
    with that show False by (simp add: unat_of_nat)
  qed
  with assms show "oath_length (f @ rest) = Some (length v, length f - length v)" "length v \<le> length f"
    "f \<noteq> []" "hd f = tag" "drop (length f - length v) f = v" "2 \<le> length f - length v"
    by (auto simp: oath_tlv_def oath_length_def unat_of_nat nth_append split: if_splits)
qed

lemma oath_parse_tlv:
  assumes "oath_tlv tag v = Inr f"
  shows "oath_parse (f @ rest) = and_then (oath_parse rest) (\<lambda>r. Inr ((tag, v) # r))"
proof -
  note l = oath_length_tlv [OF assms]
  have "take (length v) (drop (length f - length v) (f @ rest)) = v"
    using l(2,5) by (simp add: drop_append)
  moreover have "(f @ rest) ! 0 = tag" using l(3,4) by (cases f) auto
  moreover have "length f - length v + length v = length f" using l(2) by simp
  ultimately show ?thesis
    using l(3) by (subst oath_parse.simps) (simp add: l(1))
qed

lemma oath_parse_Nil [simp]: "oath_parse [] = Inr []"
  by (simp add: oath_parse.simps)

fun oath_fields :: "(byte \<times> bytes) list \<Rightarrow> bytes result" where
  "oath_fields [] = Inr []"
| "oath_fields ((tag, v) # rest) = and_then (oath_tlv tag v) (\<lambda>f. and_then (oath_fields rest) (\<lambda>fs. Inr (f @ fs)))"

lemma oath_fields_round_trip: "oath_fields fs = Inr bs \<Longrightarrow> oath_parse bs = Inr fs"
  by (induction fs arbitrary: bs rule: oath_fields.induct) (auto simp: oath_parse_tlv)

section \<open>Codes\<close>

lemma byte_of_char_of: "n < 256 \<Longrightarrow> (of_char (char_of n) :: byte) = of_nat n"
proof -
  assume "n < 256"
  then have "(of_char (char_of n) :: nat) = n" by simp
  moreover have "(of_char (char_of n) :: byte) = of_nat (of_char (char_of n))" by (simp only: of_nat_of_char)
  ultimately show ?thesis by (simp only:)
qed

lemma digit_byte:
  assumes "n < 10"
  shows "ascii_digit (of_char (char_of (48 + n)))" "unat (of_char (char_of (48 + n)) :: byte) - 48 = n"
proof -
  have "(of_char (char_of (48 + n)) :: byte) = of_nat (48 + n)" using assms by (intro byte_of_char_of) simp
  moreover have "unat (of_nat (48 + n) :: byte) = 48 + n"
    using assms by (simp only: unat_byte_of_nat) simp
  ultimately show "ascii_digit (of_char (char_of (48 + n)))" "unat (of_char (char_of (48 + n)) :: byte) - 48 = n"
    using assms by (simp_all add: ascii_digit_def word_le_nat_alt)
qed

lemma digits_value_snoc: "digits_value (ds @ [d]) = digits_value ds * 10 + (unat d - 48)"
  by (simp add: digits_value_def)

lemma decimal_digits:
  "list_all ascii_digit (map of_char (decimal n)) \<and> digits_value (map of_char (decimal n)) = n"
proof (induction n rule: decimal.induct)
  case (1 n)
  show ?case
  proof (cases "n < 10")
    case True
    then show ?thesis using digit_byte [OF True] by (simp add: decimal.simps [of n] digits_value_def)
  next
    case False
    then show ?thesis
      using 1 digit_byte [of "n mod 10"] by (simp add: decimal.simps [of n] digits_value_snoc)
  qed
qed

lemma decimal_length: "n < 10 ^ k \<Longrightarrow> 0 < k \<Longrightarrow> length (decimal n) \<le> k"
proof (induction n arbitrary: k rule: decimal.induct)
  case (1 n)
  show ?case
  proof (cases "n < 10")
    case True
    with 1 show ?thesis by (simp add: decimal.simps [of n])
  next
    case False
    with 1(2) obtain j where k: "k = Suc j" "0 < j" by (cases k; cases "k - 1") auto
    then have "n div 10 < 10 ^ j" using 1(2) by (simp add: less_mult_imp_div_less mult.commute)
    with 1(1) False k show ?thesis by (simp add: decimal.simps [of n])
  qed
qed

lemma digits_value_zeros: "digits_value (replicate k 0x30 @ ds) = digits_value ds"
  by (induction k) (simp_all add: digits_value_def)

lemma padded_decimal:
  assumes "n < 10 ^ w" "0 < w"
  shows "length (padded_decimal w n) = w" "list_all ascii_digit (padded_decimal w n)"
    "digits_value (padded_decimal w n) = n"
  using decimal_length [OF assms] decimal_digits [of n]
  by (auto simp: padded_decimal_def Let_def digits_value_zeros list_all_iff ascii_digit_def)

text \<open>C25. A one-time code has exactly the number of digits the applet announces, all of them decimal
  digits, and its value is the truncated 31-bit number modulo the power of ten.\<close>
theorem oath_code_digits:
  assumes "oath_code outcome = Inr code"
  shows "length code = unat (outcome ! 0) \<and> list_all ascii_digit code \<and>
    digits_value code = (nat_of_be (drop 1 outcome) mod 2 ^ 31) mod 10 ^ unat (outcome ! 0)"
proof -
  let ?d = "unat (outcome ! 0)"
  let ?n = "unat ((of_nat (nat_of_be (drop 1 outcome)) :: u32) AND 0x7fffffff)"
  have d: "0 < ?d" "code = padded_decimal ?d (?n mod 10 ^ ?d)" "length outcome = 5"
    using assms by (auto simp: oath_code_def Let_def word_le_nat_alt split: if_splits)
  have "?n = nat_of_be (drop 1 outcome) mod 2 ^ 31"
  proof -
    have "(0x7fffffff :: u32) = mask 31" by (simp add: mask_eq_exp_minus_1)
    then have "?n = take_bit 31 (unat (of_nat (nat_of_be (drop 1 outcome)) :: u32))"
      by (simp only: take_bit_eq_mask [symmetric] unsigned_take_bit_eq)
    also have "\<dots> = nat_of_be (drop 1 outcome) mod 2 ^ 32 mod 2 ^ 31"
      by (simp only: take_bit_eq_mod unat_of_nat) simp
    also have "\<dots> = nat_of_be (drop 1 outcome) mod 2 ^ 31" by (simp add: mod_mod_cancel)
    finally show ?thesis .
  qed
  with padded_decimal [of "?n mod 10 ^ ?d" ?d] d show ?thesis by simp
qed

theorem oath_code_digits_witness:
  "\<exists>code. oath_code [6, 0x4c, 0x93, 0xcf, 0x18] = Inr code \<and> length code = 6 \<and> digits_value code = 755224"
proof -
  obtain code where code: "oath_code [6, 0x4c, 0x93, 0xcf, 0x18] = Inr code"
    by (simp add: oath_code_def Let_def)
  from oath_code_digits [OF this] code show ?thesis
    by (simp add: nat_of_be_def)
qed

section \<open>Calendar time\<close>

type_synonym calendar = "nat \<times> nat \<times> nat \<times> nat \<times> nat \<times> nat"

text \<open>The Gregorian calendar without leap seconds, independently of the tables of the code: a year is a
  leap year when it is divisible by four, or by four hundred if it begins a century.\<close>

definition gregorian_leap :: "nat \<Rightarrow> bool" where
  "gregorian_leap y \<longleftrightarrow> (if 100 dvd y then 400 dvd y else 4 dvd y)"

definition days_in_month :: "nat \<Rightarrow> nat \<Rightarrow> nat" where
  "days_in_month y mo =
     (if mo = 2 then if gregorian_leap y then 29 else 28
      else if mo \<in> {4, 6, 9, 11} then 30 else 31)"

text \<open>The second after a given one.\<close>

definition next_second :: "calendar \<Rightarrow> calendar" where
  "next_second = (\<lambda>(y, mo, d, h, mi, s).
     if s < 59 then (y, mo, d, h, mi, s + 1)
     else if mi < 59 then (y, mo, d, h, mi + 1, 0)
     else if h < 23 then (y, mo, d, h + 1, 0, 0)
     else if d < days_in_month y mo then (y, mo, d + 1, 0, 0, 0)
     else if mo < 12 then (y, mo + 1, 1, 0, 0, 0)
     else (y + 1, 1, 1, 0, 0, 0))"

text \<open>A number written with \<open>k\<close> decimal digits.\<close>

fun write_digits :: "nat \<Rightarrow> nat \<Rightarrow> bytes" where
  "write_digits 0 n = []"
| "write_digits (Suc k) n = write_digits k (n div 10) @ [of_nat (48 + n mod 10)]"

definition write_calendar :: "calendar \<Rightarrow> bytes" where
  "write_calendar = (\<lambda>(y, mo, d, h, mi, s).
     write_digits 4 y @ write_digits 2 mo @ write_digits 2 d @ write_digits 2 h @ write_digits 2 mi @ write_digits 2 s)"

definition epoch :: calendar where "epoch = (1970, 1, 1, 0, 0, 0)"

definition valid_calendar :: "calendar \<Rightarrow> bool" where
  "valid_calendar = (\<lambda>(y, mo, d, h, mi, s). valid_time y mo d h mi s)"

definition calendar_time :: "calendar \<Rightarrow> nat" where
  "calendar_time = (\<lambda>(y, mo, d, h, mi, s). unix_time y mo d h mi s)"

lemma leap_gregorian: "leap y = gregorian_leap y"
proof -
  have "4 dvd y" if "100 dvd y" using that dvd_trans [of 4 100 y] by simp
  then show ?thesis by (auto simp: leap_def gregorian_leap_def dvd_eq_mod_eq_0)
qed

lemma month_lengths_gregorian:
  assumes "1 \<le> mo" "mo \<le> 12"
  shows "month_lengths y ! (mo - 1) = days_in_month y mo"
proof -
  have "mo = 1 \<or> mo = 2 \<or> mo = 3 \<or> mo = 4 \<or> mo = 5 \<or> mo = 6 \<or> mo = 7 \<or> mo = 8 \<or> mo = 9 \<or> mo = 10 \<or> mo = 11 \<or> mo = 12"
    using assms by presburger
  then show ?thesis by (elim disjE) (simp_all add: month_lengths_def days_in_month_def leap_gregorian)
qed

text \<open>The step in terms of the tables of the code.\<close>

lemma next_second_tables:
  assumes "1 \<le> mo" "mo \<le> 12"
  shows "next_second (y, mo, d, h, mi, s) =
    (if s < 59 then (y, mo, d, h, mi, s + 1)
     else if mi < 59 then (y, mo, d, h, mi + 1, 0)
     else if h < 23 then (y, mo, d, h + 1, 0, 0)
     else if d < month_lengths y ! (mo - 1) then (y, mo, d + 1, 0, 0, 0)
     else if mo < 12 then (y, mo + 1, 1, 0, 0, 0)
     else (y + 1, 1, 1, 0, 0, 0))"
  by (simp only: next_second_def month_lengths_gregorian [OF assms] prod.case)

lemma length_month_lengths [simp]: "length (month_lengths y) = 12"
  by (simp add: month_lengths_def)

lemma month_lengths_pos: "i < 12 \<Longrightarrow> 28 \<le> month_lengths y ! i \<and> month_lengths y ! i \<le> 31"
proof -
  assume "i < 12"
  then have "month_lengths y ! i \<in> set (month_lengths y)" by simp
  then show ?thesis by (auto simp: month_lengths_def split: if_splits)
qed

lemma sum_month_lengths: "sum_list (month_lengths y) = (if leap y then 366 else 365)"
  by (simp add: month_lengths_def)

lemma month_lengths_ends: "month_lengths y ! 0 = 31" "month_lengths y ! 11 = 31"
  by (simp_all add: month_lengths_def)

lemma next_valid: "valid_calendar t \<Longrightarrow> valid_calendar (next_second t)"
proof (cases t)
  case (fields y mo d h mi s)
  assume "valid_calendar t"
  with fields month_lengths_pos [of "mo - 1" y] month_lengths_pos [of mo y] show ?thesis
    by (auto simp: valid_calendar_def next_second_tables valid_time_def month_lengths_ends)
qed

lemma next_time: "valid_calendar t \<Longrightarrow> calendar_time (next_second t) = calendar_time t + 1"
proof (cases t)
  case (fields y mo d h mi s)
  assume v: "valid_calendar t"
  then have mo: "1 \<le> mo" "mo \<le> 12" "1970 \<le> y" "0 < d" "d \<le> month_lengths y ! (mo - 1)" "h \<le> 23" "mi \<le> 59" "s \<le> 59"
    by (simp_all add: fields valid_calendar_def valid_time_def)
  have month: "sum_list (take mo (month_lengths y)) =
      sum_list (take (mo - 1) (month_lengths y)) + month_lengths y ! (mo - 1)"
    using mo take_Suc_conv_app_nth [of "mo - 1" "month_lengths y"] by simp
  have year: "sum_list (take 11 (month_lengths y)) + 31 = (if leap y then 366 else 365)"
    by (simp add: month_lengths_def)
  consider "s < 59" | "s = 59" "mi < 59" | "s = 59" "mi = 59" "h < 23"
    | "s = 59" "mi = 59" "h = 23" "d < month_lengths y ! (mo - 1)"
    | "s = 59" "mi = 59" "h = 23" "d = month_lengths y ! (mo - 1)" "mo < 12"
    | "s = 59" "mi = 59" "h = 23" "d = month_lengths y ! (mo - 1)" "mo = 12"
    using mo by linarith
  then show ?thesis
    by cases (use mo month year in \<open>auto simp: fields calendar_time_def next_second_tables unix_time_def
        month_lengths_ends diff_mult_distrib add_mult_distrib\<close>)
qed

lemma epoch_valid: "valid_calendar epoch" "calendar_time epoch = 0"
  by (simp_all add: epoch_def valid_calendar_def valid_time_def calendar_time_def unix_time_def month_lengths_def)

lemma seconds_since_epoch:
  "valid_calendar ((next_second ^^ n) epoch) \<and> calendar_time ((next_second ^^ n) epoch) = n"
  by (induction n) (simp_all add: epoch_valid next_valid next_time)

lemma previous_second:
  assumes "valid_calendar t" "t \<noteq> epoch"
  obtains p where "valid_calendar p" "next_second p = t"
proof (cases t)
  case (fields y mo d h mi s)
  let ?last = "month_lengths y ! (mo - 2)"
  have v: "1 \<le> mo" "mo \<le> 12" "1970 \<le> y" "0 < d" "d \<le> month_lengths y ! (mo - 1)" "h \<le> 23" "mi \<le> 59" "s \<le> 59"
    using assms(1) by (simp_all add: fields valid_calendar_def valid_time_def)
  consider (s) "0 < s" | (mi) "s = 0" "0 < mi" | (h) "s = 0" "mi = 0" "0 < h"
    | (d) "s = 0" "mi = 0" "h = 0" "1 < d" | (mo) "s = 0" "mi = 0" "h = 0" "d = 1" "1 < mo"
    | (y) "s = 0" "mi = 0" "h = 0" "d = 1" "mo = 1" "1970 < y"
  proof -
    have "\<not> (y = 1970 \<and> mo = 1 \<and> d = 1 \<and> h = 0 \<and> mi = 0 \<and> s = 0)"
      using assms(2) by (auto simp: fields epoch_def)
    then have "0 < s \<or> s = 0 \<and> 0 < mi \<or> s = 0 \<and> mi = 0 \<and> 0 < h \<or> s = 0 \<and> mi = 0 \<and> h = 0 \<and> 1 < d \<or>
        s = 0 \<and> mi = 0 \<and> h = 0 \<and> d = 1 \<and> 1 < mo \<or> s = 0 \<and> mi = 0 \<and> h = 0 \<and> d = 1 \<and> mo = 1 \<and> 1970 < y"
      using v(1,3,4) by presburger
    then show ?thesis using that by blast
  qed
  then show ?thesis
  proof cases
    case s
    with v show ?thesis
      by (intro that [of "(y, mo, d, h, mi, s - 1)"]) (auto simp: fields valid_calendar_def valid_time_def next_second_tables)
  next
    case mi
    with v show ?thesis
      by (intro that [of "(y, mo, d, h, mi - 1, 59)"]) (auto simp: fields valid_calendar_def valid_time_def next_second_tables)
  next
    case h
    with v show ?thesis
      by (intro that [of "(y, mo, d, h - 1, 59, 59)"]) (auto simp: fields valid_calendar_def valid_time_def next_second_tables)
  next
    case d
    with v show ?thesis
      by (intro that [of "(y, mo, d - 1, 23, 59, 59)"]) (auto simp: fields valid_calendar_def valid_time_def next_second_tables)
  next
    case mo
    have len: "28 \<le> ?last" using month_lengths_pos [of "mo - 2" y] v by simp
    have "mo - 1 - 1 = mo - 2" by simp
    with mo v len show ?thesis
      by (intro that [of "(y, mo - 1, ?last, 23, 59, 59)"]) (auto simp: fields valid_calendar_def valid_time_def next_second_tables)
  next
    case y
    with v show ?thesis
      by (intro that [of "(y - 1, 12, 31, 23, 59, 59)"])
        (auto simp: fields valid_calendar_def valid_time_def next_second_tables month_lengths_ends)
  qed
qed

lemma valid_since_epoch: "valid_calendar t \<Longrightarrow> (next_second ^^ calendar_time t) epoch = t"
proof (induction "calendar_time t" arbitrary: t rule: less_induct)
  case less
  show ?case
  proof (cases "t = epoch")
    case True
    then show ?thesis by (simp add: epoch_valid)
  next
    case False
    then obtain p where p: "valid_calendar p" "next_second p = t" using less.prems previous_second by blast
    then have "calendar_time t = Suc (calendar_time p)" using next_time [OF p(1)] by simp
    with less.hyps [of p] p show ?thesis by simp
  qed
qed

text \<open>The fields of a time as written, four digits for the year and two for each other field.\<close>

definition calendar_of :: "bytes \<Rightarrow> calendar" where
  "calendar_of v =
     (digits_value (take 4 v), digits_value (take 2 (drop 4 v)), digits_value (take 2 (drop 6 v)),
      digits_value (take 2 (drop 8 v)), digits_value (take 2 (drop 10 v)), digits_value (drop 12 v))"

lemma parse_time_calendar:
  "parse_time v =
     (if length v = 14 \<and> list_all ascii_digit v \<and> valid_calendar (calendar_of v)
      then Inr (of_nat (calendar_time (calendar_of v))) else Inl (Generic CKR_MECHANISM_PARAM_INVALID))"
  by (simp add: parse_time_def Let_def calendar_of_def valid_calendar_def calendar_time_def)

lemma digits_bound: "list_all ascii_digit ds \<Longrightarrow> digits_value ds < 10 ^ length ds"
proof (induction ds rule: rev_induct)
  case (snoc d ds)
  then have "unat d - 48 < 10" by (auto simp: ascii_digit_def word_le_nat_alt)
  with snoc show ?case by (simp add: digits_value_snoc)
qed (simp add: digits_value_def)

lemma sum_years_bound: "sum_list (map (\<lambda>y. if leap y then 366 else 365) [a..<b]) \<le> 366 * (b - a)"
  by (induction b) (auto simp: Suc_diff_le)

lemma calendar_bound:
  assumes "list_all ascii_digit v" "length v = 14" "valid_calendar (calendar_of v)"
  shows "calendar_time (calendar_of v) < 2 ^ 64"
proof -
  obtain y mo d h mi s where c: "calendar_of v = (y, mo, d, h, mi, s)" by (cases "calendar_of v")
  have "list_all ascii_digit (take 4 v)" using assms(1) by (metis append_take_drop_id list_all_append)
  from digits_bound [OF this] have y: "y < 10000" using c assms(2) by (simp add: calendar_of_def)
  have v: "1 \<le> mo" "mo \<le> 12" "d \<le> month_lengths y ! (mo - 1)" "h \<le> 23" "mi \<le> 59" "s \<le> 59"
    using assms(3) by (simp_all add: c valid_calendar_def valid_time_def)
  have "mo - 1 < 12" using v(1,2) by linarith
  then have "d \<le> 31" using v(3) month_lengths_pos [of "mo - 1" y] by linarith
  moreover have "sum_list (take (mo - 1) (month_lengths y)) \<le> 366"
    using sum_month_lengths [of y] sum_list_append [of "take (mo - 1) (month_lengths y)" "drop (mo - 1) (month_lengths y)"]
    by (simp split: if_splits)
  moreover have "sum_list (map (\<lambda>y. if leap y then 366 else 365) [1970..<y]) \<le> (366 * 10000 :: nat)"
    using sum_years_bound [of 1970 y] y by linarith
  ultimately have "calendar_time (calendar_of v) \<le> (366 * 10000 + 366 + 31) * 86400 + 23 * 3600 + 59 * 60 + 59"
    unfolding c calendar_time_def prod.case unix_time_def using v(4-6)
    by (intro add_mono mult_le_mono1) linarith+
  then show ?thesis by simp
qed

lemma length_write_digits [simp]: "length (write_digits k n) = k"
  by (induction k arbitrary: n) simp_all

lemma unat_digit: "n < 10 \<Longrightarrow> unat (of_nat (48 + n) :: byte) = 48 + n"
  by (simp only: unat_of_nat) simp

lemma write_digits_ascii: "list_all ascii_digit (write_digits k n)"
  by (induction k arbitrary: n) (simp_all add: ascii_digit_def word_le_nat_alt unat_digit del: of_nat_add)

lemma digits_value_write: "n < 10 ^ k \<Longrightarrow> digits_value (write_digits k n) = n"
proof (induction k arbitrary: n)
  case (Suc k)
  then have "n div 10 < 10 ^ k" by (simp add: less_mult_imp_div_less mult.commute)
  with Suc.IH unat_digit [of "n mod 10"] show ?case by (simp add: digits_value_snoc del: of_nat_add)
qed (simp add: digits_value_def)

lemma write_digits_value:
  "list_all ascii_digit ds \<Longrightarrow> write_digits (length ds) (digits_value ds) = ds"
proof (induction ds rule: rev_induct)
  case (snoc d ds)
  then have d: "48 \<le> unat d" "unat d \<le> 57" by (auto simp: ascii_digit_def word_le_nat_alt)
  then have e: "of_nat (48 + (unat d - 48)) = d" "unat d - 48 < 10" by simp_all
  have "(digits_value ds * 10 + (unat d - 48)) div 10 = digits_value ds"
    "(digits_value ds * 10 + (unat d - 48)) mod 10 = unat d - 48" using e(2) by simp_all
  with snoc e(1) show ?case by (simp add: digits_value_snoc del: of_nat_add diff_add_assoc add_diff_assoc)
qed simp

lemma calendar_of_write:
  assumes "valid_calendar (y, mo, d, h, mi, s)" "y < 10000"
  shows "calendar_of (write_calendar (y, mo, d, h, mi, s)) = (y, mo, d, h, mi, s)"
proof -
  have v: "1 \<le> mo" "mo \<le> 12" "d \<le> month_lengths y ! (mo - 1)" "h \<le> 23" "mi \<le> 59" "s \<le> 59"
    using assms(1) by (simp_all add: valid_calendar_def valid_time_def)
  have "mo - 1 < 12" using v(1,2) by linarith
  with v(3) have "d \<le> 31" using month_lengths_pos [of "mo - 1" y] by linarith
  with v show ?thesis
    using assms(2) by (simp add: calendar_of_def write_calendar_def digits_value_write del: write_digits.simps)
qed

lemma write_calendar_of:
  assumes "length v = 14" "list_all ascii_digit v"
  shows "write_calendar (calendar_of v) = v"
proof -
  have part: "write_digits k (digits_value (take k (drop n v))) = take k (drop n v)" if "n + k \<le> 14" for k n
  proof -
    have "list_all ascii_digit (take k (drop n v))"
      using assms(2) by (auto simp: list_all_iff dest: in_set_takeD in_set_dropD)
    from write_digits_value [OF this] show ?thesis using that assms(1) by simp
  qed
  have "v = take 4 v @ take 2 (drop 4 v) @ take 2 (drop 6 v) @ take 2 (drop 8 v) @ take 2 (drop 10 v) @ take 2 (drop 12 v)"
    using append_take_drop_id [of 4 v] append_take_drop_id [of 2 "drop 4 v"] append_take_drop_id [of 2 "drop 6 v"]
      append_take_drop_id [of 2 "drop 8 v"] append_take_drop_id [of 2 "drop 10 v"] assms(1) by simp
  then show ?thesis
    using part [of 0 4] part [of 4 2] part [of 6 2] part [of 8 2] part [of 10 2] part [of 12 2] assms(1)
    by (simp add: write_calendar_def calendar_of_def del: write_digits.simps)
qed

lemma calendar_of_year:
  assumes "length v = 14" "list_all ascii_digit v"
  shows "fst (calendar_of v) < 10000"
proof -
  have "list_all ascii_digit (take 4 v)" using assms(2) by (metis append_take_drop_id list_all_append)
  from digits_bound [OF this] show ?thesis using assms(1) by (simp add: calendar_of_def)
qed

text \<open>C24. The time parameter of a one-time password is read as the seconds since 1970 in the Gregorian
  calendar: a string is accepted with the value \<open>t\<close> exactly when it is the date and time of day
  reached from the start of 1970 in \<open>t\<close> steps of one second, written with four digits for the year
  and two for each other field.  No other string is accepted.\<close>
theorem parse_time_counts_seconds:
  "parse_time v = Inr t \<longleftrightarrow>
     v = write_calendar ((next_second ^^ unat t) epoch) \<and> fst ((next_second ^^ unat t) epoch) < 10000"
proof
  assume "parse_time v = Inr t"
  then have v: "length v = 14" "list_all ascii_digit v" "valid_calendar (calendar_of v)"
    and t: "t = of_nat (calendar_time (calendar_of v))"
    by (auto simp: parse_time_calendar split: if_splits)
  have "unat t = calendar_time (calendar_of v)"
    using calendar_bound [OF v(2,1,3)] by (simp add: t unat_of_nat)
  then have "(next_second ^^ unat t) epoch = calendar_of v" by (simp add: valid_since_epoch [OF v(3)])
  with write_calendar_of [OF v(1,2)] calendar_of_year [OF v(1,2)]
  show "v = write_calendar ((next_second ^^ unat t) epoch) \<and> fst ((next_second ^^ unat t) epoch) < 10000"
    by simp
next
  let ?c = "(next_second ^^ unat t) epoch"
  assume v: "v = write_calendar ?c \<and> fst ?c < 10000"
  obtain y mo d h mi s where c: "?c = (y, mo, d, h, mi, s)" by (cases ?c)
  have "length v = 14" "list_all ascii_digit v"
    using v by (simp_all add: c write_calendar_def write_digits_ascii del: write_digits.simps)
  moreover have "calendar_of v = ?c"
    using v seconds_since_epoch [of "unat t"] by (simp add: c calendar_of_write del: write_digits.simps)
  ultimately show "parse_time v = Inr t"
    using seconds_since_epoch [of "unat t"] by (simp add: parse_time_calendar)
qed

section \<open>The applet\<close>

text \<open>The YKOATH applet as far as its directory goes: names with the byte that tells type and
  hash.  PUT replaces a credential of the same name, LIST lists them, DELETE removes one.\<close>

type_synonym oath_directory = "(bytes \<times> byte) list"

definition oath_first_field :: "bytes \<Rightarrow> ((byte \<times> bytes) \<times> bytes) option" where
  "oath_first_field data =
     (case oath_length data of
        None \<Rightarrow> None
      | Some (len, offset) \<Rightarrow>
          if length data < offset + len then None
          else Some ((data ! 0, take len (drop offset data)), drop (offset + len) data))"

definition oath_reply :: "u16 \<Rightarrow> bytes \<Rightarrow> (oath_directory, response_apdu) comp" where
  "oath_reply status data = sok \<lparr>resp_data = data, resp_status = status\<rparr>"

definition oath_applet :: "command_apdu \<Rightarrow> (oath_directory, response_apdu) comp" where
  "oath_applet command =
     (if apdu_ins command = 0x01 then
        case oath_first_field (apdu_data command) of
          Some ((n, name), rest) \<Rightarrow>
            (case oath_first_field rest of
               Some ((k, kind # _), _) \<Rightarrow>
                 if n = 0x71 \<and> k = 0x73 then
                   sthen (smod (AList.update name kind)) (oath_reply 0x9000 [])
                 else oath_reply 0x6a80 []
             | _ \<Rightarrow> oath_reply 0x6a80 [])
        | None \<Rightarrow> oath_reply 0x6a80 []
      else if apdu_ins command = 0x02 then
        case oath_first_field (apdu_data command) of
          Some ((_, name), _) \<Rightarrow>
            sbind (sget (\<lambda>d. map_of d name)) (\<lambda>found.
            if found = None then oath_reply 0x6984 []
            else sthen (smod (AList.delete name)) (oath_reply 0x9000 []))
        | None \<Rightarrow> oath_reply 0x6a80 []
      else if apdu_ins command = 0xa1 then
        sbind (sget (\<lambda>d. concat (map (\<lambda>(name, kind). [0x72, of_nat (Suc (length name)), kind] @ name) d)))
          (oath_reply 0x9000)
      else oath_reply 0x6d00 [])"

text \<open>What the client makes of the directory.\<close>

definition oath_view :: "bytes \<times> byte \<Rightarrow> oath_credential result" where
  "oath_view = (\<lambda>(name, kind). oath_from_name name kind)"

definition directory_ok :: "oath_directory \<Rightarrow> bool" where
  "directory_ok d \<longleftrightarrow> distinct (map fst d) \<and> (\<forall>e \<in> set d. is_ok (oath_view e))"

lemma first_field_tlv:
  assumes "oath_tlv tag v = Inr f"
  shows "oath_first_field (f @ rest) = Some ((tag, v), rest)"
proof -
  note l = oath_length_tlv [OF assms]
  have "take (length v) (drop (length f - length v) (f @ rest)) = v"
    using l(2,5) by (simp add: drop_append)
  moreover have "(f @ rest) ! 0 = tag" using l(3,4) by (cases f) auto
  ultimately show ?thesis using l(2) by (simp add: oath_first_field_def l(1))
qed

lemma from_name_facts:
  assumes "oath_from_name name kind = Inr c"
  shows "oath_name c = name" "name \<noteq> []" "length name \<le> 64" "oath_hash c = kind AND 15"
    "oath_totp c \<longleftrightarrow> kind AND 0xf0 = 0x20" "oath_totp c \<Longrightarrow> oath_period c \<noteq> 0"
    "oath_extended c \<longleftrightarrow> \<not> oath_totp c \<and> oath_hash c \<noteq> 1" "oath_digits c = None" "oath_touch c = None"
  using assms by (auto simp: oath_from_name_def Let_def split: if_splits)

lemma directory_fields:
  assumes "\<forall>e \<in> set d. is_ok (oath_view e)"
  shows "oath_fields (map (\<lambda>(name, kind). (0x72, kind # name)) d) =
    Inr (concat (map (\<lambda>(name, kind). [0x72, of_nat (Suc (length name)), kind] @ name) d))"
  using assms
proof (induction d)
  case (Cons e d)
  obtain name kind where e: "e = (name, kind)" by fastforce
  with Cons.prems have "length name \<le> 64"
    by (auto simp: oath_view_def dest: from_name_facts(3))
  with Cons e show ?case by (simp add: oath_tlv_def)
qed simp

lemma directory_credentials:
  assumes "\<forall>e \<in> set d. is_ok (oath_view e)" "distinct (map fst d)" "\<forall>e \<in> set d. fst e \<notin> names"
  shows "oath_credentials (map (\<lambda>(name, kind). (0x72, kind # name)) d) names = Inr (map (\<lambda>e. projr (oath_view e)) d)"
  using assms
proof (induction d arbitrary: names)
  case (Cons e d)
  obtain name kind where e: "e = (name, kind)" by fastforce
  with Cons.prems obtain c where c: "oath_from_name name kind = Inr c" by (auto simp: oath_view_def)
  have "\<forall>x \<in> set d. fst x \<notin> insert name names" using Cons.prems e by force
  moreover have "\<not> Suc (length name) < 2" using from_name_facts(2) [OF c] by (cases name) auto
  ultimately show ?case
    using Cons.IH [of "insert name names"] Cons.prems by (simp add: e c oath_view_def)
qed simp

lemma oath_list_directory:
  assumes "directory_ok d"
  shows "oath_list oath_applet d = (Inr (map (\<lambda>e. projr (oath_view e)) d), d)"
proof -
  have ok: "\<forall>e \<in> set d. is_ok (oath_view e)" "distinct (map fst d)"
    using assms by (simp_all add: directory_ok_def)
  note parse = oath_fields_round_trip [OF directory_fields [OF ok(1)]]
  have "oath_applet (oath_apdu 0xa1 0 0 []) d =
    (Inr \<lparr>resp_data = concat (map (\<lambda>(name, kind). [0x72, of_nat (Suc (length name)), kind] @ name) d),
       resp_status = 0x9000\<rparr>, d)"
    by (simp add: oath_applet_def oath_apdu_def oath_reply_def sbind_def sget_def sok_def)
  then have "oath_list oath_applet d =
    (and_then (oath_parse (concat (map (\<lambda>(name, kind). [0x72, of_nat (Suc (length name)), kind] @ name) d)))
       (\<lambda>fields. oath_credentials fields {}), d)"
    by (simp add: oath_list_def oath_command_def sbind_def slift_def oath_status_def)
  with parse directory_credentials [OF ok] show ?thesis by simp
qed

lemma oath_put_applet:
  assumes name: "length (oath_name c) \<le> 64" and digits: "oath_digits c = Some digits"
    and secret: "secret \<noteq> []" "length secret \<le> 64"
  shows "oath_put oath_applet c secret counter d =
    (Inr (), AList.update (oath_name c) ((if oath_totp c then 0x20 else 0x10) OR oath_hash c) d)"
proof -
  let ?kind = "(if oath_totp c then 0x20 else 0x10) OR oath_hash c"
  let ?key = "[?kind, digits] @ secret @ replicate (16 - length ([?kind, digits] @ secret)) 0"
  have "length ?key \<le> 66" using secret by auto
  then obtain fk where fk: "oath_tlv 0x73 ?key = Inr fk" by (simp add: oath_tlv_def)
  obtain fn where fn: "oath_tlv 0x71 (oath_name c) = Inr fn" using name by (simp add: oath_tlv_def)
  obtain fi where fi: "(if \<not> oath_totp c then oath_tlv 0x7a (be_of_nat 4 (unat counter)) else Inr []) = Inr fi"
    by (cases "oath_totp c") (simp_all add: oath_tlv_def)
  let ?rest = "(if oath_touch c = Some True then [0x78, 2] else []) @ fi"
  have "oath_first_field (fn @ fk @ ?rest) = Some ((0x71, oath_name c), fk @ ?rest)"
    "oath_first_field (fk @ ?rest) = Some ((0x73, ?key), ?rest)"
    by (rule first_field_tlv [OF fn], rule first_field_tlv [OF fk])
  then have "oath_applet (oath_apdu 1 0 0 (fn @ fk @ ?rest)) d =
      (Inr \<lparr>resp_data = [], resp_status = 0x9000\<rparr>, AList.update (oath_name c) ?kind d)"
    by (simp add: oath_applet_def oath_apdu_def oath_reply_def sthen_def sbind_def smod_def sok_def)
  then show ?thesis
    using secret digits fk fn fi
    by (simp add: oath_put_def Let_def sthen_def sbind_def sensure_def slift_def sok_def oath_command_def
        oath_status_def)
qed

lemma oath_delete_applet:
  assumes "length name \<le> 64" "map_of d name \<noteq> None"
  shows "oath_delete oath_applet name d = (Inr (), AList.delete name d)"
proof -
  obtain fn where fn: "oath_tlv 0x71 name = Inr fn" using assms(1) by (simp add: oath_tlv_def)
  have "oath_first_field fn = Some ((0x71, name), [])" using first_field_tlv [OF fn, of "[]"] by simp
  then have "oath_applet (oath_apdu 2 0 0 fn) d = (Inr \<lparr>resp_data = [], resp_status = 0x9000\<rparr>, AList.delete name d)"
    using assms(2) by (simp add: oath_applet_def oath_apdu_def oath_reply_def sthen_def sbind_def sget_def smod_def sok_def)
  then show ?thesis
    by (simp add: oath_delete_def fn sthen_def sbind_def slift_def sok_def oath_command_def oath_status_def)
qed

lemma import_hash_step: "import_attribute a im = Inr im' \<Longrightarrow> im_hash im \<in> {1, 2, 3} \<Longrightarrow> im_hash im' \<in> {1, 2, 3}"
  by (simp add: import_attribute_def Let_def split: if_splits; auto split: if_splits)

lemma import_hash: "import_attributes as im = Inr im' \<Longrightarrow> im_hash im \<in> {1, 2, 3} \<Longrightarrow> im_hash im' \<in> {1, 2, 3}"
proof (induction as arbitrary: im)
  case (Cons a as)
  then obtain im1 where "import_attribute a im = Inr im1" "import_attributes as im1 = Inr im'" by auto
  with Cons import_hash_step show ?case by blast
qed simp

lemma import_facts:
  assumes "import_template template = Inr (c, secret, counter)"
  obtains c0 kind digits where "oath_from_name (oath_name c) kind = Inr c0"
    "kind = ((if oath_totp c then 0x20 else 0x10) OR oath_hash c)"
    "c0 = c\<lparr>oath_extended := \<not> oath_totp c \<and> oath_hash c \<noteq> 1, oath_digits := None, oath_touch := None\<rparr>"
    "oath_digits c = Some digits"
proof -
  obtain im where im: "import_attributes template import_start = Inr im" "import_finish im = Inr (c, secret, counter)"
    using assms by (auto simp: import_template_def)
  have hash: "im_hash im \<in> {1, 2, 3}"
    using import_hash [OF im(1)] by (simp add: import_start_def)
  obtain totp name key_type c0 where
    c0: "oath_from_name name ((if totp then 0x20 else 0x10) OR im_hash im) = Inr c0"
    and c: "c = c0\<lparr>oath_extended := (key_type = CKK_PKCS11RS_HOTP), oath_digits := Some (im_digits im),
      oath_touch := Some (im_touch im)\<rparr>"
  proof -
    have "\<exists>totp name key_type c0.
        (case oath_from_name name ((if totp then 0x20 else 0x10) OR im_hash im) of
           Inl _ \<Rightarrow> Inl (Generic CKR_ATTRIBUTE_VALUE_INVALID) | Inr c \<Rightarrow> Inr c) = (Inr c0 :: oath_credential result) \<and>
        c0\<lparr>oath_extended := (key_type = CKK_PKCS11RS_HOTP), oath_digits := Some (im_digits im),
          oath_touch := Some (im_touch im)\<rparr> = c"
      using im(2) unfolding import_finish_def and_then_ok ensure_ok sum.inject prod.inject by blast
    then obtain totp name key_type c0 where
      1: "(case oath_from_name name ((if totp then 0x20 else 0x10) OR im_hash im) of
           Inl _ \<Rightarrow> Inl (Generic CKR_ATTRIBUTE_VALUE_INVALID) | Inr c \<Rightarrow> Inr c) = (Inr c0 :: oath_credential result)"
      and 2: "c0\<lparr>oath_extended := (key_type = CKK_PKCS11RS_HOTP), oath_digits := Some (im_digits im),
          oath_touch := Some (im_touch im)\<rparr> = c" by blast
    from 1 have "oath_from_name name ((if totp then 0x20 else 0x10) OR im_hash im) = Inr c0"
      by (cases "oath_from_name name ((if totp then 0x20 else 0x10) OR im_hash im)") simp_all
    with 2 show ?thesis using that by metis
  qed
  let ?kind = "(if totp then 0x20 else 0x10) OR im_hash im"
  have bits: "?kind AND 15 = im_hash im" "?kind AND 0xf0 = (if totp then 0x20 else 0x10)"
    using hash by auto
  note f = from_name_facts [OF c0]
  have same: "oath_name c = name" "oath_hash c = im_hash im" "oath_totp c = totp"
    using f bits by (auto simp: c)
  show ?thesis
  proof (rule that)
    show "oath_from_name (oath_name c) ?kind = Inr c0" using c0 same by simp
    show "?kind = ((if oath_totp c then 0x20 else 0x10) OR oath_hash c)" using same by simp
    show "c0 = c\<lparr>oath_extended := \<not> oath_totp c \<and> oath_hash c \<noteq> 1, oath_digits := None, oath_touch := None\<rparr>"
      using f same by (cases c0) (simp add: c)
    show "oath_digits c = Some (im_digits im)" by (simp add: c)
  qed
qed

text \<open>C22. A credential imported from a template and written to the applet is the one the applet
  lists afterwards, next to those that were there: same name, kind, hash and period (a listing does
  not tell digits and touch, and the extended view of a counter credential follows from its hash).
  Deleting it restores the directory.\<close>
theorem oath_import_listed:
  assumes "directory_ok d" "import_template template = Inr (c, secret, counter)"
    and "secret \<noteq> []" "length secret \<le> 64" "oath_name c \<notin> fst ` set d"
  shows "\<exists>d'. oath_put oath_applet c secret counter d = (Inr (), d') \<and>
    oath_list oath_applet d' = (Inr (map (\<lambda>e. projr (oath_view e)) d @
      [c\<lparr>oath_extended := \<not> oath_totp c \<and> oath_hash c \<noteq> 1, oath_digits := None, oath_touch := None\<rparr>]), d') \<and>
    oath_delete oath_applet (oath_name c) d' = (Inr (), d)"
proof -
  obtain c0 kind digits where c0: "oath_from_name (oath_name c) kind = Inr c0"
    "kind = ((if oath_totp c then 0x20 else 0x10) OR oath_hash c)"
    "c0 = c\<lparr>oath_extended := \<not> oath_totp c \<and> oath_hash c \<noteq> 1, oath_digits := None, oath_touch := None\<rparr>"
    "oath_digits c = Some digits"
    using import_facts [OF assms(2)] by blast
  have len: "length (oath_name c) \<le> 64" using from_name_facts(3) [OF c0(1)] by simp
  let ?d = "d @ [(oath_name c, kind)]"
  have put: "oath_put oath_applet c secret counter d = (Inr (), ?d)"
    using oath_put_applet [OF len c0(4) assms(3,4)] keys_update_fresh [of "oath_name c" d] assms(5) c0(2) by simp
  have "directory_ok ?d" using assms(1,5) c0(1) by (auto simp: directory_ok_def oath_view_def)
  from oath_list_directory [OF this] have list: "oath_list oath_applet ?d = (Inr (map (\<lambda>e. projr (oath_view e)) d @ [c0]), ?d)"
    using c0(1) by (simp add: oath_view_def)
  have "oath_delete oath_applet (oath_name c) ?d = (Inr (), AList.delete (oath_name c) ?d)"
    using assms(5) by (intro oath_delete_applet len) (force simp: map_of_eq_None_iff)
  moreover have "AList.delete (oath_name c) ?d = d"
    using assms(5) by (simp add: AList.delete_eq filter_id_conv) force
  ultimately show ?thesis using put list c0(3) by auto
qed

text \<open>A SHA-256 TOTP credential with a period of a minute.\<close>

definition sample_template :: "ck_attribute list" where
  "sample_template =
     [attr_of CKA_CLASS (ulong_attribute CKO_OTP_KEY), attr_of CKA_KEY_TYPE (ulong_attribute CKK_PKCS11RS_TOTP),
      attr_of CKA_TOKEN (bool_attribute True), attr_of CKA_LABEL [0x61],
      attr_of CKA_OTP_TIME_INTERVAL (ulong_attribute 60),
      attr_of CKA_PKCS11RS_OATH_HASH (ulong_attribute CKM_SHA256), attr_of CKA_VALUE [1, 2, 3]]"

definition sample_credential :: oath_credential where
  "sample_credential = \<lparr>oath_name = [0x36, 0x30, 0x2f, 0x61], oath_totp = True, oath_hash = 2,
     oath_extended = False, oath_period = 60, oath_digits = Some 6, oath_touch = Some False\<rparr>"

lemma attr_of_simps [simp]: "attr_type (attr_of t bs) = t"
  by (simp add: attr_of_def)

definition sample_import :: oath_import where
  "sample_import = \<lparr>im_seen = {CKA_CLASS, CKA_KEY_TYPE, CKA_TOKEN, CKA_LABEL, CKA_OTP_TIME_INTERVAL,
       CKA_PKCS11RS_OATH_HASH, CKA_VALUE}, im_class = Some CKO_OTP_KEY, im_kind = Some CKK_PKCS11RS_TOTP,
     im_label = Some [0x61], im_id = None, im_secret = Some [1, 2, 3], im_digits = 6, im_hash = 2,
     im_touch = False, im_period = Some 60, im_counter = 0\<rparr>"

lemma import_steps:
  "CKA_CLASS \<notin> im_seen im \<Longrightarrow> import_attribute (attr_of CKA_CLASS (ulong_attribute n)) im =
     Inr (im\<lparr>im_seen := insert CKA_CLASS (im_seen im), im_class := Some n\<rparr>)"
  "CKA_KEY_TYPE \<notin> im_seen im \<Longrightarrow> import_attribute (attr_of CKA_KEY_TYPE (ulong_attribute n)) im =
     Inr (im\<lparr>im_seen := insert CKA_KEY_TYPE (im_seen im), im_kind := Some n\<rparr>)"
  "CKA_TOKEN \<notin> im_seen im \<Longrightarrow> import_attribute (attr_of CKA_TOKEN (bool_attribute True)) im =
     Inr (im\<lparr>im_seen := insert CKA_TOKEN (im_seen im)\<rparr>)"
  "CKA_LABEL \<notin> im_seen im \<Longrightarrow> import_attribute (attr_of CKA_LABEL [x]) im =
     Inr (im\<lparr>im_seen := insert CKA_LABEL (im_seen im), im_label := Some [x]\<rparr>)"
  "CKA_OTP_TIME_INTERVAL \<notin> im_seen im \<Longrightarrow> n \<noteq> 0 \<Longrightarrow>
     import_attribute (attr_of CKA_OTP_TIME_INTERVAL (ulong_attribute n)) im =
     Inr (im\<lparr>im_seen := insert CKA_OTP_TIME_INTERVAL (im_seen im), im_period := Some n\<rparr>)"
  "CKA_PKCS11RS_OATH_HASH \<notin> im_seen im \<Longrightarrow>
     import_attribute (attr_of CKA_PKCS11RS_OATH_HASH (ulong_attribute CKM_SHA256)) im =
     Inr (im\<lparr>im_seen := insert CKA_PKCS11RS_OATH_HASH (im_seen im), im_hash := 2\<rparr>)"
  "CKA_VALUE \<notin> im_seen im \<Longrightarrow> import_attribute (attr_of CKA_VALUE [x, y, z]) im =
     Inr (im\<lparr>im_seen := insert CKA_VALUE (im_seen im), im_secret := Some [x, y, z]\<rparr>)"
  by (simp_all add: import_attribute_def read_ulong_round_trip read_bool_round_trip read_attr_of)

lemma sample_read: "import_attributes sample_template import_start = Inr sample_import"
  by (simp add: sample_template_def import_start_def sample_import_def import_steps insert_commute)

lemma sample_imported: "import_template sample_template = Inr (sample_credential, [1, 2, 3], 0)"
proof -
  have dec: "map of_char (decimal 60) = ([0x36, 0x30] :: bytes)"
    by (simp add: decimal.simps byte_of_char_of)
  have utf: "utf8_valid [0x61]" "utf8_valid [0x36, 0x30, 0x2f, 0x61]"
    by (rule utf8_valid_ascii; simp)+
  have name: "name_period [0x36, 0x30, 0x2f, 0x61] = 60"
    by (simp add: name_period_def utf before_slash_def parse_u64_def digits_value_def ascii_digit_def)
  have "period_name (Some 60) [0x61] = [0x36, 0x30, 0x2f, 0x61]"
    by (simp add: period_name_def starts_with_bytes_def dec)
  then show ?thesis
    by (simp add: import_template_def sample_read import_finish_def sample_import_def utf oath_from_name_def name
        sample_credential_def)
qed

theorem oath_import_listed_witness:
  "\<exists>d'. oath_put oath_applet sample_credential [1, 2, 3] 0 [([0x62], 0x11)] = (Inr (), d') \<and>
     fst (oath_list oath_applet d') = Inr
       [\<lparr>oath_name = [0x62], oath_totp = False, oath_hash = 1, oath_extended = False, oath_period = 0,
         oath_digits = None, oath_touch = None\<rparr>,
        sample_credential\<lparr>oath_digits := None, oath_touch := None\<rparr>]"
proof -
  have "directory_ok [([0x62], 0x11)]" by (simp add: directory_ok_def oath_view_def oath_from_name_def)
  moreover have "oath_name sample_credential \<notin> fst ` set [([0x62], 0x11)]" by (simp add: sample_credential_def)
  ultimately have "\<exists>d'. oath_put oath_applet sample_credential [1, 2, 3] 0 [([0x62], 0x11)] = (Inr (), d') \<and>
    oath_list oath_applet d' = (Inr (map (\<lambda>e. projr (oath_view e)) [([0x62], 0x11)] @
      [sample_credential\<lparr>oath_extended := \<not> oath_totp sample_credential \<and> oath_hash sample_credential \<noteq> 1,
         oath_digits := None, oath_touch := None\<rparr>]), d')"
    using oath_import_listed [OF _ sample_imported] by force
  then show ?thesis
    by (auto simp: oath_view_def oath_from_name_def sample_credential_def)
qed
end
