(* ===== verification/Der_Encoding.thy ===== *)
theory Der_Encoding
  imports Piv_Attestation Attribute_Types Yubihsm_Types
begin

text \<open>
  The DER that the provider writes itself: integers, elements and subject public key information
  (src/src/object.rs), and the curve parameters it recognises and reports
  (src/src/backend/crypto.rs, src/src/backend/piv.rs, src/src/openpgp.rs).  The encodings are
  compared with the trees that the reader of \<open>Piv_Attestation\<close> understands.
\<close>

definition encode_der_tlv :: "byte \<Rightarrow> bytes \<Rightarrow> bytes" where
  "encode_der_tlv tag v =
     [tag] @
     (if length v < 128 then [of_nat (length v)]
      else
        let len = be_of_nat 8 (length v);
            first = (case position (\<lambda>b. b \<noteq> 0) len of Some i \<Rightarrow> i | None \<Rightarrow> length len - 1)
        in (0x80 OR of_nat (length len - first)) # drop first len) @ v"

definition der_integer :: "bytes \<Rightarrow> bytes" where
  "der_integer magnitude =
     (let first_nonzero = (case position (\<lambda>b. b \<noteq> 0) magnitude of Some i \<Rightarrow> i | None \<Rightarrow> length magnitude);
          magnitude = drop first_nonzero magnitude;
          needs_sign_padding = (magnitude \<noteq> [] \<and> hd magnitude AND 0x80 \<noteq> 0) in
      encode_der_tlv 0x02 ((if magnitude = [] \<or> needs_sign_padding then [0] else []) @ magnitude))"

definition rsa_public_key_info :: "bytes \<Rightarrow> bytes \<Rightarrow> bytes option" where
  "rsa_public_key_info modulus public_exponent =
     (if modulus = [] \<or> public_exponent = [] then None
      else
        let public_key = encode_der_tlv 0x30 (der_integer modulus @ der_integer public_exponent);
            algorithm = [0x30, 0x0d, 0x06, 0x09, 0x2a, 0x86, 0x48, 0x86, 0xf7, 0x0d, 0x01, 0x01, 0x01, 0x05, 0x00]
        in Some (encode_der_tlv 0x30 (algorithm @ encode_der_tlv 0x03 (0 # public_key))))"

section \<open>Curve parameters\<close>

datatype edwards_curve = CurveEd25519 | CurveEd448
datatype montgomery_curve = CurveX25519 | CurveX448

fun edwards_curve_parameters :: "edwards_curve \<Rightarrow> bytes" where
  "edwards_curve_parameters CurveEd25519 = [0x06, 0x03, 0x2b, 0x65, 0x70]"
| "edwards_curve_parameters CurveEd448 = [0x06, 0x03, 0x2b, 0x65, 0x71]"

fun montgomery_curve_parameters :: "montgomery_curve \<Rightarrow> bytes" where
  "montgomery_curve_parameters CurveX25519 = [0x06, 0x03, 0x2b, 0x65, 0x6e]"
| "montgomery_curve_parameters CurveX448 = [0x06, 0x03, 0x2b, 0x65, 0x6f]"

fun piv_ec_parameters :: "piv_algorithm \<Rightarrow> bytes option" where
  "piv_ec_parameters EccP256 = Some [0x06, 0x08, 0x2a, 0x86, 0x48, 0xce, 0x3d, 0x03, 0x01, 0x07]"
| "piv_ec_parameters EccP384 = Some [0x06, 0x05, 0x2b, 0x81, 0x04, 0x00, 0x22]"
| "piv_ec_parameters Ed25519 =
     Some [0x13, 0x0c, 0x65, 0x64, 0x77, 0x61, 0x72, 0x64, 0x73, 0x32, 0x35, 0x35, 0x31, 0x39]"
| "piv_ec_parameters X25519 = Some [0x13, 0x0a, 0x63, 0x75, 0x72, 0x76, 0x65, 0x32, 0x35, 0x35, 0x31, 0x39]"
| "piv_ec_parameters _ = None"

datatype pgp_curve =
    PgpP256 | PgpP384 | PgpP521 | PgpBrainpoolP256 | PgpBrainpoolP384 | PgpBrainpoolP512
  | PgpSecp256k1 | PgpEd25519 | PgpX25519

definition curve_from_oid :: "bytes \<Rightarrow> pgp_curve option" where
  "curve_from_oid oid = map_of
     [([0x2a, 0x86, 0x48, 0xce, 0x3d, 0x03, 0x01, 0x07], PgpP256),
      ([0x2b, 0x81, 0x04, 0x00, 0x22], PgpP384),
      ([0x2b, 0x81, 0x04, 0x00, 0x23], PgpP521),
      ([0x2b, 0x24, 0x03, 0x03, 0x02, 0x08, 0x01, 0x01, 0x07], PgpBrainpoolP256),
      ([0x2b, 0x24, 0x03, 0x03, 0x02, 0x08, 0x01, 0x01, 0x0b], PgpBrainpoolP384),
      ([0x2b, 0x24, 0x03, 0x03, 0x02, 0x08, 0x01, 0x01, 0x0d], PgpBrainpoolP512),
      ([0x2b, 0x81, 0x04, 0x00, 0x0a], PgpSecp256k1),
      ([0x2b, 0x06, 0x01, 0x04, 0x01, 0xda, 0x47, 0x0f, 0x01], PgpEd25519),
      ([0x2b, 0x06, 0x01, 0x04, 0x01, 0x97, 0x55, 0x01, 0x05, 0x01], PgpX25519)] oid"

fun curve_oid :: "pgp_curve \<Rightarrow> bytes" where
  "curve_oid PgpP256 = [0x06, 0x08, 0x2a, 0x86, 0x48, 0xce, 0x3d, 0x03, 0x01, 0x07]"
| "curve_oid PgpP384 = [0x06, 0x05, 0x2b, 0x81, 0x04, 0x00, 0x22]"
| "curve_oid PgpP521 = [0x06, 0x05, 0x2b, 0x81, 0x04, 0x00, 0x23]"
| "curve_oid PgpBrainpoolP256 = [0x06, 0x09, 0x2b, 0x24, 0x03, 0x03, 0x02, 0x08, 0x01, 0x01, 0x07]"
| "curve_oid PgpBrainpoolP384 = [0x06, 0x09, 0x2b, 0x24, 0x03, 0x03, 0x02, 0x08, 0x01, 0x01, 0x0b]"
| "curve_oid PgpBrainpoolP512 = [0x06, 0x09, 0x2b, 0x24, 0x03, 0x03, 0x02, 0x08, 0x01, 0x01, 0x0d]"
| "curve_oid PgpSecp256k1 = [0x06, 0x05, 0x2b, 0x81, 0x04, 0x00, 0x0a]"
| "curve_oid PgpEd25519 = [0x06, 0x08, 0x2b, 0x06, 0x01, 0x04, 0x01, 0xda, 0x47, 0x0f, 0x01]"
| "curve_oid PgpX25519 = [0x06, 0x09, 0x2b, 0x06, 0x01, 0x04, 0x01, 0x97, 0x55, 0x01, 0x05, 0x01]"

definition edwards_curve_from_parameters :: "bytes \<Rightarrow> edwards_curve option" where
  "edwards_curve_from_parameters parameters =
     (if parameters = edwards_curve_parameters CurveEd25519 \<or>
         parameters = (case piv_ec_parameters Ed25519 of Some p \<Rightarrow> p | None \<Rightarrow> []) \<or>
         parameters = curve_oid PgpEd25519
      then Some CurveEd25519
      else if parameters = edwards_curve_parameters CurveEd448 then Some CurveEd448
      else None)"

definition montgomery_curve_from_parameters :: "bytes \<Rightarrow> montgomery_curve option" where
  "montgomery_curve_from_parameters parameters =
     (if parameters = montgomery_curve_parameters CurveX25519 \<or>
         parameters = (case piv_ec_parameters X25519 of Some p \<Rightarrow> p | None \<Rightarrow> []) \<or>
         parameters = curve_oid PgpX25519
      then Some CurveX25519
      else if parameters = montgomery_curve_parameters CurveX448 then Some CurveX448
      else None)"

section \<open>Public key information\<close>

definition ec_public_key_info :: "ck_ulong \<Rightarrow> bytes option \<Rightarrow> bytes \<Rightarrow> bytes option" where
  "ec_public_key_info key_type parameters public_key =
     (if public_key = [] then None
      else
        Option.bind
          (if key_type = CKK_EC then
             map_option (\<lambda>p. encode_der_tlv 0x30 ([0x06, 0x07, 0x2a, 0x86, 0x48, 0xce, 0x3d, 0x02, 0x01] @ p)) parameters
           else if key_type = CKK_EC_EDWARDS then
             Option.bind parameters (\<lambda>p.
               map_option (\<lambda>c. encode_der_tlv 0x30 (edwards_curve_parameters c)) (edwards_curve_from_parameters p))
           else if key_type = CKK_EC_MONTGOMERY then
             Option.bind parameters (\<lambda>p.
               map_option (\<lambda>c. encode_der_tlv 0x30 (montgomery_curve_parameters c)) (montgomery_curve_from_parameters p))
           else None)
          (\<lambda>algorithm.
             let subject_public_key = [0] @ (if key_type = CKK_EC then [0x04] else []) @ public_key
             in Some (encode_der_tlv 0x30 (algorithm @ encode_der_tlv 0x03 subject_public_key))))"

text \<open>The encoders of the software key library for the lattice schemes, and the length of a
  hybrid public key, are parameters.\<close>

definition ml_dsa_public_key_info ::
  "(ml_dsa_parameter_set \<Rightarrow> bytes \<Rightarrow> bytes option) \<Rightarrow> ck_ulong \<Rightarrow> bytes \<Rightarrow> bytes option" where
  "ml_dsa_public_key_info shared parameter_set public_key =
     (if parameter_set = 1 then shared ml_dsa_parameter_set.MlDsa44 public_key
      else if parameter_set = 2 then shared ml_dsa_parameter_set.MlDsa65 public_key
      else if parameter_set = 3 then shared ml_dsa_parameter_set.MlDsa87 public_key
      else None)"

definition ml_kem_public_key_info ::
  "(ml_kem_parameter_set \<Rightarrow> bytes \<Rightarrow> bytes option) \<Rightarrow> ck_ulong \<Rightarrow> bytes \<Rightarrow> bytes option" where
  "ml_kem_public_key_info shared parameter_set public_key =
     (if parameter_set = 1 then shared ml_kem_parameter_set.MlKem512 public_key
      else if parameter_set = 2 then shared ml_kem_parameter_set.MlKem768 public_key
      else if parameter_set = 3 then shared ml_kem_parameter_set.MlKem1024 public_key
      else None)"

fun hybrid_suffix :: "hybrid_kem_construction \<Rightarrow> byte" where
  "hybrid_suffix MlKem768P256 = 1"
| "hybrid_suffix MlKem768X25519 = 2"
| "hybrid_suffix MlKem1024P384 = 3"

definition hybrid_kem_public_key_info ::
  "(hybrid_kem_construction \<Rightarrow> nat) \<Rightarrow> hybrid_kem_construction \<Rightarrow> bytes \<Rightarrow> bytes option" where
  "hybrid_kem_public_key_info public_key_length construction public_key =
     (if length public_key \<noteq> public_key_length construction then None
      else
        let algorithm = encode_der_tlv 0x30
              [0x06, 0x0a, 0x2b, 0x06, 0x01, 0x04, 0x01, 0x82, 0xc4, 0x0a, 0x0a, hybrid_suffix construction]
        in Some (encode_der_tlv 0x30 (algorithm @ encode_der_tlv 0x03 (0 # public_key))))"

section \<open>The encoding\<close>

lemma be_eight_four:
  assumes "n < 256 ^ 4"
  shows "be_of_nat 8 n = replicate 4 0 @ be_of_nat 4 n"
proof -
  have "nat_of_be (replicate 4 0 @ be_of_nat 4 n) = n" using assms by (simp only: nat_of_be_zeros nat_of_be_of_nat mod_less)
  then show ?thesis
    using be_of_nat_of_be [of "replicate 4 0 @ be_of_nat 4 n"] by simp
qed

lemma encode_length_short:
  assumes "0 < n" "n < 256 ^ 4"
  shows "(let len = be_of_nat 8 n; first = (case position (\<lambda>b. b \<noteq> 0) len of Some i \<Rightarrow> i | None \<Rightarrow> length len - 1)
     in (0x80 OR of_nat (length len - first)) # drop first len) =
     (of_nat (0x80 + length (significant_bytes n)) :: byte) # significant_bytes n"
proof -
  let ?s = "significant_bytes n"
  obtain b cs where s: "?s = b # cs" "b \<noteq> 0" "length ?s \<le> 4"
    using significant_form [of n] significant_hd [OF assms] by (cases ?s) auto
  have be: "be_of_nat 8 n = replicate (8 - length ?s) 0 @ ?s"
    using significant_form [of n] be_eight_four [OF assms(2)] s(3) by (simp add: replicate_add [symmetric])
  have "position (\<lambda>b. b \<noteq> 0) (be_of_nat 8 n) = Some (8 - length ?s)"
    using s(2) unfolding be by (simp add: s(1))
  moreover have "(0x80 OR of_nat (length ?s) :: byte) = of_nat (0x80 + length ?s)"
  proof -
    have "0 < length ?s" using s(1) by simp
    then have "length ?s = 1 \<or> length ?s = 2 \<or> length ?s = 3 \<or> length ?s = 4" using s(3) by linarith
    then show ?thesis by (elim disjE) simp_all
  qed
  ultimately show ?thesis using s(3) by (simp add: Let_def) (simp add: be)
qed

text \<open>What the provider writes is the element of the tree that the reader finds.\<close>

lemma encode_der_tlv_eq:
  assumes "length v < 256 ^ 4"
  shows "encode_der_tlv tag v = tag # der_length_bytes (length v) @ v"
proof (cases "length v < 128")
  case True
  then show ?thesis by (simp add: encode_der_tlv_def der_length_bytes_def)
next
  case False
  then have "0 < length v" by linarith
  from encode_length_short [OF this assms] False show ?thesis
    unfolding encode_der_tlv_def der_length_bytes_def by (simp only: if_False append_Cons append_Nil) (simp add: Let_def)
qed

text \<open>The contents of a DER integer that is not negative: as short as possible, the top bit clear.\<close>

definition der_unsigned :: "bytes \<Rightarrow> nat \<Rightarrow> bool" where
  "der_unsigned bs n \<longleftrightarrow>
     bs \<noteq> [] \<and> nat_of_be bs = n \<and> hd bs AND 0x80 = 0 \<and> (1 < length bs \<and> hd bs = 0 \<longrightarrow> bs ! 1 AND 0x80 \<noteq> 0)"

lemma position_drop: "position P xs = Some i \<Longrightarrow> i < length xs \<and> P (xs ! i) \<and> (\<forall>j<i. \<not> P (xs ! j))"
proof (induction xs arbitrary: i)
  case (Cons x xs)
  then show ?case by (auto split: if_splits simp: nth_Cons split: nat.split)
qed simp

lemma position_none: "position P xs = None \<longleftrightarrow> (\<forall>x\<in>set xs. \<not> P x)"
  by (induction xs) auto

lemma nat_of_be_all_zero: "\<forall>b\<in>set bs. b = 0 \<Longrightarrow> nat_of_be bs = 0"
  using nat_of_be_zeros [of "length bs" "[]"] by (metis append_Nil2 nat_of_be_Nil replicate_length_same)

lemma der_integer_contents:
  "\<exists>n. der_integer m = encode_der_tlv 0x02 n \<and> der_unsigned n (nat_of_be m) \<and> length n \<le> length m + 1"
proof (cases "position (\<lambda>b. b \<noteq> 0) m")
  case None
  then have "nat_of_be m = 0" by (intro nat_of_be_all_zero) (simp add: position_none)
  with None show ?thesis by (intro exI [of _ "[0]"]) (simp add: der_integer_def der_unsigned_def nat_of_be_def)
next
  case (Some i)
  note i = position_drop [OF Some]
  have "take i m = replicate i 0" using i by (intro nth_equalityI) auto
  then have m: "m = replicate i 0 @ drop i m" by (metis append_take_drop_id)
  then have v: "nat_of_be (drop i m) = nat_of_be m" by (metis nat_of_be_zeros)
  have d: "drop i m = m ! i # drop (Suc i) m" using i by (simp add: Cons_nth_drop_Suc)
  let ?n = "(if m ! i AND 0x80 \<noteq> 0 then [0] else []) @ drop i m"
  have "nat_of_be ?n = nat_of_be m" using nat_of_be_zeros [of 1 "drop i m"] v by auto
  then have "der_unsigned ?n (nat_of_be m)" using i by (auto simp: der_unsigned_def d)
  moreover have "der_integer m = encode_der_tlv 0x02 ?n" using Some i by (simp add: der_integer_def Let_def d)
  moreover have "length ?n \<le> length m + 1" by (simp add: le_SucI)
  ultimately show ?thesis by blast
qed

text \<open>Lengths grow by at most six bytes per element.\<close>

lemma der_length_bytes_le: "length (der_length_bytes n) \<le> 5"
  using significant_form [of n] by (auto simp: der_length_bytes_def Let_def)

lemma encode_prim: "length v < 256 ^ 4 \<Longrightarrow> encode_der_tlv tag v = der_bytes (Prim tag v)"
  by (simp add: encode_der_tlv_eq)

lemma encode_node:
  "length (concat (map der_bytes ts)) < 256 ^ 4 \<Longrightarrow> encode_der_tlv tag (concat (map der_bytes ts)) = der_bytes (Node tag ts)"
  by (simp add: encode_der_tlv_eq Let_def)

lemma length_prim: "length (der_bytes (Prim tag v)) \<le> length v + 6"
  using der_length_bytes_le [of "length v"] by simp

lemma length_node: "length (der_bytes (Node tag ts)) \<le> length (concat (map der_bytes ts)) + 6"
  using der_length_bytes_le by (simp add: Let_def)

definition rsa_algorithm :: der where
  "rsa_algorithm = Node 0x30 [Prim 0x06 [0x2a, 0x86, 0x48, 0x86, 0xf7, 0x0d, 0x01, 0x01, 0x01], Prim 0x05 []]"

definition ec_algorithm :: "der \<Rightarrow> der" where
  "ec_algorithm parameters = Node 0x30 [Prim 0x06 [0x2a, 0x86, 0x48, 0xce, 0x3d, 0x02, 0x01], parameters]"

text \<open>A subject public key information: an algorithm and a bit string without unused bits.\<close>

definition spki :: "der \<Rightarrow> bytes \<Rightarrow> der" where
  "spki algorithm key = Node 0x30 [algorithm, Prim 0x03 (0 # key)]"

lemma rsa_algorithm_bytes:
  "der_bytes rsa_algorithm = [0x30, 0x0d, 0x06, 0x09, 0x2a, 0x86, 0x48, 0x86, 0xf7, 0x0d, 0x01, 0x01, 0x01, 0x05, 0x00]"
  by (simp add: rsa_algorithm_def der_length_bytes_def)

lemma encode_spki:
  assumes "length (der_bytes algorithm) + length key < 2 ^ 32 - 20"
  shows "encode_der_tlv 0x30 (der_bytes algorithm @ encode_der_tlv 0x03 (0 # key)) = der_bytes (spki algorithm key)"
proof -
  have k: "encode_der_tlv 0x03 (0 # key) = der_bytes (Prim 0x03 (0 # key))" using assms by (intro encode_prim) simp
  have "length (concat (map der_bytes [algorithm, Prim 0x03 (0 # key)])) < 256 ^ 4"
    using assms length_prim [of "0x03" "0 # key"] by simp
  from encode_node [OF this, of "0x30"] show ?thesis by (simp add: k spki_def del: der_bytes.simps)
qed

text \<open>C29. The public key information of an RSA key and of a key on a named curve is the DER encoding of
  the standard structure: the algorithm with its parameters, and a bit string that holds the two
  integers in their shortest form, or the uncompressed point.\<close>
theorem public_key_info_der:
  assumes "modulus \<noteq> []" "exponent \<noteq> []" "length modulus + length exponent < 2 ^ 31"
    and "point \<noteq> []" "length point + length (der_bytes parameters) < 2 ^ 31"
  shows "(\<exists>n e. der_unsigned n (nat_of_be modulus) \<and> der_unsigned e (nat_of_be exponent) \<and>
      rsa_public_key_info modulus exponent =
        Some (der_bytes (spki rsa_algorithm (der_bytes (Node 0x30 [Prim 0x02 n, Prim 0x02 e]))))) \<and>
    ec_public_key_info CKK_EC (Some (der_bytes parameters)) point =
      Some (der_bytes (spki (ec_algorithm parameters) (0x04 # point)))"
proof
  obtain n where n: "der_integer modulus = encode_der_tlv 0x02 n" "der_unsigned n (nat_of_be modulus)"
    "length n \<le> length modulus + 1" using der_integer_contents by blast
  obtain e where e: "der_integer exponent = encode_der_tlv 0x02 e" "der_unsigned e (nat_of_be exponent)"
    "length e \<le> length exponent + 1" using der_integer_contents by blast
  have prims: "der_integer modulus = der_bytes (Prim 0x02 n)" "der_integer exponent = der_bytes (Prim 0x02 e)"
    using n(1,3) e(1,3) assms(3) by (simp_all only: n(1) e(1)) (intro encode_prim; simp)+
  have "length (concat (map der_bytes [Prim 0x02 n, Prim 0x02 e])) < 2 ^ 31 + 20"
    using n(3) e(3) assms(3) length_prim [of "0x02" n] length_prim [of "0x02" e] by simp
  then have keys: "encode_der_tlv 0x30 (der_integer modulus @ der_integer exponent) =
      der_bytes (Node 0x30 [Prim 0x02 n, Prim 0x02 e])"
    "length (der_bytes (Node 0x30 [Prim 0x02 n, Prim 0x02 e])) < 2 ^ 31 + 30"
    using encode_node [of "[Prim 0x02 n, Prim 0x02 e]" "0x30"] length_node [of "0x30" "[Prim 0x02 n, Prim 0x02 e]"]
    by (simp_all add: prims del: der_bytes.simps)
  from encode_spki [of rsa_algorithm "der_bytes (Node 0x30 [Prim 0x02 n, Prim 0x02 e])"] keys(2)
  have "rsa_public_key_info modulus exponent =
      Some (der_bytes (spki rsa_algorithm (der_bytes (Node 0x30 [Prim 0x02 n, Prim 0x02 e]))))"
    using assms(1,2) by (simp add: rsa_public_key_info_def keys(1) rsa_algorithm_bytes del: der_bytes.simps)
  with n(2) e(2) show "\<exists>n e. der_unsigned n (nat_of_be modulus) \<and> der_unsigned e (nat_of_be exponent) \<and>
      rsa_public_key_info modulus exponent =
        Some (der_bytes (spki rsa_algorithm (der_bytes (Node 0x30 [Prim 0x02 n, Prim 0x02 e]))))" by blast
next
  let ?ts = "[Prim 0x06 [0x2a, 0x86, 0x48, 0xce, 0x3d, 0x02, 0x01], parameters]"
  have oid: "der_bytes (Prim 0x06 [0x2a, 0x86, 0x48, 0xce, 0x3d, 0x02, 0x01]) =
      [0x06, 0x07, 0x2a, 0x86, 0x48, 0xce, 0x3d, 0x02, 0x01]" by (simp add: der_length_bytes_def)
  have "length (concat (map der_bytes ?ts)) < 2 ^ 31 + 20" using assms(5) by (simp add: oid del: der_bytes.simps)
  then have algorithm: "encode_der_tlv 0x30 ([0x06, 0x07, 0x2a, 0x86, 0x48, 0xce, 0x3d, 0x02, 0x01] @ der_bytes parameters) =
      der_bytes (ec_algorithm parameters)" "length (der_bytes (ec_algorithm parameters)) + length point < 2 ^ 32 - 30"
    using encode_node [of ?ts "0x30"] length_node [of "0x30" ?ts] assms(5)
    by (simp_all add: oid ec_algorithm_def del: der_bytes.simps)
  from encode_spki [of "ec_algorithm parameters" "0x04 # point"] algorithm(2)
  show "ec_public_key_info CKK_EC (Some (der_bytes parameters)) point =
      Some (der_bytes (spki (ec_algorithm parameters) (0x04 # point)))"
    using assms(4) by (simp add: ec_public_key_info_def algorithm(1) [simplified] del: der_bytes.simps)
qed

theorem public_key_info_der_witness:
  "\<exists>n e. der_unsigned n 143 \<and> der_unsigned e 65537 \<and>
     rsa_public_key_info [0x8f] [0x01, 0x00, 0x01] =
       Some (der_bytes (spki rsa_algorithm (der_bytes (Node 0x30 [Prim 0x02 n, Prim 0x02 e]))))"
  using public_key_info_der [of "[0x8f]" "[0x01, 0x00, 0x01]" "[0x05]" "Prim 0x05 []"]
  by (auto simp: nat_of_be_def der_length_bytes_def)

text \<open>The parameters that an OpenPGP key reports.\<close>

text \<open>C30. The curve parameters of an OpenPGP key are the DER encoding of the object identifier that names
  the curve, for the prime curves.  For Ed25519 and X25519 the length byte is one too small, so these
  parameters are not a DER element.\<close>
theorem openpgp_curve_parameters:
  assumes "curve_from_oid oid = Some curve"
  shows "curve_oid curve =
    (if curve = PgpEd25519 \<or> curve = PgpX25519 then 0x06 # of_nat (length oid - 1) # oid
     else der_bytes (Prim 0x06 oid))"
  using assms by (auto simp: curve_from_oid_def der_length_bytes_def split: if_splits)

theorem openpgp_curve_parameters_witness:
  "curve_oid PgpP384 = der_bytes (Prim 0x06 [0x2b, 0x81, 0x04, 0x00, 0x22]) \<and>
   curve_oid PgpEd25519 \<noteq> der_bytes (Prim 0x06 [0x2b, 0x06, 0x01, 0x04, 0x01, 0xda, 0x47, 0x0f, 0x01])"
  using openpgp_curve_parameters [of "[0x2b, 0x81, 0x04, 0x00, 0x22]" PgpP384]
    openpgp_curve_parameters [of "[0x2b, 0x06, 0x01, 0x04, 0x01, 0xda, 0x47, 0x0f, 0x01]" PgpEd25519]
  by (simp add: curve_from_oid_def der_length_bytes_def)

end
