(* ===== verification/Attributes.thy ===== *)
theory Attributes
  imports Der_Encoding Oath
begin

text \<open>
  The attributes of an object (\<open>impl TokenObject\<close> in src/src/object.rs): which attributes an
  object has, which of them are sensitive, their values and how they may be changed.  What the code
  gets from the software key library, from certificates, from the CBOR encoders and from the lazy
  caches of attestations and OpenPGP data objects are parameters, the fields of \<open>key_ops\<close>.
\<close>

abbreviation (input) CKC_X_509 :: ck_ulong where "CKC_X_509 \<equiv> 0"
abbreviation (input) CK_SECURITY_DOMAIN_UNSPECIFIED :: ck_ulong where "CK_SECURITY_DOMAIN_UNSPECIFIED \<equiv> 0"
abbreviation (input) CK_CERTIFICATE_CATEGORY_UNSPECIFIED :: ck_ulong where
  "CK_CERTIFICATE_CATEGORY_UNSPECIFIED \<equiv> 0"
abbreviation (input) YUBIHSM_OPAQUE :: byte where "YUBIHSM_OPAQUE \<equiv> 0x01"
abbreviation (input) YUBIHSM_TEMPLATE :: byte where "YUBIHSM_TEMPLATE \<equiv> 0x06"
abbreviation (input) PW1_ONE_SIGNATURE :: byte where "PW1_ONE_SIGNATURE \<equiv> 0"

record 'x key_ops =
  rsa_modulus :: "'x \<Rightarrow> bytes"
  rsa_exponent :: "'x \<Rightarrow> bytes"
  rsa_size :: "'x \<Rightarrow> nat"
  rsa_from_modulus :: "bytes \<Rightarrow> 'x option"
  software_public_key :: "'x \<Rightarrow> 'x public_key_material result"
  rsa_private_components :: "'x \<Rightarrow> bytes list option"
  ml_dsa_seed :: "'x \<Rightarrow> bytes option"
  ml_kem_seed :: "'x \<Rightarrow> bytes option"
  hybrid_kem_seed :: "'x \<Rightarrow> bytes option"
  private_value :: "'x \<Rightarrow> bytes option"
  ml_dsa_valid :: "ml_dsa_parameter_set \<Rightarrow> bytes \<Rightarrow> bool"
  ml_kem_length :: "ml_kem_parameter_set \<Rightarrow> nat"
  hybrid_length :: "hybrid_kem_construction \<Rightarrow> nat"
  ml_dsa_info :: "ml_dsa_parameter_set \<Rightarrow> bytes \<Rightarrow> bytes option"
  ml_kem_info :: "ml_kem_parameter_set \<Rightarrow> bytes \<Rightarrow> bytes option"
  registration_cbor :: "'x \<Rightarrow> bytes option"
  derived_cbor :: "'x \<Rightarrow> bytes option"
  cert_subject :: "bytes \<Rightarrow> bytes option"
  cert_issuer :: "bytes \<Rightarrow> bytes option"
  cert_serial_number :: "bytes \<Rightarrow> bytes option"
  cert_public_key_info :: "bytes \<Rightarrow> bytes option"
  sha1 :: "bytes \<Rightarrow> bytes option"
  openpgp_data :: "'x \<Rightarrow> u16 \<Rightarrow> 'x \<Rightarrow> bytes"
  piv_attestation :: "'x \<Rightarrow> piv_slot \<Rightarrow> piv_algorithm \<Rightarrow> 'x \<Rightarrow> bytes option"
  yubihsm_attestation :: "'x \<Rightarrow> 'x \<Rightarrow> u16 \<Rightarrow> 'x \<Rightarrow> bytes option"
  cache_unattempted :: "'x \<Rightarrow> bool"

section \<open>Kinds of object\<close>

definition is_key_object :: "'x token_object \<Rightarrow> bool" where
  "is_key_object obj \<longleftrightarrow>
     obj_class obj = CKO_PUBLIC_KEY \<or> obj_class obj = CKO_OTP_KEY \<or> obj_class obj = CKO_PRIVATE_KEY \<or>
     obj_class obj = CKO_SECRET_KEY"

definition has_sensitive_attributes :: "'x token_object \<Rightarrow> bool" where
  "has_sensitive_attributes obj \<longleftrightarrow>
     obj_class obj = CKO_PRIVATE_KEY \<or> obj_class obj = CKO_OTP_KEY \<or> obj_class obj = CKO_SECRET_KEY"

definition can_wrap :: "'x token_object \<Rightarrow> bool" where
  "can_wrap obj \<longleftrightarrow> may_wrap obj \<or>
     (case material obj of
        YubiHsm _ object_type algorithm _ _ capabilities _ _ _ \<Rightarrow>
          y_wrap (yubihsm_capabilities_to_attributes object_type algorithm capabilities)
      | _ \<Rightarrow> False)"

definition can_unwrap :: "'x token_object \<Rightarrow> bool" where
  "can_unwrap obj \<longleftrightarrow> may_unwrap obj \<or>
     (case material obj of
        YubiHsm _ object_type algorithm _ _ capabilities _ _ _ \<Rightarrow>
          y_unwrap (yubihsm_capabilities_to_attributes object_type algorithm capabilities)
      | _ \<Rightarrow> False)"

definition is_nonextractable_key_object :: "'x token_object \<Rightarrow> bool" where
  "is_nonextractable_key_object obj \<longleftrightarrow>
     (obj_class obj = CKO_PRIVATE_KEY \<or> obj_class obj = CKO_SECRET_KEY) \<and>
     (case material obj of
        SoftwarePrivate _ \<Rightarrow> False
      | SoftwareSecret _ \<Rightarrow> False
      | YubiHsmSessionObject _ _ \<Rightarrow> False
      | YubiHsm _ _ _ _ _ capabilities _ _ _ \<Rightarrow> \<not> yubihsm_capability capabilities 0x10
      | _ \<Rightarrow> True)"

definition is_certificate_object :: "'x token_object \<Rightarrow> bool" where
  "is_certificate_object obj \<longleftrightarrow> obj_class obj = CKO_CERTIFICATE"

definition is_yubihsm_opaque :: "'x token_object \<Rightarrow> bool" where
  "is_yubihsm_opaque obj =
     (case material obj of YubiHsm _ object_type _ _ _ _ _ _ _ \<Rightarrow> object_type = YUBIHSM_OPAQUE | _ \<Rightarrow> False)"

fun is_oath_material :: "'x key_material \<Rightarrow> bool" where
  "is_oath_material (OathCredential _) \<longleftrightarrow> True"
| "is_oath_material _ \<longleftrightarrow> False"

definition is_immutable_object :: "'x token_object \<Rightarrow> bool" where
  "is_immutable_object obj =
     (case material obj of
        Profile _ \<Rightarrow> True
      | OathCredential _ \<Rightarrow> True
      | PlatformPrivate _ \<Rightarrow> True
      | PivPrivate _ _ _ _ \<Rightarrow> True
      | PivCertificate _ _ _ \<Rightarrow> True
      | PivAttestation _ _ _ _ \<Rightarrow> True
      | PivData _ _ \<Rightarrow> True
      | OpenPgpPrivate _ _ _ _ \<Rightarrow> True
      | OpenPgpCertificate _ \<Rightarrow> True
      | OpenPgpData _ _ _ \<Rightarrow> True
      | IssuerSecurityDomainData _ _ _ \<Rightarrow> True
      | IssuerSecurityDomainCertificate _ \<Rightarrow> True
      | FidoCredential _ _ \<Rightarrow> True
      | FidoResidentPrivate _ \<Rightarrow> True
      | HsmAuthCredential _ _ _ \<Rightarrow> True
      | YubiHsmAttestation _ _ _ _ _ \<Rightarrow> True
      | _ \<Rightarrow> False)"

section \<open>Which attributes an object has\<close>

definition is_ec_key_type :: "ck_ulong \<Rightarrow> bool" where
  "is_ec_key_type t \<longleftrightarrow> t = CKK_EC \<or> t = CKK_EC_EDWARDS \<or> t = CKK_EC_MONTGOMERY"

definition supports_standard_attribute :: "'x token_object \<Rightarrow> ck_ulong \<Rightarrow> bool" where
  "supports_standard_attribute obj t =
     (if obj_class obj = CKO_DATA then t = CKA_APPLICATION \<or> t = CKA_OBJECT_ID \<or> t = CKA_VALUE
      else if obj_class obj = CKO_CERTIFICATE then is_x509_certificate_attribute t
      else if obj_class obj = CKO_PROFILE then t = CKA_PROFILE_ID
      else if obj_class obj = CKO_PUBLIC_KEY then
        is_common_key_attribute t \<or> is_common_public_key_attribute t \<or>
        (if obj_key_type obj = CKK_RSA then is_rsa_public_attribute t
         else if is_ec_key_type (obj_key_type obj) then is_ec_public_attribute t
         else if obj_key_type obj = CKK_ML_DSA then is_ml_dsa_public_attribute t
         else if obj_key_type obj = CKK_ML_KEM then is_ml_kem_public_attribute t
         else if is_hybrid_kem_key_type (obj_key_type obj) then t = CKA_VALUE
         else False)
      else if obj_class obj = CKO_PRIVATE_KEY then
        is_common_key_attribute t \<or> is_common_private_key_attribute t \<or>
        (if obj_key_type obj = CKK_RSA then is_rsa_private_attribute t
         else if is_ec_key_type (obj_key_type obj) then is_ec_private_attribute t
         else if obj_key_type obj = CKK_ML_DSA then is_ml_dsa_private_attribute t
         else if obj_key_type obj = CKK_ML_KEM then is_ml_kem_private_attribute t
         else if is_hybrid_kem_key_type (obj_key_type obj) then t = CKA_VALUE \<or> t = CKA_SEED
         else False)
      else if obj_class obj = CKO_SECRET_KEY then
        is_common_key_attribute t \<or> is_common_secret_key_attribute t \<or> t = CKA_VALUE
      else False)"

definition supports_compatibility_attribute :: "'x token_object \<Rightarrow> ck_ulong \<Rightarrow> bool" where
  "supports_compatibility_attribute obj t \<longleftrightarrow> obj_class obj = CKO_SECRET_KEY \<and> t = CKA_VERIFY_RECOVER"

definition supports_vendor_attribute :: "'x token_object \<Rightarrow> ck_ulong \<Rightarrow> bool" where
  "supports_vendor_attribute obj t =
     (if t = CKA_PKCS11RS_URI then True
      else if t = CKA_PKCS11RS_FIDO_RP_ID then rp_id obj \<noteq> None
      else case material obj of
        PivData _ _ \<Rightarrow> t = CKA_PKCS11RS_PIV_OBJECT_TAG
      | PivPrivate _ _ _ _ \<Rightarrow> t = CKA_YUBICO_TOUCH_POLICY \<or> t = CKA_YUBICO_PIN_POLICY
      | OpenPgpPrivate _ _ _ _ \<Rightarrow> t = CKA_YUBICO_TOUCH_POLICY
      | HsmAuthCredential _ _ _ \<Rightarrow> t = CKA_YUBICO_HSMAUTH_RETRIES \<or> t = CKA_YUBICO_HSMAUTH_TOUCH_REQUIRED
      | PreviewSignRegistration _ _ \<Rightarrow> t = CKA_PKCS11RS_PREVIEW_SIGN_REGISTRATION
      | PreviewSignDerived _ _ \<Rightarrow>
          t = CKA_PKCS11RS_PREVIEW_SIGN_REGISTRATION \<or> t = CKA_PKCS11RS_PREVIEW_SIGN_DERIVED_KEY
      | _ \<Rightarrow> False)"

definition supports_attribute :: "'x token_object \<Rightarrow> ck_ulong \<Rightarrow> bool" where
  "supports_attribute obj t =
     (if is_oath_material (material obj) then oath_supports_attribute t
      else if is_common_storage_attribute t then True
      else supports_standard_attribute obj t \<or> supports_vendor_attribute obj t \<or>
           supports_compatibility_attribute obj t)"

definition attribute_types :: "'x token_object \<Rightarrow> ck_ulong list" where
  "attribute_types obj =
     filter (supports_attribute obj) PKCS11_OBJECT_ATTRIBUTE_TYPES @
     filter (supports_attribute obj)
       [CKA_PKCS11RS_OATH_HASH, CKA_PKCS11RS_OATH_TOUCH_REQUIRED, CKA_PKCS11RS_PIV_OBJECT_TAG,
        CKA_YUBICO_HSMAUTH_RETRIES, CKA_YUBICO_HSMAUTH_TOUCH_REQUIRED, CKA_YUBICO_TOUCH_POLICY,
        CKA_YUBICO_PIN_POLICY, CKA_PKCS11RS_PREVIEW_SIGN_REGISTRATION, CKA_PKCS11RS_PREVIEW_SIGN_DERIVED_KEY,
        CKA_PKCS11RS_FIDO_RP_ID, CKA_PKCS11RS_URI]"

section \<open>Sensitive attributes\<close>

definition sensitive_secret_material :: "'x key_material \<Rightarrow> bool" where
  "sensitive_secret_material m =
     (case m of SoftwareSecret _ \<Rightarrow> True | YubiHsmSessionObject _ _ \<Rightarrow> True | _ \<Rightarrow> False)"

definition attribute_is_sensitive :: "'x token_object \<Rightarrow> ck_ulong \<Rightarrow> bool" where
  "attribute_is_sensitive obj t =
     (if is_oath_material (material obj) \<and> t = CKA_VALUE then True
      else if \<not> supports_attribute obj t then False
      else if obj_class obj = CKO_SECRET_KEY \<and> t = CKA_VALUE then
        sensitive obj \<or> sensitive_secret_material (material obj) \<and> \<not> extractable obj
      else if obj_class obj \<noteq> CKO_PRIVATE_KEY \<or> \<not> sensitive obj then False
      else if obj_key_type obj = CKK_RSA then
        t \<in> set [CKA_PRIVATE_EXPONENT, CKA_PRIME_1, CKA_PRIME_2, CKA_EXPONENT_1, CKA_EXPONENT_2, CKA_COEFFICIENT]
      else if is_ec_key_type (obj_key_type obj) then t = CKA_VALUE
      else if obj_key_type obj = CKK_ML_DSA then t = CKA_SEED \<or> t = CKA_VALUE
      else if obj_key_type obj = CKK_ML_KEM then t = CKA_SEED \<or> t = CKA_VALUE
      else if is_hybrid_kem_key_type (obj_key_type obj) then t = CKA_SEED \<or> t = CKA_VALUE
      else False)"

section \<open>Public keys\<close>

definition projected_public_key :: "'x key_ops \<Rightarrow> 'x token_object \<Rightarrow> 'x public_key_material result" where
  "projected_public_key K obj =
     (case obj_public_key obj of
        Some key \<Rightarrow> Inr key
      | None \<Rightarrow>
          (case material obj of
             Public key \<Rightarrow> Inr key
           | SoftwarePrivate key \<Rightarrow> software_public_key K key
           | YubiHsm _ _ algorithm _ _ _ _ public_key _ \<Rightarrow>
               if is_yubihsm_rsa algorithm then
                 (case rsa_from_modulus K public_key of
                    Some key \<Rightarrow> Inr (RsaPublic key)
                  | None \<Rightarrow> Inl (Generic CKR_DATA_INVALID))
               else (case yubihsm_ml_dsa algorithm of
                 Some parameters \<Rightarrow>
                   if \<not> ml_dsa_valid K parameters public_key then Inl (Generic CKR_DATA_INVALID)
                   else Inr (MlDsaPublic (ucast (algorithm - YUBIHSM_ALGO_ML_DSA_44 + 1)) public_key)
               | None \<Rightarrow> (case yubihsm_ml_kem algorithm of
                 Some parameters \<Rightarrow>
                   if length public_key \<noteq> ml_kem_length K parameters then Inl (Generic CKR_DATA_INVALID)
                   else Inr (MlKemPublic (ucast (algorithm - YUBIHSM_ALGO_ML_KEM_512 + 1)) public_key)
               | None \<Rightarrow> (case yubihsm_hybrid_kem algorithm of
                 Some construction \<Rightarrow>
                   if length public_key \<noteq> hybrid_length K construction then Inl (Generic CKR_DATA_INVALID)
                   else Inr (HybridKemPublic construction public_key)
               | None \<Rightarrow> (case yubihsm_ec_parameters algorithm of
                 Some parameters \<Rightarrow> Inr (EcPublic parameters public_key)
               | None \<Rightarrow> Inl (Generic CKR_KEY_TYPE_INCONSISTENT)))))
           | _ \<Rightarrow> Inl (Generic CKR_KEY_TYPE_INCONSISTENT)))"

definition public_key_info :: "'x key_ops \<Rightarrow> 'x token_object \<Rightarrow> bytes option" where
  "public_key_info K obj =
     (if \<not> (obj_class obj = CKO_PUBLIC_KEY \<or> obj_class obj = CKO_PRIVATE_KEY) then None
      else case projected_public_key K obj of
        Inl _ \<Rightarrow> None
      | Inr (RsaPublic key) \<Rightarrow> rsa_public_key_info (rsa_modulus K key) (rsa_exponent K key)
      | Inr (EcPublic parameters public_key) \<Rightarrow> ec_public_key_info (obj_key_type obj) (Some parameters) public_key
      | Inr (MlDsaPublic parameter_set public_key) \<Rightarrow> ml_dsa_public_key_info (ml_dsa_info K) parameter_set public_key
      | Inr (MlKemPublic parameter_set public_key) \<Rightarrow> ml_kem_public_key_info (ml_kem_info K) parameter_set public_key
      | Inr (HybridKemPublic construction public_key) \<Rightarrow>
          hybrid_kem_public_key_info (hybrid_length K) construction public_key)"

definition supports_public_projection :: "'x key_ops \<Rightarrow> 'x token_object \<Rightarrow> bool" where
  "supports_public_projection K obj \<longleftrightarrow> obj_class obj = CKO_PRIVATE_KEY \<and> public_key_info K obj \<noteq> None"

definition allows_derive :: "'x key_ops \<Rightarrow> 'x token_object \<Rightarrow> bool" where
  "allows_derive K obj \<longleftrightarrow> may_derive obj \<or> supports_public_projection K obj"

section \<open>Values\<close>

definition piv_effective_pin_policy :: "piv_slot \<Rightarrow> byte \<Rightarrow> byte" where
  "piv_effective_pin_policy slot policy =
     (if policy \<noteq> 0 then policy
      else case slot of SlotSignature \<Rightarrow> 3 | SlotCardAuthentication \<Rightarrow> 1 | _ \<Rightarrow> 2)"

definition openpgp_signature_requires_context_specific_login :: "openpgp_key_ref \<Rightarrow> byte \<Rightarrow> bool" where
  "openpgp_signature_requires_context_specific_login key_ref pin_policy \<longleftrightarrow>
     key_ref = PgpSignature \<and> pin_policy = PW1_ONE_SIGNATURE"

definition piv_object_tag :: "u32 \<Rightarrow> bytes" where
  "piv_object_tag object_id =
     (let bs = be_of_nat 4 (unat object_id) in
      drop (case position (\<lambda>b. b \<noteq> 0) bs of Some i \<Rightarrow> i | None \<Rightarrow> 3) bs)"

definition piv_certificate_attribute :: "'x key_ops \<Rightarrow> bytes \<Rightarrow> ck_ulong \<Rightarrow> bytes option" where
  "piv_certificate_attribute K v t =
     (if t = CKA_VALUE then Some v
      else if t = CKA_CERTIFICATE_TYPE then Some (ulong_attribute CKC_X_509)
      else if t = CKA_TRUSTED then Some (bool_attribute False)
      else if t = CKA_CERTIFICATE_CATEGORY then Some (ulong_attribute CK_CERTIFICATE_CATEGORY_UNSPECIFIED)
      else if t = CKA_CHECK_VALUE then map_option (take 3) (sha1 K v)
      else if t \<in> set [CKA_START_DATE, CKA_END_DATE, CKA_URL, CKA_HASH_OF_SUBJECT_PUBLIC_KEY,
                      CKA_HASH_OF_ISSUER_PUBLIC_KEY] then Some []
      else if t = CKA_SUBJECT then cert_subject K v
      else if t = CKA_ISSUER then cert_issuer K v
      else if t = CKA_SERIAL_NUMBER then map_option der_integer (cert_serial_number K v)
      else if t = CKA_PUBLIC_KEY_INFO then cert_public_key_info K v
      else if t = CKA_JAVA_MIDP_SECURITY_DOMAIN then Some (ulong_attribute CK_SECURITY_DOMAIN_UNSPECIFIED)
      else if t = CKA_NAME_HASH_ALGORITHM then Some (ulong_attribute CKM_SHA_1)
      else None)"

text \<open>The arms of the match of \<open>attribute_value\<close>, in groups.  \<open>None\<close> means that no arm of the
  group applies, \<open>Some v\<close> is the result of the first arm that does.\<close>

definition requires_context_login :: "'x key_material \<Rightarrow> bool" where
  "requires_context_login m =
     (case m of
        PivPrivate slot _ pin_policy _ \<Rightarrow> piv_effective_pin_policy slot pin_policy = 3
      | OpenPgpPrivate key_ref _ pin_policy _ \<Rightarrow> openpgp_signature_requires_context_specific_login key_ref pin_policy
      | FidoResidentPrivate _ \<Rightarrow> True
      | PreviewSignDerived _ _ \<Rightarrow> True
      | _ \<Rightarrow> False)"

definition identity_arms :: "'x token_object \<Rightarrow> ck_ulong \<Rightarrow> bytes option option" where
  "identity_arms obj t =
     (if t = CKA_CLASS then Some (Some (ulong_attribute (obj_class obj)))
      else if t = CKA_UNIQUE_ID then Some (Some (map of_char (unique_id obj)))
      else if t = CKA_PROFILE_ID then
        Some (case material obj of Profile profile_id \<Rightarrow> Some (ulong_attribute profile_id) | _ \<Rightarrow> None)
      else if t = CKA_KEY_TYPE \<and> is_key_object obj then Some (Some (ulong_attribute (obj_key_type obj)))
      else if t = CKA_LABEL then Some (Some (map of_char (obj_label obj)))
      else if t = CKA_ID then Some (Some (obj_id obj))
      else if t = CKA_TOKEN then Some (Some (bool_attribute (is_token obj)))
      else if t = CKA_PRIVATE then Some (Some (bool_attribute (is_private obj)))
      else if t = CKA_ALWAYS_AUTHENTICATE \<and> obj_class obj = CKO_PRIVATE_KEY then
        Some (Some (bool_attribute (requires_context_login (material obj))))
      else None)"

definition usage_arms :: "'x key_ops \<Rightarrow> 'x token_object \<Rightarrow> ck_ulong \<Rightarrow> bytes option option" where
  "usage_arms K obj t =
     (let flag = (\<lambda>b. Some (Some (bool_attribute b))) in
      if t = CKA_ENCRYPT \<and> is_key_object obj then flag (may_encrypt obj)
      else if t = CKA_DECRYPT \<and> is_key_object obj then flag (may_decrypt obj)
      else if t = CKA_SIGN \<and> is_key_object obj then flag (may_sign obj)
      else if t = CKA_VERIFY \<and> is_key_object obj then flag (may_verify obj)
      else if t = CKA_DERIVE \<and> is_key_object obj then flag (allows_derive K obj)
      else if t = CKA_WRAP \<and> is_key_object obj then flag (can_wrap obj)
      else if t = CKA_UNWRAP \<and> is_key_object obj then flag (can_unwrap obj)
      else if t = CKA_ENCAPSULATE \<and> is_key_object obj then flag (may_encapsulate obj)
      else if t = CKA_DECAPSULATE \<and> is_key_object obj then flag (may_decapsulate obj)
      else if t = CKA_WRAP_WITH_TRUSTED \<and> (obj_class obj = CKO_PRIVATE_KEY \<or> obj_class obj = CKO_SECRET_KEY)
      then flag (wrap_with_trusted obj)
      else if t = CKA_SIGN_RECOVER \<or> t = CKA_VERIFY_RECOVER then flag False
      else None)"

definition lifetime_arms :: "'x token_object \<Rightarrow> ck_ulong \<Rightarrow> bytes option option" where
  "lifetime_arms obj t =
     (let flag = (\<lambda>b. Some (Some (bool_attribute b))) in
      if t = CKA_COPYABLE \<and>
         (case material obj of YubiHsm _ _ _ _ _ _ _ _ _ \<Rightarrow> True | YubiHsmSessionObject _ _ \<Rightarrow> True | _ \<Rightarrow> False)
      then flag False
      else if t = CKA_MODIFIABLE \<and> is_immutable_object obj then flag False
      else if t = CKA_MODIFIABLE then flag True
      else if t = CKA_COPYABLE \<and> is_immutable_object obj then flag False
      else if t = CKA_COPYABLE then flag True
      else if t = CKA_DESTROYABLE \<and> is_yubihsm_opaque obj then flag True
      else if t = CKA_DESTROYABLE \<and>
         (case material obj of PivPrivate _ _ _ _ \<Rightarrow> True | PivCertificate _ _ _ \<Rightarrow> True | PivData _ _ \<Rightarrow> True
          | _ \<Rightarrow> False) then flag True
      else if t = CKA_DESTROYABLE \<and> is_immutable_object obj then flag False
      else if t = CKA_DESTROYABLE then flag True
      else if t = CKA_TRUSTED then flag False
      else None)"

definition data_arms :: "'x key_ops \<Rightarrow> 'x token_object \<Rightarrow> ck_ulong \<Rightarrow> bytes option option" where
  "data_arms K obj t =
     (let text = (\<lambda>s. Some (map of_char s)) in
      if t = CKA_APPLICATION then Some
        (case material obj of
           Data _ application _ _ \<Rightarrow> Some application
         | YubiHsm _ object_type _ _ _ _ _ _ _ \<Rightarrow>
             if is_yubihsm_opaque obj then text ''Opaque object''
             else if object_type = YUBIHSM_TEMPLATE then text ''Template object''
             else text ''YubiHSM object''
         | IssuerSecurityDomainData _ application _ \<Rightarrow> text application
         | PivData _ _ \<Rightarrow> text ''PIV''
         | OpenPgpData _ _ _ \<Rightarrow> text ''OpenPGP''
         | FidoCredential _ _ \<Rightarrow> text ''FIDO2 discoverable credential''
         | _ \<Rightarrow> None)
      else if t = CKA_OBJECT_ID then Some
        (case material obj of
           Data _ _ object_id _ \<Rightarrow> Some object_id
         | YubiHsm _ _ _ _ _ _ _ _ _ \<Rightarrow> Some []
         | IssuerSecurityDomainData _ _ object_id \<Rightarrow> Some object_id
         | PivData object_id _ \<Rightarrow> Option.bind (data_object_mapping object_id) data_object_oid
         | OpenPgpData tag _ _ \<Rightarrow> Some (be_of_nat 2 (unat tag))
         | FidoCredential rp_id_hash _ \<Rightarrow> Some rp_id_hash
         | _ \<Rightarrow> None)
      else if t = CKA_PKCS11RS_PIV_OBJECT_TAG then Some
        (case material obj of PivData object_id _ \<Rightarrow> Some (piv_object_tag object_id) | _ \<Rightarrow> None)
      else if t = CKA_PKCS11RS_PREVIEW_SIGN_REGISTRATION then Some
        (case material obj of
           PreviewSignRegistration registration _ \<Rightarrow> registration_cbor K registration
         | PreviewSignDerived registration _ \<Rightarrow> registration_cbor K registration
         | _ \<Rightarrow> None)
      else if t = CKA_PKCS11RS_PREVIEW_SIGN_DERIVED_KEY then Some
        (case material obj of PreviewSignDerived _ derived \<Rightarrow> derived_cbor K derived | _ \<Rightarrow> None)
      else if t = CKA_PKCS11RS_FIDO_RP_ID then Some (map_option (map of_char) (rp_id obj))
      else None)"

definition key_arms :: "'x token_object \<Rightarrow> ck_ulong \<Rightarrow> bytes option option" where
  "key_arms obj t =
     (let number = (\<lambda>n. Some (Some (ulong_attribute n))); flag = (\<lambda>b. Some (Some (bool_attribute b))) in
      if t = CKA_CERTIFICATE_TYPE \<and> is_certificate_object obj then number CKC_X_509
      else if t = CKA_VALUE_LEN then
        (case material obj of
           SoftwareSecret v \<Rightarrow> number (of_nat (length v))
         | Secret v \<Rightarrow> number (of_nat (length v))
         | HsmAuthCredential _ _ _ \<Rightarrow> number 32
         | YubiHsm _ _ _ len _ _ _ _ _ \<Rightarrow>
             if obj_class obj = CKO_SECRET_KEY then number (of_nat len) else Some None
         | YubiHsmSessionObject _ len \<Rightarrow>
             if obj_class obj = CKO_SECRET_KEY then number (of_nat len) else Some None
         | _ \<Rightarrow> Some None)
      else if t = CKA_SENSITIVE \<and> has_sensitive_attributes obj then flag (sensitive obj)
      else if t = CKA_EXTRACTABLE \<and> has_sensitive_attributes obj then
        flag (extractable obj \<and> \<not> is_nonextractable_key_object obj)
      else if t = CKA_ALWAYS_SENSITIVE \<and> has_sensitive_attributes obj then flag (always_sensitive obj)
      else if t = CKA_NEVER_EXTRACTABLE \<and> has_sensitive_attributes obj then
        flag (never_extractable obj \<or> is_nonextractable_key_object obj)
      else if t = CKA_LOCAL \<and> is_key_object obj then flag (obj_local obj)
      else if t = CKA_KEY_GEN_MECHANISM \<and> is_key_object obj then
        number (case key_gen_mechanism obj of Some m \<Rightarrow> m | None \<Rightarrow> CK_UNAVAILABLE_INFORMATION)
      else if t = CKA_ALLOWED_MECHANISMS \<and> is_key_object obj then
        Some (map_option (\<lambda>ms. concat (map u64_to_le ms)) (allowed_mechanisms obj))
      else if t \<in> set [CKA_START_DATE, CKA_END_DATE, CKA_WRAP_TEMPLATE, CKA_UNWRAP_TEMPLATE, CKA_DERIVE_TEMPLATE,
                      CKA_PUBLIC_CRC64_VALUE, CKA_URL, CKA_HASH_OF_SUBJECT_PUBLIC_KEY,
                      CKA_HASH_OF_ISSUER_PUBLIC_KEY] then Some (Some [])
      else if t = CKA_OBJECT_VALIDATION_FLAGS then number 0
      else if t = CKA_JAVA_MIDP_SECURITY_DOMAIN then number CK_SECURITY_DOMAIN_UNSPECIFIED
      else if t = CKA_NAME_HASH_ALGORITHM then number CKM_SHA_1
      else if t = CKA_SUBJECT \<and> is_key_object obj then Some (Some [])
      else None)"

text \<open>The components of an RSA private key, by position.\<close>

definition rsa_component :: "'x key_ops \<Rightarrow> 'x token_object \<Rightarrow> nat \<Rightarrow> bytes option" where
  "rsa_component K obj i =
     (case material obj of
        SoftwarePrivate key \<Rightarrow> map_option (\<lambda>vs. vs ! i) (rsa_private_components K key)
      | _ \<Rightarrow> None)"

definition rsa_arms :: "'x key_ops \<Rightarrow> 'x token_object \<Rightarrow> ck_ulong \<Rightarrow> bytes option option" where
  "rsa_arms K obj t =
     (let projected = (case projected_public_key K obj of Inr (RsaPublic key) \<Rightarrow> Some key | _ \<Rightarrow> None);
          native = (case material obj of
              YubiHsm _ _ algorithm _ _ _ _ public_key _ \<Rightarrow>
                if is_yubihsm_rsa algorithm then Some public_key else None
            | _ \<Rightarrow> None);
          known = (case native of Some [] \<Rightarrow> None | _ \<Rightarrow> native) in
      if t = CKA_MODULUS then Some (case projected of Some key \<Rightarrow> Some (rsa_modulus K key) | None \<Rightarrow> known)
      else if t = CKA_PUBLIC_EXPONENT then Some
        (case projected of
           Some key \<Rightarrow> Some (rsa_exponent K key)
         | None \<Rightarrow> if native \<noteq> None then Some [0x01, 0x00, 0x01] else None)
      else if t = CKA_PRIVATE_EXPONENT then Some (rsa_component K obj 0)
      else if t = CKA_PRIME_1 then Some (rsa_component K obj 1)
      else if t = CKA_PRIME_2 then Some (rsa_component K obj 2)
      else if t = CKA_EXPONENT_1 then Some (rsa_component K obj 3)
      else if t = CKA_EXPONENT_2 then Some (rsa_component K obj 4)
      else if t = CKA_COEFFICIENT then Some (rsa_component K obj 5)
      else if t = CKA_MODULUS_BITS then Some
        (case projected of
           Some key \<Rightarrow> Some (ulong_attribute (of_nat (rsa_size K key * 8)))
         | None \<Rightarrow> map_option (\<lambda>n. ulong_attribute (of_nat (length n * 8))) known)
      else None)"

definition ec_point :: "'x key_ops \<Rightarrow> 'x token_object \<Rightarrow> bytes option" where
  "ec_point K obj =
     (let native = (case material obj of
              YubiHsm _ _ algorithm _ _ _ _ public_key _ \<Rightarrow>
                if is_yubihsm_ec algorithm \<and> public_key \<noteq> [] then der_octet_string (0x04 # public_key)
                else if is_yubihsm_edwards algorithm \<and> public_key \<noteq> [] then der_octet_string public_key
                else if is_yubihsm_montgomery algorithm \<and> public_key \<noteq> [] then der_octet_string public_key
                else None
            | _ \<Rightarrow> None) in
      case projected_public_key K obj of
        Inr (EcPublic _ public_key) \<Rightarrow>
          if public_key \<noteq> [] then
            der_octet_string (if obj_key_type obj = CKK_EC then 0x04 # public_key else public_key)
          else native
      | _ \<Rightarrow> native)"

definition curve_arms :: "'x key_ops \<Rightarrow> 'x token_object \<Rightarrow> ck_ulong \<Rightarrow> bytes option option" where
  "curve_arms K obj t =
     (if t = CKA_EC_PARAMS then Some
        (case projected_public_key K obj of
           Inr (EcPublic parameters _) \<Rightarrow> Some parameters
         | _ \<Rightarrow> (case material obj of
             YubiHsm _ _ algorithm _ _ _ _ _ _ \<Rightarrow> yubihsm_ec_parameters algorithm | _ \<Rightarrow> None))
      else if t = CKA_EC_POINT \<and> obj_class obj = CKO_PUBLIC_KEY then Some (ec_point K obj)
      else if t = CKA_PARAMETER_SET then Some
        (case projected_public_key K obj of
           Inr (MlDsaPublic parameter_set _) \<Rightarrow> Some (ulong_attribute parameter_set)
         | Inr (MlKemPublic parameter_set _) \<Rightarrow> Some (ulong_attribute parameter_set)
         | _ \<Rightarrow> None)
      else if t = CKA_SEED then Some
        (case material obj of
           SoftwarePrivate key \<Rightarrow>
             (case ml_dsa_seed K key of Some s \<Rightarrow> Some s
              | None \<Rightarrow> (case ml_kem_seed K key of Some s \<Rightarrow> Some s | None \<Rightarrow> hybrid_kem_seed K key))
         | _ \<Rightarrow> None)
      else None)"

definition device_arms :: "'x token_object \<Rightarrow> ck_ulong \<Rightarrow> bytes option option" where
  "device_arms obj t =
     (if t = CKA_YUBICO_HSMAUTH_RETRIES then Some
        (case material obj of HsmAuthCredential _ retries _ \<Rightarrow> Some (ulong_attribute (ucast retries)) | _ \<Rightarrow> None)
      else if t = CKA_YUBICO_HSMAUTH_TOUCH_REQUIRED then Some
        (case material obj of HsmAuthCredential _ _ touch \<Rightarrow> Some (bool_attribute touch) | _ \<Rightarrow> None)
      else if t = CKA_YUBICO_TOUCH_POLICY then Some
        (case material obj of
           PivPrivate _ _ _ touch_policy \<Rightarrow> Some (ulong_attribute (ucast touch_policy))
         | OpenPgpPrivate _ _ _ touch_policy \<Rightarrow> Some (ulong_attribute (ucast touch_policy))
         | _ \<Rightarrow> None)
      else if t = CKA_YUBICO_PIN_POLICY then Some
        (case material obj of PivPrivate _ _ pin_policy _ \<Rightarrow> Some (ulong_attribute (ucast pin_policy)) | _ \<Rightarrow> None)
      else None)"

definition material_value :: "'x key_ops \<Rightarrow> 'x token_object \<Rightarrow> ck_ulong \<Rightarrow> bytes option" where
  "material_value K obj t =
     (let as_value = (\<lambda>v. if t = CKA_VALUE then v else None) in
      case material obj of
        SoftwarePrivate key \<Rightarrow> as_value (private_value K key)
      | YubiHsm _ _ algorithm _ _ _ _ public_key _ \<Rightarrow>
          as_value (if obj_class obj = CKO_PUBLIC_KEY \<and>
            (yubihsm_ml_dsa algorithm \<noteq> None \<or> yubihsm_ml_kem algorithm \<noteq> None \<or> yubihsm_hybrid_kem algorithm \<noteq> None)
            then Some public_key else None)
      | Public (MlDsaPublic _ public_key) \<Rightarrow> as_value (Some public_key)
      | Public (MlKemPublic _ public_key) \<Rightarrow> as_value (Some public_key)
      | Public (HybridKemPublic _ public_key) \<Rightarrow> as_value (Some public_key)
      | Data _ _ _ v \<Rightarrow> as_value (Some v)
      | SoftwareSecret v \<Rightarrow> as_value (Some v)
      | Secret v \<Rightarrow> as_value (Some v)
      | Certificate _ v \<Rightarrow> piv_certificate_attribute K v t
      | PivCertificate _ v _ \<Rightarrow> piv_certificate_attribute K v t
      | OpenPgpCertificate v \<Rightarrow> piv_certificate_attribute K v t
      | IssuerSecurityDomainCertificate v \<Rightarrow> piv_certificate_attribute K v t
      | IssuerSecurityDomainData v _ _ \<Rightarrow> as_value (Some v)
      | PivData _ v \<Rightarrow> as_value (Some v)
      | FidoCredential _ response_cbor \<Rightarrow> as_value (Some response_cbor)
      | OpenPgpData tag connector cache \<Rightarrow> as_value (Some (openpgp_data K connector tag cache))
      | PivAttestation connector slot algorithm cache \<Rightarrow>
          Option.bind (piv_attestation K connector slot algorithm cache) (\<lambda>v. piv_certificate_attribute K v t)
      | YubiHsmAttestation connector session ident _ cache \<Rightarrow>
          Option.bind (yubihsm_attestation K connector session ident cache) (\<lambda>v. piv_certificate_attribute K v t)
      | _ \<Rightarrow> None)"

definition value_arms :: "'x key_ops \<Rightarrow> 'x token_object \<Rightarrow> ck_ulong \<Rightarrow> bytes option option" where
  "value_arms K obj t =
     (if t = CKA_PUBLIC_KEY_INFO \<and> is_key_object obj then
        Some (Some (case public_key_info K obj of Some info \<Rightarrow> info | None \<Rightarrow> []))
      else if t = CKA_CHECK_VALUE \<and> obj_class obj = CKO_SECRET_KEY then Some (Some [])
      else if t \<in> set [CKA_VALUE, CKA_CERTIFICATE_CATEGORY, CKA_CHECK_VALUE, CKA_SUBJECT, CKA_ISSUER,
                      CKA_SERIAL_NUMBER, CKA_PUBLIC_KEY_INFO] then Some (material_value K obj t)
      else None)"

fun first_arm :: "bytes option option list \<Rightarrow> bytes option" where
  "first_arm [] = None"
| "first_arm (Some v # _) = v"
| "first_arm (None # arms) = first_arm arms"

definition attribute_value :: "'x key_ops \<Rightarrow> 'x token_object \<Rightarrow> ck_ulong \<Rightarrow> bytes option" where
  "attribute_value K obj t =
     (case (case material obj of OathCredential c \<Rightarrow> oath_attribute c t | _ \<Rightarrow> None) of
        Some v \<Rightarrow> Some v
      | None \<Rightarrow>
          if \<not> supports_attribute obj t then None
          else first_arm [identity_arms obj t, usage_arms K obj t, lifetime_arms obj t, data_arms K obj t,
                 key_arms obj t, rsa_arms K obj t, curve_arms K obj t, device_arms obj t, value_arms K obj t])"

text \<open>The sum panics on overflow; lengths of attributes in memory never get there.\<close>

definition object_size :: "'x key_ops \<Rightarrow> 'x token_object \<Rightarrow> ck_ulong" where
  "object_size K obj =
     (let defer = (case material obj of
              PivAttestation _ _ _ cache \<Rightarrow> cache_unattempted K cache
            | YubiHsmAttestation _ _ _ _ cache \<Rightarrow> cache_unattempted K cache
            | _ \<Rightarrow> False);
          types = filter (\<lambda>t. \<not> attribute_is_sensitive obj t)
                    (filter (\<lambda>t. \<not> defer \<or> \<not> is_certificate_attribute t) (attribute_types obj));
          attributes = sum_list (map (\<lambda>v. length v) (List.map_filter (attribute_value K obj) types));
          deferred_native_value = (case material obj of
              YubiHsmSessionObject _ len \<Rightarrow> if \<not> attribute_is_sensitive obj CKA_VALUE then len else 0
            | _ \<Rightarrow> 0) in
      of_nat (min (attributes + deferred_native_value) (2 ^ 64 - 1)))"

section \<open>Changing attributes\<close>

definition set_data_attribute :: "bytes \<Rightarrow> ck_ulong \<Rightarrow> 'x token_object \<Rightarrow> 'x token_object result option" where
  "set_data_attribute v t obj =
     (case material obj of
        Data instance application object_id data \<Rightarrow>
          if t = CKA_APPLICATION then Some (Inr (obj\<lparr>material := Data instance v object_id data\<rparr>))
          else if t = CKA_OBJECT_ID then Some (Inr (obj\<lparr>material := Data instance application v data\<rparr>))
          else if t = CKA_VALUE then Some (Inr (obj\<lparr>material := Data instance application object_id v\<rparr>))
          else if t = CKA_ID then Some (Inl (Generic CKR_ATTRIBUTE_TYPE_INVALID))
          else None
      | _ \<Rightarrow> None)"

definition set_attribute_value :: "ck_attribute \<Rightarrow> 'x token_object \<Rightarrow> 'x token_object result" where
  "set_attribute_value a obj =
     and_then (read_attribute_value a) (\<lambda>v.
     case set_data_attribute v (attr_type a) obj of
       Some outcome \<Rightarrow> outcome
     | None \<Rightarrow>
         let t = attr_type a in
         if t = CKA_LABEL then
           if utf8_valid v then Inr (obj\<lparr>obj_label := map (\<lambda>b. char_of (unat b)) v\<rparr>)
           else Inl (Generic CKR_ATTRIBUTE_VALUE_INVALID)
         else if t = CKA_ID then Inr (obj\<lparr>obj_id := v\<rparr>)
         else if t = CKA_SENSITIVE then
           if \<not> has_sensitive_attributes obj then Inl (Generic CKR_ATTRIBUTE_TYPE_INVALID)
           else and_then (read_bool_template_attribute a) (\<lambda>requested.
             if sensitive obj \<and> \<not> requested then Inl (Generic CKR_ATTRIBUTE_READ_ONLY)
             else Inr (obj\<lparr>sensitive := requested\<rparr>))
         else if t = CKA_EXTRACTABLE then
           if \<not> has_sensitive_attributes obj then Inl (Generic CKR_ATTRIBUTE_TYPE_INVALID)
           else and_then (read_bool_template_attribute a) (\<lambda>requested.
             if is_nonextractable_key_object obj \<and> requested then Inl (Generic CKR_ATTRIBUTE_READ_ONLY)
             else if \<not> extractable obj \<and> requested then Inl (Generic CKR_ATTRIBUTE_READ_ONLY)
             else Inr (obj\<lparr>extractable := requested\<rparr>))
         else if supports_attribute obj t then Inl (Generic CKR_ATTRIBUTE_READ_ONLY)
         else Inl (Generic CKR_ATTRIBUTE_TYPE_INVALID))"

definition set_copy_attribute_value :: "ck_attribute \<Rightarrow> 'x token_object \<Rightarrow> 'x token_object result" where
  "set_copy_attribute_value a obj =
     (if attr_type a = CKA_TOKEN then
        and_then (read_bool_template_attribute a) (\<lambda>b. Inr (obj\<lparr>is_token := b\<rparr>))
      else if attr_type a = CKA_PRIVATE then
        and_then (read_bool_template_attribute a) (\<lambda>b. Inr (obj\<lparr>is_private := b\<rparr>))
      else set_attribute_value a obj)"

section \<open>Policy templates\<close>

definition policy_template :: "'x token_object \<Rightarrow> ck_ulong \<Rightarrow> 'x option" where
  "policy_template obj t =
     (if t = CKA_WRAP_TEMPLATE then policy_wrap (policy_templates obj)
      else if t = CKA_UNWRAP_TEMPLATE then policy_unwrap (policy_templates obj)
      else if t = CKA_DERIVE_TEMPLATE then policy_derive (policy_templates obj)
      else None)"

end
