(* ===== verification/Object_Template.thy ===== *)
theory Object_Template
  imports Attributes
begin

text \<open>
  Templates: how the attributes a caller supplies become an object (\<open>TokenObjectTemplate\<close> in
  src/src/object.rs and the template functions of src/src/api/object.rs), and how the results of
  several attributes are combined.  Building key material from its components is the business of
  the software key library and a parameter, as is the reading of nested policy templates.
\<close>

abbreviation (input) CKK_GENERIC_SECRET :: ck_ulong where "CKK_GENERIC_SECRET \<equiv> 0x10"
abbreviation (input) CKK_DES3 :: ck_ulong where "CKK_DES3 \<equiv> 0x15"
abbreviation (input) CKK_AES :: ck_ulong where "CKK_AES \<equiv> 0x1f"

definition template_attribute :: "ck_attribute list \<Rightarrow> ck_ulong \<Rightarrow> ck_attribute option" where
  "template_attribute templ t = find (\<lambda>a. attr_type a = t) templ"

definition validate_unique_template :: "ck_attribute list \<Rightarrow> unit result" where
  "validate_unique_template templ =
     (if distinct (map attr_type templ) then Inr () else Inl (Generic CKR_TEMPLATE_INCONSISTENT))"

definition required_template_value :: "ck_attribute list \<Rightarrow> ck_ulong \<Rightarrow> bytes result" where
  "required_template_value templ t =
     (case template_attribute templ t of
        None \<Rightarrow> Inl (Generic CKR_TEMPLATE_INCOMPLETE)
      | Some a \<Rightarrow>
          and_then (read_attribute_value a) (\<lambda>v.
          if v = [] then Inl (Generic CKR_ATTRIBUTE_VALUE_INVALID) else Inr v))"

section \<open>The template of an object\<close>

record 'x token_object_template =
  t_class :: "ck_ulong option"
  t_key_type :: "ck_ulong option"
  t_label :: string
  t_id :: bytes
  t_token :: bool
  t_private :: bool
  t_encrypt :: bool
  t_decrypt :: bool
  t_sign :: bool
  t_verify :: bool
  t_derive :: bool
  t_wrap :: bool
  t_unwrap :: bool
  t_encapsulate :: bool
  t_decapsulate :: bool
  t_sensitive :: "bool option"
  t_extractable :: "bool option"
  t_allowed_mechanisms :: "ck_ulong list option"
  t_wrap_with_trusted :: bool
  t_policy_templates :: "'x key_policy_templates"

definition default_template :: "'x token_object_template" where
  "default_template =
     \<lparr>t_class = None, t_key_type = None, t_label = [], t_id = [], t_token = False, t_private = False,
      t_encrypt = False, t_decrypt = False, t_sign = False, t_verify = False, t_derive = False, t_wrap = False,
      t_unwrap = False, t_encapsulate = False, t_decapsulate = False, t_sensitive = None, t_extractable = None,
      t_allowed_mechanisms = None, t_wrap_with_trusted = False,
      t_policy_templates = \<lparr>policy_wrap = None, policy_unwrap = None, policy_derive = None\<rparr>\<rparr>"

definition read_text :: "ck_attribute \<Rightarrow> string result" where
  "read_text a =
     and_then (read_attribute_value a) (\<lambda>v.
     if utf8_valid v then Inr (map (\<lambda>b. char_of (unat b)) v) else Inl (Generic CKR_ATTRIBUTE_VALUE_INVALID))"

definition read_mechanisms :: "ck_attribute \<Rightarrow> ck_ulong list result" where
  "read_mechanisms a =
     and_then (read_attribute_value a) (\<lambda>v.
     if length v mod 8 \<noteq> 0 then Inl (Generic CKR_ATTRIBUTE_VALUE_INVALID)
     else
       let mechanisms = sort (map u64_from_le (chunks 8 v)) in
       if \<not> distinct mechanisms then Inl (Generic CKR_TEMPLATE_INCONSISTENT) else Inr mechanisms)"

definition apply_attribute ::
  "(ck_attribute \<Rightarrow> 'x result) \<Rightarrow> ck_attribute \<Rightarrow> 'x token_object_template \<Rightarrow> 'x token_object_template result" where
  "apply_attribute read_policy a t =
     (let number = read_ulong_template_attribute a; boolean = read_bool_template_attribute a;
          policies = t_policy_templates t in
      if attr_type a = CKA_CLASS then and_then number (\<lambda>n. Inr (t\<lparr>t_class := Some n\<rparr>))
      else if attr_type a = CKA_KEY_TYPE then and_then number (\<lambda>n. Inr (t\<lparr>t_key_type := Some n\<rparr>))
      else if attr_type a = CKA_LABEL then and_then (read_text a) (\<lambda>s. Inr (t\<lparr>t_label := s\<rparr>))
      else if attr_type a = CKA_ID then and_then (read_attribute_value a) (\<lambda>v. Inr (t\<lparr>t_id := v\<rparr>))
      else if attr_type a = CKA_TOKEN then and_then boolean (\<lambda>b. Inr (t\<lparr>t_token := b\<rparr>))
      else if attr_type a = CKA_PRIVATE then and_then boolean (\<lambda>b. Inr (t\<lparr>t_private := b\<rparr>))
      else if attr_type a = CKA_ENCRYPT then and_then boolean (\<lambda>b. Inr (t\<lparr>t_encrypt := b\<rparr>))
      else if attr_type a = CKA_DECRYPT then and_then boolean (\<lambda>b. Inr (t\<lparr>t_decrypt := b\<rparr>))
      else if attr_type a = CKA_SIGN then and_then boolean (\<lambda>b. Inr (t\<lparr>t_sign := b\<rparr>))
      else if attr_type a = CKA_VERIFY then and_then boolean (\<lambda>b. Inr (t\<lparr>t_verify := b\<rparr>))
      else if attr_type a = CKA_DERIVE then and_then boolean (\<lambda>b. Inr (t\<lparr>t_derive := b\<rparr>))
      else if attr_type a = CKA_WRAP then and_then boolean (\<lambda>b. Inr (t\<lparr>t_wrap := b\<rparr>))
      else if attr_type a = CKA_UNWRAP then and_then boolean (\<lambda>b. Inr (t\<lparr>t_unwrap := b\<rparr>))
      else if attr_type a = CKA_ENCAPSULATE then and_then boolean (\<lambda>b. Inr (t\<lparr>t_encapsulate := b\<rparr>))
      else if attr_type a = CKA_DECAPSULATE then and_then boolean (\<lambda>b. Inr (t\<lparr>t_decapsulate := b\<rparr>))
      else if attr_type a = CKA_WRAP_WITH_TRUSTED then and_then boolean (\<lambda>b. Inr (t\<lparr>t_wrap_with_trusted := b\<rparr>))
      else if attr_type a = CKA_WRAP_TEMPLATE then
        and_then (read_policy a) (\<lambda>p. Inr (t\<lparr>t_policy_templates := policies\<lparr>policy_wrap := Some p\<rparr>\<rparr>))
      else if attr_type a = CKA_UNWRAP_TEMPLATE then
        and_then (read_policy a) (\<lambda>p. Inr (t\<lparr>t_policy_templates := policies\<lparr>policy_unwrap := Some p\<rparr>\<rparr>))
      else if attr_type a = CKA_DERIVE_TEMPLATE then
        and_then (read_policy a) (\<lambda>p. Inr (t\<lparr>t_policy_templates := policies\<lparr>policy_derive := Some p\<rparr>\<rparr>))
      else if attr_type a = CKA_SENSITIVE then and_then boolean (\<lambda>b. Inr (t\<lparr>t_sensitive := Some b\<rparr>))
      else if attr_type a = CKA_EXTRACTABLE then and_then boolean (\<lambda>b. Inr (t\<lparr>t_extractable := Some b\<rparr>))
      else if attr_type a = CKA_ALLOWED_MECHANISMS then
        and_then (read_mechanisms a) (\<lambda>ms. Inr (t\<lparr>t_allowed_mechanisms := Some ms\<rparr>))
      else Inl (Generic CKR_ATTRIBUTE_TYPE_INVALID))"

definition into_object_with_software_secret_policy ::
  "bool \<Rightarrow> 'x token_object_template \<Rightarrow> 'x token_object result" where
  "into_object_with_software_secret_policy software_secret t =
     (let sensitive = (t_sensitive t = Some True); policies = t_policy_templates t in
      and_then (case t_class t of None \<Rightarrow> Inl (Generic CKR_TEMPLATE_INCOMPLETE) | Some c \<Rightarrow> Inr c) (\<lambda>cls.
      let nonextractable_key = (cls = CKO_SECRET_KEY); private_key = (cls = CKO_PRIVATE_KEY);
          not_held = (cls \<noteq> CKO_PRIVATE_KEY \<and> cls \<noteq> CKO_SECRET_KEY) in
      if t_wrap_with_trusted t \<and> not_held then Inl (Generic CKR_TEMPLATE_INCONSISTENT)
      else if policy_wrap policies \<noteq> None \<and> cls \<noteq> CKO_PUBLIC_KEY \<and> cls \<noteq> CKO_SECRET_KEY \<or>
              policy_unwrap policies \<noteq> None \<and> not_held \<or> policy_derive policies \<noteq> None \<and> not_held
      then Inl (Generic CKR_TEMPLATE_INCONSISTENT)
      else
        let extractable = (case t_extractable t of
                Some b \<Rightarrow> b | None \<Rightarrow> \<not> (private_key \<or> nonextractable_key \<and> \<not> software_secret)) in
        if nonextractable_key \<and> \<not> software_secret \<and> extractable then Inl (Generic CKR_ATTRIBUTE_VALUE_INVALID)
        else
          and_then (case t_key_type t of None \<Rightarrow> Inl (Generic CKR_TEMPLATE_INCOMPLETE) | Some k \<Rightarrow> Inr k) (\<lambda>key_type.
          Inr \<lparr>obj_slot_id = None, unique_id = [], obj_class = cls, obj_key_type = key_type, obj_label = t_label t,
            obj_id = t_id t, is_token = t_token t, is_private = t_private t, may_encrypt = t_encrypt t,
            may_decrypt = t_decrypt t, may_sign = t_sign t, may_verify = t_verify t, may_derive = t_derive t,
            may_wrap = t_wrap t, may_unwrap = t_unwrap t, may_encapsulate = t_encapsulate t,
            may_decapsulate = t_decapsulate t, sensitive = sensitive, extractable = extractable,
            always_sensitive = sensitive,
            never_extractable = (\<not> extractable \<or> nonextractable_key \<and> \<not> software_secret),
            obj_local = False, key_gen_mechanism = None, allowed_mechanisms = t_allowed_mechanisms t,
            wrap_with_trusted = t_wrap_with_trusted t, policy_templates = policies, creator_session = None,
            obj_public_key = None, rp_id = None, material = NoMaterial\<rparr>)))"

section \<open>Data and certificate objects\<close>

definition must_be_true :: "ck_attribute \<Rightarrow> unit result" where
  "must_be_true a =
     and_then (read_bool_template_attribute a) (\<lambda>b.
     if \<not> b then Inl (Generic CKR_ATTRIBUTE_VALUE_INVALID) else Inr ())"

fun parse_data_attributes ::
  "(ck_attribute \<Rightarrow> 'x result) \<Rightarrow> ck_attribute list \<Rightarrow> bytes \<times> bytes \<times> bytes \<Rightarrow> 'x token_object_template
   \<Rightarrow> ((bytes \<times> bytes \<times> bytes) \<times> 'x token_object_template) result" where
  "parse_data_attributes read_policy [] parts common = Inr (parts, common)"
| "parse_data_attributes read_policy (a # as) (application, object_id, v) common =
     (if attr_type a = CKA_APPLICATION then
        and_then (read_attribute_value a) (\<lambda>bs. parse_data_attributes read_policy as (bs, object_id, v) common)
      else if attr_type a = CKA_OBJECT_ID then
        and_then (read_attribute_value a) (\<lambda>bs. parse_data_attributes read_policy as (application, bs, v) common)
      else if attr_type a = CKA_VALUE then
        and_then (read_attribute_value a) (\<lambda>bs. parse_data_attributes read_policy as (application, object_id, bs) common)
      else if attr_type a \<in> set [CKA_CLASS, CKA_TOKEN, CKA_PRIVATE, CKA_LABEL] then
        and_then (apply_attribute read_policy a common) (parse_data_attributes read_policy as (application, object_id, v))
      else if attr_type a \<in> set [CKA_MODIFIABLE, CKA_COPYABLE, CKA_DESTROYABLE] then
        and_then (must_be_true a) (\<lambda>_. parse_data_attributes read_policy as (application, object_id, v) common)
      else Inl (Generic CKR_ATTRIBUTE_TYPE_INVALID))"

definition parse_data_object_template ::
  "(ck_attribute \<Rightarrow> 'x result) \<Rightarrow> ck_attribute list \<Rightarrow> 'x token_object result" where
  "parse_data_object_template read_policy templ =
     and_then (validate_unique_template templ) (\<lambda>_.
     and_then (parse_data_attributes read_policy templ ([], [], [])
       (default_template\<lparr>t_class := Some CKO_DATA, t_key_type := Some CKK_GENERIC_SECRET\<rparr>))
       (\<lambda>((application, object_id, v), common).
     and_then (into_object_with_software_secret_policy False common) (\<lambda>obj.
     Inr (obj\<lparr>material := Data (replicate 16 0) application object_id v\<rparr>))))"

fun parse_certificate_attributes ::
  "(ck_attribute \<Rightarrow> 'x result) \<Rightarrow> 'x key_ops \<Rightarrow> bytes \<Rightarrow> ck_attribute list \<Rightarrow> 'x token_object_template
   \<Rightarrow> 'x token_object_template result" where
  "parse_certificate_attributes read_policy K v [] common = Inr common"
| "parse_certificate_attributes read_policy K v (a # as) common =
     (if attr_type a \<in> set [CKA_CLASS, CKA_TOKEN, CKA_PRIVATE, CKA_LABEL, CKA_ID] then
        and_then (apply_attribute read_policy a common) (parse_certificate_attributes read_policy K v as)
      else if attr_type a = CKA_VALUE then parse_certificate_attributes read_policy K v as common
      else if attr_type a \<in> set [CKA_MODIFIABLE, CKA_COPYABLE, CKA_DESTROYABLE] then
        and_then (must_be_true a) (\<lambda>_. parse_certificate_attributes read_policy K v as common)
      else
        (case piv_certificate_attribute K v (attr_type a) of
           None \<Rightarrow> Inl (Generic CKR_ATTRIBUTE_TYPE_INVALID)
         | Some expected \<Rightarrow>
             and_then (read_attribute_value a) (\<lambda>supplied.
             if supplied \<noteq> expected \<and>
                \<not> (supplied = [] \<and> attr_type a \<in> set [CKA_SUBJECT, CKA_ISSUER, CKA_SERIAL_NUMBER])
             then Inl (Generic CKR_ATTRIBUTE_VALUE_INVALID)
             else parse_certificate_attributes read_policy K v as common)))"

definition parse_certificate_object_template ::
  "(ck_attribute \<Rightarrow> 'x result) \<Rightarrow> 'x key_ops \<Rightarrow> ck_attribute list \<Rightarrow> 'x token_object result" where
  "parse_certificate_object_template read_policy K templ =
     and_then (validate_unique_template templ) (\<lambda>_.
     and_then (required_template_value templ CKA_VALUE) (\<lambda>v.
     if cert_subject K v = None then Inl (Generic CKR_ATTRIBUTE_VALUE_INVALID)
     else
       (case template_attribute templ CKA_CERTIFICATE_TYPE of
          None \<Rightarrow> Inl (Generic CKR_TEMPLATE_INCOMPLETE)
        | Some a \<Rightarrow>
            and_then (read_ulong_template_attribute a) (\<lambda>n.
            if n \<noteq> CKC_X_509 then Inl (Generic CKR_ATTRIBUTE_VALUE_INVALID)
            else
              and_then (parse_certificate_attributes read_policy K v templ
                (default_template\<lparr>t_class := Some CKO_CERTIFICATE, t_key_type := Some CKK_GENERIC_SECRET\<rparr>)) (\<lambda>common.
              and_then (into_object_with_software_secret_policy False common) (\<lambda>obj.
              Inr (obj\<lparr>material := Certificate (replicate 16 0) v\<rparr>)))))))"

section \<open>Keys\<close>

definition is_key_component_attribute :: "ck_ulong \<Rightarrow> bool" where
  "is_key_component_attribute t \<longleftrightarrow> t \<in> set
     [CKA_VALUE, CKA_EC_PARAMS, CKA_EC_POINT, CKA_MODULUS, CKA_PUBLIC_EXPONENT, CKA_PRIVATE_EXPONENT, CKA_PRIME_1,
      CKA_PRIME_2, CKA_EXPONENT_1, CKA_EXPONENT_2, CKA_COEFFICIENT, CKA_PARAMETER_SET, CKA_SEED]"

definition is_hmac_key_type :: "ck_ulong \<Rightarrow> bool" where
  "is_hmac_key_type t \<longleftrightarrow> t \<in> set [0x28, 0x2e, 0x2b, 0x2c, 0x2d]"

definition validate_software_secret_length :: "ck_ulong \<Rightarrow> nat \<Rightarrow> unit result" where
  "validate_software_secret_length key_type len =
     and_then
       (if key_type = CKK_AES then Inr (len \<in> {16, 24, 32})
        else if key_type = CKK_DES3 then Inr (len = 24)
        else if key_type = CKK_GENERIC_SECRET \<or> is_hmac_key_type key_type then Inr (1 \<le> len \<and> len \<le> 1024)
        else Inl (Generic CKR_KEY_TYPE_INCONSISTENT))
       (\<lambda>valid. if \<not> valid then Inl (Generic CKR_KEY_SIZE_RANGE) else Inr ())"

fun parse_key_attributes ::
  "(ck_attribute \<Rightarrow> 'x result) \<Rightarrow> ck_attribute list \<Rightarrow> (ck_ulong \<times> bytes) list \<Rightarrow> 'x token_object_template
   \<Rightarrow> ((ck_ulong \<times> bytes) list \<times> 'x token_object_template) result" where
  "parse_key_attributes read_policy [] components t = Inr (components, t)"
| "parse_key_attributes read_policy (a # as) components t =
     (if is_key_component_attribute (attr_type a) then
        and_then (read_attribute_value a) (\<lambda>v.
        parse_key_attributes read_policy as (AList.update (attr_type a) v components) t)
      else and_then (apply_attribute read_policy a t) (parse_key_attributes read_policy as components))"

definition parse_create_object_template_with_policy ::
  "(ck_attribute \<Rightarrow> 'x result) \<Rightarrow> ('x token_object \<Rightarrow> (ck_ulong \<times> bytes) list \<Rightarrow> 'x key_material result)
   \<Rightarrow> bool \<Rightarrow> ck_attribute list \<Rightarrow> 'x token_object result" where
  "parse_create_object_template_with_policy read_policy build_imported_key_material software_secret templ =
     and_then (validate_unique_template templ) (\<lambda>_.
     and_then (parse_key_attributes read_policy templ [] default_template) (\<lambda>(components, t).
     and_then (into_object_with_software_secret_policy software_secret t) (\<lambda>obj.
     and_then (build_imported_key_material obj components) (\<lambda>m.
     let obj = obj\<lparr>material := m, always_sensitive := False, never_extractable := False\<rparr> in
     if software_secret then
       (case m of
          Secret v \<Rightarrow>
            and_then (validate_software_secret_length (obj_key_type obj) (length v)) (\<lambda>_.
            Inr (obj\<lparr>material := SoftwareSecret v\<rparr>))
        | _ \<Rightarrow> Inl (Generic CKR_TEMPLATE_INCONSISTENT))
     else Inr obj))))"

section \<open>Several attributes\<close>

definition combine_attribute_rv :: "ck_rv \<Rightarrow> ck_rv \<Rightarrow> ck_rv" where
  "combine_attribute_rv current next =
     (if current = CKR_ARGUMENTS_BAD then current
      else if next = CKR_ARGUMENTS_BAD then next
      else if current = CKR_ATTRIBUTE_SENSITIVE then current
      else if next = CKR_ATTRIBUTE_SENSITIVE then next
      else if current = CKR_ATTRIBUTE_TYPE_INVALID then current
      else if next = CKR_ATTRIBUTE_TYPE_INVALID then next
      else if current = CKR_ATTRIBUTE_READ_ONLY then current
      else if next = CKR_ATTRIBUTE_READ_ONLY then next
      else if current = CKR_BUFFER_TOO_SMALL then current
      else next)"

text \<open>The loops of \<open>copy_object\<close> and \<open>set_attribute_value\<close> over a template: an attribute that is refused
  leaves the object as it is, and its error is combined with the earlier ones.\<close>

fun change_attributes ::
  "(ck_attribute \<Rightarrow> 'x token_object \<Rightarrow> 'x token_object result) \<Rightarrow> ck_attribute list \<Rightarrow> ck_rv \<Rightarrow> 'x token_object
   \<Rightarrow> ck_rv \<times> 'x token_object" where
  "change_attributes change [] rv obj = (rv, obj)"
| "change_attributes change (a # as) rv obj =
     (case change a obj of
        Inl e \<Rightarrow> change_attributes change as (combine_attribute_rv rv (ck_rv_of_error e)) obj
      | Inr obj' \<Rightarrow> change_attributes change as rv obj')"

end
