(* ===== verification/Attribute_Policy.thy ===== *)
theory Attribute_Policy
  imports Object_Template
begin

text \<open>
  What the attribute functions of \<open>Attributes\<close> promise: the list of attribute types is the list of
  supported attributes, changing attributes never weakens the protection of a key, and the
  attributes that are not sensitive do not depend on the secret.
\<close>

section \<open>The list of attribute types\<close>

lemmas attribute_groups =
  is_common_storage_attribute_def is_common_key_attribute_def is_common_public_key_attribute_def
  is_common_private_key_attribute_def is_common_secret_key_attribute_def is_x509_certificate_attribute_def
  is_rsa_public_attribute_def is_rsa_private_attribute_def is_ec_public_attribute_def is_ec_private_attribute_def
  is_ml_dsa_public_attribute_def is_ml_dsa_private_attribute_def is_ml_kem_public_attribute_def
  is_ml_kem_private_attribute_def

definition vendor_attribute_types :: "ck_ulong list" where
  "vendor_attribute_types =
     [CKA_PKCS11RS_OATH_HASH, CKA_PKCS11RS_OATH_TOUCH_REQUIRED, CKA_PKCS11RS_PIV_OBJECT_TAG,
      CKA_YUBICO_HSMAUTH_RETRIES, CKA_YUBICO_HSMAUTH_TOUCH_REQUIRED, CKA_YUBICO_TOUCH_POLICY,
      CKA_YUBICO_PIN_POLICY, CKA_PKCS11RS_PREVIEW_SIGN_REGISTRATION, CKA_PKCS11RS_PREVIEW_SIGN_DERIVED_KEY,
      CKA_PKCS11RS_FIDO_RP_ID, CKA_PKCS11RS_URI]"

lemma attribute_types_eq:
  "attribute_types obj = filter (supports_attribute obj) (PKCS11_OBJECT_ATTRIBUTE_TYPES @ vendor_attribute_types)"
  by (simp only: attribute_types_def vendor_attribute_types_def filter_append)

lemma known_types_distinct: "distinct (PKCS11_OBJECT_ATTRIBUTE_TYPES @ vendor_attribute_types)"
  unfolding PKCS11_OBJECT_ATTRIBUTE_TYPES_def vendor_attribute_types_def by code_simp

lemma listed_groups:
  "is_common_storage_attribute t \<Longrightarrow> t \<in> set PKCS11_OBJECT_ATTRIBUTE_TYPES"
  "is_common_key_attribute t \<Longrightarrow> t \<in> set PKCS11_OBJECT_ATTRIBUTE_TYPES"
  "is_common_public_key_attribute t \<Longrightarrow> t \<in> set PKCS11_OBJECT_ATTRIBUTE_TYPES"
  "is_common_private_key_attribute t \<Longrightarrow> t \<in> set PKCS11_OBJECT_ATTRIBUTE_TYPES"
  "is_common_secret_key_attribute t \<Longrightarrow> t \<in> set PKCS11_OBJECT_ATTRIBUTE_TYPES"
  "is_x509_certificate_attribute t \<Longrightarrow> t \<in> set PKCS11_OBJECT_ATTRIBUTE_TYPES"
  "is_rsa_public_attribute t \<Longrightarrow> t \<in> set PKCS11_OBJECT_ATTRIBUTE_TYPES"
  "is_rsa_private_attribute t \<Longrightarrow> t \<in> set PKCS11_OBJECT_ATTRIBUTE_TYPES"
  "is_ec_public_attribute t \<Longrightarrow> t \<in> set PKCS11_OBJECT_ATTRIBUTE_TYPES"
  "is_ec_private_attribute t \<Longrightarrow> t \<in> set PKCS11_OBJECT_ATTRIBUTE_TYPES"
  "is_ml_dsa_public_attribute t \<Longrightarrow> t \<in> set PKCS11_OBJECT_ATTRIBUTE_TYPES"
  "is_ml_dsa_private_attribute t \<Longrightarrow> t \<in> set PKCS11_OBJECT_ATTRIBUTE_TYPES"
  "is_ml_kem_public_attribute t \<Longrightarrow> t \<in> set PKCS11_OBJECT_ATTRIBUTE_TYPES"
  "is_ml_kem_private_attribute t \<Longrightarrow> t \<in> set PKCS11_OBJECT_ATTRIBUTE_TYPES"
  unfolding attribute_groups PKCS11_OBJECT_ATTRIBUTE_TYPES_def by (simp_all only: list.set insert_iff empty_iff) blast+

lemma listed_single:
  "{CKA_APPLICATION, CKA_OBJECT_ID, CKA_VALUE, CKA_PROFILE_ID, CKA_SEED, CKA_VERIFY_RECOVER}
     \<subseteq> set PKCS11_OBJECT_ATTRIBUTE_TYPES"
  unfolding PKCS11_OBJECT_ATTRIBUTE_TYPES_def by simp

lemma standard_listed: "supports_standard_attribute obj t \<Longrightarrow> t \<in> set PKCS11_OBJECT_ATTRIBUTE_TYPES"
  using listed_single
  by (auto simp: supports_standard_attribute_def dest: listed_groups split: if_splits)

lemma vendor_listed: "supports_vendor_attribute obj t \<Longrightarrow> t \<in> set vendor_attribute_types"
  by (auto simp: supports_vendor_attribute_def vendor_attribute_types_def split: if_splits key_material.splits)

lemma oath_listed:
  "oath_supports_attribute t \<Longrightarrow> t \<noteq> CKA_ATTR_TYPES \<Longrightarrow>
   t \<in> set PKCS11_OBJECT_ATTRIBUTE_TYPES \<or> t \<in> set vendor_attribute_types"
  unfolding oath_supports_attribute_def PKCS11_OBJECT_ATTRIBUTE_TYPES_def vendor_attribute_types_def
  by (simp only: list.set insert_iff empty_iff) blast

lemma attr_types_not_listed:
  "CKA_ATTR_TYPES \<notin> set (PKCS11_OBJECT_ATTRIBUTE_TYPES @ vendor_attribute_types)"
  unfolding PKCS11_OBJECT_ATTRIBUTE_TYPES_def vendor_attribute_types_def by simp

text \<open>C28. The attribute types reported for an object are exactly the attributes it supports, each
  of them once; only the attribute that holds this list is left out of it.\<close>
theorem attribute_types_exact:
  "distinct (attribute_types obj) \<and>
   set (attribute_types obj) = {t. supports_attribute obj t \<and> t \<noteq> CKA_ATTR_TYPES}"
proof -
  have "t \<in> set (PKCS11_OBJECT_ATTRIBUTE_TYPES @ vendor_attribute_types)"
    if "supports_attribute obj t" "t \<noteq> CKA_ATTR_TYPES" for t
    using that listed_single listed_groups(1) standard_listed [of obj t] vendor_listed [of obj t] oath_listed [of t]
    by (auto simp: supports_attribute_def supports_compatibility_attribute_def split: if_splits)
  with attr_types_not_listed known_types_distinct show ?thesis
    by (auto simp: attribute_types_eq)
qed

section \<open>Changing attributes\<close>

text \<open>What every change keeps: the protection gets no weaker, and the kind, the origin and the
  permitted uses of a key stay.\<close>

definition usage_of :: "'x token_object \<Rightarrow> bool list \<times> ck_ulong list option \<times> bool \<times> 'x key_policy_templates" where
  "usage_of obj =
     ([may_encrypt obj, may_decrypt obj, may_sign obj, may_verify obj, may_derive obj, may_wrap obj, may_unwrap obj,
       may_encapsulate obj, may_decapsulate obj], allowed_mechanisms obj, wrap_with_trusted obj, policy_templates obj)"

definition origin_of ::
  "'x token_object \<Rightarrow> string \<times> ck_ulong \<times> ck_ulong \<times> bool \<times> bool \<times> bool \<times> ck_ulong option \<times> 'x public_key_material option"
  where
  "origin_of obj =
     (unique_id obj, obj_class obj, obj_key_type obj, always_sensitive obj, never_extractable obj, obj_local obj,
      key_gen_mechanism obj, obj_public_key obj)"

fun is_data :: "'x key_material \<Rightarrow> bool" where
  "is_data (Data _ _ _ _) \<longleftrightarrow> True"
| "is_data _ \<longleftrightarrow> False"

definition protection_kept :: "'x token_object \<Rightarrow> 'x token_object \<Rightarrow> bool" where
  "protection_kept obj obj' \<longleftrightarrow>
     (sensitive obj \<longrightarrow> sensitive obj') \<and> (extractable obj' \<longrightarrow> extractable obj) \<and>
     usage_of obj' = usage_of obj \<and> origin_of obj' = origin_of obj \<and>
     is_data (material obj') = is_data (material obj) \<and> (\<not> is_data (material obj) \<longrightarrow> material obj' = material obj)"

lemma protection_refl: "protection_kept obj obj"
  by (simp add: protection_kept_def)

lemma protection_trans: "protection_kept a b \<Longrightarrow> protection_kept b c \<Longrightarrow> protection_kept a c"
  by (auto simp: protection_kept_def)

lemmas protection_defs = protection_kept_def usage_of_def origin_of_def

lemma set_data_protection: "set_data_attribute v t obj = Some (Inr obj') \<Longrightarrow> protection_kept obj obj'"
  by (auto simp: set_data_attribute_def protection_defs split: key_material.splits if_splits)

lemma set_attribute_protection:
  assumes "set_attribute_value a obj = Inr obj'"
  shows "protection_kept obj obj'"
proof -
  obtain v where v: "read_attribute_value a = Inr v" using assms
    by (cases "read_attribute_value a") (auto simp: set_attribute_value_def)
  show ?thesis
  proof (cases "set_data_attribute v (attr_type a) obj")
    case (Some outcome)
    with assms v set_data_protection show ?thesis by (auto simp: set_attribute_value_def)
  next
    case None
    with assms v show ?thesis
      by (auto simp: set_attribute_value_def Let_def protection_defs split: if_splits)
  qed
qed

lemma set_copy_protection:
  assumes "set_copy_attribute_value a obj = Inr obj'"
  shows "protection_kept obj obj'"
  using assms set_attribute_protection [of a obj obj']
  by (auto simp: set_copy_attribute_value_def protection_defs split: if_splits)

text \<open>C27. Whatever template a caller hands to \<open>C_SetAttributeValue\<close> or \<open>C_CopyObject\<close>, a sensitive key
  stays sensitive, a key that cannot be extracted stays so, and its kind, origin, permitted uses and
  key material are those of the original.\<close>
theorem attributes_ratchet:
  assumes "change \<in> {set_attribute_value, set_copy_attribute_value}"
    and "change_attributes change template rv obj = (rv', obj')"
  shows "protection_kept obj obj'"
  using assms(2)
proof (induction template arbitrary: rv obj)
  case Nil
  then show ?case by (simp add: protection_refl)
next
  case (Cons a template)
  show ?case
  proof (cases "change a obj")
    case (Inl e)
    with Cons show ?thesis by simp
  next
    case (Inr mid)
    then have "protection_kept obj mid"
      using assms(1) set_attribute_protection set_copy_protection by blast
    moreover have "protection_kept mid obj'" using Cons Inr by simp
    ultimately show ?thesis by (rule protection_trans)
  qed
qed

text \<open>A secret key is made sensitive and renamed; it cannot be made extractable again.\<close>

definition sample_secret :: "unit token_object" where
  "sample_secret =
     \<lparr>obj_slot_id = Some 1, unique_id = ''k'', obj_class = CKO_SECRET_KEY, obj_key_type = 0x1f, obj_label = ''old'',
      obj_id = [], is_token = False, is_private = True, may_encrypt = True, may_decrypt = True, may_sign = False,
      may_verify = False, may_derive = False, may_wrap = False, may_unwrap = False, may_encapsulate = False,
      may_decapsulate = False, sensitive = False, extractable = False, always_sensitive = False,
      never_extractable = False, obj_local = False, key_gen_mechanism = None, allowed_mechanisms = None,
      wrap_with_trusted = False,
      policy_templates = \<lparr>policy_wrap = None, policy_unwrap = None, policy_derive = None\<rparr>,
      creator_session = Some 1, obj_public_key = None, rp_id = None, material = SoftwareSecret [1, 2, 3]\<rparr>"

lemma sample_changes:
  "change_attributes set_attribute_value [attr_of CKA_SENSITIVE (bool_attribute True), attr_of CKA_ID [7]] CKR_OK sample_secret =
     (CKR_OK, sample_secret\<lparr>sensitive := True, obj_id := [7]\<rparr>)"
  using read_attr_of [of "bool_attribute True" CKA_SENSITIVE] read_bool_round_trip [of CKA_SENSITIVE True]
    read_attr_of [of "[7]" CKA_ID]
  by (simp add: set_attribute_value_def sample_secret_def set_data_attribute_def has_sensitive_attributes_def
      attr_of_def bool_attribute_def)

theorem attributes_ratchet_witness:
  "change_attributes set_attribute_value [attr_of CKA_SENSITIVE (bool_attribute True), attr_of CKA_ID [7]] CKR_OK sample_secret =
     (CKR_OK, sample_secret\<lparr>sensitive := True, obj_id := [7]\<rparr>) \<and>
   protection_kept sample_secret (sample_secret\<lparr>sensitive := True, obj_id := [7]\<rparr>)"
  using attributes_ratchet [OF _ sample_changes] sample_changes by simp

section \<open>Secrets\<close>

text \<open>Two objects that differ at most in secret key material: the public halves of two private keys
  and the lengths of two secret keys agree.\<close>

definition same_observable :: "'x key_ops \<Rightarrow> 'x key_material \<Rightarrow> 'x key_material \<Rightarrow> bool" where
  "same_observable K m m' \<longleftrightarrow> m = m' \<or>
     (case m of
        SoftwarePrivate k \<Rightarrow>
          (case m' of SoftwarePrivate k' \<Rightarrow> software_public_key K k = software_public_key K k' | _ \<Rightarrow> False)
      | SoftwareSecret v \<Rightarrow> (case m' of SoftwareSecret v' \<Rightarrow> length v = length v' | _ \<Rightarrow> False)
      | Secret v \<Rightarrow> (case m' of Secret v' \<Rightarrow> length v = length v' | _ \<Rightarrow> False)
      | _ \<Rightarrow> False)"

lemma same_observable_cases:
  assumes "same_observable K m m'"
  obtains "m' = m"
  | k k' where "m = SoftwarePrivate k" "m' = SoftwarePrivate k'" "software_public_key K k = software_public_key K k'"
  | v v' where "m = SoftwareSecret v" "m' = SoftwareSecret v'" "length v = length v'"
  | v v' where "m = Secret v" "m' = Secret v'" "length v = length v'"
  using assms by (auto simp: same_observable_def split: key_material.splits)

text \<open>Private and secret keys whose secret is protected.\<close>

definition secret_protected :: "'x token_object \<Rightarrow> bool" where
  "secret_protected obj \<longleftrightarrow>
     obj_class obj = CKO_PRIVATE_KEY \<and> sensitive obj \<or>
     obj_class obj = CKO_SECRET_KEY \<and> attribute_is_sensitive obj CKA_VALUE"

lemma material_self [simp]: "obj\<lparr>material := material obj\<rparr> = obj"
  by (cases obj) simp

lemma projected_observable:
  assumes "same_observable K (material obj) m"
  shows "projected_public_key K (obj\<lparr>material := m\<rparr>) = projected_public_key K obj"
  using assms by (rule same_observable_cases) (simp_all add: projected_public_key_def split: option.split)

lemma supports_observable:
  assumes "same_observable K (material obj) m"
  shows "supports_attribute (obj\<lparr>material := m\<rparr>) t = supports_attribute obj t"
  using assms
  by (rule same_observable_cases)
    (simp_all add: supports_attribute_def supports_standard_attribute_def supports_vendor_attribute_def
      supports_compatibility_attribute_def)

lemma public_info_observable:
  assumes "same_observable K (material obj) m"
  shows "public_key_info K (obj\<lparr>material := m\<rparr>) = public_key_info K obj"
  unfolding public_key_info_def projected_observable [OF assms]
  by (simp cong: sum.case_cong public_key_material.case_cong)

lemma kind_observable:
  "is_key_object (obj\<lparr>material := m\<rparr>) = is_key_object obj"
  "has_sensitive_attributes (obj\<lparr>material := m\<rparr>) = has_sensitive_attributes obj"
  "is_certificate_object (obj\<lparr>material := m\<rparr>) = is_certificate_object obj"
  by (simp_all add: is_key_object_def has_sensitive_attributes_def is_certificate_object_def)

lemma use_observable:
  assumes "same_observable K (material obj) m"
  shows "can_wrap (obj\<lparr>material := m\<rparr>) = can_wrap obj" "can_unwrap (obj\<lparr>material := m\<rparr>) = can_unwrap obj"
    "allows_derive K (obj\<lparr>material := m\<rparr>) = allows_derive K obj"
    "is_nonextractable_key_object (obj\<lparr>material := m\<rparr>) = is_nonextractable_key_object obj"
    "is_immutable_object (obj\<lparr>material := m\<rparr>) = is_immutable_object obj"
    "is_yubihsm_opaque (obj\<lparr>material := m\<rparr>) = is_yubihsm_opaque obj"
  subgoal using assms by (rule same_observable_cases) (simp_all add: can_wrap_def)
  subgoal using assms by (rule same_observable_cases) (simp_all add: can_unwrap_def)
  subgoal by (simp add: allows_derive_def supports_public_projection_def public_info_observable [OF assms])
  subgoal using assms by (rule same_observable_cases) (simp_all add: is_nonextractable_key_object_def)
  subgoal using assms by (rule same_observable_cases) (simp_all add: is_immutable_object_def)
  subgoal using assms by (rule same_observable_cases) (simp_all add: is_yubihsm_opaque_def)
  done

lemma public_arms_observable:
  assumes "same_observable K (material obj) m"
  shows "identity_arms (obj\<lparr>material := m\<rparr>) t = identity_arms obj t \<and>
    usage_arms K (obj\<lparr>material := m\<rparr>) t = usage_arms K obj t \<and>
    lifetime_arms (obj\<lparr>material := m\<rparr>) t = lifetime_arms obj t \<and>
    data_arms K (obj\<lparr>material := m\<rparr>) t = data_arms K obj t \<and>
    key_arms (obj\<lparr>material := m\<rparr>) t = key_arms obj t \<and>
    device_arms (obj\<lparr>material := m\<rparr>) t = device_arms obj t"
proof (cases "m = material obj")
  case False
  note same = use_observable [OF assms] kind_observable
  have "identity_arms (obj\<lparr>material := m\<rparr>) t = identity_arms obj t"
    using assms False by (elim same_observable_cases) (simp_all add: identity_arms_def same requires_context_login_def)
  moreover have "usage_arms K (obj\<lparr>material := m\<rparr>) t = usage_arms K obj t"
    unfolding usage_arms_def same by simp
  moreover have "lifetime_arms (obj\<lparr>material := m\<rparr>) t = lifetime_arms obj t"
    unfolding lifetime_arms_def same
    using assms False by (elim same_observable_cases) simp_all
  moreover have "data_arms K (obj\<lparr>material := m\<rparr>) t = data_arms K obj t"
    unfolding data_arms_def same
    using assms False by (elim same_observable_cases) simp_all
  moreover have "key_arms (obj\<lparr>material := m\<rparr>) t = key_arms obj t"
    unfolding key_arms_def same
    using assms False by (elim same_observable_cases) simp_all
  moreover have "device_arms (obj\<lparr>material := m\<rparr>) t = device_arms obj t"
    unfolding device_arms_def
    using assms False by (elim same_observable_cases) simp_all
  ultimately show ?thesis by blast
qed simp

text \<open>The remaining arms depend on the secret only where the attribute is sensitive.\<close>

definition secret_attribute :: "ck_ulong \<Rightarrow> bool" where
  "secret_attribute t \<longleftrightarrow> t \<in> set [CKA_VALUE, CKA_SEED, CKA_PRIVATE_EXPONENT, CKA_PRIME_1, CKA_PRIME_2, CKA_EXPONENT_1,
     CKA_EXPONENT_2, CKA_COEFFICIENT]"

lemma secret_not_common:
  assumes "secret_attribute t"
  shows "\<not> is_common_storage_attribute t" "\<not> is_common_key_attribute t" "\<not> is_common_private_key_attribute t"
    "\<not> is_common_secret_key_attribute t" "t \<notin> set vendor_attribute_types" "t \<noteq> CKA_VERIFY_RECOVER"
  using assms unfolding secret_attribute_def attribute_groups vendor_attribute_types_def by auto

lemma secret_supported:
  assumes "secret_attribute t" "\<not> is_oath_material (material obj)"
  shows "supports_attribute obj t \<longleftrightarrow> supports_standard_attribute obj t"
  using assms(2) secret_not_common [OF assms(1)] vendor_listed [of obj t]
  by (auto simp: supports_attribute_def supports_compatibility_attribute_def)

lemma secret_attribute_sensitive:
  assumes "supports_attribute obj t" "secret_protected obj" "secret_attribute t" "\<not> is_oath_material (material obj)"
  shows "attribute_is_sensitive obj t"
proof (cases "obj_class obj = CKO_PRIVATE_KEY")
  case True
  have "sensitive obj" using assms(2) True by (simp add: secret_protected_def)
  moreover have "if obj_key_type obj = CKK_RSA then is_rsa_private_attribute t
         else if is_ec_key_type (obj_key_type obj) then is_ec_private_attribute t
         else if obj_key_type obj = CKK_ML_DSA then is_ml_dsa_private_attribute t
         else if obj_key_type obj = CKK_ML_KEM then is_ml_kem_private_attribute t
         else if is_hybrid_kem_key_type (obj_key_type obj) then t = CKA_VALUE \<or> t = CKA_SEED
         else False"
    using assms(1) True secret_supported [OF assms(3,4)] secret_not_common [OF assms(3)]
    by (simp add: supports_standard_attribute_def)
  ultimately show ?thesis using assms(1,3,4) True
    by (auto simp: attribute_is_sensitive_def is_rsa_private_attribute_def is_ec_private_attribute_def
        is_ml_dsa_private_attribute_def is_ml_kem_private_attribute_def secret_attribute_def split: if_splits)
next
  case False
  then have "t = CKA_VALUE"
    using assms(1,2) secret_supported [OF assms(3,4)] secret_not_common [OF assms(3)]
    by (auto simp: supports_standard_attribute_def secret_protected_def)
  with False assms(2) show ?thesis by (simp add: secret_protected_def)
qed

lemma secret_arms_observable:
  assumes "same_observable K (material obj) m" "\<not> secret_attribute t"
  shows "rsa_arms K (obj\<lparr>material := m\<rparr>) t = rsa_arms K obj t \<and>
    curve_arms K (obj\<lparr>material := m\<rparr>) t = curve_arms K obj t \<and>
    value_arms K (obj\<lparr>material := m\<rparr>) t = value_arms K obj t"
proof (cases "m = material obj")
  case False
  note same = projected_observable [OF assms(1)] public_info_observable [OF assms(1)] kind_observable
  have no: "t \<noteq> CKA_VALUE" "t \<noteq> CKA_SEED" "t \<noteq> CKA_PRIVATE_EXPONENT" "t \<noteq> CKA_PRIME_1" "t \<noteq> CKA_PRIME_2"
    "t \<noteq> CKA_EXPONENT_1" "t \<noteq> CKA_EXPONENT_2" "t \<noteq> CKA_COEFFICIENT"
    using assms(2) by (auto simp: secret_attribute_def)
  have "rsa_arms K (obj\<lparr>material := m\<rparr>) t = rsa_arms K obj t"
    unfolding rsa_arms_def same
    using assms(1) False by (elim same_observable_cases) (simp_all add: no Let_def)
  moreover have "curve_arms K (obj\<lparr>material := m\<rparr>) t = curve_arms K obj t"
    unfolding curve_arms_def ec_point_def same
    using assms(1) False by (elim same_observable_cases) (simp_all add: no Let_def split: sum.split public_key_material.split)
  moreover have "value_arms K (obj\<lparr>material := m\<rparr>) t = value_arms K obj t"
    unfolding value_arms_def material_value_def same
    using assms(1) False by (elim same_observable_cases) (simp_all add: no Let_def)
  ultimately show ?thesis by blast
qed simp

lemma oath_observable: "same_observable K m m' \<Longrightarrow> is_oath_material m' = is_oath_material m"
  by (erule same_observable_cases) simp_all

lemma not_oath_value:
  "\<not> is_oath_material (material obj) \<Longrightarrow> attribute_value K obj t =
     (if \<not> supports_attribute obj t then None
      else first_arm [identity_arms obj t, usage_arms K obj t, lifetime_arms obj t, data_arms K obj t,
             key_arms obj t, rsa_arms K obj t, curve_arms K obj t, device_arms obj t, value_arms K obj t])"
  by (cases "material obj") (simp_all add: attribute_value_def)

text \<open>C26. What a caller can read does not depend on protected key material: for a sensitive private
  key and for a secret key whose value is sensitive, every attribute that is not reported as sensitive
  has the same value whatever the secret is, given the same public key and the same length.\<close>
theorem sensitive_material_hidden:
  assumes "secret_protected obj" "\<not> is_oath_material (material obj)" "same_observable K (material obj) m"
    and "\<not> attribute_is_sensitive obj t"
  shows "attribute_value K (obj\<lparr>material := m\<rparr>) t = attribute_value K obj t"
proof (cases "supports_attribute obj t")
  case True
  with assms secret_attribute_sensitive have "\<not> secret_attribute t" by blast
  from public_arms_observable [OF assms(3)] secret_arms_observable [OF assms(3) this] supports_observable [OF assms(3)]
  show ?thesis using assms(2) oath_observable [OF assms(3)] by (simp add: not_oath_value)
next
  case False
  with supports_observable [OF assms(3)] oath_observable [OF assms(3)] assms(2) show ?thesis by (simp add: not_oath_value)
qed

theorem sensitive_material_hidden_witness:
  "\<forall>K. \<not> attribute_is_sensitive sample_secret CKA_VALUE_LEN \<and>
   attribute_value K (sample_secret\<lparr>material := SoftwareSecret [9, 9, 9]\<rparr>) CKA_VALUE_LEN =
   attribute_value K sample_secret CKA_VALUE_LEN"
proof
  fix K :: "unit key_ops"
  have "secret_protected sample_secret"
    by (simp add: secret_protected_def sample_secret_def attribute_is_sensitive_def supports_attribute_def
        supports_standard_attribute_def sensitive_secret_material_def)
  moreover have "\<not> attribute_is_sensitive sample_secret CKA_VALUE_LEN"
    by (simp add: sample_secret_def attribute_is_sensitive_def)
  moreover have "same_observable K (material sample_secret) (SoftwareSecret [9, 9, 9])"
    by (simp add: same_observable_def sample_secret_def)
  ultimately show "\<not> attribute_is_sensitive sample_secret CKA_VALUE_LEN \<and>
    attribute_value K (sample_secret\<lparr>material := SoftwareSecret [9, 9, 9]\<rparr>) CKA_VALUE_LEN =
    attribute_value K sample_secret CKA_VALUE_LEN"
    using sensitive_material_hidden [of sample_secret K "SoftwareSecret [9, 9, 9]" CKA_VALUE_LEN]
    by (simp add: sample_secret_def)
qed

end
