(* ===== verification/Object_Api.thy ===== *)
theory Object_Api
  imports Object_Template Session_Api
begin

text \<open>
  The object functions of Cryptoki on one slot (src/src/api/object.rs): creating, copying, reading,
  changing, destroying and finding objects.  The further backend methods they call are the fields of
  \<open>object_ops\<close>; a method that is given the slot state (\<open>create_object\<close>, \<open>store_token_key\<close>,
  \<open>store_data\<close>) is a computation on the slot.  The value cell of a YubiHSM object is shared by the
  copies of the object: it is an address of the backend state.
\<close>

record ('b, 'x) object_ops =
  slot_create_object :: "handle \<Rightarrow> ck_attribute list \<Rightarrow> ('b, 'x, handle option) slot_comp"
  store_token_key :: "handle \<Rightarrow> 'x token_object \<Rightarrow> ('b, 'x, handle) slot_comp"
  store_data :: "handle \<Rightarrow> 'x token_object \<Rightarrow> ('b, 'x, handle) slot_comp"
  read_policy_template :: "ck_attribute \<Rightarrow> 'x result"
  write_policy_template :: "'x option \<Rightarrow> ck_attribute \<Rightarrow> ck_attribute \<times> ck_rv option"
  build_imported_key_material :: "'x token_object \<Rightarrow> (ck_ulong \<times> bytes) list \<Rightarrow> 'x key_material result"
  fill_random :: "('b, bytes) comp"
  supports_software_keys :: "'b \<Rightarrow> bool"
  token_mutations_require_login :: "'b \<Rightarrow> bool"
  token_objects_copyable :: "'b \<Rightarrow> bool"
  stores_software_token_keys :: "'b \<Rightarrow> bool"
  refresh_token_objects_before_find :: "'b \<Rightarrow> bool"
  allowed_key_mechanisms :: "'x token_object \<Rightarrow> 'b \<Rightarrow> ck_ulong list"
  object_uri :: "'x token_object \<Rightarrow> 'b \<Rightarrow> bytes"
  oath_delete_credential :: "bytes \<Rightarrow> ('b, unit) comp"
  yubihsm_destroy_public_projection :: "slot_id \<Rightarrow> string \<Rightarrow> ('b, unit) comp"
  yubihsm_destroy_native_object :: "slot_id \<Rightarrow> string \<Rightarrow> ('b, string option) comp"
  yubihsm_set_attributes :: "slot_id \<Rightarrow> string \<Rightarrow> bytes option \<Rightarrow> string option \<Rightarrow> ('b, unit) comp"
  yubihsm_read_object :: "u16 \<Rightarrow> byte \<Rightarrow> ('b, bytes) comp"
  read_session_object :: "slot_id \<Rightarrow> ck_flags \<Rightarrow> u64 \<Rightarrow> ('b, bytes) comp"
  cell_value :: "'x \<Rightarrow> 'b \<Rightarrow> bytes option"
  set_cell :: "'x \<Rightarrow> bytes \<Rightarrow> 'b \<Rightarrow> 'b"
  fido_delete_preview_credential :: "'x \<Rightarrow> ('b, unit) comp"
  store_software_private_object :: "slot_id \<Rightarrow> 'x token_object \<Rightarrow> ('b, 'x token_object) comp"
  destroy_software_private_object :: "string \<Rightarrow> ('b, unit) comp"
  piv_delete_data :: "u32 \<Rightarrow> ('b, unit) comp"
  piv_delete_key :: "piv_slot \<Rightarrow> ('b, unit) comp"
  piv_delete_certificate :: "piv_slot \<Rightarrow> ('b, unit) comp"
  piv_move_key :: "piv_slot \<Rightarrow> piv_slot \<Rightarrow> ('b, unit) comp"
  openpgp_set_touch_policy :: "openpgp_key_ref \<Rightarrow> byte \<Rightarrow> ('b, unit) comp"
  invalidate_token_objects :: "'b \<Rightarrow> 'b"

abbreviation (input) YUBIHSM_ALGO_OPAQUE_X509_CERTIFICATE :: byte where
  "YUBIHSM_ALGO_OPAQUE_X509_CERTIFICATE \<equiv> 31"

text \<open>A read of the backend and a check on it.\<close>

definition backend_is :: "('b \<Rightarrow> bool) \<Rightarrow> ('b, 'x, bool) slot_comp" where
  "backend_is P = sget (\<lambda>c. P (backend c))"

definition resolve_visible ::
  "('b, 'x) slot_ops \<Rightarrow> handle \<Rightarrow> bool \<Rightarrow> ('b, 'x, 'x token_object) slot_comp" where
  "resolve_visible ops h logged_in =
     sbind (resolve_object ops h) (\<lambda>found.
     case found of
       Some obj \<Rightarrow> if is_visible_to obj logged_in then sok obj else sfail (Generic CKR_OBJECT_HANDLE_INVALID)
     | None \<Rightarrow> sfail (Generic CKR_OBJECT_HANDLE_INVALID))"

section \<open>Storing objects\<close>

definition persist_software_private_object ::
  "('b, 'x) slot_ops \<Rightarrow> ('b, 'x) backing_ops \<Rightarrow> ('b, 'x) object_ops \<Rightarrow> slot_id \<Rightarrow> 'x token_object
   \<Rightarrow> ('b, 'x, handle) slot_comp" where
  "persist_software_private_object ops cod nops sid obj =
     sthen (require_slot_id sid)
     (sbind (on_backend (store_software_private_object nops sid obj)) (\<lambda>stored.
      sbind (sattempt (refresh_slot_token_objects ops cod sid)) (\<lambda>refreshed.
      case refreshed of
        Inl e \<Rightarrow>
          sthen (require_slot_id sid)
          (sthen (signore (on_backend (destroy_software_private_object nops (unique_id stored)))) (sfail e))
      | Inr _ \<Rightarrow>
          sbind (resolved_objects ops) (\<lambda>objects.
          case find (\<lambda>(_, obj). unique_id obj = unique_id stored) objects of
            Some (h, _) \<Rightarrow> sok h
          | None \<Rightarrow>
              sthen (require_slot_id sid)
              (sthen (signore (on_backend (destroy_software_private_object nops (unique_id stored))))
              (sthen (signore (refresh_slot_token_objects ops cod sid))
              (sfail (Generic CKR_DEVICE_ERROR))))))))"

text \<open>The default of \<open>store_data\<close> and \<open>store_token_key\<close>.\<close>

definition store_common_data ::
  "('b, 'x) slot_ops \<Rightarrow> ('b, 'x) backing_ops \<Rightarrow> ('b, 'x) object_ops \<Rightarrow> handle \<Rightarrow> 'x token_object
   \<Rightarrow> ('b, 'x, handle) slot_comp" where
  "store_common_data ops cod nops session obj =
     sbind (session_details ops session) (\<lambda>(sid, _, _).
     if is_private obj then persist_software_private_object ops cod nops sid obj
     else store_backed_object ops cod session obj)"

definition store_common_token_key ::
  "('b, 'x) slot_ops \<Rightarrow> ('b, 'x) backing_ops \<Rightarrow> ('b, 'x) object_ops \<Rightarrow> handle \<Rightarrow> 'x token_object
   \<Rightarrow> ('b, 'x, handle) slot_comp" where
  "store_common_token_key ops cod nops session obj =
     sbind (session_details ops session) (\<lambda>(sid, _, _).
     if supports_backed_object obj then store_backed_object ops cod session obj
     else persist_software_private_object ops cod nops sid obj)"

definition with_instance :: "bytes \<Rightarrow> 'x key_material \<Rightarrow> 'x key_material option" where
  "with_instance r m =
     (case m of
        Data _ application object_id v \<Rightarrow> Some (Data r application object_id v)
      | Certificate _ v \<Rightarrow> Some (Certificate r v)
      | _ \<Rightarrow> None)"

definition publish_data_object ::
  "('b, 'x) object_ops \<Rightarrow> handle \<Rightarrow> slot_id \<Rightarrow> 'x token_object \<Rightarrow> ('b, 'x, handle) slot_comp" where
  "publish_data_object nops session sid obj =
     (if with_instance [] (material obj) = None then sfail (Generic CKR_TEMPLATE_INCONSISTENT)
      else
        sbind (sattempt (on_backend (fill_random nops))) (\<lambda>r.
        case r of
          Inl _ \<Rightarrow> sfail (Generic CKR_DEVICE_ERROR)
        | Inr fresh \<Rightarrow>
            (case with_instance fresh (material obj) of
               None \<Rightarrow> sfail (Generic CKR_TEMPLATE_INCONSISTENT)
             | Some m \<Rightarrow>
                 let obj = obj\<lparr>material := m\<rparr> in
                 if \<not> is_token obj then insert_object (set_creator session sid obj)
                 else store_data nops session obj)))"

fun is_software_secret :: "'x key_material \<Rightarrow> bool" where
  "is_software_secret (SoftwareSecret _) \<longleftrightarrow> True"
| "is_software_secret _ \<longleftrightarrow> False"

fun is_software_private :: "'x key_material \<Rightarrow> bool" where
  "is_software_private (SoftwarePrivate _) \<longleftrightarrow> True"
| "is_software_private _ \<longleftrightarrow> False"

fun is_data_or_certificate :: "'x key_material \<Rightarrow> bool" where
  "is_data_or_certificate (Data _ _ _ _) \<longleftrightarrow> True"
| "is_data_or_certificate (Certificate _ _) \<longleftrightarrow> True"
| "is_data_or_certificate _ \<longleftrightarrow> False"

fun is_public_material :: "'x key_material \<Rightarrow> bool" where
  "is_public_material (Public _) \<longleftrightarrow> True"
| "is_public_material _ \<longleftrightarrow> False"

definition publish_software_secret_object ::
  "('b, 'x) slot_ops \<Rightarrow> ('b, 'x) backing_ops \<Rightarrow> ('b, 'x) object_ops \<Rightarrow> handle \<Rightarrow> slot_id \<Rightarrow> 'x token_object
   \<Rightarrow> ('b, 'x, handle) slot_comp" where
  "publish_software_secret_object ops cod nops session sid obj =
     (if \<not> is_software_secret (material obj) then sfail (Generic CKR_TEMPLATE_INCONSISTENT)
      else if is_token obj then
        if \<not> is_private obj then sfail (Generic CKR_TEMPLATE_INCONSISTENT)
        else persist_software_private_object ops cod nops sid obj
      else insert_object (set_creator session sid obj))"

section \<open>Creating\<close>

definition create_object ::
  "('b, 'x) slot_ops \<Rightarrow> ('b, 'x) backing_ops \<Rightarrow> ('b, 'x) object_ops \<Rightarrow> 'x key_ops \<Rightarrow> handle
   \<Rightarrow> ck_attribute list raw_ptr \<Rightarrow> nat \<Rightarrow> handle raw_ptr \<Rightarrow> ('b, 'x, handle) slot_comp" where
  "create_object ops cod nops K session templ count object =
     sthen (slift (as_mut object))
     (sbind (slift (from_raw_parts 24 templ count)) (\<lambda>templ.
      sbind (session_details ops session) (\<lambda>(sid, flags, logged_in).
      sbind (slift (case template_attribute templ CKA_CLASS of
                      None \<Rightarrow> Inr None
                    | Some a \<Rightarrow> and_then (read_ulong_template_attribute a) (\<lambda>n. Inr (Some n)))) (\<lambda>cls.
      sbind (slot_create_object nops session templ) (\<lambda>created.
      case created of
        Some h \<Rightarrow> sok h
      | None \<Rightarrow>
          if cls = Some CKO_DATA \<or> cls = Some CKO_CERTIFICATE then
            sbind (slift (if cls = Some CKO_DATA then parse_data_object_template (read_policy_template nops) templ
                          else parse_certificate_object_template (read_policy_template nops) K templ)) (\<lambda>obj.
            sthen (slift (validate_new_object_access obj flags logged_in))
            (publish_data_object nops session sid obj))
          else
            let software_secret = (cls = Some CKO_SECRET_KEY) in
            sbind (slift (parse_create_object_template_with_policy (read_policy_template nops)
                            (build_imported_key_material nops) software_secret templ)) (\<lambda>obj.
            sthen (if (is_software_secret (material obj) \<or> is_software_private (material obj)) \<and> \<not> is_token obj then
                     sthen (require_slot_id sid)
                     (sbind (backend_is (supports_software_keys nops)) (\<lambda>supported.
                      sensure supported (Generic CKR_FUNCTION_NOT_SUPPORTED)))
                   else sok ())
            (sthen (slift (validate_new_object_access obj flags logged_in))
            (sthen (sensure (\<not> (software_secret \<and> is_token obj \<and> \<not> is_private obj)) (Generic CKR_TEMPLATE_INCONSISTENT))
            (if is_token obj then store_token_key nops session obj
             else if supports_backed_object obj then store_backed_object ops cod session obj
             else if is_software_secret (material obj) then publish_software_secret_object ops cod nops session sid obj
             else insert_object (set_creator session sid obj))))))))))"

section \<open>Values of attributes\<close>

definition yubihsm_object_value ::
  "('b, 'x) object_ops \<Rightarrow> handle \<Rightarrow> u16 \<Rightarrow> byte \<Rightarrow> 'x \<Rightarrow> ('b, 'x, bytes) slot_comp" where
  "yubihsm_object_value nops session ident object_type cell =
     sthen (\<lambda>c.
       (if cell_value nops cell (backend c) = None then
          sthen (get_session session)
          (sbind (on_backend (yubihsm_read_object nops ident object_type)) (\<lambda>payload.
           smod (\<lambda>c. c\<lparr>backend := set_cell nops cell payload (backend c)\<rparr>)))
        else sok ()) c)
     (\<lambda>c. (case cell_value nops cell (backend c) of
              None \<Rightarrow> Inl (Generic CKR_DEVICE_ERROR) | Some v \<Rightarrow> Inr v, c))"

definition yubihsm_native :: "'x key_material \<Rightarrow> (u16 \<times> byte \<times> byte \<times> 'x) option" where
  "yubihsm_native m =
     (case m of
        YubiHsm ident object_type algorithm _ _ _ _ _ cell \<Rightarrow> Some (ident, object_type, algorithm, cell)
      | _ \<Rightarrow> None)"

definition yubihsm_session_native :: "'x key_material \<Rightarrow> (u64 \<times> nat) option" where
  "yubihsm_session_native m = (case m of YubiHsmSessionObject native len \<Rightarrow> Some (native, len) | _ \<Rightarrow> None)"

definition projected_attribute_value ::
  "'x key_ops \<Rightarrow> handle \<Rightarrow> 'x token_object \<Rightarrow> ck_ulong \<Rightarrow> ('b, 'x, bytes option) slot_comp" where
  "projected_attribute_value K h obj t =
     sget (\<lambda>c.
       if obj_class obj = CKO_PUBLIC_KEY \<and> is_native_token_object_handle h c \<and> is_public_material (material obj) \<and>
          t \<in> set [CKA_MODIFIABLE, CKA_COPYABLE, CKA_DESTROYABLE]
       then Some (bool_attribute False)
       else attribute_value K obj t)"

definition device_attribute_value ::
  "('b, 'x) object_ops \<Rightarrow> 'x key_ops \<Rightarrow> handle \<Rightarrow> handle \<Rightarrow> 'x token_object \<Rightarrow> ck_ulong
   \<Rightarrow> ('b, 'x, bytes option) slot_comp" where
  "device_attribute_value nops K session h obj t =
     (case yubihsm_native (material obj) of
        Some (ident, object_type, algorithm, cell) \<Rightarrow>
          if object_type = YUBIHSM_OPAQUE \<and> algorithm = YUBIHSM_ALGO_OPAQUE_X509_CERTIFICATE \<and>
             is_certificate_attribute t then
            sbind (yubihsm_object_value nops session ident YUBIHSM_OPAQUE cell) (\<lambda>payload.
            sok (piv_certificate_attribute K payload t))
          else if t = CKA_VALUE \<and> (object_type = YUBIHSM_OPAQUE \<or> object_type = YUBIHSM_TEMPLATE) then
            sbind (yubihsm_object_value nops session ident object_type cell) (\<lambda>v. sok (Some v))
          else projected_attribute_value K h obj t
      | None \<Rightarrow>
          (case yubihsm_session_native (material obj) of
             Some (native, len) \<Rightarrow>
               if t = CKA_VALUE then
                 sbind (get_session session) (\<lambda>s.
                 sbind (on_backend (read_session_object nops (session_slotID s) (session_flags s) native)) (\<lambda>v.
                 sthen (sensure (length v = len) (Generic CKR_DEVICE_ERROR)) (sok (Some v))))
               else projected_attribute_value K h obj t
           | None \<Rightarrow> projected_attribute_value K h obj t))"

definition object_attribute_value ::
  "('b, 'x) object_ops \<Rightarrow> 'x key_ops \<Rightarrow> handle \<Rightarrow> handle \<Rightarrow> 'x token_object \<Rightarrow> ck_ulong
   \<Rightarrow> ('b, 'x, bytes option) slot_comp" where
  "object_attribute_value nops K session h obj t =
     (if t = CKA_PKCS11RS_URI then sget (\<lambda>c. Some (object_uri nops obj (backend c)))
      else if t = CKA_ALLOWED_MECHANISMS \<and> is_key_object obj then
        sget (\<lambda>c. Some (concat (map u64_to_le (allowed_key_mechanisms nops obj (backend c)))))
      else if attribute_is_sensitive obj t then sok None
      else
        sbind (if t = CKA_COPYABLE \<and> is_token obj then
                 sget (\<lambda>c. \<not> token_objects_copyable nops (backend c))
               else sok False) (\<lambda>restricted.
        if restricted then sok (Some (bool_attribute False))
        else device_attribute_value nops K session h obj t))"

fun write_prefix :: "bytes \<Rightarrow> bytes raw_ptr \<Rightarrow> bytes raw_ptr" where
  "write_prefix v (Pointing bs) = Pointing (v @ drop (length v) bs)"
| "write_prefix v p = p"

definition write_attribute_value :: "ck_attribute \<Rightarrow> bytes \<Rightarrow> ck_attribute \<times> ck_rv option" where
  "write_attribute_value a v =
     (let required = of_nat (length v) in
      if attr_value a = NullPtr then (a\<lparr>attr_len := required\<rparr>, None)
      else if attr_len a < required then (a\<lparr>attr_len := required\<rparr>, Some CKR_BUFFER_TOO_SMALL)
      else (a\<lparr>attr_value := write_prefix v (attr_value a), attr_len := required\<rparr>, None))"

definition get_one_attribute ::
  "('b, 'x) object_ops \<Rightarrow> 'x key_ops \<Rightarrow> handle \<Rightarrow> handle \<Rightarrow> 'x token_object \<Rightarrow> ck_attribute
   \<Rightarrow> ('b, 'x, ck_attribute \<times> ck_rv option) slot_comp" where
  "get_one_attribute nops K session h obj a =
     (let t = attr_type a; unavailable = a\<lparr>attr_len := CK_UNAVAILABLE_INFORMATION\<rparr> in
      if \<not> supports_attribute obj t then sok (unavailable, Some CKR_ATTRIBUTE_TYPE_INVALID)
      else if attribute_is_sensitive obj t then sok (unavailable, Some CKR_ATTRIBUTE_SENSITIVE)
      else if t \<in> set [CKA_WRAP_TEMPLATE, CKA_UNWRAP_TEMPLATE, CKA_DERIVE_TEMPLATE] then
        sok (write_policy_template nops (policy_template obj t) a)
      else
        sbind (object_attribute_value nops K session h obj t) (\<lambda>v.
        case v of
          Some v \<Rightarrow> sok (write_attribute_value a v)
        | None \<Rightarrow> sok (unavailable, Some CKR_ATTRIBUTE_TYPE_INVALID)))"

text \<open>The loop over the template: the outcome and the entries as the caller finds them; an error that
  ends the loop leaves the later entries as they were.\<close>

fun get_attributes ::
  "('b, 'x) object_ops \<Rightarrow> 'x key_ops \<Rightarrow> handle \<Rightarrow> handle \<Rightarrow> 'x token_object \<Rightarrow> ck_attribute list \<Rightarrow> ck_rv
   \<Rightarrow> ('b, 'x) slot_context \<Rightarrow> ck_rv result \<times> ck_attribute list \<times> ('b, 'x) slot_context" where
  "get_attributes nops K session h obj [] rv c = (Inr rv, [], c)"
| "get_attributes nops K session h obj (a # as) rv c =
     (case get_one_attribute nops K session h obj a c of
        (Inl e, c') \<Rightarrow> (Inl e, a # as, c')
      | (Inr (a', next), c') \<Rightarrow>
          (case get_attributes nops K session h obj as
                  (case next of None \<Rightarrow> rv | Some e \<Rightarrow> combine_attribute_rv rv e) c' of
             (r, as', c'') \<Rightarrow> (r, a' # as', c'')))"

definition api_get_attribute_value ::
  "('b, 'x) slot_ops \<Rightarrow> ('b, 'x) object_ops \<Rightarrow> 'x key_ops \<Rightarrow> handle \<Rightarrow> handle \<Rightarrow> ck_attribute list raw_ptr \<Rightarrow> nat
   \<Rightarrow> ('b, 'x) slot_context \<Rightarrow> unit result \<times> ck_attribute list \<times> ('b, 'x) slot_context" where
  "api_get_attribute_value ops nops K session h templ count c =
     (case sbind (slift (from_raw_parts 24 templ count)) (\<lambda>templ.
           sbind (session_details ops session) (\<lambda>(_, _, logged_in).
           sbind (resolve_visible ops h logged_in) (\<lambda>obj. sok (templ, obj)))) c of
        (Inl e, c') \<Rightarrow> (Inl e, (case from_raw_parts 24 templ count of Inr as \<Rightarrow> as | Inl _ \<Rightarrow> []), c')
      | (Inr (templ, obj), c') \<Rightarrow>
          (case get_attributes nops K session h obj templ CKR_OK c' of
             (Inl e, as, c'') \<Rightarrow> (Inl e, as, c'')
           | (Inr rv, as, c'') \<Rightarrow> (if rv = CKR_OK then Inr () else Inl (Generic rv), as, c'')))"

definition get_object_size ::
  "('b, 'x) slot_ops \<Rightarrow> 'x key_ops \<Rightarrow> handle \<Rightarrow> handle \<Rightarrow> ck_ulong raw_ptr \<Rightarrow> ('b, 'x, ck_ulong) slot_comp" where
  "get_object_size ops K session h psize =
     sthen (slift (as_mut psize))
     (sbind (session_details ops session) (\<lambda>(_, _, logged_in).
      sbind (resolve_visible ops h logged_in) (\<lambda>obj. sok (object_size K obj))))"

section \<open>Copying\<close>

definition copy_object ::
  "('b, 'x) slot_ops \<Rightarrow> ('b, 'x) backing_ops \<Rightarrow> ('b, 'x) object_ops \<Rightarrow> 'x key_ops \<Rightarrow> handle \<Rightarrow> handle
   \<Rightarrow> ck_attribute list raw_ptr \<Rightarrow> nat \<Rightarrow> handle raw_ptr \<Rightarrow> ('b, 'x, handle) slot_comp" where
  "copy_object ops cod nops K session h templ count new_object =
     sthen (slift (as_mut new_object))
     (sbind (slift (from_raw_parts 24 templ count)) (\<lambda>templ.
      sthen (slift (validate_unique_template templ))
      (sbind (session_details ops session) (\<lambda>(sid, flags, logged_in).
       sbind (resolve_visible ops h logged_in) (\<lambda>obj.
       sbind (object_attribute_value nops K session h obj CKA_COPYABLE) (\<lambda>copyable.
       sthen (sensure (copyable = Some (bool_attribute True)) (Generic CKR_ACTION_PROHIBITED))
       (case change_attributes set_copy_attribute_value templ CKR_OK obj of
          (rv, copied) \<Rightarrow>
            sthen (sensure (rv = CKR_OK) (Generic rv))
            (sthen (sensure (\<not> (is_token copied \<and> is_software_private (material copied))) (Generic CKR_TEMPLATE_INCONSISTENT))
            (sthen (sensure (\<not> (is_token copied \<and> is_software_secret (material copied) \<and> \<not> is_private copied))
                      (Generic CKR_TEMPLATE_INCONSISTENT))
            (sthen (slift (validate_new_object_access copied flags logged_in))
            (let copied = copied\<lparr>unique_id := []\<rparr> in
             if is_data_or_certificate (material copied) then publish_data_object nops session sid copied
             else if is_software_secret (material copied) then
               publish_software_secret_object ops cod nops session sid copied
             else
               let copied = set_creator session sid copied in
               if supports_backed_object copied then store_backed_object ops cod session copied
               else insert_object copied)))))))))))"

section \<open>Destroying\<close>

text \<open>Material that cannot be destroyed at all.\<close>

definition destroy_prohibited :: "'x key_material \<Rightarrow> bool" where
  "destroy_prohibited m =
     (case m of
        Profile _ \<Rightarrow> True
      | IssuerSecurityDomainData _ _ _ \<Rightarrow> True
      | IssuerSecurityDomainCertificate _ \<Rightarrow> True
      | HsmAuthCredential _ _ _ \<Rightarrow> True
      | OpenPgpPrivate _ _ _ _ \<Rightarrow> True
      | OpenPgpCertificate _ \<Rightarrow> True
      | _ \<Rightarrow> False)"

definition public_halves ::
  "slot_id \<Rightarrow> u16 \<Rightarrow> byte \<Rightarrow> (handle \<times> 'x token_object) list \<Rightarrow> handle list" where
  "public_halves sid ident object_type objects =
     List.map_filter (\<lambda>(h, candidate).
       case material candidate of
         YubiHsm candidate_id candidate_type _ _ _ _ _ _ _ \<Rightarrow>
           if obj_slot_id candidate = Some sid \<and> candidate_id = ident \<and> is_token candidate \<and>
              is_yubihsm_public_projection candidate \<and>
              candidate_type AND NOT 0x80 = object_type AND NOT 0x80
           then Some h else None
       | _ \<Rightarrow> None) objects"

definition require_so ::
  "('b, 'x) slot_ops \<Rightarrow> slot_id \<Rightarrow> ('b, 'x, unit) slot_comp" where
  "require_so ops sid =
     sbind (sget (login_role_of ops sid)) (\<lambda>role.
     sensure (role = Some SoRole) (Generic CKR_USER_NOT_LOGGED_IN))"

definition destroy_piv ::
  "('b, 'x) slot_ops \<Rightarrow> ('b, 'x) backing_ops \<Rightarrow> slot_id \<Rightarrow> ('b, unit) comp \<Rightarrow> ('b, 'x, unit) slot_comp" where
  "destroy_piv ops cod sid delete =
     sthen (require_so ops sid)
     (sthen (require_slot_id sid)
     (sthen (on_backend delete)
     (refresh_slot_token_objects ops cod sid)))"

text \<open>The kinds of object that live on the device itself, after the shared cases.\<close>

definition destroy_native ::
  "('b, 'x) slot_ops \<Rightarrow> ('b, 'x) backing_ops \<Rightarrow> ('b, 'x) auth_ops \<Rightarrow> ('b, 'x) object_ops \<Rightarrow> handle \<Rightarrow> slot_id
   \<Rightarrow> handle \<Rightarrow> 'x token_object \<Rightarrow> ('b, 'x, unit) slot_comp" where
  "destroy_native ops cod auth nops session sid h obj =
     (case material obj of
        PivPrivate slot _ _ _ \<Rightarrow> destroy_piv ops cod sid (piv_delete_key nops slot)
      | PivCertificate _ _ _ \<Rightarrow>
          (case obj_id obj of
             [ident] \<Rightarrow>
               (case from_cka_id ident of
                  None \<Rightarrow> sfail (Generic CKR_DEVICE_ERROR)
                | Some slot \<Rightarrow> destroy_piv ops cod sid (piv_delete_certificate nops slot))
           | _ \<Rightarrow> sfail (Generic CKR_DEVICE_ERROR))
      | PivAttestation _ _ _ _ \<Rightarrow> smod (remove_object_handle h)
      | YubiHsmAttestation _ _ _ _ _ \<Rightarrow> smod (remove_object_handle h)
      | PivData object_id _ \<Rightarrow> destroy_piv ops cod sid (piv_delete_data nops object_id)
      | YubiHsm ident object_type _ _ _ _ _ _ _ \<Rightarrow>
          sbind (resolved_objects ops) (\<lambda>objects.
          sthen (require_slot_id sid)
          (sbind (on_backend (yubihsm_destroy_native_object nops sid (unique_id obj))) (\<lambda>detached.
           refresh_with_rebindings ops cod sid
             (case detached of
                None \<Rightarrow> []
              | Some uid \<Rightarrow> map (\<lambda>h. (h, uid)) (public_halves sid ident object_type objects)))))
      | YubiHsmSessionObject native _ \<Rightarrow>
          sbind (get_session session) (\<lambda>s.
          sthen (on_backend (delete_session_object auth (session_slotID s) (session_flags s) native))
          (smod (remove_object_handle h)))
      | _ \<Rightarrow> smod (remove_object_handle h))"

definition destroy_stored ::
  "('b, 'x) slot_ops \<Rightarrow> ('b, 'x) backing_ops \<Rightarrow> ('b, 'x) auth_ops \<Rightarrow> ('b, 'x) object_ops \<Rightarrow> handle \<Rightarrow> slot_id
   \<Rightarrow> handle \<Rightarrow> 'x token_object \<Rightarrow> ('b, 'x, unit) slot_comp" where
  "destroy_stored ops cod auth nops session sid h obj =
     sbind (if is_token obj \<and> (is_software_private (material obj) \<or> is_software_secret (material obj) \<or>
                                is_data_or_certificate (material obj)) then
              sthen (require_slot_id sid) (backend_is (stores_software_token_keys nops))
            else sok False) (\<lambda>stored_here.
     if stored_here then
       sthen (require_slot_id sid)
       (sthen (on_backend (destroy_software_private_object nops (unique_id obj)))
       (refresh_slot_token_objects ops cod sid))
     else
       sbind (sget (is_native_token_object_handle h)) (\<lambda>native.
       sthen (sensure (\<not> (obj_class obj = CKO_PUBLIC_KEY \<and> native \<and> is_public_material (material obj)))
                (Generic CKR_ACTION_PROHIBITED))
       (destroy_native ops cod auth nops session sid h obj)))"

definition oath_credential_of :: "'x key_material \<Rightarrow> oath_credential option" where
  "oath_credential_of m = (case m of OathCredential credential \<Rightarrow> Some credential | _ \<Rightarrow> None)"

definition owned_preview_registration :: "'x key_material \<Rightarrow> 'x option" where
  "owned_preview_registration m =
     (case m of PreviewSignRegistration registration owns \<Rightarrow> if owns then Some registration else None | _ \<Rightarrow> None)"

definition destroy_object ::
  "('b, 'x) slot_ops \<Rightarrow> ('b, 'x) backing_ops \<Rightarrow> ('b, 'x) auth_ops \<Rightarrow> ('b, 'x) object_ops \<Rightarrow> handle \<Rightarrow> handle
   \<Rightarrow> ('b, 'x, unit) slot_comp" where
  "destroy_object ops cod auth nops session h =
     sbind (session_details ops session) (\<lambda>(sid, flags, logged_in).
     sbind (resolve_visible ops h logged_in) (\<lambda>obj.
     sthen (sensure (\<not> (is_token obj \<and> flags AND CKF_RW_SESSION = 0)) (Generic CKR_SESSION_READ_ONLY))
     (sthen (sensure (\<not> destroy_prohibited (material obj)) (Generic CKR_ACTION_PROHIBITED))
     (sthen (if is_token obj then
               sthen (require_slot_id sid)
               (sbind (backend_is (token_mutations_require_login nops)) (\<lambda>required.
                sensure (\<not> (required \<and> \<not> logged_in)) (Generic CKR_USER_NOT_LOGGED_IN)))
             else sok ())
     (case oath_credential_of (material obj) of
        Some credential \<Rightarrow>
          sthen (on_backend (oath_delete_credential nops (oath_name credential)))
          (sthen (smod (remove_object_handle h)) (refresh_slot_token_objects ops cod sid))
      | None \<Rightarrow>
          if is_yubihsm_public_projection obj then
            if is_token obj then
              sthen (require_slot_id sid)
              (sthen (on_backend (yubihsm_destroy_public_projection nops sid (unique_id obj)))
              (refresh_slot_token_objects ops cod sid))
            else smod (remove_object_handle h)
          else
            sbind (destroy_backed_object ops cod h obj) (\<lambda>destroyed.
            if destroyed then sok ()
            else case owned_preview_registration (material obj) of
              Some registration \<Rightarrow>
                sthen (require_slot_id sid)
                (sthen (on_backend (fido_delete_preview_credential nops registration))
                (smod (remove_object_handle h)))
            | None \<Rightarrow> destroy_stored ops cod auth nops session sid h obj))))))"

section \<open>Changing attributes\<close>

definition piv_key_object_handles ::
  "('b, 'x) slot_ops \<Rightarrow> slot_id \<Rightarrow> piv_slot \<Rightarrow> ('b, 'x, (handle \<times> ck_ulong \<times> bool) list) slot_comp" where
  "piv_key_object_handles ops sid slot =
     sbind (resolved_objects ops) (\<lambda>objects.
     sok (List.map_filter (\<lambda>(h, candidate).
       let key_object = obj_slot_id candidate = Some sid \<and> obj_id candidate = [cka_id slot] \<and>
             (obj_class candidate = CKO_PUBLIC_KEY \<or> obj_class candidate = CKO_PRIVATE_KEY);
           attestation = obj_slot_id candidate = Some sid \<and>
             (case material candidate of PivAttestation _ s _ _ \<Rightarrow> s = slot | _ \<Rightarrow> False)
       in if key_object \<or> attestation then Some (h, obj_class candidate, is_token candidate) else None) objects))"

fun yubihsm_template ::
  "ck_attribute list \<Rightarrow> bytes option \<Rightarrow> string option \<Rightarrow> (bytes option \<times> string option) result" where
  "yubihsm_template [] ident label = Inr (ident, label)"
| "yubihsm_template (a # as) ident label =
     (if attr_type a = CKA_ID then
        and_then (read_attribute_value a) (\<lambda>v. yubihsm_template as (Some v) label)
      else if attr_type a = CKA_LABEL then
        and_then (read_text a) (\<lambda>v. yubihsm_template as ident (Some v))
      else Inl (Generic CKR_ATTRIBUTE_READ_ONLY))"

definition set_openpgp_touch_policy ::
  "('b, 'x) slot_ops \<Rightarrow> ('b, 'x) backing_ops \<Rightarrow> ('b, 'x) object_ops \<Rightarrow> slot_id \<Rightarrow> openpgp_key_ref
   \<Rightarrow> ck_attribute list \<Rightarrow> ('b, 'x, unit) slot_comp" where
  "set_openpgp_touch_policy ops cod nops sid key_ref templ =
     (case templ of
        [a] \<Rightarrow>
          sthen (sensure (attr_type a = CKA_YUBICO_TOUCH_POLICY) (Generic CKR_ATTRIBUTE_READ_ONLY))
          (sbind (slift (read_ulong_template_attribute a)) (\<lambda>policy.
           sthen (sensure (1 \<le> policy \<and> policy \<le> 5) (Generic CKR_ATTRIBUTE_VALUE_INVALID))
           (sthen (require_slot_id sid)
           (sthen (on_backend (openpgp_set_touch_policy nops key_ref (ucast policy)))
           (refresh_slot_token_objects ops cod sid)))))
      | _ \<Rightarrow> sfail (Generic CKR_TEMPLATE_INCONSISTENT))"

definition set_yubihsm_attributes ::
  "('b, 'x) slot_ops \<Rightarrow> ('b, 'x) backing_ops \<Rightarrow> ('b, 'x) object_ops \<Rightarrow> slot_id \<Rightarrow> bool \<Rightarrow> 'x token_object
   \<Rightarrow> ck_attribute list \<Rightarrow> ('b, 'x, unit) slot_comp" where
  "set_yubihsm_attributes ops cod nops sid logged_in stored templ =
     (if templ = [] then sok ()
      else
        sbind (slift (yubihsm_template templ None None)) (\<lambda>(ident, label).
        sthen (sensure logged_in (Generic CKR_USER_NOT_LOGGED_IN))
        (sthen (require_slot_id sid)
        (sbind (sattempt (on_backend (yubihsm_set_attributes nops sid (unique_id stored) ident label))) (\<lambda>r.
         sbind (sattempt (refresh_slot_token_objects ops cod sid)) (\<lambda>refresh.
         case r of Inl e \<Rightarrow> sfail e | Inr _ \<Rightarrow> slift refresh))))))"

fun target_rebindings ::
  "'x token_object list \<Rightarrow> piv_slot \<Rightarrow> (handle \<times> ck_ulong) list \<Rightarrow> (handle \<times> string) list result" where
  "target_rebindings objects to [] = Inr []"
| "target_rebindings objects to ((h, cls) # hs) =
     (case find (\<lambda>candidate. obj_id candidate = [cka_id to] \<and> obj_class candidate = cls \<and> is_token candidate) objects of
        None \<Rightarrow> Inl (Generic CKR_DEVICE_ERROR)
      | Some target \<Rightarrow> and_then (target_rebindings objects to hs) (\<lambda>rest. Inr ((h, unique_id target) # rest)))"

text \<open>Giving a PIV private key another identifier moves the key; its handles follow.\<close>

definition move_piv_key ::
  "('b, 'x) slot_ops \<Rightarrow> ('b, 'x) object_ops \<Rightarrow> slot_id \<Rightarrow> piv_slot \<Rightarrow> ck_attribute list \<Rightarrow> ('b, 'x, unit) slot_comp" where
  "move_piv_key ops nops sid from templ =
     sthen (require_so ops sid)
     (case templ of
        [a] \<Rightarrow>
          sthen (sensure (attr_type a = CKA_ID) (Generic CKR_ATTRIBUTE_READ_ONLY))
          (sbind (slift (read_attribute_value a)) (\<lambda>v.
           case v of
             [ident] \<Rightarrow>
               (case from_cka_id ident of
                  None \<Rightarrow> sfail (Generic CKR_ATTRIBUTE_VALUE_INVALID)
                | Some to \<Rightarrow>
                    sthen (sensure (to \<noteq> SlotAttestation) (Generic CKR_ATTRIBUTE_VALUE_INVALID))
                    (sbind (piv_key_object_handles ops sid from) (\<lambda>source.
                     sbind (piv_key_object_handles ops sid to) (\<lambda>destination.
                     sthen (require_slot_id sid)
                     (sthen (on_backend (piv_move_key nops from to))
                     (sthen (smod (fold (\<lambda>(h, _, _). remove_object_handle h)
                               (filter (\<lambda>(_, _, token). \<not> token) (source @ destination))))
                     (sthen (require_slot_id sid)
                     (sbind (on_backend (token_objects ops sid)) (\<lambda>listed.
                      sbind (slift (target_rebindings listed to
                               (map (\<lambda>(h, cls, _). (h, cls)) (filter (\<lambda>(_, _, token). token) source)))) (\<lambda>rebindings.
                      reconcile_with_rebindings sid listed rebindings))))))))))
           | _ \<Rightarrow> sfail (Generic CKR_ATTRIBUTE_VALUE_INVALID)))
      | _ \<Rightarrow> sfail (Generic CKR_TEMPLATE_INCONSISTENT))"

definition set_private_data ::
  "('b, 'x) slot_ops \<Rightarrow> ('b, 'x) backing_ops \<Rightarrow> ('b, 'x) object_ops \<Rightarrow> slot_id \<Rightarrow> handle \<Rightarrow> 'x token_object
   \<Rightarrow> 'x token_object \<Rightarrow> ('b, 'x, unit) slot_comp" where
  "set_private_data ops cod nops sid h stored updated =
     sthen (require_slot_id sid)
     (sbind (on_backend (store_software_private_object nops sid updated)) (\<lambda>replacement.
      sthen (require_slot_id sid)
      (sbind (sattempt (on_backend (destroy_software_private_object nops (unique_id stored)))) (\<lambda>r.
       case r of
         Inl e \<Rightarrow>
           sthen (require_slot_id sid)
           (sthen (signore (on_backend (destroy_software_private_object nops (unique_id replacement)))) (sfail e))
       | Inr _ \<Rightarrow> refresh_with_rebindings ops cod sid [(h, unique_id replacement)]))))"

definition set_plain_attributes ::
  "('b, 'x) slot_ops \<Rightarrow> ('b, 'x) backing_ops \<Rightarrow> ('b, 'x) object_ops \<Rightarrow> slot_id \<Rightarrow> handle \<Rightarrow> 'x token_object
   \<Rightarrow> ck_attribute list \<Rightarrow> ('b, 'x, unit) slot_comp" where
  "set_plain_attributes ops cod nops sid h stored templ =
     (case change_attributes set_attribute_value templ CKR_OK stored of
        (rv, updated) \<Rightarrow>
          if rv \<noteq> CKR_OK then sfail (Generic rv)
          else
            sbind (replace_backed_object ops cod h stored updated) (\<lambda>replaced.
            if replaced then sok ()
            else
              sbind (if is_token stored \<and> is_private stored \<and> is_data_or_certificate (material stored) then
                       sthen (require_slot_id sid) (backend_is (stores_software_token_keys nops))
                     else sok False) (\<lambda>stored_here.
              if stored_here then set_private_data ops cod nops sid h stored updated
              else
                sbind (sget (\<lambda>c. map_of (token_object_handles c) h)) (\<lambda>token_handle.
                sthen (sensure (token_handle = None) (Generic CKR_ATTRIBUTE_READ_ONLY))
                (smod (\<lambda>c. c\<lparr>memory_objects := AList.update h updated (memory_objects c)\<rparr>))))))"

definition openpgp_key_of :: "'x key_material \<Rightarrow> openpgp_key_ref option" where
  "openpgp_key_of m = (case m of OpenPgpPrivate key_ref _ _ _ \<Rightarrow> Some key_ref | _ \<Rightarrow> None)"

definition piv_key_of :: "'x key_material \<Rightarrow> piv_slot option" where
  "piv_key_of m = (case m of PivPrivate slot _ _ _ \<Rightarrow> Some slot | _ \<Rightarrow> None)"

definition api_set_attribute_value ::
  "('b, 'x) slot_ops \<Rightarrow> ('b, 'x) backing_ops \<Rightarrow> ('b, 'x) object_ops \<Rightarrow> handle \<Rightarrow> handle
   \<Rightarrow> ck_attribute list raw_ptr \<Rightarrow> nat \<Rightarrow> ('b, 'x, unit) slot_comp" where
  "api_set_attribute_value ops cod nops session h templ count =
     sbind (slift (from_raw_parts 24 templ count)) (\<lambda>templ.
     sthen (slift (validate_unique_template templ))
     (sbind (session_details ops session) (\<lambda>(sid, flags, logged_in).
      sbind (resolve_visible ops h logged_in) (\<lambda>stored.
      sthen (sensure (\<not> (is_token stored \<and> flags AND CKF_RW_SESSION = 0)) (Generic CKR_SESSION_READ_ONLY))
      (case openpgp_key_of (material stored) of
         Some key_ref \<Rightarrow> set_openpgp_touch_policy ops cod nops sid key_ref templ
       | None \<Rightarrow>
           if is_token stored \<and> yubihsm_native (material stored) \<noteq> None then
             set_yubihsm_attributes ops cod nops sid logged_in stored templ
           else case piv_key_of (material stored) of
             Some from \<Rightarrow> move_piv_key ops nops sid from templ
           | None \<Rightarrow> set_plain_attributes ops cod nops sid h stored templ)))))"

section \<open>Finding objects\<close>

definition refresh_token_objects ::
  "('b, 'x) slot_ops \<Rightarrow> ('b, 'x) backing_ops \<Rightarrow> ('b, 'x) auth_ops \<Rightarrow> ('b, 'x) object_ops \<Rightarrow> slot_id
   \<Rightarrow> ('b, 'x, unit) slot_comp" where
  "refresh_token_objects ops cod auth nops sid =
     sthen (get_present_slot ops sid)
     (sthen (on_backend (backend_refresh auth))
     (sthen (require_slot_id sid)
     (sthen (smod (\<lambda>c. c\<lparr>backend := invalidate_token_objects nops (backend c)\<rparr>))
     (refresh_slot_token_objects ops cod sid))))"

fun read_search :: "ck_attribute list \<Rightarrow> (ck_ulong \<times> bytes) list result" where
  "read_search [] = Inr []"
| "read_search (a # as) =
     and_then (read_attribute_value a) (\<lambda>v. and_then (read_search as) (\<lambda>rest. Inr ((attr_type a, v) # rest)))"

fun object_matches ::
  "('b, 'x) object_ops \<Rightarrow> 'x key_ops \<Rightarrow> handle \<Rightarrow> handle \<Rightarrow> 'x token_object \<Rightarrow> (ck_ulong \<times> bytes) list
   \<Rightarrow> ('b, 'x, bool) slot_comp" where
  "object_matches nops K session h obj [] = sok True"
| "object_matches nops K session h obj ((t, expected) # rest) =
     sbind (object_attribute_value nops K session h obj t) (\<lambda>v.
     if v \<noteq> Some expected then sok False else object_matches nops K session h obj rest)"

fun matching_handles ::
  "('b, 'x) object_ops \<Rightarrow> 'x key_ops \<Rightarrow> handle \<Rightarrow> bool \<Rightarrow> (ck_ulong \<times> bytes) list
   \<Rightarrow> (handle \<times> 'x token_object) list \<Rightarrow> ('b, 'x, handle list) slot_comp" where
  "matching_handles nops K session logged_in query [] = sok []"
| "matching_handles nops K session logged_in query ((h, obj) # objects) =
     (if \<not> is_visible_to obj logged_in then matching_handles nops K session logged_in query objects
      else
        sbind (object_matches nops K session h obj query) (\<lambda>matched.
        sbind (matching_handles nops K session logged_in query objects) (\<lambda>rest.
        sok (if matched then h # rest else rest))))"

definition find_objects_init ::
  "('b, 'x) slot_ops \<Rightarrow> ('b, 'x) backing_ops \<Rightarrow> ('b, 'x) auth_ops \<Rightarrow> ('b, 'x) object_ops \<Rightarrow> 'x key_ops \<Rightarrow> handle
   \<Rightarrow> ck_attribute list raw_ptr \<Rightarrow> nat \<Rightarrow> ('b, 'x, unit) slot_comp" where
  "find_objects_init ops cod auth nops K session templ count =
     sbind (slift (from_raw_parts 24 templ count)) (\<lambda>templ.
     sbind (slift (read_search templ)) (\<lambda>query.
     sbind (session_details ops session) (\<lambda>(sid, _, logged_in).
     sbind (\<lambda>c. (get_session_context session c, c)) (\<lambda>s.
     sthen (sensure (find_operation s = None) (Generic CKR_OPERATION_ACTIVE))
     (sthen (require_slot_id sid)
     (sbind (backend_is (refresh_token_objects_before_find nops)) (\<lambda>refresh.
      sthen (if refresh then
               sthen (require_slot_id sid)
               (sthen (on_backend (backend_refresh auth)) (refresh_slot_token_objects ops cod sid))
             else sok ())
      (sthen (insert_session_objects ops sid session)
      (sbind (resolved_objects ops) (\<lambda>objects.
       sbind (matching_handles nops K session logged_in query objects) (\<lambda>found.
       sbind (\<lambda>c. (get_session_context session c, c)) (\<lambda>_.
       smod (update_session session (\<lambda>s. s\<lparr>find_operation :=
         Some \<lparr>find_objects_list = sort found, find_next = 0\<rparr>\<rparr>))))))))))))))"

text \<open>The handles written to the output buffer; their number is the count returned.  A position
  outside the list is a panic, which the entry point turns into a failure.\<close>

definition find_objects ::
  "handle \<Rightarrow> handle list raw_ptr \<Rightarrow> nat \<Rightarrow> ck_ulong raw_ptr \<Rightarrow> ('b, 'x, handle list) slot_comp" where
  "find_objects session object max_object_count object_count =
     sthen (slift (as_mut object_count))
     (sthen (slift (from_raw_parts 8 object max_object_count))
     (sbind (\<lambda>c. (get_session_context session c, c)) (\<lambda>s.
      case find_operation s of
        None \<Rightarrow> sfail (Generic CKR_OPERATION_NOT_INITIALIZED)
      | Some op \<Rightarrow>
          sthen (sensure (find_next op \<le> length (find_objects_list op)) (Generic CKR_FUNCTION_FAILED))
          (let remaining = drop (find_next op) (find_objects_list op);
               returned = min (length remaining) max_object_count in
           sthen (smod (update_session session (\<lambda>s. s\<lparr>find_operation :=
             Some (op\<lparr>find_next := find_next op + returned\<rparr>)\<rparr>)))
           (sok (take returned remaining))))))"

definition find_objects_final :: "handle \<Rightarrow> ('b, 'x, unit) slot_comp" where
  "find_objects_final session =
     sbind (\<lambda>c. (get_session_context session c, c)) (\<lambda>s.
     sthen (smod (update_session session (\<lambda>s. s\<lparr>find_operation := None\<rparr>)))
     (sensure (find_operation s \<noteq> None) (Generic CKR_OPERATION_NOT_INITIALIZED)))"

end
