(* ===== verification/Object_Invariant.thy ===== *)
theory Object_Invariant
  imports Object_Api Session_Invariant
begin

text \<open>
  The object functions keep the invariant of the slot.  What a backend does when it imports or
  stores an object itself is the interface \<open>object_store\<close>; the common stores of the
  provider meet it.
\<close>

section \<open>Reading\<close>

lemma details_session:
  assumes "session_details ops session c = (Inr d, c')"
  shows "session \<in> fst ` set (sessions c) \<and> c' = c"
  using assms
  by (auto simp: session_details_def get_session_context_def split: option.splits if_splits dest!: map_of_SomeD intro: rev_image_eqI)

text \<open>After its details are read the session is known to be open.\<close>

lemma keeps_after_details:
  assumes "\<And>d S. session \<in> S \<Longrightarrow> keeps (inv_with S) (f d)"
  shows "keeps (inv_with S) (sbind (session_details ops session) f)"
  unfolding keeps_def
proof (intro allI impI, goal_cases)
  case (1 c)
  show ?case
  proof (cases "session_details ops session c")
    case (Pair r c')
    show ?thesis
    proof (cases r)
      case (Inl e)
      with Pair 1 show ?thesis by (auto simp: sbind_def session_details_def)
    next
      case (Inr d)
      with Pair details_session have c: "session \<in> fst ` set (sessions c)" "c' = c" by fastforce+
      then have "inv_with (insert session S) c" using 1 by (simp add: inv_with_def)
      with assms [of "insert session S" d] have "inv_with (insert session S) (snd (f d c))"
        by (simp add: keepsD)
      then have "inv_with S (snd (f d c))" by (simp add: inv_with_def)
      with Pair Inr c show ?thesis by (simp add: sbind_def)
    qed
  qed
qed

lemma keeps_resolve_visible [keeps_intros]: "keeps (inv_with S) (resolve_visible ops h logged_in)"
  unfolding resolve_visible_def by (intro keeps_intros)

lemma keeps_backend_is [keeps_intros]: "keeps P (backend_is Q)"
  by (simp add: backend_is_def keeps_intros)

lemma keeps_value [keeps_intros]: "keeps (inv_with S) (yubihsm_object_value nops session ident ty cell)"
  unfolding yubihsm_object_value_def
  by (rule keeps_sthen, rule keeps_read, (intro keeps_intros)[1], rule keeps_test)

lemma keeps_object_attribute_value [keeps_intros]:
  "keeps (inv_with S) (object_attribute_value nops K session h obj t)"
  unfolding object_attribute_value_def device_attribute_value_def projected_attribute_value_def
  by (intro keeps_intros)

section \<open>Storing\<close>

lemma keeps_persist [keeps_intros]:
  "keeps (inv_with S) (persist_software_private_object ops cod nops sid obj)"
  unfolding persist_software_private_object_def by (intro keeps_intros)

lemma keeps_store_common:
  "keeps (inv_with S) (store_common_data ops cod nops session obj)"
  "keeps (inv_with S) (store_common_token_key ops cod nops session obj)"
  unfolding store_common_data_def store_common_token_key_def
  by (rule keeps_after_details, (intro keeps_intros; assumption)[1])+

text \<open>A backend that imports and stores objects itself keeps the invariant doing so.\<close>

locale object_store =
  fixes nops :: "('b, 'x) object_ops"
  assumes keeps_import [keeps_intros]: "keeps (inv_with S) (slot_create_object nops session templ)"
    and keeps_token_key [keeps_intros]: "keeps (inv_with S) (store_token_key nops session obj)"
    and keeps_data [keeps_intros]: "keeps (inv_with S) (store_data nops session obj)"
begin

lemma keeps_publish_data [keeps_intros]:
  "session \<in> S \<Longrightarrow> keeps (inv_with S) (publish_data_object nops session sid obj)"
  unfolding publish_data_object_def Let_def by (intro keeps_intros)

lemma keeps_publish_secret [keeps_intros]:
  "session \<in> S \<Longrightarrow> keeps (inv_with S) (publish_software_secret_object ops cod nops session sid obj)"
  unfolding publish_software_secret_object_def by (intro keeps_intros)

lemma keeps_create_object [keeps_intros]:
  "keeps (inv_with S) (create_object ops cod nops K session templ count object)"
  unfolding create_object_def Let_def by (intro keeps_intros keeps_after_details)

lemma keeps_copy_object [keeps_intros]:
  "keeps (inv_with S) (copy_object ops cod nops K session h templ count new_object)"
  unfolding copy_object_def Let_def by (intro keeps_intros keeps_after_details)

end

text \<open>The methods a backend inherits when it imports and stores nothing itself.\<close>

definition common_stores ::
  "('b, 'x) slot_ops \<Rightarrow> ('b, 'x) backing_ops \<Rightarrow> ('b, 'x) object_ops \<Rightarrow> ('b, 'x) object_ops" where
  "common_stores ops cod nops =
     nops\<lparr>slot_create_object := \<lambda>_ _. sok None, store_token_key := store_common_token_key ops cod nops,
       store_data := store_common_data ops cod nops\<rparr>"

interpretation common: object_store "common_stores ops cod nops" for ops cod nops
  by unfold_locales (simp_all add: common_stores_def keeps_store_common, intro keeps_intros)

section \<open>Destroying\<close>

lemma keeps_require_so [keeps_intros]: "keeps P (require_so ops sid)"
  unfolding require_so_def by (intro keeps_intros)

lemma keeps_destroy_piv [keeps_intros]: "keeps (inv_with S) (destroy_piv ops cod sid delete)"
  unfolding destroy_piv_def by (intro keeps_intros)

lemma keeps_destroy_native [keeps_intros]:
  "keeps (inv_with S) (destroy_native ops cod auth nops session sid h obj)"
  unfolding destroy_native_def
  by (split key_material.split, intro conjI allI impI keeps_intros)

lemma keeps_destroy_stored [keeps_intros]:
  "keeps (inv_with S) (destroy_stored ops cod auth nops session sid h obj)"
  unfolding destroy_stored_def by (intro keeps_intros)

lemma keeps_destroy_object [keeps_intros]:
  "keeps (inv_with S) (destroy_object ops cod auth nops session h)"
  unfolding destroy_object_def
  by (intro keeps_intros)

section \<open>Changing attributes\<close>

lemma keeps_device_changes [keeps_intros]:
  "keeps (inv_with S) (set_openpgp_touch_policy ops cod nops sid key_ref templ)"
  "keeps (inv_with S) (set_yubihsm_attributes ops cod nops sid logged_in stored templ)"
  "keeps (inv_with S) (set_private_data ops cod nops sid h stored updated)"
  unfolding set_openpgp_touch_policy_def set_yubihsm_attributes_def set_private_data_def
  by (intro keeps_intros)+

lemma inv_remove_some:
  "inv_with S c \<Longrightarrow> inv_with S (fold (\<lambda>(h, _, _). remove_object_handle h) hs c)"
  by (induction hs arbitrary: c) (auto intro: inv_remove)

lemma keeps_move_piv_key [keeps_intros]: "keeps (inv_with S) (move_piv_key ops nops sid from templ)"
  unfolding move_piv_key_def piv_key_object_handles_def
  by (intro keeps_intros keeps_smod inv_remove_some)

text \<open>Objects behind token handles are token objects.\<close>

definition tokens_resolve :: "('b, 'x) slot_ops \<Rightarrow> ('b, 'x) slot_context \<Rightarrow> bool" where
  "tokens_resolve ops c \<longleftrightarrow>
     (\<forall>h obj c'. h \<in> fst ` set (token_object_handles c) \<longrightarrow> resolve_object ops h c = (Inr (Some obj), c') \<longrightarrow> is_token obj)"

lemma set_attribute_fields:
  assumes "set_attribute_value a obj = Inr obj'"
  shows "is_token obj' = is_token obj \<and> creator_session obj' = creator_session obj"
  using assms
  by (auto simp: set_attribute_value_def set_data_attribute_def Let_def
      split: option.splits if_splits key_material.splits)

lemma changed_fields:
  "change_attributes set_attribute_value templ rv obj = (rv', obj') \<Longrightarrow>
   is_token obj' = is_token obj \<and> creator_session obj' = creator_session obj"
  by (induction templ arbitrary: rv obj) (auto dest: set_attribute_fields split: sum.splits)

text \<open>What resolving a handle says about the tables.\<close>

definition found_at :: "handle \<Rightarrow> 'x token_object \<Rightarrow> ('b, 'x) slot_context \<Rightarrow> bool" where
  "found_at h obj c \<longleftrightarrow>
     map_of (memory_objects c) h = Some obj \<or>
     map_of (memory_objects c) h = None \<and> h \<in> fst ` set (token_object_handles c) \<and> is_token obj"

lemma resolved_found:
  assumes "resolve_object ops h c = (Inr (Some obj), c')" "tokens_resolve ops c"
  shows "\<exists>b. c' = c\<lparr>backend := b\<rparr> \<and> found_at h obj c'"
proof (cases "map_of (memory_objects c) h")
  case (Some obj')
  with assms(1) have "c' = c\<lparr>backend := backend c\<rparr>" "found_at h obj c'"
    by (simp_all add: resolve_object_def found_at_def)
  then show ?thesis by blast
next
  case None
  then obtain uid where uid: "map_of (token_object_handles c) h = Some uid"
    using assms(1) by (auto simp: resolve_object_def split: option.splits)
  then have h: "h \<in> fst ` set (token_object_handles c)" by (metis domI dom_map_of_conv_image_fst)
  then have tok: "is_token obj" using assms by (simp add: tokens_resolve_def)
  obtain b where b: "c' = c\<lparr>backend := b\<rparr>"
    using assms(1) None uid
    by (cases "map_of (backed_token_objects c) uid")
      (auto simp: resolve_object_def on_backend_def intro: that [of "backend c"] that split: prod.splits)
  with None h tok show ?thesis by (intro exI [of _ b]) (simp add: found_at_def)
qed

lemma replace_outcome:
  assumes "replace_backed_object ops cod h previous replacement c = (Inr False, c')"
  shows "c' = c"
  using assms by (auto simp: replace_backed_object_def sbind_ok sthen_def Let_def split: option.splits)

lemma set_plain_inv:
  assumes inv: "inv_with S c" and found: "found_at h stored c"
  shows "inv_with S (snd (set_plain_attributes ops cod nops sid h stored templ c))"
proof -
  obtain rv updated where ch: "change_attributes set_attribute_value templ CKR_OK stored = (rv, updated)"
    by fastforce
  note fields = changed_fields [OF ch]
  let ?S = "S \<union> {s. map_of (memory_objects c) h = Some stored \<and> creator_session stored = Some s}"
  have inv': "inv_with ?S c"
    using inv inv_creator [OF inv] by (force simp: inv_with_def dest: map_of_SomeD)
  have rep: "inv_with ?S (snd (replace_backed_object ops cod h stored updated c))"
    by (rule replace_backed_object_inv [OF inv'])
      (use found fields in \<open>auto simp: found_at_def dest: map_of_SomeD intro: rev_image_eqI\<close>)
  have put: "inv_with ?S (c\<lparr>memory_objects := AList.update h updated (memory_objects c)\<rparr>)"
    if "map_of (token_object_handles c) h = None"
  proof (rule inv_put_memory [OF inv'])
    have mem: "map_of (memory_objects c) h = Some stored"
      using found that by (auto simp: found_at_def map_of_eq_None_iff)
    then show "h \<in> fst ` set (memory_objects c)" by (force dest: map_of_SomeD)
    show "s \<in> ?S" if "creator_session updated = Some s" for s
      using that mem fields by simp
  qed
  have data: "inv_with ?S (snd (set_private_data ops cod nops sid h stored updated c))"
    by (rule keepsD [where P = "inv_with ?S", OF _ inv']) (intro keeps_intros)
  have "inv_with ?S (snd (set_plain_attributes ops cod nops sid h stored templ c))"
  proof (cases "replace_backed_object ops cod h stored updated c")
    case (Pair r c1)
    show ?thesis
    proof (cases "r = Inr False")
      case True
      with Pair replace_outcome have "c1 = c" by blast
      with True Pair show ?thesis
        using inv' put data
        by (auto simp: set_plain_attributes_def ch sbind_def sthen_def backend_is_def require_slot_id_def sget_def
            sensure_def sfail_def sok_def smod_def split: sum.splits prod.splits)
    next
      case False
      then show ?thesis
        using rep inv' Pair
        by (auto simp: set_plain_attributes_def ch sbind_def sfail_def sok_def split: sum.splits)
    qed
  qed
  then show ?thesis by (auto simp: inv_with_def)
qed

lemma resolve_visible_ok:
  "resolve_visible ops h li c = (Inr obj, c') \<longleftrightarrow>
   resolve_object ops h c = (Inr (Some obj), c') \<and> is_visible_to obj li"
  by (auto simp: resolve_visible_def sbind_ok split: option.splits if_splits)

text \<open>\<open>C_SetAttributeValue\<close> once the object is found.\<close>

lemma set_found_inv:
  assumes "inv_with S c" "found_at h stored c"
  shows "inv_with S (snd ((case openpgp_key_of (material stored) of
      Some key_ref \<Rightarrow> set_openpgp_touch_policy ops cod nops sid key_ref attrs
    | None \<Rightarrow>
        if is_token stored \<and> yubihsm_native (material stored) \<noteq> None then
          set_yubihsm_attributes ops cod nops sid logged_in stored attrs
        else case piv_key_of (material stored) of
          Some from \<Rightarrow> move_piv_key ops nops sid from attrs
        | None \<Rightarrow> set_plain_attributes ops cod nops sid h stored attrs) c))"
  using set_plain_inv [OF assms] assms(1)
  by (auto intro: keepsD keeps_device_changes keeps_move_piv_key split: option.splits)

lemma set_attributes_inv:
  assumes inv: "inv_with S c" and tokens: "tokens_resolve ops c"
  shows "inv_with S (snd (api_set_attribute_value ops cod nops session h templ count c))"
proof -
  have found: "inv_with S c' \<and> found_at h obj c'" if "resolve_visible ops h li c = (Inr obj, c')" for obj c' li
    using resolved_found [OF _ tokens] inv that by (fastforce simp: resolve_visible_ok)
  have failed: "inv_with S c'" if "resolve_visible ops h li c = (r, c')" for r c' li
    using keepsD [OF keeps_resolve_visible inv, of ops h li] that by simp
  have details: "snd (session_details ops session c) = c" by (simp add: session_details_def)
  define dispatch where "dispatch sid logged_in stored attrs =
    (case openpgp_key_of (material stored) of
      Some key_ref \<Rightarrow> set_openpgp_touch_policy ops cod nops sid key_ref attrs
    | None \<Rightarrow>
        if is_token stored \<and> yubihsm_native (material stored) \<noteq> None then
          set_yubihsm_attributes ops cod nops sid logged_in stored attrs
        else case piv_key_of (material stored) of
          Some from \<Rightarrow> move_piv_key ops nops sid from attrs
        | None \<Rightarrow> set_plain_attributes ops cod nops sid h stored attrs)" for sid logged_in stored attrs
  have final: "inv_with S (snd (dispatch sid li obj attrs c'))"
    if "resolve_visible ops h li' c = (Inr obj, c')" for sid li obj attrs c' li'
    unfolding dispatch_def using found [OF that] by (blast intro: set_found_inv)
  show ?thesis
    unfolding api_set_attribute_value_def dispatch_def [symmetric]
    using inv details
    by (auto simp: sbind_def sthen_def slift_def sensure_def sok_def sfail_def
        intro: failed final split: sum.splits prod.splits)
qed

section \<open>Finding objects\<close>

text \<open>Reading attributes changes at most the state of the backend.\<close>

definition same_but_backend :: "('b, 'x) slot_context \<Rightarrow> ('b, 'x) slot_context \<Rightarrow> bool" where
  "same_but_backend c0 c \<longleftrightarrow> (\<exists>b. c = c0\<lparr>backend := b\<rparr>)"

lemma same_refl [simp]: "same_but_backend c c"
  unfolding same_but_backend_def by (rule exI [of _ "backend c"]) simp

lemma same_backend_steps [keeps_intros]:
  "keeps (same_but_backend c0) (on_backend m)"
  "keeps (same_but_backend c0) (smod (\<lambda>c. c\<lparr>backend := f c\<rparr>))"
  by (auto simp: keeps_def same_but_backend_def on_backend_def smod_def split: prod.splits)

lemma same_value [keeps_intros]: "keeps (same_but_backend c0) (yubihsm_object_value nops session ident ty cell)"
  unfolding yubihsm_object_value_def
  by (rule keeps_sthen, rule keeps_read, (intro keeps_intros)[1], rule keeps_test)

lemma same_attribute_value [keeps_intros]:
  "keeps (same_but_backend c0) (object_attribute_value nops K session h obj t)"
  unfolding object_attribute_value_def device_attribute_value_def projected_attribute_value_def
  by (intro keeps_intros)

lemma same_object_matches [keeps_intros]:
  "keeps (same_but_backend c0) (object_matches nops K session h obj query)"
  by (induction query) (auto intro!: keeps_intros)

lemma same_matching_handles [keeps_intros]:
  "keeps (same_but_backend c0) (matching_handles nops K session li query objects)"
  by (induction objects) (auto intro!: keeps_intros)

lemma keeps_resolved_same [keeps_intros]: "keeps (same_but_backend c0) (resolved_objects ops)"
  unfolding resolved_objects_def Let_def by (rule keeps_read) (intro keeps_intros)

lemma matching_among:
  "matching_handles nops K session li query objects c = (Inr found, c') \<Longrightarrow>
   set found \<subseteq> fst ` set objects \<and> (distinct (map fst objects) \<longrightarrow> distinct found)"
  by (induction objects arbitrary: c found c') (auto simp: sbind_ok split: if_splits, blast+)

lemma resolved_keys:
  assumes "inv_with S c" "resolved_objects ops c = (Inr objects, c')"
  shows "distinct (map fst objects)" "set (map fst objects) \<subseteq> live c"
proof -
  obtain ids where objects: "objects = memory_objects c @
      List.map_filter (\<lambda>(h, uid). map_option (Pair h) (map_of ids uid)) (token_object_handles c)"
    using assms(2) by (auto simp: resolved_objects_def sbind_ok Let_def)
  have keys: "map fst (List.map_filter (\<lambda>(h, uid). map_option (Pair h) (map_of ids uid)) xs) =
      map fst (filter (\<lambda>(h, uid). map_of ids uid \<noteq> None) xs)" for xs :: "(handle \<times> string) list"
    by (induction xs) (auto simp: List.map_filter_def)
  have k: "map fst objects = map_keys (memory_objects c) @
      map fst (filter (\<lambda>(h, uid). map_of ids uid \<noteq> None) (token_object_handles c))"
    by (simp only: objects map_append keys)
  show "distinct (map fst objects)"
    unfolding k using inv_tables(1,2,3) [OF assms(1)]
    by (fastforce simp: distinct_map_filter)
  show "set (map fst objects) \<subseteq> live c"
    unfolding k by (auto simp: live_def)
qed

lemma live_same: "same_but_backend c c' \<Longrightarrow> live c' = live c"
  by (auto simp: same_but_backend_def)

lemma inv_same: "same_but_backend c c' \<Longrightarrow> inv_with S c' = inv_with S c"
  by (auto simp: same_but_backend_def)

lemma start_search_inv:
  assumes "inv_with S c" "distinct found" "set found \<subseteq> live c"
  shows "inv_with S (update_session session (\<lambda>s. s\<lparr>find_operation :=
           Some \<lparr>find_objects_list = sort found, find_next = 0\<rparr>\<rparr>) c)"
  by (rule inv_update_session [OF assms(1)]) (use assms(2,3) in \<open>simp_all add: find_ok_def\<close>)

lemma keeps_search:
  "keeps (inv_with S) (sbind (resolved_objects ops) (\<lambda>objects.
     sbind (matching_handles nops K session li query objects) (\<lambda>found.
     sbind (\<lambda>c. (get_session_context session c, c)) (\<lambda>_.
     smod (update_session session (\<lambda>s. s\<lparr>find_operation :=
       Some \<lparr>find_objects_list = sort found, find_next = 0\<rparr>\<rparr>))))))" (is "keeps _ ?m")
proof -
  have "inv_with S (snd (?m c))" if inv: "inv_with S c" for c
  proof (cases "resolved_objects ops c")
    case (Pair r c1)
    have c1: "same_but_backend c c1"
      using keepsD [OF keeps_resolved_same [of c ops] same_refl] Pair by simp
    show ?thesis
    proof (cases r)
      case (Inl e)
      with Pair c1 inv show ?thesis by (simp add: sbind_def inv_same)
    next
      case (Inr objects)
      note keys = resolved_keys [OF inv, of ops objects c1] Pair Inr
      obtain r2 c2 where m: "matching_handles nops K session li query objects c1 = (r2, c2)" by fastforce
      have "same_but_backend c1 c2"
        using keepsD [OF same_matching_handles [of c1] same_refl, of nops K session li query objects] m by simp
      with c1 inv have c2: "inv_with S c2" "live c2 = live c" by (simp_all add: inv_same live_same)
      show ?thesis
      proof (cases r2)
        case (Inl e)
        with Pair Inr m c2 show ?thesis by (simp add: sbind_def)
      next
        case found: (Inr found)
        have "distinct found" "set found \<subseteq> live c2"
          using matching_among [of nops K session li query objects c1 found c2] keys m found c2(2) by auto
        then show ?thesis
          using Pair Inr m found c2(1) start_search_inv [OF c2(1), of found session]
          by (simp add: sbind_def smod_def split: sum.splits)
      qed
    qed
  qed
  then show ?thesis by (simp add: keeps_def)
qed

lemma keeps_get_context [keeps_intros]: "keeps P (\<lambda>c. (get_session_context session c, c))"
  by (rule keeps_test)

lemma keeps_find_objects_init [keeps_intros]:
  "keeps (inv_with S) (find_objects_init ops cod auth nops K session templ count)"
  unfolding find_objects_init_def
  by (intro keeps_pure keeps_sbind [of _ "slift _"] keeps_after_details keeps_search
      keeps_sbind [of _ "\<lambda>c. (get_session_context _ c, c)"] keeps_sthen keeps_sbind [of _ "backend_is _"]
      keeps_case_prod keeps_intros)

lemma keeps_find_objects [keeps_intros]:
  "keeps (inv_with S) (find_objects session object max_count object_count :: ('b, 'x, handle list) slot_comp)"
proof -
  have step: "inv_with S (update_session session (\<lambda>s. s\<lparr>find_operation := Some (op\<lparr>find_next := find_next op + n\<rparr>)\<rparr>) c)"
    if inv: "inv_with S c" and s: "get_session_context session c = Inr s" and op: "find_operation s = Some op"
      and n: "find_next op + n \<le> length (find_objects_list op)" for c s op n
  proof -
    let ?f = "\<lambda>s. s\<lparr>find_operation := Some (op\<lparr>find_next := find_next op + n\<rparr>)\<rparr>"
    have "map_of (sessions c) session = Some s"
      using s by (auto simp: get_session_context_def split: option.splits if_splits)
    then have "update_session session ?f c = update_session session (\<lambda>s'. if s' = s then ?f s else s') c"
      by (simp add: update_session_def)
    also have "inv_with S \<dots>"
      by (rule inv_update_session [OF inv]) (use n op in \<open>auto simp: find_ok_def split: if_splits\<close>)
    finally show ?thesis .
  qed
  have "inv_with S (snd (find_objects session object max_count object_count c))" if "inv_with S c" for c :: "('b, 'x) slot_context"
    using that
    by (auto simp: find_objects_def sthen_def sbind_def slift_def sensure_def sok_def sfail_def smod_def Let_def
        intro!: step split: sum.splits option.splits)
  then show ?thesis by (simp add: keeps_def)
qed

lemma keeps_find_objects_final [keeps_intros]: "keeps (inv_with S) (find_objects_final session)"
  unfolding find_objects_final_def
  by (intro keeps_intros keeps_update_session) (simp_all add: find_ok_def)

lemma keeps_refresh_token_objects [keeps_intros]:
  "keeps (inv_with S) (refresh_token_objects ops cod auth nops sid)"
  unfolding refresh_token_objects_def by (intro keeps_intros)

lemma keeps_get_object_size [keeps_intros]: "keeps (inv_with S) (get_object_size ops K session h psize)"
  unfolding get_object_size_def by (intro keeps_intros)

lemma keeps_get_one_attribute:
  "keeps (inv_with S) (get_one_attribute nops K session h obj a)"
  unfolding get_one_attribute_def Let_def by (intro keeps_intros)

lemma get_attributes_inv:
  "inv_with S c \<Longrightarrow> inv_with S (snd (snd (get_attributes nops K session h obj as rv c)))"
proof (induction as arbitrary: rv c)
  case (Cons a as)
  have "inv_with S (snd (get_one_attribute nops K session h obj a c))"
    by (rule keepsD [OF keeps_get_one_attribute Cons.prems])
  moreover obtain r c1 where one: "get_one_attribute nops K session h obj a c = (r, c1)" by fastforce
  ultimately have c1: "inv_with S c1" by simp
  show ?case
  proof (cases r)
    case (Inr p)
    obtain a' e where p: "p = (a', e)" by fastforce
    let ?rv = "case e of None \<Rightarrow> rv | Some e \<Rightarrow> combine_attribute_rv rv e"
    show ?thesis
      using Cons.IH [OF c1, of ?rv] one Inr p by (auto split: prod.splits)
  qed (simp add: one c1)
qed simp

lemma get_attribute_value_inv:
  assumes "inv_with S c"
  shows "inv_with S (snd (snd (api_get_attribute_value ops nops K session h templ count c)))"
proof -
  let ?m = "sbind (slift (from_raw_parts 24 templ count)) (\<lambda>templ.
    sbind (session_details ops session) (\<lambda>(_, _, logged_in).
    sbind (resolve_visible ops h logged_in) (\<lambda>obj. sok (templ, obj))))"
  have "keeps (inv_with S) ?m" by (intro keeps_intros)
  moreover obtain r c1 where run: "?m c = (r, c1)" by fastforce
  ultimately have c1: "inv_with S c1" using keepsD [where P = "inv_with S" and m = ?m, OF _ assms] by simp
  show ?thesis
  proof (cases r)
    case (Inr p)
    obtain as obj where p: "p = (as, obj)" by fastforce
    show ?thesis
      using get_attributes_inv [OF c1, of nops K session h obj as CKR_OK] run Inr p
      by (auto simp: api_get_attribute_value_def split: prod.splits sum.splits)
  qed (simp add: api_get_attribute_value_def run c1)
qed

end
