(* ===== verification/Object_Search.thy ===== *)
theory Object_Search
  imports Object_Invariant
begin

text \<open>
  Searches (\<open>C_FindObjectsInit\<close>, \<open>C_FindObjects\<close>): what a search lists, and that fetching it piece by
  piece while objects are destroyed returns every object that stays exactly once.
\<close>

section \<open>What a search lists\<close>

text \<open>The value of an attribute of an object that needs nothing from the device.\<close>

definition effective_value ::
  "('b, 'x) object_ops \<Rightarrow> 'x key_ops \<Rightarrow> ('b, 'x) slot_context \<Rightarrow> handle \<Rightarrow> 'x token_object \<Rightarrow> ck_ulong \<Rightarrow> bytes option" where
  "effective_value nops K c h obj t =
     (if t = CKA_PKCS11RS_URI then Some (object_uri nops obj (backend c))
      else if t = CKA_ALLOWED_MECHANISMS \<and> is_key_object obj then
        Some (concat (map u64_to_le (allowed_key_mechanisms nops obj (backend c))))
      else if attribute_is_sensitive obj t then None
      else if t = CKA_COPYABLE \<and> is_token obj \<and> \<not> token_objects_copyable nops (backend c) then
        Some (bool_attribute False)
      else if obj_class obj = CKO_PUBLIC_KEY \<and> is_native_token_object_handle h c \<and> is_public_material (material obj) \<and>
          t \<in> set [CKA_MODIFIABLE, CKA_COPYABLE, CKA_DESTROYABLE] then Some (bool_attribute False)
      else attribute_value K obj t)"

definition off_device :: "'x token_object \<Rightarrow> bool" where
  "off_device obj \<longleftrightarrow> yubihsm_native (material obj) = None \<and> yubihsm_session_native (material obj) = None"

lemma effective_value_read:
  "off_device obj \<Longrightarrow> object_attribute_value nops K session h obj t c = (Inr (effective_value nops K c h obj t), c)"
  by (simp add: off_device_def object_attribute_value_def device_attribute_value_def projected_attribute_value_def
      effective_value_def sbind_def sget_def sok_def)

definition satisfies ::
  "('b, 'x) object_ops \<Rightarrow> 'x key_ops \<Rightarrow> ('b, 'x) slot_context \<Rightarrow> (ck_ulong \<times> bytes) list
   \<Rightarrow> handle \<times> 'x token_object \<Rightarrow> bool" where
  "satisfies nops K c query = (\<lambda>(h, obj). \<forall>(t, v) \<in> set query. effective_value nops K c h obj t = Some v)"

lemma object_matches_read:
  "off_device obj \<Longrightarrow>
   object_matches nops K session h obj query c = (Inr (satisfies nops K c query (h, obj)), c)"
  by (induction query) (auto simp: satisfies_def sbind_def effective_value_read sok_def)

lemma matching_handles_read:
  "(\<And>p. p \<in> set objects \<Longrightarrow> off_device (snd p)) \<Longrightarrow>
   matching_handles nops K session li query objects c =
     (Inr (map fst (filter (\<lambda>p. is_visible_to (snd p) li \<and> satisfies nops K c query p) objects)), c)"
proof (induction objects)
  case (Cons p objects)
  obtain h obj where p: "p = (h, obj)" by fastforce
  have "off_device obj" using Cons.prems [of p] p by simp
  with Cons p show ?case
    by (simp add: sbind_def sok_def object_matches_read)
qed (simp add: sok_def)

lemma matching_visible:
  "matching_handles nops K session li query objects c = (Inr found, c') \<Longrightarrow> h \<in> set found \<Longrightarrow>
   \<exists>obj. (h, obj) \<in> set objects \<and> is_visible_to obj li"
  by (induction objects arbitrary: c found c') (fastforce simp: sbind_ok split: if_splits)+

definition search_of :: "handle \<Rightarrow> ('b, 'x) slot_context \<Rightarrow> find_operation option" where
  "search_of session c = (case map_of (sessions c) session of None \<Rightarrow> None | Some s \<Rightarrow> find_operation s)"

lemma search_of_update:
  "map_of (sessions c) session = Some s \<Longrightarrow>
   search_of session (update_session session (\<lambda>s. s\<lparr>find_operation := f\<rparr>) c) = f"
  by (simp add: search_of_def update_session_def update_conv')

lemma resolved_same:
  "resolved_objects ops c = (r, c') \<Longrightarrow> same_but_backend c c'"
  using keepsD [OF keeps_resolved_same [of c ops] same_refl] by simp

lemma reads_ok:
  "session_details ops session c = (Inr d, c') \<longleftrightarrow> fst (session_details ops session c) = Inr d \<and> c' = c"
  "require_slot_id sid c = (Inr u, c') \<longleftrightarrow> sid = ctx_slot_id c \<and> c' = c"
  "backend_is P c = (Inr b, c') \<longleftrightarrow> b = P (backend c) \<and> c' = c"
  by (auto simp: session_details_def require_slot_id_def backend_is_def sget_def)

lemma smod_ok: "smod f c = (Inr u, c') \<longleftrightarrow> c' = f c"
  by (auto simp: smod_def)


section \<open>Fetching the results\<close>

text \<open>A search in progress: the caller fetches results while other calls destroy objects.\<close>

datatype search_event = Next nat | Gone handle

fun search_run :: "handle \<Rightarrow> search_event list \<Rightarrow> ('b, 'x, handle list) slot_comp" where
  "search_run session [] = sok []"
| "search_run session (Next n # evs) =
     sbind (find_objects session (Pointing (replicate n 0)) n (Pointing 0)) (\<lambda>returned.
     sbind (search_run session evs) (\<lambda>rest. sok (returned @ rest)))"
| "search_run session (Gone h # evs) = sthen (smod (remove_object_handle h)) (search_run session evs)"

text \<open>The same on the handles still to come: what is returned and what remains.\<close>

fun search_spec :: "search_event list \<Rightarrow> handle list \<Rightarrow> handle list \<times> handle list" where
  "search_spec [] pending = ([], pending)"
| "search_spec (Next n # evs) pending =
     (case search_spec evs (drop n pending) of (returned, rest) \<Rightarrow> (take n pending @ returned, rest))"
| "search_spec (Gone h # evs) pending = search_spec evs (filter (\<lambda>x. x \<noteq> h) pending)"

definition gone :: "search_event list \<Rightarrow> handle set" where
  "gone evs = {h. Gone h \<in> set evs}"

fun asked :: "search_event list \<Rightarrow> nat" where
  "asked [] = 0"
| "asked (Next n # evs) = n + asked evs"
| "asked (Gone h # evs) = asked evs"

lemma gone_simps [simp]:
  "gone [] = {}" "gone (Next n # evs) = gone evs" "gone (Gone h # evs) = insert h (gone evs)"
  by (auto simp: gone_def)

lemma search_spec_correct:
  "search_spec evs pending = (returned, rest) \<Longrightarrow> distinct pending \<Longrightarrow>
    distinct returned \<and> set returned \<subseteq> set pending \<and> set rest \<subseteq> set pending \<and>
    filter (\<lambda>h. h \<notin> gone evs) returned @ rest = filter (\<lambda>h. h \<notin> gone evs) pending \<and>
    length rest \<le> length pending - asked evs"
proof (induction evs pending arbitrary: returned rest rule: search_spec.induct)
  case (1 pending)
  then show ?case by auto
next
  case (2 n evs pending)
  obtain more where more: "search_spec evs (drop n pending) = (more, rest)" "returned = take n pending @ more"
    using 2(2) by (auto split: prod.splits)
  note IH = 2(1) [OF more(1) distinct_drop [OF 2(3)]]
  have "set (take n pending) \<inter> set (drop n pending) = {}"
    using 2(3) by (metis append_take_drop_id distinct_append)
  moreover have "filter (\<lambda>h. h \<notin> gone evs) (take n pending) @ filter (\<lambda>h. h \<notin> gone evs) (drop n pending) =
      filter (\<lambda>h. h \<notin> gone evs) pending"
    by (metis append_take_drop_id filter_append)
  ultimately show ?case
    using IH more(2) 2(3) set_take_subset [of n pending] set_drop_subset [of n pending] by auto
next
  case (3 h evs pending)
  note IH = 3(1) [of returned rest]
  have IH: "distinct returned" "set returned \<subseteq> set pending - {h}" "set rest \<subseteq> set pending - {h}"
    "filter (\<lambda>x. x \<notin> gone evs) returned @ rest = filter (\<lambda>x. x \<notin> gone evs) (filter (\<lambda>x. x \<noteq> h) pending)"
    "length rest \<le> length (filter (\<lambda>x. x \<noteq> h) pending) - asked evs"
    using 3 by auto
  have "filter (\<lambda>x. x \<notin> gone (Gone h # evs)) returned = filter (\<lambda>x. x \<notin> gone evs) returned"
    using IH(2) by (intro filter_cong) auto
  moreover have "length rest \<le> length pending - asked evs"
    using IH(5) by (meson diff_le_mono le_trans length_filter_le)
  ultimately show ?case
    using IH by (auto simp: conj_commute)
qed

text \<open>One call of \<open>C_FindObjects\<close>.\<close>

lemma find_objects_run:
  assumes "get_session_context session c = Inr s" "find_operation s = Some op"
    and "find_next op \<le> length (find_objects_list op)" "valid_raw_slice_length 8 n"
  shows "\<exists>c' op'. find_objects session (Pointing (replicate n 0)) n (Pointing 0) c =
      (Inr (take n (drop (find_next op) (find_objects_list op))), c') \<and>
    get_session_context session c' = Inr (s\<lparr>find_operation := Some op'\<rparr>) \<and>
    find_objects_list op' = find_objects_list op \<and> find_next op' \<le> length (find_objects_list op) \<and>
    drop (find_next op') (find_objects_list op) = drop n (drop (find_next op) (find_objects_list op))"
proof -
  let ?rem = "drop (find_next op) (find_objects_list op)"
  let ?op = "op\<lparr>find_next := find_next op + min (length ?rem) n\<rparr>"
  have s: "map_of (sessions c) session = Some s" "session_slotID s = ctx_slot_id c"
    using assms(1) by (auto simp: get_session_context_def split: option.splits if_splits)
  have "get_session_context session (update_session session (\<lambda>s. s\<lparr>find_operation := Some ?op\<rparr>) c) =
      Inr (s\<lparr>find_operation := Some ?op\<rparr>)"
    using s by (simp add: get_session_context_def update_session_def update_conv')
  moreover have "find_objects session (Pointing (replicate n 0)) n (Pointing 0) c =
      (Inr (take n ?rem), update_session session (\<lambda>s. s\<lparr>find_operation := Some ?op\<rparr>) c)"
    using assms by (simp add: find_objects_def from_raw_parts_def sthen_def sbind_def slift_def sensure_def sok_def
        smod_def Let_def min_def)
  moreover have "drop (find_next ?op) (find_objects_list op) = drop n ?rem"
    using assms(3) by (cases "n \<le> length ?rem") (simp_all add: add.commute)
  ultimately show ?thesis using assms(3)
    by (intro exI [of _ "update_session session (\<lambda>s. s\<lparr>find_operation := Some ?op\<rparr>) c"] exI [of _ ?op]) simp
qed

lemma remove_run:
  assumes "get_session_context session c = Inr s"
  shows "get_session_context session (remove_object_handle h c) = Inr (drop_from_find h s)"
  using assms
  by (auto simp: get_session_context_def map_of_map split: option.splits if_splits)

lemma dropped_pending:
  assumes "find_operation s = Some op" "find_next op \<le> length (find_objects_list op)"
  shows "\<exists>op'. find_operation (drop_from_find h s) = Some op' \<and>
    find_next op' \<le> length (find_objects_list op') \<and>
    drop (find_next op') (find_objects_list op') =
      filter (\<lambda>x. x \<noteq> h) (drop (find_next op) (find_objects_list op))"
proof -
  let ?xs = "find_objects_list op" and ?n = "find_next op"
  let ?m = "?n - length (filter (\<lambda>x. x = h) (take ?n ?xs))"
  have split: "filter (\<lambda>x. x \<noteq> h) ?xs = filter (\<lambda>x. x \<noteq> h) (take ?n ?xs) @ filter (\<lambda>x. x \<noteq> h) (drop ?n ?xs)"
    by (metis append_take_drop_id filter_append)
  have m: "?m = length (filter (\<lambda>x. x \<noteq> h) (take ?n ?xs))"
    using sum_length_filter_compl [of "\<lambda>x. x = h" "take ?n ?xs"] assms(2) by simp
  have "?m \<le> length (filter (\<lambda>x. x \<noteq> h) ?xs)" unfolding m by (subst split) simp
  then show ?thesis
    using assms drop_keeps_position(2) [OF assms(2), of h]
    by (simp add: drop_from_find_def Let_def min_absorb1)
qed

lemma search_refines:
  assumes "get_session_context session c = Inr s" "find_operation s = Some op"
    and "find_next op \<le> length (find_objects_list op)"
    and "\<And>n. Next n \<in> set evs \<Longrightarrow> valid_raw_slice_length 8 n"
  shows "\<exists>c' s' op'. search_run session evs c =
      (Inr (fst (search_spec evs (drop (find_next op) (find_objects_list op)))), c') \<and>
    get_session_context session c' = Inr s' \<and> find_operation s' = Some op' \<and>
    drop (find_next op') (find_objects_list op') = snd (search_spec evs (drop (find_next op) (find_objects_list op)))"
  using assms
proof (induction evs arbitrary: c s op)
  case Nil
  then show ?case by (auto simp: sok_def)
next
  case (Cons ev evs)
  show ?case
  proof (cases ev)
    case (Next n)
    then have "valid_raw_slice_length 8 n" using Cons.prems(4) by simp
    from find_objects_run [OF Cons.prems(1,2,3) this] obtain c1 op1 where
      run: "find_objects session (Pointing (replicate n 0)) n (Pointing 0) c =
          (Inr (take n (drop (find_next op) (find_objects_list op))), c1)"
      and s1: "get_session_context session c1 = Inr (s\<lparr>find_operation := Some op1\<rparr>)"
      and op1: "find_objects_list op1 = find_objects_list op" "find_next op1 \<le> length (find_objects_list op)"
        "drop (find_next op1) (find_objects_list op) = drop n (drop (find_next op) (find_objects_list op))"
      by blast
    have "\<exists>c' s' op'. search_run session evs c1 =
        (Inr (fst (search_spec evs (drop (find_next op1) (find_objects_list op1)))), c') \<and>
      get_session_context session c' = Inr s' \<and> find_operation s' = Some op' \<and>
      drop (find_next op') (find_objects_list op') = snd (search_spec evs (drop (find_next op1) (find_objects_list op1)))"
      by (rule Cons.IH [OF s1]) (use op1 Cons.prems(4) in auto)
    then show ?thesis
      using run op1 Next by (auto simp: sbind_def sok_def split: prod.splits)
  next
    case (Gone h)
    from dropped_pending [OF Cons.prems(2,3), of h] obtain op1 where
      op1: "find_operation (drop_from_find h s) = Some op1" "find_next op1 \<le> length (find_objects_list op1)"
        "drop (find_next op1) (find_objects_list op1) =
          filter (\<lambda>x. x \<noteq> h) (drop (find_next op) (find_objects_list op))"
      by blast
    from Cons.IH [OF remove_run [OF Cons.prems(1)] op1(1,2)] Cons.prems(4) show ?thesis
      using op1(3) Gone by (auto simp: sthen_def sbind_def smod_def)
  qed
qed

text \<open>C34. A search whose results are fetched in pieces of any size, with objects destroyed in between,
  never fails and never repeats a handle.  Of the handles that are not destroyed the search returns a
  prefix in order, the rest is still to come; once as many results were asked for as there are handles,
  every object that was not destroyed has been returned exactly once.\<close>
theorem search_exactly_once:
  assumes "get_session_context session c = Inr s"
    and "find_operation s = Some \<lparr>find_objects_list = found, find_next = 0\<rparr>" "distinct found"
    and "\<And>n. Next n \<in> set evs \<Longrightarrow> valid_raw_slice_length 8 n"
  shows "\<exists>returned c' s' op'. search_run session evs c = (Inr returned, c') \<and>
     get_session_context session c' = Inr s' \<and> find_operation s' = Some op' \<and>
     distinct returned \<and> set returned \<subseteq> set found \<and>
     filter (\<lambda>h. h \<notin> gone evs) returned @ drop (find_next op') (find_objects_list op') =
       filter (\<lambda>h. h \<notin> gone evs) found \<and>
     (length found \<le> asked evs \<longrightarrow>
        filter (\<lambda>h. h \<notin> gone evs) returned = filter (\<lambda>h. h \<notin> gone evs) found)"
proof -
  obtain returned rest where spec: "search_spec evs found = (returned, rest)" by fastforce
  from search_refines [OF assms(1,2), of evs] assms(4) spec obtain c' s' op' where
    "search_run session evs c = (Inr returned, c')" "get_session_context session c' = Inr s'"
    "find_operation s' = Some op'" "drop (find_next op') (find_objects_list op') = rest"
    by auto
  with search_spec_correct [OF spec assms(3)] show ?thesis by fastforce
qed

text \<open>A slot with a public and a private session object and one session.\<close>

definition quiet :: "(unit, unit) slot_ops \<Rightarrow> (unit, unit) slot_ops" where
  "quiet ops = ops\<lparr>login_is_active := \<lambda>_. False, session_objects := \<lambda>_ b. (Inr [], b),
     token_objects := \<lambda>_ b. (Inr [], b)\<rparr>"

definition searching_slot :: "find_operation option \<Rightarrow> (unit, unit) slot_context" where
  "searching_slot op =
     two_object_slot\<lparr>handles := \<lparr>next_object = 3, next_session = 2\<rparr>,
       memory_objects := [(1, plain_object ''a'' False True), (2, plain_object ''b'' False False)],
       token_object_handles := [],
       sessions := [(1, (session_context_new 7 0)\<lparr>find_operation := op\<rparr>)]\<rparr>"

lemma searching_slot_inv: "slot_inv (searching_slot None)"
  by (auto simp: searching_slot_def two_object_slot_def plain_object_def session_context_new_def slot_inv_def parts
      live_def issued_def find_ok_def)

lemma searching_run:
  "find_objects_init (quiet ops) cod auth (nops\<lparr>refresh_token_objects_before_find := \<lambda>_. False\<rparr>) K 1 (Pointing []) 0
     (searching_slot None) =
   (Inr (), searching_slot (Some \<lparr>find_objects_list = [2], find_next = 0\<rparr>))"
  by (simp add: find_objects_init_def from_raw_parts_def sbind_def sthen_def slift_def session_details_def
      get_session_context_def searching_slot_def two_object_slot_def session_context_new_def plain_object_def
      sensure_def sok_def require_slot_id_def backend_is_def sget_def insert_session_objects_def on_backend_def
      resolved_objects_def quiet_def login_role_of_def is_visible_to_def smod_def update_session_def)


theorem search_exactly_once_witness:
  "\<exists>returned c'. search_run 1 [Next 1, Gone 4, Next 5]
       (searching_slot (Some \<lparr>find_objects_list = [3, 4, 9], find_next = 0\<rparr>)) = (Inr returned, c') \<and>
     distinct returned \<and> filter (\<lambda>h. h \<noteq> 4) returned = [3, 9]"
proof -
  let ?op = "\<lparr>find_objects_list = [3, 4, 9 :: handle], find_next = 0\<rparr>"
  have "get_session_context 1 (searching_slot (Some ?op)) = Inr ((session_context_new 7 0)\<lparr>find_operation := Some ?op\<rparr>)"
    by (simp add: get_session_context_def searching_slot_def two_object_slot_def session_context_new_def)
  moreover have "valid_raw_slice_length 8 n" if "Next n \<in> set [Next 1, Gone 4, Next 5]" for n
    using that by (auto simp: valid_raw_slice_length_def)
  ultimately obtain returned c' where "search_run 1 [Next 1, Gone 4, Next 5] (searching_slot (Some ?op)) = (Inr returned, c')"
    "distinct returned" "filter (\<lambda>h. h \<notin> gone [Next 1, Gone 4, Next 5]) returned = [3, 9]"
    using search_exactly_once [of 1 "searching_slot (Some ?op)" "(session_context_new 7 0)\<lparr>find_operation := Some ?op\<rparr>"
        "[3, 4, 9]" "[Next 1, Gone 4, Next 5]"] by (fastforce simp del: search_run.simps)
  then show ?thesis by (intro exI [of _ returned] exI [of _ c']) (simp del: search_run.simps)
qed

end
