(* ===== verification/Object_Reading.thy ===== *)
theory Object_Reading
  imports Object_Search
begin

text \<open>
  \<open>C_GetAttributeValue\<close>: what every entry of the template receives and what the call returns.  The
  nested policy templates are written by a function of the record of backend methods and are left
  out here.
\<close>

section \<open>One entry\<close>

definition unavailable :: "ck_attribute \<Rightarrow> ck_attribute" where
  "unavailable a = a\<lparr>attr_len := CK_UNAVAILABLE_INFORMATION\<rparr>"

definition is_policy_type :: "ck_ulong \<Rightarrow> bool" where
  "is_policy_type t \<longleftrightarrow> t \<in> set [CKA_WRAP_TEMPLATE, CKA_UNWRAP_TEMPLATE, CKA_DERIVE_TEMPLATE]"

text \<open>What one entry receives, with the error it contributes.\<close>

definition entry_reading ::
  "'x token_object \<Rightarrow> (ck_ulong \<Rightarrow> bytes option) \<Rightarrow> ck_attribute \<Rightarrow> ck_attribute \<times> ck_rv option" where
  "entry_reading obj val a =
     (if \<not> supports_attribute obj (attr_type a) then (unavailable a, Some CKR_ATTRIBUTE_TYPE_INVALID)
      else if attribute_is_sensitive obj (attr_type a) then (unavailable a, Some CKR_ATTRIBUTE_SENSITIVE)
      else case val (attr_type a) of
             Some v \<Rightarrow> write_attribute_value a v
           | None \<Rightarrow> (unavailable a, Some CKR_ATTRIBUTE_TYPE_INVALID))"

lemma get_one_off_device:
  assumes "off_device obj" "\<not> is_policy_type (attr_type a)"
  shows "get_one_attribute nops K session h obj a c = (Inr (entry_reading obj (effective_value nops K c h obj) a), c)"
  using assms(2) effective_value_read [OF assms(1), where nops = nops]
  by (auto simp: get_one_attribute_def entry_reading_def unavailable_def is_policy_type_def Let_def sbind_def sok_def
      split: option.splits)

section \<open>The template\<close>

definition worst :: "ck_rv list \<Rightarrow> ck_rv" where
  "worst rvs =
     (if CKR_ATTRIBUTE_SENSITIVE \<in> set rvs then CKR_ATTRIBUTE_SENSITIVE
      else if CKR_ATTRIBUTE_TYPE_INVALID \<in> set rvs then CKR_ATTRIBUTE_TYPE_INVALID
      else if CKR_BUFFER_TOO_SMALL \<in> set rvs then CKR_BUFFER_TOO_SMALL
      else CKR_OK)"

definition entry_rv :: "ck_rv option \<Rightarrow> ck_rv" where
  "entry_rv e = (case e of None \<Rightarrow> CKR_OK | Some rv \<Rightarrow> rv)"

abbreviation reading_codes :: "ck_rv set" where
  "reading_codes \<equiv> {CKR_OK, CKR_ATTRIBUTE_SENSITIVE, CKR_ATTRIBUTE_TYPE_INVALID, CKR_BUFFER_TOO_SMALL}"

lemma reading_code:
  "snd (entry_reading obj val a) = Some e \<Longrightarrow> e \<in> reading_codes \<and> e \<noteq> CKR_OK"
  by (auto simp: entry_reading_def write_attribute_value_def Let_def split: if_splits option.splits)

lemma combine_worst:
  "rv \<in> reading_codes \<Longrightarrow> e \<in> reading_codes \<Longrightarrow> e \<noteq> CKR_OK \<Longrightarrow>
   combine_attribute_rv rv e \<in> reading_codes \<and> worst (combine_attribute_rv rv e # rvs) = worst (rv # e # rvs)"
  by (auto simp: combine_attribute_rv_def worst_def)

lemma get_attributes_off_device:
  assumes "off_device obj" and "rv \<in> reading_codes"
    and "\<And>a. a \<in> set as \<Longrightarrow> \<not> is_policy_type (attr_type a)"
  shows "get_attributes nops K session h obj as rv c =
    (Inr (worst (rv # map (entry_rv \<circ> snd \<circ> entry_reading obj (effective_value nops K c h obj)) as)),
     map (fst \<circ> entry_reading obj (effective_value nops K c h obj)) as, c)"
  using assms(2,3)
proof (induction as arbitrary: rv)
  case Nil
  then show ?case by (auto simp: worst_def)
next
  case (Cons a as)
  obtain a' e where r: "entry_reading obj (effective_value nops K c h obj) a = (a', e)" by fastforce
  with get_one_off_device [OF assms(1), of a nops] Cons.prems(2)
  have one: "get_one_attribute nops K session h obj a c = (Inr (a', e), c)" by simp
  show ?case
  proof (cases e)
    case None
    then show ?thesis
      using one r Cons.IH [of rv] Cons.prems by (auto simp: entry_rv_def worst_def)
  next
    case (Some code)
    then have "code \<in> reading_codes" "code \<noteq> CKR_OK" using reading_code [of obj "effective_value nops K c h obj" a code] r by auto
    note combined = combine_worst [OF Cons.prems(1) this]
    then show ?thesis
      using one r Some Cons.IH [of "combine_attribute_rv rv code"] Cons.prems(2) by (simp add: entry_rv_def)
  qed
qed

text \<open>C35. \<open>C_GetAttributeValue\<close> on an object whose values are on the host answers every entry of the template
  on its own, changes no further state and always completes.  An entry the object does not have or
  whose value is sensitive keeps its buffer and gets the unavailable length; any other entry is
  written with the object's value.  The code returned is the worst over the entries whatever their
  order: sensitive before unknown before too small a buffer, and success only if every entry was
  answered.\<close>
theorem get_attribute_values_exact:
  assumes "session_details ops session c = (Inr (sid, flags, logged_in), c1)"
    and "resolve_visible ops h logged_in c1 = (Inr obj, c2)"
    and "off_device obj" and "valid_raw_slice_length 24 (length as)"
    and "\<And>a. a \<in> set as \<Longrightarrow> \<not> is_policy_type (attr_type a)"
  shows "let answers = map (entry_reading obj (effective_value nops K c2 h obj)) as;
             rv = worst (map (entry_rv \<circ> snd) answers)
         in api_get_attribute_value ops nops K session h (Pointing as) (length as) c =
              (if rv = CKR_OK then Inr () else Inl (Generic rv), map fst answers, c2)"
proof -
  have "worst (CKR_OK # rvs) = worst rvs" for rvs by (simp add: worst_def)
  moreover have "from_raw_parts 24 (Pointing as) (length as) = Inr as"
    using assms(4) by (simp add: from_raw_parts_def)
  ultimately show ?thesis
    using assms(1,2) get_attributes_off_device [OF assms(3), of CKR_OK as nops K session h c2] assms(5)
    by (simp add: api_get_attribute_value_def Let_def sbind_def slift_def sok_def comp_assoc)
qed

section \<open>Buffers\<close>


section \<open>A slot to read from\<close>

text \<open>A sensitive secret key, and a template that asks for its class and its value.\<close>

definition hidden_key :: "unit token_object" where
  "hidden_key = (plain_object ''a'' False False)\<lparr>obj_class := CKO_SECRET_KEY, sensitive := True\<rparr>"

definition reading_template :: "ck_attribute list" where
  "reading_template =
     [\<lparr>attr_type = CKA_CLASS, attr_value = NullPtr, attr_len = 0\<rparr>,
      \<lparr>attr_type = CKA_VALUE, attr_value = Pointing [7], attr_len = 1\<rparr>]"

definition reading_slot :: "(unit, unit) slot_context" where
  "reading_slot =
     two_object_slot\<lparr>handles := \<lparr>next_object = 2, next_session = 2\<rparr>, memory_objects := [(1, hidden_key)],
       token_object_handles := [], sessions := [(1, session_context_new 7 0)]\<rparr>"

definition quiet_ops :: "(unit, unit) slot_ops \<Rightarrow> (unit, unit) slot_ops" where
  "quiet_ops ops = ops\<lparr>login_is_active := \<lambda>_. False\<rparr>"

lemma reading_slot_details:
  "session_details (quiet_ops ops) 1 reading_slot = (Inr (7, 0, False), reading_slot)"
  by (simp add: session_details_def get_session_context_def reading_slot_def two_object_slot_def
      session_context_new_def quiet_ops_def login_role_of_def)

lemma reading_slot_object:
  "resolve_visible (quiet_ops ops) 1 False reading_slot = (Inr hidden_key, reading_slot)"
  by (simp add: resolve_visible_def resolve_object_def reading_slot_def two_object_slot_def hidden_key_def
      plain_object_def is_visible_to_def sbind_def sok_def)

lemma reading_answers:
  "map (entry_reading hidden_key (effective_value nops K c 1 hidden_key)) reading_template =
     [(\<lparr>attr_type = CKA_CLASS, attr_value = NullPtr, attr_len = 8\<rparr>, None),
      (\<lparr>attr_type = CKA_VALUE, attr_value = Pointing [7], attr_len = CK_UNAVAILABLE_INFORMATION\<rparr>,
       Some CKR_ATTRIBUTE_SENSITIVE)]"
proof -
  have "supports_attribute hidden_key CKA_CLASS" "supports_attribute hidden_key CKA_VALUE"
    by (simp_all add: hidden_key_def plain_object_def supports_attribute_def is_common_storage_attribute_def
        supports_standard_attribute_def)
  moreover from this have "attribute_is_sensitive hidden_key CKA_VALUE" "\<not> attribute_is_sensitive hidden_key CKA_CLASS"
    by (simp_all add: hidden_key_def plain_object_def attribute_is_sensitive_def is_ec_key_type_def)
  moreover have "effective_value nops K c 1 hidden_key CKA_CLASS = Some (ulong_attribute CKO_SECRET_KEY)"
    by (simp add: effective_value_def hidden_key_def plain_object_def attribute_value_def identity_arms_def
        supports_attribute_def is_common_storage_attribute_def attribute_is_sensitive_def is_ec_key_type_def)
  ultimately show ?thesis
    by (simp add: reading_template_def entry_reading_def unavailable_def write_attribute_value_def ulong_attribute_def)
qed

theorem get_attribute_values_exact_witness:
  "\<forall>ops nops K. api_get_attribute_value (quiet_ops ops) nops K 1 1 (Pointing reading_template) 2 reading_slot =
     (Inl (Generic CKR_ATTRIBUTE_SENSITIVE),
      [\<lparr>attr_type = CKA_CLASS, attr_value = NullPtr, attr_len = 8\<rparr>,
       \<lparr>attr_type = CKA_VALUE, attr_value = Pointing [7], attr_len = CK_UNAVAILABLE_INFORMATION\<rparr>], reading_slot)"
proof (intro allI)
  fix ops nops K
  have "off_device hidden_key" "valid_raw_slice_length 24 (length reading_template)"
    "\<And>a. a \<in> set reading_template \<Longrightarrow> \<not> is_policy_type (attr_type a)"
    by (auto simp: off_device_def hidden_key_def plain_object_def yubihsm_native_def yubihsm_session_native_def
        valid_raw_slice_length_def reading_template_def is_policy_type_def)
  note exact = get_attribute_values_exact [OF reading_slot_details reading_slot_object this, of nops K ops]
  have "length reading_template = 2" by (simp add: reading_template_def)
  with exact show "api_get_attribute_value (quiet_ops ops) nops K 1 1 (Pointing reading_template) 2 reading_slot =
     (Inl (Generic CKR_ATTRIBUTE_SENSITIVE),
      [\<lparr>attr_type = CKA_CLASS, attr_value = NullPtr, attr_len = 8\<rparr>,
       \<lparr>attr_type = CKA_VALUE, attr_value = Pointing [7], attr_len = CK_UNAVAILABLE_INFORMATION\<rparr>], reading_slot)"
    by (simp add: Let_def reading_answers worst_def entry_rv_def)
qed


end
