(* ===== verification/Slot_Calls.thy ===== *)
theory Slot_Calls
  imports Object_Invariant Session_Spec
begin

text \<open>
  The calls an application makes on one slot, in any order, as step relations on the state of the
  slot: the session functions, and with them the object functions.  Every argument is arbitrary and
  so is what the backend does.  The session functions implement the login machine of PKCS #11;
  all functions together keep the invariant of the slot.
\<close>

definition fresh_slot :: "('b, 'x) slot_context \<Rightarrow> bool" where
  "fresh_slot c \<longleftrightarrow> sessions c = [] \<and> memory_objects c = [] \<and> token_object_handles c = [] \<and> recorded_role c = None"

lemma fresh_inv: "fresh_slot c \<Longrightarrow> slot_inv c"
  by (simp add: fresh_slot_def slot_inv_def tables_ok_def sessions_ok_def creators_ok_def so_ok_def live_def)

lemma fresh_login: "fresh_slot c \<Longrightarrow> login_abs c = (None, [])"
  by (simp add: fresh_slot_def login_abs_def session_view_def)

section \<open>Session functions\<close>

inductive session_call ::
  "('b, 'x) slot_ops \<Rightarrow> ('b, 'x) auth_ops \<Rightarrow> ('b, 'x) backing_ops \<Rightarrow> ('b, 'x) slot_context \<Rightarrow> ('b, 'x) slot_context \<Rightarrow> bool"
  for ops auth cod where
  call_open: "session_call ops auth cod c (snd (open_session_on_slot ops auth (ctx_slot_id c) flags refresh c))"
| call_close: "session_call ops auth cod c (snd (close_session_on_slot ops auth cod session c))"
| call_close_all: "session_call ops auth cod c (snd (close_all_sessions_on_slot ops auth cod (ctx_slot_id c) c))"
| call_login: "session_call ops auth cod c (snd (login ops auth cod session user_type pin pin_len c))"
| call_login_user:
    "session_call ops auth cod c (snd (login_user ops auth cod session user_type pin pin_len username username_len c))"
| call_logout: "session_call ops auth cod c (snd (logout ops auth cod session c))"
| call_cancel: "session_call ops auth cod c (snd (session_cancel session flags c))"
| call_info: "session_call ops auth cod c (snd (get_session_info ops auth session c))"
| call_credential: "session_call ops auth cod c (snd (get_authenticated_credential auth session c))"
| call_init_token: "session_call ops auth cod c (snd (api_init_token ops cod pin pin_len label c))"
| call_init_pin: "session_call ops auth cod c (snd (init_pin ops auth session pin pin_len c))"
| call_set_pin: "session_call ops auth cod c (snd (set_pin ops auth session pin pin_len new_pin new_len c))"

lemma session_call_tracks:
  assumes "session_call ops auth cod c c'" "tracks a c"
  shows "tracks a c'"
  using assms(1)
  by cases (auto intro: assms(2) tracks_open [OF assms(2) refl] tracks_close_all [OF assms(2) refl]
      keepsD [OF tracks_close] keepsD [OF tracks_login(1)] keepsD [OF tracks_login(2)]
      keepsD [OF tracks_session_functions(1)] keepsD [OF tracks_session_functions(2)]
      keepsD [OF tracks_session_functions(3)] keepsD [OF tracks_session_functions(4)]
      keepsD [OF tracks_session_functions(5)] keepsD [OF tracks_session_functions(7)]
      keepsD [OF tracks_session_functions(8)])

interpretation session_calls: transition_system fresh_slot "session_call ops auth cod" "tracks (None, [])"
  for ops auth cod
proof
  show "tracks (None, []) c" if "fresh_slot c" for c
    using that by (simp add: tracks_def fresh_inv fresh_login)
qed (rule session_call_tracks)


section \<open>Object functions\<close>

text \<open>Attributes are changed on a slot whose token handles lead to token objects.\<close>

inductive slot_call ::
  "('b, 'x) slot_ops \<Rightarrow> ('b, 'x) auth_ops \<Rightarrow> ('b, 'x) backing_ops \<Rightarrow> ('b, 'x) object_ops \<Rightarrow> 'x key_ops
   \<Rightarrow> ('b, 'x) slot_context \<Rightarrow> ('b, 'x) slot_context \<Rightarrow> bool"
  for ops auth cod nops K where
  call_session: "session_call ops auth cod c c' \<Longrightarrow> slot_call ops auth cod nops K c c'"
| call_create: "slot_call ops auth cod nops K c (snd (create_object ops cod nops K session templ count object c))"
| call_copy: "slot_call ops auth cod nops K c (snd (copy_object ops cod nops K session h templ count new_object c))"
| call_destroy: "slot_call ops auth cod nops K c (snd (destroy_object ops cod auth nops session h c))"
| call_get_attributes:
    "slot_call ops auth cod nops K c (snd (snd (api_get_attribute_value ops nops K session h attrs count c)))"
| call_set_attributes: "tokens_resolve ops c \<Longrightarrow>
    slot_call ops auth cod nops K c (snd (api_set_attribute_value ops cod nops session h templ count c))"
| call_size: "slot_call ops auth cod nops K c (snd (get_object_size ops K session h psize c))"
| call_find_init: "slot_call ops auth cod nops K c (snd (find_objects_init ops cod auth nops K session templ count c))"
| call_find: "slot_call ops auth cod nops K c (snd (find_objects session object_list max_count object_count c))"
| call_find_final: "slot_call ops auth cod nops K c (snd (find_objects_final session c))"

lemma session_call_inv:
  assumes "session_call ops auth cod c c'" "slot_inv c"
  shows "slot_inv c'"
  using session_call_tracks [OF assms(1) tracks_start [OF assms(2)]] by (simp add: tracks_def)

lemmas object_call_keeps = keeps_destroy_object keeps_get_object_size keeps_find_objects_init keeps_find_objects
  keeps_find_objects_final

context object_store
begin

lemma slot_call_inv:
  assumes "slot_call ops auth cod nops K c c'" "slot_inv c"
  shows "slot_inv c'"
  using assms(1)
proof cases
  case call_session
  then show ?thesis using assms(2) session_call_inv by blast
next
  case call_get_attributes
  then show ?thesis
    using get_attribute_value_inv [of "{}", unfolded inv_with_empty, OF assms(2)] by simp
next
  case call_set_attributes
  then show ?thesis
    using set_attributes_inv [of "{}", unfolded inv_with_empty, OF assms(2)] by simp
qed (simp_all only:, (rule keepsD [OF keeps_create_object [of "{}", unfolded inv_with_empty] assms(2)]
      | rule keepsD [OF keeps_copy_object [of "{}", unfolded inv_with_empty] assms(2)]
      | rule keepsD [OF object_call_keeps(1) [of "{}", unfolded inv_with_empty] assms(2)]
      | rule keepsD [OF object_call_keeps(2) [of "{}", unfolded inv_with_empty] assms(2)]
      | rule keepsD [OF object_call_keeps(3) [of "{}", unfolded inv_with_empty] assms(2)]
      | rule keepsD [OF object_call_keeps(4) [of "{}", unfolded inv_with_empty] assms(2)]
      | rule keepsD [OF object_call_keeps(5) [of "{}", unfolded inv_with_empty] assms(2)])+)

end

interpretation slot_calls: transition_system fresh_slot "slot_call ops auth cod (common_stores ops cod nops) K" slot_inv
  for ops auth cod nops K
  by unfold_locales (auto intro: fresh_inv common.slot_call_inv)

text \<open>C32. Whatever session and object functions are called on a fresh slot, in any order, with any arguments,
  failing or not, the state of the slot stays consistent.  Handles of sessions and of objects were issued
  and are distinct, and none is in both tables of objects.  A search in progress lists each of its
  objects once and only objects that still exist, and its position is inside the list.  No object of a
  session outlives it, every session belongs to the slot, and while the security officer is logged in
  every session is read/write.  The backend stores objects with the common functions; its other methods
  are arbitrary, apart from token handles leading to token objects when attributes are changed.\<close>
theorem slot_calls_keep_invariant:
  assumes "fresh_slot c" and "(slot_call ops auth cod (common_stores ops cod nops) K)\<^sup>*\<^sup>* c c'"
  shows "slot_inv c'"
  using assms by (rule slot_calls.inv_reachable)

section \<open>A slot in use\<close>

definition unused_slot :: "(unit, unit) slot_context" where
  "unused_slot =
     two_object_slot\<lparr>handles := \<lparr>next_object = 1, next_session = 1\<rparr>, memory_objects := [], recorded_role := None,
       token_object_handles := [], sessions := []\<rparr>"

definition idle_ops :: "(unit, unit) slot_ops \<Rightarrow> (unit, unit) slot_ops" where
  "idle_ops ops = ops\<lparr>login_is_active := \<lambda>_. False\<rparr>"

lemma unused_fresh: "fresh_slot unused_slot"
  by (simp add: fresh_slot_def unused_slot_def)

definition present :: "(unit, unit) auth_ops \<Rightarrow> (unit, unit) auth_ops" where
  "present auth = auth\<lparr>slot_flags := \<lambda>_. CKF_TOKEN_PRESENT\<rparr>"

lemma open_unused:
  "login_abs (snd (open_session_on_slot (idle_ops ops) (present auth) (ctx_slot_id unused_slot)
     (CKF_SERIAL_SESSION OR CKF_RW_SESSION) False unused_slot)) = (None, [(1, True)])"
  by (simp add: open_session_on_slot_def unused_slot_def two_object_slot_def idle_ops_def present_def sthen_def sbind_def
      sensure_def sok_def sget_def smod_def login_abs_def session_view_def reconcile_login_state_def
      login_role_of_def is_slot_logged_in_def clear_login_state_def set_login_role_state_def
      on_handles_def allocate_session_def allocate_handle_def session_context_new_def)


theorem slot_calls_keep_invariant_witness:
  "\<forall>ops auth cod nops K. \<exists>c'. (slot_call (idle_ops ops) (present auth) cod (common_stores (idle_ops ops) cod nops) K)\<^sup>*\<^sup>*
     unused_slot c' \<and> login_abs c' = (None, [(1, True)]) \<and> slot_inv c'"
proof (intro allI)
  fix ops auth cod nops K
  let ?c' = "snd (open_session_on_slot (idle_ops ops) (present auth) (ctx_slot_id unused_slot)
     (CKF_SERIAL_SESSION OR CKF_RW_SESSION) False unused_slot)"
  have "(slot_call (idle_ops ops) (present auth) cod (common_stores (idle_ops ops) cod nops) K)\<^sup>*\<^sup>* unused_slot ?c'"
    by (intro r_into_rtranclp call_session call_open)
  with slot_calls_keep_invariant [OF unused_fresh this] open_unused
  show "\<exists>c'. (slot_call (idle_ops ops) (present auth) cod (common_stores (idle_ops ops) cod nops) K)\<^sup>*\<^sup>*
     unused_slot c' \<and> login_abs c' = (None, [(1, True)]) \<and> slot_inv c'"
    by blast
qed

end
