(* ===== verification/Spec2Isabelle.thy ===== *)
theory Spec2Isabelle
  imports Prelude Errors Apdu Iso7816 Secure_Channel_Crypto Scp03 Handles Storage Ffi Piv_Tlv Piv_Objects Piv Piv_Attestation
    Objects Slot_State Slot_Invariant Slot_Reconcile Slot_Frame Session_Api Session_Invariant Session_Spec Yubihsm_Types Attribute_Types Oath Oath_Protocol Der_Encoding Attributes Object_Template Attribute_Policy Object_Api
    Object_Invariant Object_Search Object_Reading Slot_Calls
begin

text \<open>
  A verification library for pkcs11rs, a PKCS #11 provider in Rust.
\<close>

end
